(* ===== verification/Prelude.thy ===== *)
theory Prelude
  imports Main "HOL-Library.Word"
begin

unbundle bit_operations_syntax

text \<open>
  Shared vocabulary of the development: the machine integer types, Go strings and errors, the
  readers the codec consumes, the small decoder combinators its functions are written with, and
  the interface of a codec (an encoder, a decoder and the values they agree on) with the facts
  that follow from it.
\<close>

section \<open>Types\<close>

type_synonym byte = "8 word"
type_synonym u16 = "16 word"
type_synonym u32 = "32 word"
type_synonym u64 = "64 word"

text \<open>
  Collections of rewrite rules: \<open>codec_simps\<close> holds the decode-after-encode equations and the
  combinators' equations, \<open>consuming_intros\<close> the closure rules of \<open>consuming\<close> below.
\<close>

named_theorems codec_simps
named_theorems consuming_intros

section \<open>Errors\<close>

text \<open>
  Go's \<open>error\<close> values. \<open>EOF\<close> and \<open>UnexpectedEOF\<close> are the sentinels of package io, \<open>IOError\<close> any
  other error of a connection (a timeout, a reset, use of a closed connection), \<open>Errorf\<close> what
  \<open>errors.New\<close> and \<open>fmt.Errorf\<close> build (the format string and its arguments), \<open>Wrapf\<close> the same
  with a wrapped cause, and \<open>ConnectAckError\<close> the one error type of the code that carries a
  CONNACK return code (pkg/mqtt/codec/v311/errors.go). \<open>MultiError\<close> is what \<open>multierror.Append\<close> collects.
\<close>

datatype fmt_arg = AInt int | AStr string

datatype go_error =
    EOF
  | UnexpectedEOF
  | IOError string
  | Errorf string "fmt_arg list"
  | Wrapf string "fmt_arg list" go_error
  | ConnectAckError byte string "fmt_arg list"
  | MultiError "go_error list"

section \<open>Strings and bytes\<close>

text \<open>
  A Go string is a sequence of bytes, as a HOL \<open>string\<close> is. The conversions \<open>[]byte(s)\<close> and
  \<open>string(b)\<close> are the two maps below.
\<close>

definition bytes_of_string :: "string \<Rightarrow> byte list" where
  "bytes_of_string s = map of_char s"

definition string_of_bytes :: "byte list \<Rightarrow> string" where
  "string_of_bytes b = map (\<lambda>x. char_of (unat x)) b"

lemma unat_byte_less: "unat (x :: byte) < 256"
proof -
  have "unat x < 2 ^ LENGTH(8)"
    by (rule unsigned_less)
  then show ?thesis
    by simp
qed

lemma char_of_unat_of_char [simp]: "char_of (unat (of_char c :: byte)) = c"
proof -
  have "unat (of_char c :: byte) = unat (word_of_nat (of_char c) :: byte)"
    by (metis of_nat_of_char)
  also have "\<dots> = of_char c mod 256"
    by (simp add: unat_of_nat)
  finally show ?thesis
    by simp
qed

lemma of_char_char_of_unat [simp]: "(of_char (char_of (unat x)) :: byte) = x"
proof -
  have "(of_char (char_of (unat x)) :: byte) = word_of_nat (of_char (char_of (unat x)))"
    by (metis of_nat_of_char)
  also have "\<dots> = word_of_nat (unat x mod 256)"
    by simp
  also have "\<dots> = x"
    using unat_byte_less [of x] by simp
  finally show ?thesis .
qed

lemma string_of_bytes_of_string [simp]: "string_of_bytes (bytes_of_string s) = s"
  by (induction s) (simp_all add: string_of_bytes_def bytes_of_string_def)

lemma bytes_of_string_of_bytes [simp]: "bytes_of_string (string_of_bytes b) = b"
  by (induction b) (simp_all add: string_of_bytes_def bytes_of_string_def)

lemma length_bytes_of_string [simp]: "length (bytes_of_string s) = length s"
  by (simp add: bytes_of_string_def)

lemma length_string_of_bytes [simp]: "length (string_of_bytes b) = length b"
  by (simp add: string_of_bytes_def)

section \<open>Words\<close>

lemma or_push_bit_add:
  fixes x y :: "'a::len word"
  assumes "unat x < 2 ^ s"
  shows "x OR push_bit s y = x + push_bit s y"
proof -
  from assms have "unat (take_bit s x) = unat x"
    by (simp add: unsigned_take_bit_eq take_bit_nat_eq_self)
  then have x: "take_bit s x = x"
    by (rule unsigned_word_eqI)
  have "take_bit s x AND push_bit s y = 0"
    by (rule bit_eqI) (auto simp: bit_simps)
  then show ?thesis
    by (simp add: x disjunctive_add_eq_or)
qed

lemma unat_or_push_bit:
  fixes x y :: u64
  assumes x: "unat x < 2 ^ s" and y: "unat y < 128" and s: "s \<le> 56"
  shows "unat (x OR push_bit s y) = unat x + unat y * 2 ^ s"
    and "unat (x OR push_bit s y) < 2 ^ (s + 7)"
proof -
  from y have "unat y * 2 ^ s \<le> 127 * 2 ^ s" by simp
  also have "\<dots> + 2 ^ s = (2::nat) ^ (s + 7)" by (simp add: power_add)
  finally have b: "unat x + unat y * 2 ^ s < 2 ^ (s + 7)" using x by simp
  from s have "(2::nat) ^ (s + 7) \<le> 2 ^ 63" by (intro power_increasing) auto
  with b have c: "unat x + unat y * 2 ^ s < 2 ^ 64" by simp
  have "unat (push_bit s y) = (unat y * 2 ^ s) mod 2 ^ 64"
    by (simp only: unsigned_push_bit_eq) (simp add: take_bit_eq_mod push_bit_eq_mult)
  also have "\<dots> = unat y * 2 ^ s" using c by simp
  finally have "unat (push_bit s y) = unat y * 2 ^ s" .
  with c x show e: "unat (x OR push_bit s y) = unat x + unat y * 2 ^ s"
    by (simp add: or_push_bit_add unat_word_ariths)
  with b show "unat (x OR push_bit s y) < 2 ^ (s + 7)" by simp
qed

lemma low_bits: "unat ((b::byte) AND 0x7f) = unat b mod 128"
proof -
  have "(0x7f::byte) = mask 7"
    by (simp add: mask_eq_exp_minus_1)
  then have "b AND 0x7f = take_bit 7 b"
    by (simp only: take_bit_eq_mask)
  then show ?thesis
    by (simp only: unsigned_take_bit_eq) (simp add: take_bit_eq_mod)
qed
lemma low_byte: "unat (ucast (x::u32) OR (0x80::byte)) = 128 + unat x mod 128"
proof -
  have "(0x80::byte) = 2 ^ 7"
    by simp
  then have b: "bit (0x80::byte) m \<longleftrightarrow> m = 7" for m
    by (simp only: bit_exp_iff) (auto simp: possible_bit_def)
  have "ucast x OR (0x80::byte) = take_bit 7 (ucast x) OR 0x80"
  proof (rule bit_eqI)
    fix m assume "possible_bit TYPE(byte) m"
    then have "m < 7 \<or> m = 7" by auto
    then show "bit (ucast x OR (0x80::byte)) m \<longleftrightarrow> bit (take_bit 7 (ucast x) OR (0x80::byte)) m"
      by (auto simp: bit_or_iff b bit_take_bit_iff)
  qed
  moreover have "(0x80::byte) = push_bit 7 1" by (simp add: push_bit_eq_mult)
  ultimately have e: "ucast x OR (0x80::byte) = take_bit 7 (ucast x) OR push_bit 7 1"
    by (simp only:)
  have t: "unat (take_bit 7 (ucast x :: byte)) = unat x mod 128"
    by (simp only: unsigned_take_bit_eq unsigned_ucast_eq) (simp add: take_bit_eq_mod mod_mod_cancel)
  have "unat (take_bit 7 (ucast x :: byte)) < 2 ^ 7"
    unfolding t by simp
  from or_push_bit_add [OF this, of 1] show ?thesis
    by (simp add: e t unat_word_ariths del: push_bit_numeral)
qed

lemma low_byte': "unat x < 128 \<Longrightarrow> unat (ucast (x::u32) :: byte) = unat x"
    by (simp only: unsigned_ucast_eq) (simp add: take_bit_eq_mod)

lemma word_of_nat_unat: "word_of_nat (unat w) = (w :: 'a::len word)"
  by simp

lemma unat_ucast_byte: "unat (ucast (b :: byte) :: u64) = unat b"
  using unat_byte_less [of b] by (simp only: unsigned_ucast_eq) (simp add: take_bit_nat_eq_self)

lemma unat_word_of_nat_byte: "n < 256 \<Longrightarrow> unat (word_of_nat n :: byte) = n"
  by (simp add: unat_of_nat)

section \<open>Flag bits of a byte\<close>

lemma bit_flag:
  fixes n :: nat
  shows "bit (0x80 :: byte) n \<longleftrightarrow> n = 7" and "bit (0x40 :: byte) n \<longleftrightarrow> n = 6"
    and "bit (0x20 :: byte) n \<longleftrightarrow> n = 5" and "bit (0x10 :: byte) n \<longleftrightarrow> n = 4" and "bit (0x08 :: byte) n \<longleftrightarrow> n = 3"
    and "bit (0x04 :: byte) n \<longleftrightarrow> n = 2" and "bit (0x02 :: byte) n \<longleftrightarrow> n = 1"
    and "bit (0x01 :: byte) n \<longleftrightarrow> n = 0"
proof -
  have p: "bit (2 ^ k :: byte) n \<longleftrightarrow> n = k" if "k < 8" for k
    using that by (simp only: bit_exp_iff) (auto simp: possible_bit_def)
  show "bit (0x80 :: byte) n \<longleftrightarrow> n = 7" using p [of 7] by simp
  show "bit (0x40 :: byte) n \<longleftrightarrow> n = 6" using p [of 6] by simp
  show "bit (0x20 :: byte) n \<longleftrightarrow> n = 5" using p [of 5] by simp
  show "bit (0x10 :: byte) n \<longleftrightarrow> n = 4" using p [of 4] by simp
  show "bit (0x08 :: byte) n \<longleftrightarrow> n = 3" using p [of 3] by simp
  show "bit (0x04 :: byte) n \<longleftrightarrow> n = 2" using p [of 2] by simp
  show "bit (0x02 :: byte) n \<longleftrightarrow> n = 1" using p [of 1] by simp
  show "bit (0x01 :: byte) n \<longleftrightarrow> n = 0" using p [of 0] by simp
qed

lemma bit_flag2: "bit (0x18 :: byte) n \<longleftrightarrow> n = 3 \<or> n = 4"  "bit (0x06 :: byte) n \<longleftrightarrow> n = 1 \<or> n = 2"  "bit (0x03 :: byte) n \<longleftrightarrow> n = 0 \<or> n = 1"
proof -
  have "(0x18 :: byte) = 0x10 OR 0x08" "(0x06 :: byte) = 0x04 OR 0x02" "(0x03 :: byte) = 0x02 OR 0x01" by simp_all
  then show "bit (0x18 :: byte) n \<longleftrightarrow> n = 3 \<or> n = 4"  "bit (0x06 :: byte) n \<longleftrightarrow> n = 1 \<or> n = 2" "bit (0x03 :: byte) n \<longleftrightarrow> n = 0 \<or> n = 1"
    by (simp_all only: bit_or_iff bit_flag) auto
qed

lemma byte_eq_iff: "(x :: byte) = y \<longleftrightarrow> (\<forall>n < 8. bit x n = bit y n)"
  by (auto intro: bit_word_eqI)

lemma and_eq_flag:
  fixes x f :: byte
  assumes "\<And>n. bit f n \<longleftrightarrow> n = k" and "k < 8"
  shows "x AND f = f \<longleftrightarrow> bit x k" and "x AND f = 0 \<longleftrightarrow> \<not> bit x k"
  using assms(2) by (auto simp: byte_eq_iff bit_and_iff assms(1))

lemmas and_flag =
  and_eq_flag [OF bit_flag(1), simplified] and_eq_flag [OF bit_flag(2), simplified]
  and_eq_flag [OF bit_flag(3), simplified] and_eq_flag [OF bit_flag(4), simplified]
  and_eq_flag [OF bit_flag(5), simplified] and_eq_flag [OF bit_flag(6), simplified]
  and_eq_flag [OF bit_flag(7), simplified] and_eq_flag [OF bit_flag(8), simplified]

lemma bit_less_power: "unat (x :: byte) < 2 ^ k \<Longrightarrow> bit x n \<Longrightarrow> n < k"
proof -
  assume "unat x < 2 ^ k" "bit x n" 
  then have "take_bit k x = x" 
    by (simp add: unsigned_take_bit_eq take_bit_nat_eq_self word_unat_eq_iff)
  with \<open>bit x n\<close> show ?thesis by (metis bit_take_bit_iff)
qed

lemma bit_less_4: "x < (4 :: byte) \<Longrightarrow> bit x n \<Longrightarrow> n < 2"
  using bit_less_power [of x 2] by (simp add: word_less_nat_alt)
lemma bit_less_16: "x < (16 :: byte) \<Longrightarrow> bit x n \<Longrightarrow> n < 4"
  using bit_less_power [of x 4] by (simp add: word_less_nat_alt)

lemma possible_bit_byte: "possible_bit TYPE(byte) n \<longleftrightarrow> n < 8"
  by simp

text \<open>A flag that is set in a byte under construction: \<open>if b then x OR f else x\<close>.\<close>

definition or_if :: "bool \<Rightarrow> byte \<Rightarrow> byte \<Rightarrow> byte" where
  "or_if b f x = (if b then x OR f else x)"

lemma bit_or_if: "bit (or_if b f x) n \<longleftrightarrow> bit x n \<or> b \<and> bit f n"
  by (simp add: or_if_def bit_or_iff)

lemmas bit_byte_ops =
  bit_or_if bit_or_iff bit_and_iff bit_push_bit_iff bit_drop_bit_eq comp_def possible_bit_byte
  bit_flag bit_flag2

section \<open>Readers\<close>

text \<open>
  An \<open>io.Reader\<close> is the bytes it will still deliver and the error it reports once they are used
  up: \<open>EOF\<close> for a \<open>bytes.Buffer\<close> or a connection the peer closed, an \<open>IOError\<close> for a connection
  whose read fails at that point. A decoder either fails or returns a value and the reader after
  it. A reader that failed is never read again by the code, so a failing decoder returns none.
\<close>

datatype reader = Reader (rd_data: "byte list") (rd_err: go_error)

type_synonym 'a decoder = "reader \<Rightarrow> go_error + 'a \<times> reader"

definition retd :: "'a \<Rightarrow> 'a decoder" where
  "retd x r = Inr (x, r)"

definition faild :: "go_error \<Rightarrow> 'a decoder" where
  "faild e r = Inl e"

definition bindd :: "'a decoder \<Rightarrow> ('a \<Rightarrow> 'b decoder) \<Rightarrow> 'b decoder" where
  "bindd m f r = (case m r of Inl e \<Rightarrow> Inl e | Inr (x, r') \<Rightarrow> f x r')"

text \<open>
  \<open>io.ReadFull(r, buf)\<close> with \<open>len(buf) = n\<close>: the reader's own error when not a byte was read,
  \<open>io.ErrUnexpectedEOF\<close> when the stream ended inside the buffer.
\<close>

definition read_full :: "nat \<Rightarrow> byte list decoder" where
  "read_full n r =
     (case r of Reader bs e \<Rightarrow>
        if n \<le> length bs then Inr (take n bs, Reader (drop n bs) e)
        else Inl (if bs \<noteq> [] \<and> e = EOF then UnexpectedEOF else e))"

text \<open>\<open>r.Read(b)\<close> with a one-byte buffer.\<close>

definition read_one :: "byte decoder" where
  "read_one r =
     (case r of Reader bs e \<Rightarrow> (case bs of [] \<Rightarrow> Inl e | b # bs' \<Rightarrow> Inr (b, Reader bs' e)))"

text \<open>The bytes a reader delivered between two points of its life.\<close>

definition delivered :: "reader \<Rightarrow> reader \<Rightarrow> nat" where
  "delivered r r' = length (rd_data r) - length (rd_data r')"

lemma retd_apply [codec_simps]: "retd x r = Inr (x, r)"
  by (simp add: retd_def)

lemma faild_apply [codec_simps]: "faild e r = Inl e"
  by (simp add: faild_def)

lemma bindd_Inr [codec_simps]: "m r = Inr (x, r') \<Longrightarrow> bindd m f r = f x r'"
  by (simp add: bindd_def)

lemma bindd_Inl [codec_simps]: "m r = Inl e \<Longrightarrow> bindd m f r = Inl e"
  by (simp add: bindd_def)

lemma bindd_eq_Inr:
  "bindd m f r = Inr (y, r'') \<longleftrightarrow> (\<exists>x r'. m r = Inr (x, r') \<and> f x r' = Inr (y, r''))"
  by (auto simp: bindd_def split: sum.splits)

lemma retd_eq_Inr: "retd x r = Inr (y, r') \<longleftrightarrow> y = x \<and> r' = r"
  by (auto simp: retd_def)

lemma faild_eq_Inr: "faild e r = Inr (y, r') \<longleftrightarrow> False"
  by (auto simp: faild_def)

lemmas decoder_cases = bindd_eq_Inr retd_eq_Inr faild_eq_Inr

lemma read_full_append [codec_simps]:
  "length bs = n \<Longrightarrow> read_full n (Reader (bs @ rest) e) = Inr (bs, Reader rest e)"
  by (auto simp: read_full_def)

lemma read_full_0 [codec_simps]: "read_full 0 r = Inr ([], r)"
  by (cases r) (simp add: read_full_def)

lemma read_full_exact [codec_simps]:
  "length bs = n \<Longrightarrow> read_full n (Reader bs e) = Inr (bs, Reader [] e)"
  by (auto simp: read_full_def)

lemma read_full_eq_Inr:
  "read_full n r = Inr (bs, r') \<longleftrightarrow>
     length bs = n \<and> rd_data r = bs @ rd_data r' \<and> rd_err r' = rd_err r"
proof (cases r; cases r')
  fix d e d' e'
  assume r: "r = Reader d e" "r' = Reader d' e'"
  show ?thesis
    by (auto simp: r read_full_def)
qed

lemma read_full_eof:
  "length bs < n \<Longrightarrow>
   read_full n (Reader bs EOF) = Inl (if bs = [] then EOF else UnexpectedEOF)"
  by (simp add: read_full_def)

lemma read_one_Cons [codec_simps]: "read_one (Reader (b # bs) e) = Inr (b, Reader bs e)"
  by (simp add: read_one_def)

lemma read_one_Nil [codec_simps]: "read_one (Reader [] e) = Inl e"
  by (simp add: read_one_def)

lemma read_one_eq_Inr:
  "read_one r = Inr (b, r') \<longleftrightarrow> rd_data r = b # rd_data r' \<and> rd_err r' = rd_err r"
  by (cases r; cases r') (auto simp: read_one_def split: list.splits)

section \<open>Decoders that consume a prefix\<close>

text \<open>
  What every decoder of the code keeps: it takes a prefix off the stream and leaves the rest, with
  the stream's final error, for the next one.
\<close>

definition consuming :: "'a decoder \<Rightarrow> bool" where
  "consuming dec \<longleftrightarrow>
     (\<forall>r x r'. dec r = Inr (x, r') \<longrightarrow>
        (\<exists>c. rd_data r = c @ rd_data r') \<and> rd_err r' = rd_err r)"

lemma consumingI:
  assumes "\<And>r x r'. dec r = Inr (x, r') \<Longrightarrow>
             (\<exists>c. rd_data r = c @ rd_data r') \<and> rd_err r' = rd_err r"
  shows "consuming dec"
  using assms by (auto simp: consuming_def)

lemma consumingD:
  assumes "consuming dec" and "dec r = Inr (x, r')"
  obtains c where "rd_data r = c @ rd_data r'" and "rd_err r' = rd_err r"
  using assms unfolding consuming_def by blast

lemma consuming_length:
  assumes "consuming dec" and "dec r = Inr (x, r')"
  shows "length (rd_data r') \<le> length (rd_data r)"
  using assms by (auto elim!: consumingD)

lemma consuming_retd [consuming_intros]: "consuming (retd x)"
  by (auto simp: consuming_def retd_def)

lemma consuming_faild [consuming_intros]: "consuming (faild e)"
  by (auto simp: consuming_def faild_def)

lemma consuming_bindd [consuming_intros]:
  assumes m: "consuming m" and f: "\<And>x. consuming (f x)"
  shows "consuming (bindd m f)"
proof (rule consumingI)
  fix r y r''
  assume "bindd m f r = Inr (y, r'')"
  then obtain x r' where x: "m r = Inr (x, r')" and y: "f x r' = Inr (y, r'')"
    by (auto simp: bindd_eq_Inr)
  from m x obtain c where "rd_data r = c @ rd_data r'" "rd_err r' = rd_err r"
    by (rule consumingD)
  moreover from f y obtain c' where "rd_data r' = c' @ rd_data r''" "rd_err r'' = rd_err r'"
    by (rule consumingD)
  ultimately show "(\<exists>c. rd_data r = c @ rd_data r'') \<and> rd_err r'' = rd_err r"
    by (auto intro: exI [of _ "c @ c'"])
qed

lemma consuming_if [consuming_intros]:
  "consuming d1 \<Longrightarrow> consuming d2 \<Longrightarrow> consuming (if b then d1 else d2)"
  by simp

lemma consuming_case_sum [consuming_intros]:
  "(\<And>e. consuming (f e)) \<Longrightarrow> (\<And>x. consuming (g x)) \<Longrightarrow> consuming (case s of Inl e \<Rightarrow> f e | Inr x \<Rightarrow> g x)"
  by (cases s) simp_all

lemma consuming_case_option [consuming_intros]:
  "consuming d \<Longrightarrow> (\<And>x. consuming (g x)) \<Longrightarrow> consuming (case s of None \<Rightarrow> d | Some x \<Rightarrow> g x)"
  by (cases s) simp_all

lemma consuming_case_prod [consuming_intros]:
  "(\<And>x y. consuming (f x y)) \<Longrightarrow> consuming (case p of (x, y) \<Rightarrow> f x y)"
  by (cases p) simp

lemma consuming_read_full [consuming_intros]: "consuming (read_full n)"
  by (rule consumingI) (auto simp: read_full_eq_Inr)

lemma consuming_read_one [consuming_intros]: "consuming read_one"
  by (rule consumingI) (auto simp: read_one_eq_Inr)

section \<open>The interface of a codec\<close>

text \<open>
  \<open>codec enc dec ok\<close>: on the values that satisfy \<open>ok\<close>, decoding what was encoded, with any bytes
  after it, returns the value and leaves exactly those bytes. Encodings are then prefix-free, so
  fields written one after the other are read back unambiguously.
\<close>

locale codec =
  fixes enc :: "'a \<Rightarrow> byte list" and dec :: "'a decoder" and ok :: "'a \<Rightarrow> bool"
  assumes dec_enc: "ok x \<Longrightarrow> dec (Reader (enc x @ rest) e) = Inr (x, Reader rest e)"
    and dec_consuming: "consuming dec"
begin

lemma dec_enc_exact: "ok x \<Longrightarrow> dec (Reader (enc x) e) = Inr (x, Reader [] e)"
  using dec_enc [of x "[]" e] by simp

lemma enc_prefix_free:
  assumes "ok x" and "ok y" and "enc x @ s = enc y @ t"
  shows "x = y \<and> s = t"
proof -
  have "Inr (x, Reader s EOF) = dec (Reader (enc x @ s) EOF)"
    using assms(1) by (rule dec_enc [symmetric])
  also have "\<dots> = dec (Reader (enc y @ t) EOF)"
    by (simp only: assms(3))
  also have "\<dots> = Inr (y, Reader t EOF)"
    using assms(2) by (rule dec_enc)
  finally show ?thesis
    by simp
qed

lemma enc_inject:
  assumes "ok x" and "ok y" and "enc x = enc y"
  shows "x = y"
proof -
  from assms(3) have "enc x @ [] = enc y @ []"
    by simp
  with assms(1,2) show ?thesis
    by (blast dest: enc_prefix_free)
qed

lemma dec_shrinks: "dec r = Inr (x, r') \<Longrightarrow> length (rd_data r') \<le> length (rd_data r)"
  using dec_consuming by (rule consuming_length)

end

text \<open>
  An exact codec has no second representation of a value: what it decodes is the encoding of an
  admissible value, so decoding and encoding are inverse to each other.
\<close>

locale exact_codec = codec +
  assumes dec_ok: "dec r = Inr (x, r') \<Longrightarrow> ok x"
    and dec_canonical: "dec r = Inr (x, r') \<Longrightarrow> rd_data r = enc x @ rd_data r'"
begin

lemma dec_iff:
  "dec r = Inr (x, r') \<longleftrightarrow> ok x \<and> rd_data r = enc x @ rd_data r' \<and> rd_err r' = rd_err r"
proof
  assume dec: "dec r = Inr (x, r')"
  moreover from dec_consuming dec have "rd_err r' = rd_err r"
    by (rule consumingD)
  ultimately show "ok x \<and> rd_data r = enc x @ rd_data r' \<and> rd_err r' = rd_err r"
    using dec_ok dec_canonical by blast
next
  assume "ok x \<and> rd_data r = enc x @ rd_data r' \<and> rd_err r' = rd_err r"
  then show "dec r = Inr (x, r')"
    using dec_enc [of x "rd_data r'" "rd_err r'"] by (cases r; cases r') simp
qed

lemma delivered_enc:
  assumes "dec r = Inr (x, r')"
  shows "delivered r r' = length (enc x)"
  using dec_canonical [OF assms] by (simp add: delivered_def)

end

text \<open>
  Weaker than exact: a value may have longer representations than the one \<open>enc\<close> chooses, but no
  shorter one. An exact codec is minimal.
\<close>

locale minimal_codec = codec +
  assumes min_ok: "dec r = Inr (x, r') \<Longrightarrow> ok x"
    and min_length: "dec r = Inr (x, r') \<Longrightarrow> length (enc x) + length (rd_data r') \<le> length (rd_data r)"
begin

lemma min_bound:
  "dec r = Inr (x, r') \<Longrightarrow> ok x \<and> length (enc x) + length (rd_data r') \<le> length (rd_data r)"
  using min_ok min_length by blast

end

sublocale exact_codec \<subseteq> minimal_codec
  by unfold_locales (simp_all add: dec_iff)

end
