(* ===== verification/Constants.thy ===== *)
theory Constants
  imports Prelude
begin

text \<open>
  The protocol constants of package pkg/mqtt/codec/proto (constants.go): versions, packet types,
  QoS levels and connect return codes, each with the value the code gives it.
\<close>

definition MQTT :: string where
  "MQTT = ''MQTT''"

definition MQTT_3_1_1 :: byte where
  "MQTT_3_1_1 = 4"

definition MQTT_5 :: byte where
  "MQTT_5 = 5"

definition MQTT_DEFAULT_PROTOCOL_VERSION :: byte where
  "MQTT_DEFAULT_PROTOCOL_VERSION = MQTT_3_1_1"

text \<open>A Go map literal is an association list; a missing key reads as the zero value.\<close>

definition MqttProtocolVersionNames :: "(byte \<times> string) list" where
  "MqttProtocolVersionNames = [(MQTT_3_1_1, ''3.1.1''), (MQTT_5, ''5'')]"

definition MqttProtocolVersionName :: "byte \<Rightarrow> string" where
  "MqttProtocolVersionName version =
     (case map_of MqttProtocolVersionNames version of None \<Rightarrow> [] | Some n \<Rightarrow> n)"

definition CONNECT :: byte where
  "CONNECT = 1"

definition CONNACK :: byte where
  "CONNACK = 2"

definition PUBLISH :: byte where
  "PUBLISH = 3"

definition PUBACK :: byte where
  "PUBACK = 4"

definition PUBREC :: byte where
  "PUBREC = 5"

definition PUBREL :: byte where
  "PUBREL = 6"

definition PUBCOMP :: byte where
  "PUBCOMP = 7"

definition SUBSCRIBE :: byte where
  "SUBSCRIBE = 8"

definition SUBACK :: byte where
  "SUBACK = 9"

definition UNSUBSCRIBE :: byte where
  "UNSUBSCRIBE = 10"

definition UNSUBACK :: byte where
  "UNSUBACK = 11"

definition PINGREQ :: byte where
  "PINGREQ = 12"

definition PINGRESP :: byte where
  "PINGRESP = 13"

definition DISCONNECT :: byte where
  "DISCONNECT = 14"

definition AUTH :: byte where
  "AUTH = 15"

lemmas message_types =
  CONNECT_def CONNACK_def PUBLISH_def PUBACK_def PUBREC_def PUBREL_def PUBCOMP_def
  SUBSCRIBE_def SUBACK_def UNSUBSCRIBE_def UNSUBACK_def PINGREQ_def PINGRESP_def
  DISCONNECT_def AUTH_def

definition MqttMessageTypeNames :: "(byte \<times> string) list" where
  "MqttMessageTypeNames =
     [(CONNECT, ''CONNECT''), (CONNACK, ''CONNACK''), (PUBLISH, ''PUBLISH''),
      (PUBACK, ''PUBACK''), (PUBREC, ''PUBREC''), (PUBREL, ''PUBREL''),
      (PUBCOMP, ''PUBCOMP''), (SUBSCRIBE, ''SUBSCRIBE''), (SUBACK, ''SUBACK''),
      (UNSUBSCRIBE, ''UNSUBSCRIBE''), (UNSUBACK, ''UNSUBACK''), (PINGREQ, ''PINGREQ''),
      (PINGRESP, ''PINGRESP''), (DISCONNECT, ''DISCONNECT''), (AUTH, ''AUTH'')]"

definition AT_MOST_ONCE :: byte where
  "AT_MOST_ONCE = 0"

definition AT_LEAST_ONCE :: byte where
  "AT_LEAST_ONCE = 1"

definition EXACTLY_ONCE :: byte where
  "EXACTLY_ONCE = 2"

lemmas qos_levels = AT_MOST_ONCE_def AT_LEAST_ONCE_def EXACTLY_ONCE_def

definition Accepted :: byte where
  "Accepted = 0"

definition RefusedUnacceptableProtocolVersion :: byte where
  "RefusedUnacceptableProtocolVersion = 1"

definition RefusedBadUserNameOrPassword :: byte where
  "RefusedBadUserNameOrPassword = 4"

definition RefusedV5BadUserNameOrPassword :: byte where
  "RefusedV5BadUserNameOrPassword = 0x86"

definition RefusedIdentifierRejected :: byte where
  "RefusedIdentifierRejected = 2"

definition RefusedServerUnavailable :: byte where
  "RefusedServerUnavailable = 3"

definition RefusedNotAuthorized :: byte where
  "RefusedNotAuthorized = 5"

definition RefusedV5UnspecifiedError :: byte where
  "RefusedV5UnspecifiedError = 0x80"

definition RefusedV5UnsupportedProtocolVersion :: byte where
  "RefusedV5UnsupportedProtocolVersion = 0x84"

end
