(* ===== verification/Encoding.thy ===== *)
theory Encoding
  imports Prelude
begin

text \<open>
  The encodings of package pkg/mqtt/codec/proto (encoding.go): bytes, 16-bit integers,
  length-prefixed byte strings, and the variable byte integer of the MQTT remaining length. The
  first three are exact codecs. The variable byte integer is related to its base-128 digits, from
  which its round trip, its length and the bound of what is decoded follow.
\<close>

section \<open>Integers, bytes and strings (encoding.go)\<close>

definition DecodeByte :: "byte decoder" where
  "DecodeByte = bindd read_one retd"

text \<open>\<open>binary.BigEndian.PutUint16\<close> and \<open>binary.BigEndian.Uint16\<close>.\<close>

definition EncodeUint16 :: "u16 \<Rightarrow> byte list" where
  "EncodeUint16 v = [ucast (drop_bit 8 v), ucast v]"

definition DecodeUint16 :: "u16 decoder" where
  "DecodeUint16 = bindd (read_full 2) (\<lambda>b. retd (ucast (b ! 1) OR push_bit 8 (ucast (b ! 0))))"

text \<open>The length prefix is \<open>uint16(len(b))\<close>: it wraps for 65536 bytes and more.\<close>

definition EncodeBytes :: "byte list \<Rightarrow> byte list" where
  "EncodeBytes b = EncodeUint16 (word_of_nat (length b)) @ b"

definition DecodeBytes :: "byte list decoder" where
  "DecodeBytes = bindd DecodeUint16 (\<lambda>len. read_full (unat len))"

definition EncodeString :: "string \<Rightarrow> byte list" where
  "EncodeString s = EncodeBytes (bytes_of_string s)"

definition DecodeString :: "string decoder" where
  "DecodeString = bindd DecodeBytes (\<lambda>b. retd (string_of_bytes b))"

text \<open>
  \<open>WriteUvarint\<close> appends to the buffer and returns the number of bytes written; the loop carries
  the buffer and the counter.
\<close>

function WriteUvarint_loop :: "byte list \<Rightarrow> u32 \<Rightarrow> nat \<Rightarrow> byte list \<times> nat" where
  "WriteUvarint_loop buffer x i =
     (if 0x80 \<le> x
      then WriteUvarint_loop (buffer @ [ucast x OR 0x80]) (drop_bit 7 x) (i + 1)
      else (buffer @ [ucast x], i + 1))"
  by pat_completeness auto
termination
proof (relation "measure (\<lambda>(buffer, x, i). unat x)")
  show "((buffer @ [ucast x OR 0x80], drop_bit 7 x, i + 1), (buffer, x, i))
          \<in> measure (\<lambda>(buffer, x, i). unat x)"
    if "0x80 \<le> x" for buffer :: "byte list" and x :: u32 and i
  proof -
    from that have "128 \<le> unat x"
      by (simp add: word_le_nat_alt)
    then show ?thesis
      by (simp add: drop_bit_eq_div unat_div)
  qed
qed simp

definition WriteUvarint :: "byte list \<Rightarrow> u32 \<Rightarrow> byte list \<times> nat" where
  "WriteUvarint buffer x = WriteUvarint_loop buffer x 0"

text \<open>
  \<open>binary.ReadUvarint\<close> over a \<open>byteReader\<close>: at most ten bytes, the partial value in \<open>x\<close>, the
  shift in \<open>s\<close>, and the reader's own count of the bytes it delivered in \<open>n\<close>.
\<close>

definition ReadByte :: "nat \<Rightarrow> (byte \<times> nat) decoder" where
  "ReadByte n = bindd (read_full 1) (\<lambda>buf. retd (buf ! 0, n + 1))"

function ReadUvarint_loop :: "nat \<Rightarrow> u64 \<Rightarrow> nat \<Rightarrow> nat \<Rightarrow> (u64 \<times> nat) decoder" where
  "ReadUvarint_loop i x s n r =
     (if i < 10 then
        (case ReadByte n r of
           Inl e \<Rightarrow> Inl (if 0 < i \<and> e = EOF then UnexpectedEOF else e)
         | Inr ((b, n'), r') \<Rightarrow>
             if b < 0x80 then
               (if i = 9 \<and> 1 < b
                then Inl (Errorf ''binary: varint overflows a 64-bit integer'' [])
                else Inr ((x OR push_bit s (ucast b), n'), r'))
             else ReadUvarint_loop (i + 1) (x OR push_bit s (ucast (b AND 0x7f))) (s + 7) n' r')
      else Inl (Errorf ''binary: varint overflows a 64-bit integer'' []))"
  by pat_completeness auto
termination
  by (relation "measure (\<lambda>(i, x, s, n, r). 10 - i)") auto

declare WriteUvarint_loop.simps [simp del] ReadUvarint_loop.simps [simp del]

definition DecodeUvarint :: "int decoder" where
  "DecodeUvarint r =
     (case ReadUvarint_loop 0 0 0 0 r of
        Inl e \<Rightarrow> Inl e
      | Inr ((len, bytesRead), r') \<Rightarrow>
          if 4 < bytesRead
          then Inl (Errorf ''the maximum number of bytes in the variable byte integer is 4, but was %d''
                      [AInt (int bytesRead)])
          else Inr (sint len, r'))"

section \<open>Fixed-length fields\<close>

lemma uint16_halves: "ucast (ucast v :: byte) OR push_bit 8 (ucast (ucast (drop_bit 8 v) :: byte)) = (v :: u16)"
  by (rule bit_eqI) (auto simp: bit_simps)

lemma uint16_low: "ucast (ucast (l :: byte) OR push_bit 8 (ucast (h :: byte)) :: u16) = l"
  by (rule bit_eqI) (auto simp: bit_simps)

lemma uint16_high: "ucast (drop_bit 8 (ucast (l :: byte) OR push_bit 8 (ucast (h :: byte)) :: u16)) = h"
  by (rule bit_eqI) (auto simp: bit_simps dest: bit_imp_le_length)

interpretation byte: exact_codec "\<lambda>b. [b]" DecodeByte "\<lambda>_. True"
  by unfold_locales
    (auto simp: DecodeByte_def decoder_cases read_one_eq_Inr codec_simps intro!: consuming_intros)

interpretation u16: exact_codec EncodeUint16 DecodeUint16 "\<lambda>_. True"
proof unfold_locales
  show "DecodeUint16 (Reader (EncodeUint16 v @ rest) e) = Inr (v, Reader rest e)" for v rest e
    by (simp add: DecodeUint16_def EncodeUint16_def bindd_def read_full_def retd_def uint16_halves numeral_2_eq_2)
  show "consuming DecodeUint16"
    unfolding DecodeUint16_def by (intro consuming_intros)
  show "rd_data r = EncodeUint16 v @ rd_data r'" if "DecodeUint16 r = Inr (v, r')" for r v r'
  proof -
    from that obtain b0 b1 where b: "rd_data r = [b0, b1] @ rd_data r'"
      and v: "v = ucast b1 OR push_bit 8 (ucast b0)"
      by (auto simp: DecodeUint16_def decoder_cases read_full_eq_Inr numeral_2_eq_2 length_Suc_conv)
    then show ?thesis
      by (simp only: EncodeUint16_def uint16_low uint16_high append.simps)
  qed
qed simp

interpretation bytes: exact_codec EncodeBytes DecodeBytes "\<lambda>b. length b < 65536"
proof unfold_locales
  show "DecodeBytes (Reader (EncodeBytes b @ rest) e) = Inr (b, Reader rest e)"
    if "length b < 65536" for b rest e
    using that
    by (simp add: DecodeBytes_def EncodeBytes_def u16.dec_enc unat_of_nat codec_simps)
  show "consuming DecodeBytes"
    unfolding DecodeBytes_def by (intro consuming_intros u16.dec_consuming)
  show "length b < 65536" and "rd_data r = EncodeBytes b @ rd_data r'"
    if "DecodeBytes r = Inr (b, r')" for r b r'
  proof -
    from that obtain len r1 where len: "DecodeUint16 r = Inr (len, r1)"
      and b: "length b = unat len" "rd_data r1 = b @ rd_data r'"
      by (auto simp: DecodeBytes_def decoder_cases read_full_eq_Inr)
    have "unat len < 2 ^ LENGTH(16)"
      by (rule unsigned_less)
    with b show "length b < 65536"
      by simp
    from len have "rd_data r = EncodeUint16 len @ rd_data r1"
      by (rule u16.dec_canonical)
    with b show "rd_data r = EncodeBytes b @ rd_data r'"
      by (simp add: EncodeBytes_def)
  qed
qed

interpretation str: exact_codec EncodeString DecodeString "\<lambda>s. length s < 65536"
proof unfold_locales
  show "DecodeString (Reader (EncodeString s @ rest) e) = Inr (s, Reader rest e)"
    if "length s < 65536" for s rest e
    using that by (simp add: DecodeString_def EncodeString_def bytes.dec_enc codec_simps)
  show "consuming DecodeString"
    unfolding DecodeString_def by (intro consuming_intros bytes.dec_consuming)
  show "length s < 65536" and "rd_data r = EncodeString s @ rd_data r'"
    if "DecodeString r = Inr (s, r')" for r s r'
    using that
    by (auto simp: DecodeString_def EncodeString_def decoder_cases bytes.dec_iff)
qed

section \<open>Variable byte integers as base-128 digits\<close>

fun uvarint_bytes :: "nat \<Rightarrow> byte list" where
  "uvarint_bytes n =
     (if n < 128 then [word_of_nat n]
      else word_of_nat (128 + n mod 128) # uvarint_bytes (n div 128))"
declare uvarint_bytes.simps [simp del]

lemma WriteUvarint_loop_eq:
  "WriteUvarint_loop buffer x i =
     (buffer @ uvarint_bytes (unat x), i + length (uvarint_bytes (unat x)))"
proof (induction buffer x i rule: WriteUvarint_loop.induct)
  case (1 buffer x i)
  show ?case
  proof (cases "0x80 \<le> x")
    case True
    then have ge: "128 \<le> unat x" by (simp add: word_le_nat_alt)
    have b: "ucast x OR (0x80::byte) = word_of_nat (128 + unat x mod 128)"
      by (rule unsigned_word_eqI [where 'a = nat], simp only: low_byte) (simp add: unat_of_nat del: of_nat_add)
    have d: "unat (drop_bit 7 x) = unat x div 128"
      by (simp add: drop_bit_eq_div unat_div)
    show ?thesis
      using True ge 1 by (simp add: WriteUvarint_loop.simps [of buffer x i] uvarint_bytes.simps [of "unat x"] b d)
  next
    case False
    then have lt: "unat x < 128" by (simp add: word_le_nat_alt)
    have "ucast x = (word_of_nat (unat x) :: byte)"
      by (rule unsigned_word_eqI [where 'a = nat]) (simp add: low_byte' lt unat_of_nat)
    with False lt show ?thesis
      by (simp add: WriteUvarint_loop.simps [of buffer x i] uvarint_bytes.simps [of "unat x"])
  qed
qed

lemma ReadByte_Cons: "ReadByte n (Reader (b # bs) e) = Inr ((b, n + 1), Reader bs e)"
  by (simp add: ReadByte_def bindd_def read_full_def retd_def)

lemma ReadUvarint_loop_uvarint_bytes:
  assumes "unat x < 2 ^ (7 * i)" and "i \<le> 8" and "n < 128 ^ (9 - i)"
  shows "ReadUvarint_loop i x (7 * i) k (Reader (uvarint_bytes n @ rest) e) =
           Inr ((word_of_nat (unat x + n * 2 ^ (7 * i)), k + length (uvarint_bytes n)), Reader rest e)"
  using assms
proof (induction n arbitrary: i x k rule: uvarint_bytes.induct)
  case (1 n)
  show ?case
  proof (cases "n < 128")
    case True
    then have n: "unat (word_of_nat n :: byte) = n"
      by (simp add: unat_word_of_nat_byte)
    with True have lt: "(word_of_nat n :: byte) < 0x80"
      by (simp add: word_less_nat_alt)
    have "unat (x OR push_bit (7 * i) (ucast (word_of_nat n :: byte))) = unat x + n * 2 ^ (7 * i)"
      using unat_or_push_bit(1) [of x "7 * i" "ucast (word_of_nat n :: byte)"] "1.prems" True
      by (simp add: unat_ucast_byte n)
    then have "x OR push_bit (7 * i) (ucast (word_of_nat n :: byte)) = word_of_nat (unat x + n * 2 ^ (7 * i))"
      by (metis word_of_nat_unat)
    with True lt "1.prems"(2) show ?thesis
      by (simp add: uvarint_bytes.simps [of n] ReadUvarint_loop.simps [of i] ReadByte_Cons
          del: of_nat_add of_nat_mult)
  next
    case False
    define b :: byte where "b = word_of_nat (128 + n mod 128)"
    define x' where "x' = x OR push_bit (7 * i) (ucast (b AND 0x7f))"
    have ub: "uvarint_bytes n = b # uvarint_bytes (n div 128)"
      using False by (simp add: uvarint_bytes.simps [of n] b_def)
    have i: "i < 8"
      using "1.prems" False by (cases "i = 8") auto
    have b: "unat b = 128 + n mod 128"
      unfolding b_def by (rule unat_word_of_nat_byte) simp
    then have ge: "\<not> b < 0x80"
      by (simp add: word_less_nat_alt)
    have low: "unat (b AND 0x7f) = n mod 128"
      by (simp add: low_bits b)
    have x': "unat x' = unat x + (n mod 128) * 2 ^ (7 * i)" "unat x' < 2 ^ (7 * (i + 1))"
      using unat_or_push_bit [of x "7 * i" "ucast (b AND 0x7f)"] "1.prems"
      unfolding x'_def by (simp_all add: unat_ucast_byte low add.commute)
    from i have "9 - i = Suc (8 - i)"
      by simp
    with "1.prems"(3) have "n < 128 * 128 ^ (8 - i)"
      by simp
    then have d: "n div 128 < 128 ^ (9 - (i + 1))"
      by (simp add: less_mult_imp_div_less mult.commute)
    have "n div 128 * 2 ^ (7 * (i + 1)) = 128 * (n div 128) * 2 ^ (7 * i)"
      by (simp add: power_add)
    then have val: "unat x' + n div 128 * 2 ^ (7 * (i + 1)) = unat x + n * 2 ^ (7 * i)"
      by (simp only: x'(1) add.assoc mod_mult_div_eq flip: add_mult_distrib)
    have "ReadUvarint_loop i x (7 * i) k (Reader (uvarint_bytes n @ rest) e) =
            ReadUvarint_loop (i + 1) x' (7 * (i + 1)) (k + 1) (Reader (uvarint_bytes (n div 128) @ rest) e)"
      using ge i by (simp add: ub ReadUvarint_loop.simps [of i] ReadByte_Cons x'_def add.commute)
    also have "\<dots> = Inr ((word_of_nat (unat x + n * 2 ^ (7 * i)), k + 1 + length (uvarint_bytes (n div 128))), Reader rest e)"
      using "1.IH" [OF False x'(2) _ d] i by (simp only: val)
    finally show ?thesis
      by (simp add: ub)
  qed
qed
lemma uvarint_bytes_nonempty [simp]: "uvarint_bytes n \<noteq> []"
  by (subst uvarint_bytes.simps) simp

lemma length_uvarint_bytes_le:
  "length (uvarint_bytes n) \<le> Suc k \<longleftrightarrow> n < 128 ^ Suc k"
proof (induction k arbitrary: n)
  case 0
  show ?case
    by (simp add: uvarint_bytes.simps [of n])
next
  case (Suc k)
  show ?case
  proof (cases "n < 128")
    case True
    then have "n < 128 ^ Suc (Suc k)"
      using less_le_trans [of n 128 "128 ^ Suc (Suc k)"] by simp
    with True show ?thesis
      by (simp add: uvarint_bytes.simps [of n])
  next
    case False
    have "n div 128 < 128 ^ Suc k \<longleftrightarrow> n < 128 ^ Suc (Suc k)"
      by (simp add: div_less_iff_less_mult mult.commute)
    with False Suc [of "n div 128"] show ?thesis
      by (simp add: uvarint_bytes.simps [of n])
  qed
qed

lemma DecodeUvarint_uvarint_bytes:
  assumes "n < 2 ^ 28"
  shows "DecodeUvarint (Reader (uvarint_bytes n @ rest) e) = Inr (int n, Reader rest e)"
proof -
  from assms have n: "n < 128 ^ Suc 3" by simp
  then have "length (uvarint_bytes n) \<le> 4"
    using length_uvarint_bytes_le [of n 3] by simp
  moreover have "sint (word_of_nat n :: u64) = int n"
    using assms by (simp add: signed_of_nat signed_take_bit_int_eq_self)
  moreover have "ReadUvarint_loop 0 0 0 0 (Reader (uvarint_bytes n @ rest) e) =
           Inr ((word_of_nat n, length (uvarint_bytes n)), Reader rest e)"
    using ReadUvarint_loop_uvarint_bytes [of 0 0 n 0 rest e] n by simp
  ultimately show ?thesis
    by (simp add: DecodeUvarint_def)
qed

lemma DecodeUvarint_too_long:
  assumes "2 ^ 28 \<le> n" and "n < 2 ^ 32"
  shows "DecodeUvarint (Reader (uvarint_bytes n @ rest) e) =
           Inl (Errorf ''the maximum number of bytes in the variable byte integer is 4, but was %d'' [AInt 5])"
proof -
  from assms have "length (uvarint_bytes n) = 5"
    using length_uvarint_bytes_le [of n 3] length_uvarint_bytes_le [of n 4] by simp
  moreover have "ReadUvarint_loop 0 0 0 0 (Reader (uvarint_bytes n @ rest) e) =
           Inr ((word_of_nat n, length (uvarint_bytes n)), Reader rest e)"
    using ReadUvarint_loop_uvarint_bytes [of 0 0 n 0 rest e] assms by simp
  ultimately show ?thesis
    by (simp add: DecodeUvarint_def)
qed

lemma ReadByte_eq_Inr:
  "ReadByte n r = Inr ((b, n'), r') \<longleftrightarrow> n' = n + 1 \<and> rd_data r = b # rd_data r' \<and> rd_err r' = rd_err r"
  by (cases r; cases r')
    (auto simp: ReadByte_def decoder_cases read_full_eq_Inr length_Suc_conv)

lemma ReadUvarint_loop_result:
  assumes "ReadUvarint_loop i x s k r = Inr ((v, n), r')" and "s = 7 * i" and "unat x < 2 ^ s"
  obtains c where "rd_data r = c @ rd_data r'" and "rd_err r' = rd_err r" and "n = k + length c"
    and "c \<noteq> []" and "i + length c \<le> 9 \<Longrightarrow> unat v < 2 ^ (7 * (i + length c))"
  using assms
proof (induction i x s k r arbitrary: thesis rule: ReadUvarint_loop.induct)
  case (1 i x s k r)
  have i: "i < 10" 
    using "1.prems"(2) by (subst (asm) ReadUvarint_loop.simps) (simp split: if_splits)
  then obtain b k' r1 where rb: "ReadByte k r = Inr ((b, k'), r1)"
    using "1.prems"(2) by (subst (asm) ReadUvarint_loop.simps) (auto split: sum.splits)
  then have r: "k' = k + 1" "rd_data r = b # rd_data r1" "rd_err r1 = rd_err r"
    by (simp_all add: ReadByte_eq_Inr)
  show ?case
  proof (cases "b < 0x80")
    case True
    with "1.prems"(2) i rb r have v: "v = x OR push_bit s (ucast b)" "n = k + 1" "r' = r1"
      by (auto simp: ReadUvarint_loop.simps [of i] split: if_splits)
    from True have "unat (ucast b :: u64) < 128"
      by (simp add: unat_ucast_byte word_less_nat_alt)
    then have "unat v < 2 ^ (7 * (i + 1))" if "i + 1 \<le> 9"
      using unat_or_push_bit(2) [of x s "ucast b"] that "1.prems"(3,4)
      by (simp add: v add.commute)
    with r v show ?thesis
      by (intro "1.prems"(1) [of "[b]"]) auto
  next
    case False
    define x' where "x' = x OR push_bit s (ucast (b AND 0x7f))"
    have eq: "ReadUvarint_loop (i + 1) x' (s + 7) k' r1 = Inr ((v, n), r')"
      using "1.prems"(2) i rb False by (simp add: ReadUvarint_loop.simps [of i] x'_def)
    show ?thesis
    proof (cases "i \<le> 8")
      case True
      then have x': "unat x' < 2 ^ (s + 7)"
        using unat_or_push_bit(2) [of x s "ucast (b AND 0x7f)"] "1.prems"(3,4)
        by (simp add: x'_def unat_ucast_byte low_bits)
      obtain c where c: "rd_data r1 = c @ rd_data r'" "rd_err r' = rd_err r1" "n = k' + length c"
          "c \<noteq> []" "i + 1 + length c \<le> 9 \<Longrightarrow> unat v < 2 ^ (7 * (i + 1 + length c))"
        using "1.IH" [OF i rb refl refl False _ eq [unfolded x'_def]] x' "1.prems"(3)
        by (auto simp: x'_def)
      with r show ?thesis
        by (intro "1.prems"(1) [of "b # c"]) auto
    next
      case False
      then show ?thesis
        using eq i by (subst (asm) ReadUvarint_loop.simps) simp
    qed
  qed
qed

lemma WriteUvarint_eq:
  "WriteUvarint buffer x = (buffer @ uvarint_bytes (unat x), length (uvarint_bytes (unat x)))"
  by (simp add: WriteUvarint_def WriteUvarint_loop_eq)

lemma DecodeUvarint_eq_InrE:
  assumes "DecodeUvarint r = Inr (v, r')"
  obtains c where "rd_data r = c @ rd_data r'" and "rd_err r' = rd_err r"
    and "c \<noteq> []" and "length c \<le> 4" and "0 \<le> v" and "v < 2 ^ (7 * length c)"
proof -
  from assms obtain w n where w: "ReadUvarint_loop 0 0 0 0 r = Inr ((w, n), r')"
    and n: "n \<le> 4" and v: "v = sint w"
    by (auto simp: DecodeUvarint_def split: sum.splits if_splits)
  from w obtain c where c: "rd_data r = c @ rd_data r'" "rd_err r' = rd_err r" "n = length c"
      "c \<noteq> []" "length c \<le> 9 \<Longrightarrow> unat w < 2 ^ (7 * length c)"
    by (rule ReadUvarint_loop_result) auto
  with n have w: "unat w < 2 ^ (7 * length c)"
    by simp
  also have "\<dots> \<le> 2 ^ (7 * 4)"
    using n c(3) by (intro power_increasing) auto
  finally have "int (unat w) < int (2 ^ 28)"
    by (simp only: of_nat_less_iff) simp
  then have "uint w < 2 ^ 28"
    by simp
  moreover have "- (2 ^ 63) \<le> uint w"
    by (rule order_trans [of _ 0]) simp_all
  ultimately have "sint w = int (unat w)"
    by (simp add: sint_uint signed_take_bit_int_eq_self)
  moreover from w have "int (unat w) < int (2 ^ (7 * length c))"
    by (simp only: of_nat_less_iff)
  ultimately have "0 \<le> v" and "v < 2 ^ (7 * length c)"
    by (simp_all add: v)
  with that c n show thesis
    by auto
qed

lemma consuming_DecodeUvarint [consuming_intros]: "consuming DecodeUvarint"
  by (rule consumingI) (auto elim!: DecodeUvarint_eq_InrE)

interpretation uvarint: codec "\<lambda>v. fst (WriteUvarint [] (word_of_int v))" DecodeUvarint
    "\<lambda>v. 0 \<le> v \<and> v < 2 ^ 28"
proof unfold_locales
  fix v :: int and rest e
  assume v: "0 \<le> v \<and> v < 2 ^ 28"
  then have n: "unat (word_of_int v :: u32) = nat v"
    by (simp add: unat_eq_nat_uint uint_word_of_int)
  show "DecodeUvarint (Reader (fst (WriteUvarint [] (word_of_int v)) @ rest) e) =
      Inr (v, Reader rest e)"
    using DecodeUvarint_uvarint_bytes [of "nat v" rest e] v
    by (simp add: WriteUvarint_eq n nat_less_iff)
qed (rule consuming_DecodeUvarint)

lemmas consuming_fields [consuming_intros] =
  byte.dec_consuming u16.dec_consuming bytes.dec_consuming str.dec_consuming

lemma DecodeByte_Cons: "DecodeByte (Reader (b # rest) e) = Inr (b, Reader rest e)"
  using byte.dec_enc [OF TrueI, of b rest e] by simp

lemmas field_simps [codec_simps] = DecodeByte_Cons u16.dec_enc [OF TrueI]
  bytes.dec_enc str.dec_enc uvarint.dec_enc u16.dec_enc_exact [OF TrueI]
  bytes.dec_enc_exact str.dec_enc_exact uvarint.dec_enc_exact

lemmas field_iffs = byte.dec_iff u16.dec_iff bytes.dec_iff str.dec_iff

lemma length_fields [simp]:
  "length (EncodeUint16 v) = 2" "length (EncodeBytes b) = 2 + length b"
  "length (EncodeString s) = 2 + length s"
  by (simp_all add: EncodeUint16_def EncodeBytes_def EncodeString_def)

end
