(* ===== verification/Fixed_Header.thy ===== *)
theory Fixed_Header
  imports Constants Encoding
begin

text \<open>
  The fixed header of every packet (pkg/mqtt/codec/proto/fixedheader.go).
\<close>

section \<open>The fixed header (fixedheader.go)\<close>

definition maxRemainingLength :: int where
  "maxRemainingLength = 268435455"

record FixedHeader =
  MessageType :: byte
  Dup :: bool
  Qos :: byte
  Retain :: bool
  RemainingLength :: int

definition MessageName :: "'a FixedHeader_scheme \<Rightarrow> string" where
  "MessageName fh = (case map_of MqttMessageTypeNames (MessageType fh) of None \<Rightarrow> [] | Some n \<Rightarrow> n)"

definition Validate :: "'a FixedHeader_scheme \<Rightarrow> go_error option" where
  "Validate fh =
     (if RemainingLength fh < 0
      then Some (Errorf ''negative remaining length %d'' [AInt (RemainingLength fh)])
      else if RemainingLength fh > maxRemainingLength
      then Some (Errorf ''the maximum remaining length is %d, but was %d''
                   [AInt maxRemainingLength, AInt (RemainingLength fh)])
      else None)"

definition Unpack :: "byte \<Rightarrow> FixedHeader decoder" where
  "Unpack typeAndFlags =
     bindd DecodeUvarint (\<lambda>len.
       retd \<lparr>MessageType = drop_bit 4 typeAndFlags,
             Dup = (typeAndFlags AND 0x08 = 0x08),
             Qos = drop_bit 1 (typeAndFlags AND 0x06),
             Retain = (typeAndFlags AND 0x01 \<noteq> 0),
             RemainingLength = len\<rparr>)"

definition decode :: "FixedHeader decoder" where
  "decode = bindd (read_full 1) (\<lambda>b1. Unpack (b1 ! 0))"

definition getFixedHeaderByte1 :: "'a FixedHeader_scheme \<Rightarrow> byte" where
  "getFixedHeaderByte1 fh =
     (let result = push_bit 4 (MessageType fh);
          result = or_if (Dup fh) 0x08 result;
          result = result OR push_bit 1 (Qos fh)
      in or_if (Retain fh) 0x01 result)"

definition Pack :: "'a FixedHeader_scheme \<Rightarrow> byte list" where
  "Pack fh = fst (WriteUvarint [getFixedHeaderByte1 fh] (word_of_int (RemainingLength fh)))"

section \<open>The first byte\<close>

text \<open>The type, the flags and the first byte determine each other.\<close>

definition byte1_fields :: "byte \<Rightarrow> byte \<times> bool \<times> byte \<times> bool" where
  "byte1_fields b = (drop_bit 4 b, b AND 0x08 = 0x08, drop_bit 1 (b AND 0x06), b AND 0x01 \<noteq> 0)"

lemma bit_getFixedHeaderByte1:
  "bit (getFixedHeaderByte1 fh) n \<longleftrightarrow>
     n < 8 \<and> (4 \<le> n \<and> bit (MessageType fh) (n - 4) \<or> Dup fh \<and> n = 3
       \<or> 1 \<le> n \<and> bit (Qos fh) (n - 1) \<or> Retain fh \<and> n = 0)"
  unfolding getFixedHeaderByte1_def Let_def
  by (simp only: bit_byte_ops) auto

lemma byte1_fields_getFixedHeaderByte1:
  assumes "MessageType fh < 16" and "Qos fh < 4"
  shows "byte1_fields (getFixedHeaderByte1 fh) = (MessageType fh, Dup fh, Qos fh, Retain fh)"
proof -
  note bits = bit_getFixedHeaderByte1 [of fh]
  note high = bit_less_16 [OF assms(1)] and low = bit_less_4 [OF assms(2)]
  have "drop_bit 4 (getFixedHeaderByte1 fh) = MessageType fh"
    unfolding byte_eq_iff bit_byte_ops bits using high low by fastforce
  moreover have "drop_bit 1 (getFixedHeaderByte1 fh AND 0x06) = Qos fh"
    unfolding byte_eq_iff bit_byte_ops bits using high low by fastforce
  moreover have "bit (getFixedHeaderByte1 fh) 3 = Dup fh"
    unfolding bits using low [of 2] by auto
  moreover have "bit (getFixedHeaderByte1 fh) 0 = Retain fh"
    unfolding bits by auto
  ultimately show ?thesis
    by (simp only: byte1_fields_def and_flag not_not)
qed

lemma getFixedHeaderByte1_byte1_fields:
  assumes "byte1_fields b = (MessageType fh, Dup fh, Qos fh, Retain fh)"
  shows "getFixedHeaderByte1 fh = b"
proof -
  from assms have f: "MessageType fh = drop_bit 4 b" "Dup fh \<longleftrightarrow> bit b 3"
      "Qos fh = drop_bit 1 (b AND 0x06)" "Retain fh \<longleftrightarrow> bit b 0"
    by (simp_all only: byte1_fields_def prod.inject and_flag not_not)
  have "bit (getFixedHeaderByte1 fh) n \<longleftrightarrow> bit b n" if "n < 8" for n
  proof -
    from that consider "n = 0" | "n = 1" | "n = 2" | "n = 3" | "4 \<le> n"
      by linarith
    then show ?thesis
      using that unfolding bit_getFixedHeaderByte1 f bit_byte_ops by cases (auto simp: numeral_2_eq_2)
  qed
  then show ?thesis
    by (simp add: byte_eq_iff)
qed

section \<open>The header as a codec\<close>


definition header_ok :: "'a FixedHeader_scheme \<Rightarrow> bool" where
  "header_ok fh \<longleftrightarrow>
     MessageType fh < 16 \<and> Qos fh < 4 \<and> 0 \<le> RemainingLength fh \<and> RemainingLength fh \<le> maxRemainingLength"

lemma consuming_Unpack [consuming_intros]: "consuming (Unpack b)"
  unfolding Unpack_def by (intro consuming_intros)

lemma Pack_eq: "Pack fh = getFixedHeaderByte1 fh # fst (WriteUvarint [] (word_of_int (RemainingLength fh)))"
  by (simp add: Pack_def WriteUvarint_eq)

lemma Unpack_Pack [codec_simps]:
  assumes "header_ok fh"
  shows "Unpack (getFixedHeaderByte1 fh)
           (Reader (fst (WriteUvarint [] (word_of_int (RemainingLength fh))) @ rest) e) =
         Inr (FixedHeader.truncate fh, Reader rest e)"
proof -
  from assms have ok: "MessageType fh < 16" "Qos fh < 4"
      "0 \<le> RemainingLength fh \<and> RemainingLength fh < 2 ^ 28"
    by (auto simp: header_ok_def maxRemainingLength_def)
  from byte1_fields_getFixedHeaderByte1 [OF ok(1,2)] show ?thesis
    using ok(3)
    by (simp add: Unpack_def byte1_fields_def FixedHeader.truncate_def uvarint.dec_enc codec_simps)
qed

interpretation header: codec Pack decode header_ok
proof unfold_locales
  show "decode (Reader (Pack fh @ rest) e) = Inr (fh, Reader rest e)"
    if "header_ok fh" for fh :: FixedHeader and rest e
    using Unpack_Pack [OF that, of rest e]
    by (simp add: decode_def Pack_eq bindd_def read_full_def FixedHeader.truncate_def)
  show "consuming decode"
    unfolding decode_def by (intro consuming_intros)
qed

text \<open>
  What \<open>Unpack\<close> returns is a well-formed header, so \<open>Validate\<close> accepts it: the four bytes
  \<open>DecodeUvarint\<close> allows cannot exceed \<open>maxRemainingLength\<close>.
\<close>

lemma Validate_None_iff:
  "Validate fh = None \<longleftrightarrow> 0 \<le> RemainingLength fh \<and> RemainingLength fh \<le> maxRemainingLength"
  by (auto simp: Validate_def)

lemma drop_bit_4_less: "drop_bit 4 (b :: byte) < 16"
  using unat_byte_less [of b] by (simp add: word_less_nat_alt unat_drop_bit_eq drop_bit_eq_div unat_div)

lemma qos_bits_less: "drop_bit 1 ((b :: byte) AND 0x06) < 4"
proof -
  have "b AND 0x06 \<le> 0x06"
    by (rule word_and_le1)
  then have "unat (b AND 0x06) \<le> 6"
    by (simp add: word_le_nat_alt)
  then show ?thesis
    by (simp add: word_less_nat_alt drop_bit_eq_div unat_div)
qed

lemma will_qos_less: "drop_bit 3 ((b :: byte) AND 0x18) < 4"
proof -
  have "b AND 0x18 \<le> 0x18"
    by (rule word_and_le1)
  then show ?thesis
    by (simp add: word_le_nat_alt word_less_nat_alt drop_bit_eq_div unat_div)
qed

lemma Unpack_eq_InrE:
  assumes "Unpack b r = Inr (fh, r')"
  obtains c where "rd_data r = c @ rd_data r'" and "rd_err r' = rd_err r"
    and "1 \<le> length c" and "length c \<le> 4" and "header_ok fh" and "getFixedHeaderByte1 fh = b"
proof -
  from assms obtain v where v: "DecodeUvarint r = Inr (v, r')"
    and fh: "fh = \<lparr>MessageType = drop_bit 4 b, Dup = (b AND 0x08 = 0x08),
          Qos = drop_bit 1 (b AND 0x06), Retain = (b AND 0x01 \<noteq> 0), RemainingLength = v\<rparr>"
    by (auto simp: Unpack_def decoder_cases)
  from v obtain c where c: "rd_data r = c @ rd_data r'" "rd_err r' = rd_err r" "c \<noteq> []"
      "length c \<le> 4" "0 \<le> v" "v < 2 ^ (7 * length c)"
    by (rule DecodeUvarint_eq_InrE)
  note c(6)
  also have "(2::int) ^ (7 * length c) \<le> 2 ^ (7 * 4)"
    using c(4) by (intro power_increasing) auto
  finally have "header_ok fh"
    using c(5) drop_bit_4_less [of b] qos_bits_less [of b]
    by (simp only: header_ok_def fh FixedHeader.simps maxRemainingLength_def) simp
  moreover have "getFixedHeaderByte1 fh = b"
    by (rule getFixedHeaderByte1_byte1_fields) (simp add: fh byte1_fields_def)
  ultimately show thesis
    using that c(1-4) by (simp add: Suc_leI)
qed

end
