(* ===== verification/Framing.thy ===== *)
theory Framing
  imports Fixed_Header
begin

text \<open>
  What the two protocol packages share: both read a packet as a fixed header, a packet object for
  that header and exactly \<open>RemainingLength\<close> bytes for the object to unpack. The code has the
  routine twice (v311/packets.go and v5/packets.go); the locale states its common shape and the
  framing facts that follow, and each package's theory interprets it for its own \<open>ReadPacket\<close>.
\<close>

section \<open>Packet readers\<close>

locale packet_reader =
  fixes new_packet :: "FixedHeader \<Rightarrow> go_error + 'p"
    and unpack :: "'p \<Rightarrow> 'p decoder"
    and read_packet :: "'p decoder"
  assumes read_packet_eq: "read_packet =
    bindd (read_full 1) (\<lambda>b1.
    bindd (Unpack (b1 ! 0)) (\<lambda>fh.
      case Validate fh of
        Some e \<Rightarrow> faild e
      | None \<Rightarrow>
          (case new_packet fh of
             Inl e \<Rightarrow> faild e
           | Inr cp \<Rightarrow>
               bindd (read_full (nat (RemainingLength fh))) (\<lambda>packetBytes.
                 if int (length packetBytes) \<noteq> RemainingLength fh
                 then faild (Errorf ''failed to read encoded data, read %d from %d''
                        [AInt (int (length packetBytes)), AInt (RemainingLength fh)])
                 else
                   (case unpack cp (Reader packetBytes EOF) of
                      Inl e \<Rightarrow> faild e
                    | Inr (cp', _) \<Rightarrow> retd cp')))))"
begin

lemma consuming_read_packet: "consuming read_packet"
  unfolding read_packet_eq by (intro consuming_intros)

text \<open>Reading a header the code can send, followed by as many bytes as it announces.\<close>

lemma read_packet_frame:
  assumes "header_ok fh" and "new_packet (FixedHeader.truncate fh) = Inr cp"
    and "RemainingLength fh = int (length body)"
  shows "read_packet (Reader (Pack fh @ body @ rest) e) =
           (case unpack cp (Reader body EOF) of
              Inl er \<Rightarrow> Inl er
            | Inr (p, _) \<Rightarrow> Inr (p, Reader rest e))"
proof -
  have one: "read_full 1 (Reader (Pack fh @ body @ rest) e) =
      Inr ([getFixedHeaderByte1 fh],
        Reader (fst (WriteUvarint [] (word_of_int (RemainingLength fh))) @ body @ rest) e)"
    by (simp add: Pack_eq read_full_def)
  have "Validate (FixedHeader.truncate fh) = None"
    using assms(1) by (simp add: Validate_None_iff FixedHeader.truncate_def header_ok_def)
  with assms(2,3) one Unpack_Pack [OF assms(1), of "body @ rest" e] show ?thesis
    by (simp add: read_packet_eq bindd_def retd_def faild_def
        FixedHeader.truncate_def read_full_append split: sum.splits)
qed

text \<open>A packet that was read: its header, its body, and what is left of the stream.\<close>

lemma read_packet_eq_InrE:
  assumes "read_packet r = Inr (p, r')"
  obtains fh cp len body r1 where "header_ok fh" and "new_packet fh = Inr cp"
    and "rd_data r = getFixedHeaderByte1 fh # len @ body @ rd_data r'" and "rd_err r' = rd_err r"
    and "1 \<le> length len" and "length len \<le> 4" and "RemainingLength fh = int (length body)"
    and "unpack cp (Reader body EOF) = Inr (p, r1)"
    and "Unpack (hd (rd_data r)) (Reader (tl (rd_data r)) (rd_err r)) =
           Inr (fh, Reader (body @ rd_data r') (rd_err r))"
proof -
  from assms obtain b1 ra fh rb where one: "read_full 1 r = Inr (b1, ra)"
    and fh: "Unpack (b1 ! 0) ra = Inr (fh, rb)"
    and rest: "(case Validate fh of
        Some e \<Rightarrow> faild e
      | None \<Rightarrow>
          (case new_packet fh of
             Inl e \<Rightarrow> faild e
           | Inr cp \<Rightarrow>
               bindd (read_full (nat (RemainingLength fh))) (\<lambda>packetBytes.
                 if int (length packetBytes) \<noteq> RemainingLength fh
                 then faild (Errorf ''failed to read encoded data, read %d from %d''
                        [AInt (int (length packetBytes)), AInt (RemainingLength fh)])
                 else
                   (case unpack cp (Reader packetBytes EOF) of
                      Inl e \<Rightarrow> faild e
                    | Inr (cp', _) \<Rightarrow> retd cp')))) rb = Inr (p, r')"
    unfolding read_packet_eq bindd_eq_Inr by blast
  from rest obtain cp where cp: "new_packet fh = Inr cp"
    by (auto simp: faild_def split: option.splits sum.splits)
  with rest obtain body rc where body: "read_full (nat (RemainingLength fh)) rb = Inr (body, rc)"
    and tail: "(if int (length body) \<noteq> RemainingLength fh
        then faild (Errorf ''failed to read encoded data, read %d from %d''
               [AInt (int (length body)), AInt (RemainingLength fh)])
        else (case unpack cp (Reader body EOF) of Inl e \<Rightarrow> faild e | Inr (cp', _) \<Rightarrow> retd cp')) rc
        = Inr (p, r')"
    by (auto simp only: bindd_eq_Inr faild_eq_Inr option.case sum.case split: option.splits)
  from tail obtain r1 where p: "unpack cp (Reader body EOF) = Inr (p, r1)" and "rc = r'"
    by (cases "unpack cp (Reader body EOF)") (auto simp: decoder_cases split: if_splits)
  from one have b1: "length b1 = 1" "rd_data r = b1 @ rd_data ra" "rd_err ra = rd_err r"
    by (simp_all add: read_full_eq_Inr)
  from body have body: "length body = nat (RemainingLength fh)" "rd_data rb = body @ rd_data r'"
      "rd_err r' = rd_err rb"
    using \<open>rc = r'\<close> by (simp_all add: read_full_eq_Inr)
  from fh obtain len where len: "rd_data ra = len @ rd_data rb" "rd_err rb = rd_err ra"
      "1 \<le> length len" "length len \<le> 4" "header_ok fh" "getFixedHeaderByte1 fh = b1 ! 0"
    by (rule Unpack_eq_InrE)
  have "b1 = [b1 ! 0]"
    using b1(1) by (cases b1) auto
  with b1(2) len(1,6) body(2) have "rd_data r = getFixedHeaderByte1 fh # len @ body @ rd_data r'"
    by (metis append.assoc append_Cons append_Nil)
  moreover have "RemainingLength fh = int (length body)"
    using body(1) len(5) by (simp add: header_ok_def)
  moreover have "Unpack (hd (rd_data r)) (Reader (tl (rd_data r)) (rd_err r)) =
      Inr (fh, Reader (body @ rd_data r') (rd_err r))"
  proof -
    from \<open>b1 = [b1 ! 0]\<close> b1(2,3) have "hd (rd_data r) = b1 ! 0" "Reader (tl (rd_data r)) (rd_err r) = ra"
      by (metis append_Cons list.sel(1), metis append_Cons append_Nil list.sel(3) reader.collapse)
    moreover have "rb = Reader (body @ rd_data r') (rd_err r)"
      using body(2) len(2) b1(3) by (cases rb) simp
    ultimately show ?thesis
      using fh by simp
  qed
  ultimately show thesis
    using that len cp p b1(3) body(3) by metis
qed

lemma read_packet_progress:
  assumes "read_packet r = Inr (p, r')"
  shows "length (rd_data r') + 2 \<le> length (rd_data r)"
  using assms by (rule read_packet_eq_InrE) simp

text \<open>Whatever follows a header, the packet takes from it the bytes that the header announces.\<close>

lemma read_packet_header:
  assumes "header_ok fh" and "read_packet (Reader (Pack fh @ rest) e) = Inr (p, r')"
  shows "nat (RemainingLength fh) \<le> length rest" and "r' = Reader (drop (nat (RemainingLength fh)) rest) e"
proof -
  from assms(2) obtain fh' body where "RemainingLength fh' = int (length body)" and err: "rd_err r' = e"
    and "Unpack (hd (Pack fh @ rest)) (Reader (tl (Pack fh @ rest)) e) = Inr (fh', Reader (body @ rd_data r') e)"
    by (rule read_packet_eq_InrE) simp
  with Unpack_Pack [OF assms(1), of rest e] have "rest = body @ rd_data r'" "nat (RemainingLength fh) = length body"
    by (auto simp: Pack_eq FixedHeader.truncate_def)
  with err show "nat (RemainingLength fh) \<le> length rest" and "r' = Reader (drop (nat (RemainingLength fh)) rest) e"
    by (cases r'; simp)+
qed

text \<open>An exhausted stream ends the connection with the reader's own error.\<close>

lemma read_packet_empty: "read_packet (Reader [] e) = Inl e"
  by (simp add: read_packet_eq bindd_def read_full_def)

end

section \<open>Packet formats\<close>

text \<open>
  What one packet type promises: \<open>Write\<close> sends the header, with the length of the body in it, and
  the body; \<open>Unpack\<close> on the packet object of that header and that body restores the packet. In the
  other direction, a packet that \<open>Unpack\<close> filled keeps its header, and it is one that \<open>Write\<close> can
  send, unless its header or a flag says something that \<open>Write\<close> cannot repeat (\<open>clean\<close>).
\<close>

locale packet_format =
  fixes new :: "FixedHeader \<Rightarrow> 'm FixedHeader_scheme"
    and unpack :: "'m FixedHeader_scheme \<Rightarrow> 'm FixedHeader_scheme decoder"
    and wr :: "'m FixedHeader_scheme \<Rightarrow> 'm FixedHeader_scheme \<times> byte list"
    and body :: "'m FixedHeader_scheme \<Rightarrow> byte list"
    and ok :: "'m FixedHeader_scheme \<Rightarrow> bool"
    and clean :: "'m FixedHeader_scheme \<Rightarrow> bool"
  assumes ok_header: "ok p \<Longrightarrow>
      MessageType p < 16 \<and> Qos p < 4 \<and> int (length (body p)) \<le> maxRemainingLength"
    and write_eq: "ok p \<Longrightarrow>
      wr p = (p\<lparr>RemainingLength := int (length (body p))\<rparr>,
                 Pack (p\<lparr>RemainingLength := int (length (body p))\<rparr>) @ body p)"
    and unpack_body: "ok p \<Longrightarrow>
      unpack (new (FixedHeader.truncate (p\<lparr>RemainingLength := int (length (body p))\<rparr>))) (Reader (body p) EOF) =
      Inr (p\<lparr>RemainingLength := int (length (body p))\<rparr>, Reader [] EOF)"
    and unpack_ok: "header_ok fh \<Longrightarrow> RemainingLength fh = int (length bs) \<Longrightarrow>
      unpack (new fh) (Reader bs EOF) = Inr (p, r') \<Longrightarrow>
      FixedHeader.truncate p = fh \<and> length (body p) \<le> length bs \<and> (clean p \<longrightarrow> ok p)"
begin

lemma write_frame:
  assumes "ok p"
  shows "header_ok (fst (wr p))" and "snd (wr p) = Pack (fst (wr p)) @ body p"
    and "RemainingLength (fst (wr p)) = int (length (body p))"
    and "MessageType (fst (wr p)) = MessageType p"
    and "FixedHeader.truncate (fst (wr p)) =
           (FixedHeader.truncate p)\<lparr>RemainingLength := int (length (body p))\<rparr>"
    and "unpack (new (FixedHeader.truncate (fst (wr p)))) (Reader (body p) EOF) =
           Inr (fst (wr p), Reader [] EOF)"
  using ok_header [OF assms] write_eq [OF assms] unpack_body [OF assms]
  by (simp_all add: header_ok_def FixedHeader.truncate_def)

end

text \<open>A packet without fields of its own can be sent when its header announces an empty body.\<close>

definition ok_empty :: "FixedHeader \<Rightarrow> bool" where
  "ok_empty p \<longleftrightarrow> MessageType p < 16 \<and> Qos p < 4 \<and> RemainingLength p = 0"

lemma ok_emptyD: "ok_empty p \<Longrightarrow> p\<lparr>RemainingLength := 0\<rparr> = p"
  by (cases p) (simp add: ok_empty_def)

text \<open>The header of a new packet object: its type, and zero values.\<close>

definition zero_header :: "byte \<Rightarrow> FixedHeader" where
  "zero_header packetType =
     \<lparr>MessageType = packetType, Dup = False, Qos = 0, Retain = False, RemainingLength = 0\<rparr>"

section \<open>A packet type of a package\<close>

text \<open>
  How a package's reader reaches one packet type: the type code selects its object (\<open>wrap\<close> puts it
  into the package's interface value), and the interface's \<open>Unpack\<close> is the type's.
\<close>

definition unpack_as :: "('m \<Rightarrow> 'p) \<Rightarrow> 'm decoder \<Rightarrow> 'p decoder" where
  "unpack_as wrap dec = bindd dec (\<lambda>p. retd (wrap p))"

lemma unpack_as_eq: "unpack_as wrap dec r = (case dec r of Inl e \<Rightarrow> Inl e | Inr (p, r') \<Rightarrow> Inr (wrap p, r'))"
  by (simp add: unpack_as_def bindd_def retd_def split: sum.split)

locale packet_kind =
  packet_reader new_packet unpack_packet read_packet + packet_format new unpack wr body ok clean
  for new_packet :: "FixedHeader \<Rightarrow> go_error + 'p" and unpack_packet read_packet new
    and unpack :: "'m FixedHeader_scheme \<Rightarrow> 'm FixedHeader_scheme decoder" and wr body ok clean +
  fixes wrap :: "'m FixedHeader_scheme \<Rightarrow> 'p" and ty :: byte
  assumes new_packet_ty: "MessageType fh = ty \<Longrightarrow> new_packet fh = Inr (wrap (new fh))"
    and unpack_wrap: "unpack_packet (wrap p) = unpack_as wrap (unpack p)"
begin

lemma read_wr:
  assumes "ok p" and "MessageType p = ty"
  shows "read_packet (Reader (snd (wr p) @ rest) e) = Inr (wrap (fst (wr p)), Reader rest e)"
proof -
  note wf = write_frame [OF assms(1)]
  from assms(2) wf(4) have "new_packet (FixedHeader.truncate (fst (wr p))) =
      Inr (wrap (new (FixedHeader.truncate (fst (wr p)))))"
    by (intro new_packet_ty) (simp add: FixedHeader.truncate_def)
  from read_packet_frame [OF wf(1) this wf(3), of rest e] wf(6) show ?thesis
    by (simp add: wf(2) unpack_wrap unpack_as_eq)
qed

lemma unpacked:
  assumes "header_ok fh" and "MessageType fh = ty" and "new_packet fh = Inr cp"
    and "RemainingLength fh = int (length bs)" and "unpack_packet cp (Reader bs EOF) = Inr (p, r1)"
  shows "\<exists>q. p = wrap q \<and> FixedHeader.truncate q = fh \<and> MessageType q = ty \<and>
      length (body q) \<le> length bs \<and> (clean q \<longrightarrow> ok q)"
proof -
  from assms(2,3,5) obtain q where "p = wrap q" and "unpack (new fh) (Reader bs EOF) = Inr (q, r1)"
    by (auto simp: new_packet_ty unpack_wrap unpack_as_eq split: sum.splits)
  moreover from this(2) have "FixedHeader.truncate q = fh \<and> length (body q) \<le> length bs \<and> (clean q \<longrightarrow> ok q)"
    by (rule unpack_ok [OF assms(1,4)])
  moreover from this assms(2) have "MessageType q = ty"
    by (auto simp: FixedHeader.truncate_def)
  ultimately show ?thesis
    by blast
qed

end

end
