(* ===== verification/V311_Connect.thy ===== *)
theory V311_Connect
  imports Framing
begin

text \<open>
  The CONNECT packet of MQTT 3.1.1 (pkg/mqtt/codec/v311/connect.go). As for every packet, the record
  extends the fixed header, as the Go struct embeds it; \<open>Write\<close> returns the packet (its
  \<open>RemainingLength\<close> is set on the way) and the bytes; \<open>Unpack\<close> fills the packet from its body.
\<close>

section \<open>CONNECT (connect.go)\<close>

record ConnectPacket311 = FixedHeader +
  ProtocolName311 :: string
  ProtocolLevel311 :: byte
  HasUsername311 :: bool
  HasPassword311 :: bool
  WillRetain311 :: bool
  WillQos311 :: byte
  WillFlag311 :: bool
  CleanSession311 :: bool
  ReservedBit311 :: bool
  KeepAliveSeconds311 :: u16
  ClientIdentifier311 :: string
  WillTopic311 :: string
  WillMessage311 :: "byte list"
  Username311 :: string
  Password311 :: "byte list"

definition getConnectFlags311 :: "ConnectPacket311 \<Rightarrow> byte" where
  "getConnectFlags311 p =
     (let connectFlags = or_if (HasUsername311 p) 0x80 0;
          connectFlags = or_if (HasPassword311 p) 0x40 connectFlags;
          connectFlags = or_if (WillRetain311 p) 0x20 connectFlags;
          connectFlags = connectFlags OR push_bit 3 (WillQos311 p AND 0x03);
          connectFlags = or_if (WillFlag311 p) 0x04 connectFlags
      in or_if (CleanSession311 p) 0x02 connectFlags)"

definition body_Connect311 :: "ConnectPacket311 \<Rightarrow> byte list" where
  "body_Connect311 p =
     EncodeString (ProtocolName311 p) @ [ProtocolLevel311 p] @ [getConnectFlags311 p] @
     EncodeUint16 (KeepAliveSeconds311 p) @ EncodeString (ClientIdentifier311 p) @
     (if WillFlag311 p then EncodeString (WillTopic311 p) @ EncodeBytes (WillMessage311 p) else []) @
     (if HasUsername311 p then EncodeString (Username311 p) else []) @
     (if HasPassword311 p then EncodeBytes (Password311 p) else [])"

definition Write_Connect311 :: "ConnectPacket311 \<Rightarrow> ConnectPacket311 \<times> byte list" where
  "Write_Connect311 p =
     (let body = body_Connect311 p;
          p' = p\<lparr>RemainingLength := int (length body)\<rparr>
      in (p', Pack p' @ body))"

definition Unpack_Connect311 :: "ConnectPacket311 \<Rightarrow> ConnectPacket311 decoder" where
  "Unpack_Connect311 p =
     bindd DecodeString (\<lambda>protocolName.
     bindd DecodeByte (\<lambda>version.
     bindd DecodeByte (\<lambda>connectFlags.
     bindd DecodeUint16 (\<lambda>keepAliveSeconds.
     bindd DecodeString (\<lambda>clientIdentifier.
     let p = p\<lparr>ProtocolName311 := protocolName,
               ProtocolLevel311 := version,
               HasUsername311 := (connectFlags AND 0x80 = 0x80),
               HasPassword311 := (connectFlags AND 0x40 = 0x40),
               WillRetain311 := (connectFlags AND 0x20 = 0x20),
               WillQos311 := drop_bit 3 (connectFlags AND 0x18),
               WillFlag311 := (connectFlags AND 0x04 = 0x04),
               CleanSession311 := (connectFlags AND 0x02 = 0x02),
               ReservedBit311 := (connectFlags AND 0x01 = 0x01),
               KeepAliveSeconds311 := keepAliveSeconds,
               ClientIdentifier311 := clientIdentifier\<rparr>
     in
     bindd (if WillFlag311 p
            then bindd DecodeString (\<lambda>willTopic.
                 bindd DecodeBytes (\<lambda>willMessage.
                 retd (p\<lparr>WillTopic311 := willTopic, WillMessage311 := willMessage\<rparr>)))
            else retd p) (\<lambda>p.
     bindd (if HasUsername311 p
            then bindd DecodeString (\<lambda>username. retd (p\<lparr>Username311 := username\<rparr>))
            else retd p) (\<lambda>p.
     if HasPassword311 p
     then bindd DecodeBytes (\<lambda>password. retd (p\<lparr>Password311 := password\<rparr>))
     else retd p)))))))"

definition Name_Connect311 :: "ConnectPacket311 \<Rightarrow> string" where
  "Name_Connect311 p = ''CONNECT''"

definition new_Connect311 :: "FixedHeader \<Rightarrow> ConnectPacket311" where
  "new_Connect311 fh = FixedHeader.extend fh
     (ConnectPacket311.fields [] 0 False False False 0 False False False 0 [] [] [] [] [])"

definition ok_Connect311 :: "ConnectPacket311 \<Rightarrow> bool" where
  "ok_Connect311 p \<longleftrightarrow>
     MessageType p < 16 \<and> Qos p < 4 \<and>
     length (ProtocolName311 p) < 65536 \<and> length (ClientIdentifier311 p) < 65536 \<and>
     WillQos311 p < 4 \<and> \<not> ReservedBit311 p \<and>
     (if WillFlag311 p then length (WillTopic311 p) < 65536 \<and> length (WillMessage311 p) < 65536
      else WillTopic311 p = [] \<and> WillMessage311 p = []) \<and>
     (if HasUsername311 p then length (Username311 p) < 65536 else Username311 p = []) \<and>
     (if HasPassword311 p then length (Password311 p) < 65536 else Password311 p = [])"

lemma bit_getConnectFlags311: "bit (getConnectFlags311 p) n \<longleftrightarrow>
    n < 8 \<and> (HasUsername311 p \<and> n = 7 \<or> HasPassword311 p \<and> n = 6 \<or> WillRetain311 p \<and> n = 5 \<or>
    3 \<le> n \<and> n < 5 \<and> bit (WillQos311 p) (n - 3) \<or> WillFlag311 p \<and> n = 2 \<or> CleanSession311 p \<and> n = 1)"
  unfolding getConnectFlags311_def Let_def by (simp only: bit_byte_ops) auto

lemma getConnectFlags311_fields:
  shows "getConnectFlags311 p AND 0x80 = 0x80 \<longleftrightarrow> HasUsername311 p"
    and "getConnectFlags311 p AND 0x40 = 0x40 \<longleftrightarrow> HasPassword311 p"
    and "getConnectFlags311 p AND 0x20 = 0x20 \<longleftrightarrow> WillRetain311 p"
    and "getConnectFlags311 p AND 0x04 = 0x04 \<longleftrightarrow> WillFlag311 p"
    and "getConnectFlags311 p AND 0x02 = 0x02 \<longleftrightarrow> CleanSession311 p"
    and "getConnectFlags311 p AND 0x01 = 0x01 \<longleftrightarrow> False"
  unfolding and_flag bit_getConnectFlags311 by simp_all

lemma getConnectFlags311_WillQos:
  assumes "WillQos311 p < 4"
  shows "drop_bit 3 (getConnectFlags311 p) AND 0x03 = WillQos311 p"
  unfolding byte_eq_iff bit_byte_ops bit_getConnectFlags311 using bit_less_4 [OF assms] by fastforce

text \<open>The three optional parts of the payload, as \<open>Unpack\<close> reads them.\<close>

lemma Unpack_Connect311_will:
  assumes "(if WillFlag311 p then bindd DecodeString (\<lambda>willTopic. bindd DecodeBytes (\<lambda>willMessage.
        retd (p\<lparr>WillTopic311 := willTopic, WillMessage311 := willMessage\<rparr>))) else retd p) r = Inr (p', r')"
  obtains t m where "p' = p\<lparr>WillTopic311 := t, WillMessage311 := m\<rparr>"
    and "rd_data r = (if WillFlag311 p then EncodeString t @ EncodeBytes m else []) @ rd_data r'"
    and "if WillFlag311 p then length t < 65536 \<and> length m < 65536 else t = WillTopic311 p \<and> m = WillMessage311 p"
  using assms by (auto simp: decoder_cases field_iffs split: if_splits)

lemma Unpack_Connect311_username:
  assumes "(if HasUsername311 p then bindd DecodeString (\<lambda>username. retd (p\<lparr>Username311 := username\<rparr>))
        else retd p) r = Inr (p', r')"
  obtains u where "p' = p\<lparr>Username311 := u\<rparr>"
    and "rd_data r = (if HasUsername311 p then EncodeString u else []) @ rd_data r'"
    and "if HasUsername311 p then length u < 65536 else u = Username311 p"
  using assms by (auto simp: decoder_cases field_iffs split: if_splits)

lemma Unpack_Connect311_password:
  assumes "(if HasPassword311 p then bindd DecodeBytes (\<lambda>password. retd (p\<lparr>Password311 := password\<rparr>))
        else retd p) r = Inr (p', r')"
  obtains w where "p' = p\<lparr>Password311 := w\<rparr>"
    and "rd_data r = (if HasPassword311 p then EncodeBytes w else []) @ rd_data r'"
    and "if HasPassword311 p then length w < 65536 else w = Password311 p"
  using assms by (auto simp: decoder_cases field_iffs split: if_splits)

lemma Unpack_Connect311_eq_InrE:
  assumes "Unpack_Connect311 p0 (Reader bs e) = Inr (p, r')"
  obtains name ver flags ka cid t m u w p1 where
    "p1 = p0\<lparr>ProtocolName311 := name, ProtocolLevel311 := ver,
               HasUsername311 := (flags AND 0x80 = 0x80), HasPassword311 := (flags AND 0x40 = 0x40),
               WillRetain311 := (flags AND 0x20 = 0x20), WillQos311 := drop_bit 3 (flags AND 0x18),
               WillFlag311 := (flags AND 0x04 = 0x04), CleanSession311 := (flags AND 0x02 = 0x02),
               ReservedBit311 := (flags AND 0x01 = 0x01), KeepAliveSeconds311 := ka,
               ClientIdentifier311 := cid\<rparr>"
    and "p = p1\<lparr>WillTopic311 := t, WillMessage311 := m, Username311 := u, Password311 := w\<rparr>"
    and "bs = EncodeString name @ ver # flags # EncodeUint16 ka @ EncodeString cid @
          (if WillFlag311 p1 then EncodeString t @ EncodeBytes m else []) @
          (if HasUsername311 p1 then EncodeString u else []) @
          (if HasPassword311 p1 then EncodeBytes w else []) @ rd_data r'"
    and "length name < 65536" and "length cid < 65536"
    and "if WillFlag311 p1 then length t < 65536 \<and> length m < 65536 else t = WillTopic311 p0 \<and> m = WillMessage311 p0"
    and "if HasUsername311 p1 then length u < 65536 else u = Username311 p0"
    and "if HasPassword311 p1 then length w < 65536 else w = Password311 p0"
proof -
  from assms obtain name r1 ver r2 flags r3 ka r4 cid r5 p1 p2 r6 p3 r7
    where f: "DecodeString (Reader bs e) = Inr (name, r1)" "DecodeByte r1 = Inr (ver, r2)"
      "DecodeByte r2 = Inr (flags, r3)" "DecodeUint16 r3 = Inr (ka, r4)" "DecodeString r4 = Inr (cid, r5)"
    and p1: "p1 = p0\<lparr>ProtocolName311 := name, ProtocolLevel311 := ver,
               HasUsername311 := (flags AND 0x80 = 0x80), HasPassword311 := (flags AND 0x40 = 0x40),
               WillRetain311 := (flags AND 0x20 = 0x20), WillQos311 := drop_bit 3 (flags AND 0x18),
               WillFlag311 := (flags AND 0x04 = 0x04), CleanSession311 := (flags AND 0x02 = 0x02),
               ReservedBit311 := (flags AND 0x01 = 0x01), KeepAliveSeconds311 := ka,
               ClientIdentifier311 := cid\<rparr>"
    and o1: "(if WillFlag311 p1 then bindd DecodeString (\<lambda>willTopic. bindd DecodeBytes (\<lambda>willMessage.
        retd (p1\<lparr>WillTopic311 := willTopic, WillMessage311 := willMessage\<rparr>))) else retd p1) r5 = Inr (p2, r6)"
    and o2: "(if HasUsername311 p2 then bindd DecodeString (\<lambda>username. retd (p2\<lparr>Username311 := username\<rparr>))
        else retd p2) r6 = Inr (p3, r7)"
    and o3: "(if HasPassword311 p3 then bindd DecodeBytes (\<lambda>password. retd (p3\<lparr>Password311 := password\<rparr>))
        else retd p3) r7 = Inr (p, r')"
    unfolding Unpack_Connect311_def Let_def bindd_eq_Inr [of _ _ "Reader bs e"] by (simp only: bindd_eq_Inr) metis
  from o1 obtain t m where p2: "p2 = p1\<lparr>WillTopic311 := t, WillMessage311 := m\<rparr>"
      "rd_data r5 = (if WillFlag311 p1 then EncodeString t @ EncodeBytes m else []) @ rd_data r6"
      "if WillFlag311 p1 then length t < 65536 \<and> length m < 65536 else t = WillTopic311 p1 \<and> m = WillMessage311 p1"
    by (rule Unpack_Connect311_will)
  from o2 obtain u where p3: "p3 = p2\<lparr>Username311 := u\<rparr>"
      "rd_data r6 = (if HasUsername311 p2 then EncodeString u else []) @ rd_data r7"
      "if HasUsername311 p2 then length u < 65536 else u = Username311 p2"
    by (rule Unpack_Connect311_username)
  from o3 obtain w where p: "p = p3\<lparr>Password311 := w\<rparr>"
      "rd_data r7 = (if HasPassword311 p3 then EncodeBytes w else []) @ rd_data r'"
      "if HasPassword311 p3 then length w < 65536 else w = Password311 p3"
    by (rule Unpack_Connect311_password)
  have old: "WillTopic311 p1 = WillTopic311 p0" "WillMessage311 p1 = WillMessage311 p0"
      "Username311 p2 = Username311 p0" "Password311 p3 = Password311 p0"
      "HasUsername311 p2 = HasUsername311 p1" "HasPassword311 p3 = HasPassword311 p1"
    by (simp_all add: p2(1) p3(1)) (simp_all add: p1)
  show thesis
    using f p2(2,3) p3(2,3) p(2,3) unfolding old
    by (intro that [OF p1]) (simp_all only: field_iffs reader.sel p(1) p3(1) p2(1) append.assoc append.simps)
qed

text \<open>A packet whose reserved flag is cleared is written with the same body, and can be sent.\<close>

lemma body_Connect311_cleared [simp]: "body_Connect311 (p\<lparr>ReservedBit311 := b\<rparr>) = body_Connect311 p"
  by (simp add: body_Connect311_def getConnectFlags311_def)

lemma Unpack_Connect311_cleared:
  assumes "header_ok fh" and "Unpack_Connect311 (new_Connect311 fh) (Reader bs e) = Inr (p, r')"
  shows "FixedHeader.truncate p = fh \<and> length (body_Connect311 p) \<le> length bs \<and>
      ok_Connect311 (p\<lparr>ReservedBit311 := False\<rparr>)"
proof -
  from assms(2) obtain name ver flags ka cid t m u w p1 where
    p1: "p1 = (new_Connect311 fh)\<lparr>ProtocolName311 := name, ProtocolLevel311 := ver,
               HasUsername311 := (flags AND 0x80 = 0x80), HasPassword311 := (flags AND 0x40 = 0x40),
               WillRetain311 := (flags AND 0x20 = 0x20), WillQos311 := drop_bit 3 (flags AND 0x18),
               WillFlag311 := (flags AND 0x04 = 0x04), CleanSession311 := (flags AND 0x02 = 0x02),
               ReservedBit311 := (flags AND 0x01 = 0x01), KeepAliveSeconds311 := ka,
               ClientIdentifier311 := cid\<rparr>"
    and p: "p = p1\<lparr>WillTopic311 := t, WillMessage311 := m, Username311 := u, Password311 := w\<rparr>"
    and bs: "bs = EncodeString name @ ver # flags # EncodeUint16 ka @ EncodeString cid @
          (if WillFlag311 p1 then EncodeString t @ EncodeBytes m else []) @
          (if HasUsername311 p1 then EncodeString u else []) @
          (if HasPassword311 p1 then EncodeBytes w else []) @ rd_data r'"
    and fields: "length name < 65536" "length cid < 65536"
      "if WillFlag311 p1 then length t < 65536 \<and> length m < 65536 else t = WillTopic311 (new_Connect311 fh) \<and> m = WillMessage311 (new_Connect311 fh)"
      "if HasUsername311 p1 then length u < 65536 else u = Username311 (new_Connect311 fh)"
      "if HasPassword311 p1 then length w < 65536 else w = Password311 (new_Connect311 fh)"
    by (rule Unpack_Connect311_eq_InrE)
  have new: "FixedHeader.truncate p1 = fh" "WillQos311 p1 < 4" "ProtocolName311 p1 = name"
      "ClientIdentifier311 p1 = cid"
    by (simp_all add: p1 new_Connect311_def FixedHeader.truncate_def FixedHeader.extend_def
        ConnectPacket311.fields_def will_qos_less del: and_zero_eq drop_bit_and)
  have zero: "WillTopic311 (new_Connect311 fh) = []" "WillMessage311 (new_Connect311 fh) = []"
      "Username311 (new_Connect311 fh) = []" "Password311 (new_Connect311 fh) = []"
    by (simp_all add: new_Connect311_def FixedHeader.extend_def ConnectPacket311.fields_def)
  from new(1) have hd: "FixedHeader.truncate p = fh" "MessageType p1 = MessageType fh" "Qos p1 = Qos fh"
    by (auto simp: p FixedHeader.truncate_def)
  have len: "length (body_Connect311 p) \<le> length bs"
    unfolding bs by (simp add: body_Connect311_def p new)
  from fields assms(1) have "ok_Connect311 (p\<lparr>ReservedBit311 := False\<rparr>)"
    unfolding zero by (simp add: ok_Connect311_def header_ok_def hd p new)
  with hd(1) len show ?thesis
    by simp
qed

lemma Unpack_Connect311_ok:
  assumes "header_ok fh" and "Unpack_Connect311 (new_Connect311 fh) (Reader bs e) = Inr (p, r')"
  shows "FixedHeader.truncate p = fh \<and> length (body_Connect311 p) \<le> length bs \<and>
      (\<not> ReservedBit311 p \<longrightarrow> ok_Connect311 p)"
proof -
  have same: "p\<lparr>ReservedBit311 := False\<rparr> = p" if "\<not> ReservedBit311 p"
    using that by simp
  show ?thesis
    using Unpack_Connect311_cleared [OF assms] by (metis same)
qed

text \<open>The packet's protocol level stands right after the protocol name.\<close>

lemma Unpack_Connect311_level:
  assumes "Unpack_Connect311 p (Reader bs e) = Inr (q, r')"
  obtains name s where "bs = EncodeString name @ ProtocolLevel311 q # s" and "length name < 65536"
  using assms by (rule Unpack_Connect311_eq_InrE) auto

interpretation connect311: packet_format new_Connect311 Unpack_Connect311 Write_Connect311
    body_Connect311 ok_Connect311 "\<lambda>p. \<not> ReservedBit311 p"
proof unfold_locales
  fix p assume ok: "ok_Connect311 p"
  then show "MessageType p < 16 \<and> Qos p < 4 \<and> int (length (body_Connect311 p)) \<le> maxRemainingLength"
    by (auto simp: ok_Connect311_def body_Connect311_def maxRemainingLength_def)
  show "Write_Connect311 p = (p\<lparr>RemainingLength := int (length (body_Connect311 p))\<rparr>,
      Pack (p\<lparr>RemainingLength := int (length (body_Connect311 p))\<rparr>) @ body_Connect311 p)"
    by (simp add: Write_Connect311_def Let_def)
  show "Unpack_Connect311 (new_Connect311 (FixedHeader.truncate (p\<lparr>RemainingLength := int (length (body_Connect311 p))\<rparr>)))
      (Reader (body_Connect311 p) EOF) =
    Inr (p\<lparr>RemainingLength := int (length (body_Connect311 p))\<rparr>, Reader [] EOF)"
    using ok
    by (simp add: ok_Connect311_def Unpack_Connect311_def body_Connect311_def codec_simps
        getConnectFlags311_fields getConnectFlags311_WillQos new_Connect311_def FixedHeader.truncate_def
        FixedHeader.extend_def Let_def ConnectPacket311.fields_def)
qed (rule Unpack_Connect311_ok)

end
