(* ===== verification/V311_Packets.thy ===== *)
theory V311_Packets
  imports Framing
begin

text \<open>
  The packets of MQTT 3.1.1 other than CONNECT (pkg/mqtt/codec/v311): for each its record, \<open>Write\<close>
  and \<open>Unpack\<close>, the body \<open>Write\<close> sends, the packets \<open>Write\<close> can send, and the interpretation of
  \<open>packet_format\<close>, which relates the two.
\<close>

section \<open>CONNACK (connack.go)\<close>

record ConnackPacket311 = FixedHeader +
  SessionPresent311 :: bool
  ReturnCode311 :: byte

definition Name_Connack311 :: "ConnackPacket311 \<Rightarrow> string" where
  "Name_Connack311 p = ''CONNACK''"

definition getConnAckFlags311 :: "ConnackPacket311 \<Rightarrow> byte" where
  "getConnAckFlags311 p = (if SessionPresent311 p then 0x01 else 0x00)"

definition body_Connack311 :: "ConnackPacket311 \<Rightarrow> byte list" where
  "body_Connack311 p = [getConnAckFlags311 p, ReturnCode311 p]"

definition Write_Connack311 :: "ConnackPacket311 \<Rightarrow> ConnackPacket311 \<times> byte list" where
  "Write_Connack311 p =
     (let p' = p\<lparr>RemainingLength := 2\<rparr>
      in (p', Pack p' @ [getConnAckFlags311 p'] @ [ReturnCode311 p']))"

definition Unpack_Connack311 :: "ConnackPacket311 \<Rightarrow> ConnackPacket311 decoder" where
  "Unpack_Connack311 p =
     bindd DecodeByte (\<lambda>connAckFlags.
     bindd DecodeByte (\<lambda>returnCode.
     retd (p\<lparr>SessionPresent311 := (connAckFlags AND 0x01 = 0x01), ReturnCode311 := returnCode\<rparr>)))"

definition new_Connack311 :: "FixedHeader \<Rightarrow> ConnackPacket311" where
  "new_Connack311 fh = FixedHeader.extend fh (ConnackPacket311.fields False 0)"

definition ok_Connack311 :: "ConnackPacket311 \<Rightarrow> bool" where
  "ok_Connack311 p \<longleftrightarrow> MessageType p < 16 \<and> Qos p < 4"

lemma getConnAckFlags311_field: "getConnAckFlags311 p AND 0x01 = 0x01 \<longleftrightarrow> SessionPresent311 p"
  by (simp add: getConnAckFlags311_def)

interpretation connack311: packet_format new_Connack311 Unpack_Connack311 Write_Connack311
    body_Connack311 ok_Connack311 "\<lambda>_. True"
  by unfold_locales
    (auto simp: ok_Connack311_def body_Connack311_def Write_Connack311_def Unpack_Connack311_def
      new_Connack311_def getConnAckFlags311_def FixedHeader.defs ConnackPacket311.defs
      maxRemainingLength_def header_ok_def Let_def codec_simps decoder_cases field_iffs)

section \<open>PUBLISH (publish.go)\<close>

record PublishPacket311 = FixedHeader +
  TopicName311 :: string
  Publish_MessageID311 :: u16
  Message311 :: "byte list"

definition Name_Publish311 :: "PublishPacket311 \<Rightarrow> string" where
  "Name_Publish311 c = ''PUBLISH''"

definition head_Publish311 :: "PublishPacket311 \<Rightarrow> byte list" where
  "head_Publish311 p =
     EncodeString (TopicName311 p) @ (if Qos p > 0 then EncodeUint16 (Publish_MessageID311 p) else [])"

definition body_Publish311 :: "PublishPacket311 \<Rightarrow> byte list" where
  "body_Publish311 p = head_Publish311 p @ Message311 p"

definition Write_Publish311 :: "PublishPacket311 \<Rightarrow> PublishPacket311 \<times> byte list" where
  "Write_Publish311 p =
     (let body = head_Publish311 p;
          p' = p\<lparr>RemainingLength := int (length body) + int (length (Message311 p))\<rparr>
      in (p', Pack p' @ body @ Message311 p'))"

text \<open>The \<open>CountingReader\<close> counts what the reader \<open>r\<close> delivered up to the message.\<close>

definition Unpack_Publish311 :: "PublishPacket311 \<Rightarrow> PublishPacket311 decoder" where
  "Unpack_Publish311 p r =
     (case bindd DecodeString (\<lambda>topicName.
           let p = p\<lparr>TopicName311 := topicName\<rparr>
           in if Qos p > 0
              then bindd DecodeUint16 (\<lambda>messageID. retd (p\<lparr>Publish_MessageID311 := messageID\<rparr>))
              else retd p) r of
        Inl e \<Rightarrow> Inl e
      | Inr (p, cr) \<Rightarrow>
          let payloadLength = RemainingLength p - int (delivered r cr)
          in if payloadLength < 0
             then Inl (Errorf ''error unpacking publish, payload length < 0'' [])
             else bindd (read_full (nat payloadLength)) (\<lambda>message. retd (p\<lparr>Message311 := message\<rparr>)) cr)"

definition new_Publish311 :: "FixedHeader \<Rightarrow> PublishPacket311" where
  "new_Publish311 fh = FixedHeader.extend fh (PublishPacket311.fields [] 0 [])"

definition ok_Publish311 :: "PublishPacket311 \<Rightarrow> bool" where
  "ok_Publish311 p \<longleftrightarrow>
     MessageType p < 16 \<and> Qos p < 4 \<and> length (TopicName311 p) < 65536 \<and>
     (Qos p = 0 \<longrightarrow> Publish_MessageID311 p = 0) \<and>
     int (length (body_Publish311 p)) \<le> maxRemainingLength"

lemma Unpack_Publish311_ok:
  assumes fh: "header_ok fh" "RemainingLength fh = int (length bs)"
    and "Unpack_Publish311 (new_Publish311 fh) (Reader bs EOF) = Inr (p, r')"
  shows "FixedHeader.truncate p = fh \<and> length (body_Publish311 p) \<le> length bs \<and>
      (True \<longrightarrow> ok_Publish311 p)"
proof -
  define p0 where "p0 = new_Publish311 fh"
  have new: "FixedHeader.truncate p0 = fh" "Publish_MessageID311 p0 = 0" "Qos p0 = Qos fh" "RemainingLength p0 = RemainingLength fh"
    by (simp_all add: p0_def new_Publish311_def FixedHeader.defs PublishPacket311.defs)
  from assms(3) obtain t r1 p1 cr m
    where t: "DecodeString (Reader bs EOF) = Inr (t, r1)"
      and p1: "(if 0 < Qos p0 then bindd DecodeUint16 (\<lambda>messageID. retd (p0\<lparr>TopicName311 := t, Publish_MessageID311 := messageID\<rparr>))
           else retd (p0\<lparr>TopicName311 := t\<rparr>)) r1 = Inr (p1, cr)"
      and m: "read_full (nat (RemainingLength p1 - int (delivered (Reader bs EOF) cr))) cr = Inr (m, r')"
      and p: "p = p1\<lparr>Message311 := m\<rparr>"
    by (auto simp: Unpack_Publish311_def p0_def [symmetric] decoder_cases Let_def split: sum.splits if_splits)
  from p1 obtain mid where mid: "p1 = p0\<lparr>TopicName311 := t, Publish_MessageID311 := mid\<rparr>"
      "rd_data r1 = (if 0 < Qos fh then EncodeUint16 mid else []) @ rd_data cr" "Qos fh = 0 \<longrightarrow> mid = 0"
  proof (cases "0 < Qos fh")
    case True
    with p1 obtain mid where "p1 = p0\<lparr>TopicName311 := t, Publish_MessageID311 := mid\<rparr>"
        "rd_data r1 = EncodeUint16 mid @ rd_data cr"
      by (auto simp: decoder_cases field_iffs new)
    with True show ?thesis
      by (intro that [of mid]) auto
  next
    case False
    moreover have "p0\<lparr>TopicName311 := t\<rparr> = p0\<lparr>TopicName311 := t, Publish_MessageID311 := 0\<rparr>"
      using new(2) by (cases p0) simp
    ultimately show ?thesis
      using p1 that [of 0] by (simp add: decoder_cases new)
  qed
  from t have bs: "length t < 65536" "bs = EncodeString t @ rd_data r1"
    by (simp_all add: field_iffs)
  from m have m: "rd_data cr = m @ rd_data r'"
    by (simp add: read_full_eq_Inr)
  from new(1) have hd: "FixedHeader.truncate p = fh" "MessageType p = MessageType fh" "Qos p = Qos fh"
    by (auto simp: p mid(1) FixedHeader.truncate_def)
  have "length (body_Publish311 p) \<le> length bs"
    unfolding bs(2) mid(2) m by (simp add: body_Publish311_def head_Publish311_def p mid(1) new)
  with hd fh bs(1) mid(3) show ?thesis
    by (simp add: ok_Publish311_def header_ok_def) (simp add: p mid(1))
qed

interpretation publish311: packet_format new_Publish311 Unpack_Publish311 Write_Publish311
    body_Publish311 ok_Publish311 "\<lambda>_. True"
proof unfold_locales
  fix p assume ok: "ok_Publish311 p"
  show "Unpack_Publish311 (new_Publish311 (FixedHeader.truncate (p\<lparr>RemainingLength := int (length (body_Publish311 p))\<rparr>)))
      (Reader (body_Publish311 p) EOF) =
    Inr (p\<lparr>RemainingLength := int (length (body_Publish311 p))\<rparr>, Reader [] EOF)"
    using ok
    by (cases p) (simp add: ok_Publish311_def Unpack_Publish311_def body_Publish311_def head_Publish311_def
        codec_simps new_Publish311_def FixedHeader.defs PublishPacket311.defs delivered_def word_greater_zero_iff)
next
  fix fh bs p r'
  assume fh: "header_ok fh" "RemainingLength fh = int (length bs)"
    and "Unpack_Publish311 (new_Publish311 fh) (Reader bs EOF) = Inr (p, r')"
  then show "FixedHeader.truncate p = fh \<and> length (body_Publish311 p) \<le> length bs \<and>
      (True \<longrightarrow> ok_Publish311 p)"
    by (intro Unpack_Publish311_ok)
qed (simp_all add: ok_Publish311_def Write_Publish311_def body_Publish311_def Let_def)

section \<open>PUBACK (puback.go)\<close>

record PubackPacket311 = FixedHeader +
  Puback_MessageID311 :: u16

definition Name_Puback311 :: "PubackPacket311 \<Rightarrow> string" where
  "Name_Puback311 p = ''PUBACK''"

definition body_Puback311 :: "PubackPacket311 \<Rightarrow> byte list" where
  "body_Puback311 p = EncodeUint16 (Puback_MessageID311 p)"

definition Write_Puback311 :: "PubackPacket311 \<Rightarrow> PubackPacket311 \<times> byte list" where
  "Write_Puback311 p =
     (let p' = p\<lparr>RemainingLength := 2\<rparr>
      in (p', Pack p' @ EncodeUint16 (Puback_MessageID311 p')))"

definition Unpack_Puback311 :: "PubackPacket311 \<Rightarrow> PubackPacket311 decoder" where
  "Unpack_Puback311 p =
     bindd DecodeUint16 (\<lambda>messageID. retd (p\<lparr>Puback_MessageID311 := messageID\<rparr>))"

definition new_Puback311 :: "FixedHeader \<Rightarrow> PubackPacket311" where
  "new_Puback311 fh = FixedHeader.extend fh (PubackPacket311.fields 0)"

definition ok_Puback311 :: "PubackPacket311 \<Rightarrow> bool" where
  "ok_Puback311 p \<longleftrightarrow> MessageType p < 16 \<and> Qos p < 4"

interpretation puback311: packet_format new_Puback311 Unpack_Puback311 Write_Puback311
    body_Puback311 ok_Puback311 "\<lambda>_. True"
  by unfold_locales
    (auto simp: ok_Puback311_def body_Puback311_def Write_Puback311_def Unpack_Puback311_def new_Puback311_def
      FixedHeader.defs PubackPacket311.defs maxRemainingLength_def header_ok_def Let_def codec_simps
      decoder_cases field_iffs)

section \<open>PUBREC (pubrec.go)\<close>

record PubrecPacket311 = FixedHeader +
  Pubrec_MessageID311 :: u16

definition Name_Pubrec311 :: "PubrecPacket311 \<Rightarrow> string" where
  "Name_Pubrec311 p = ''PUBREC''"

definition body_Pubrec311 :: "PubrecPacket311 \<Rightarrow> byte list" where
  "body_Pubrec311 p = EncodeUint16 (Pubrec_MessageID311 p)"

definition Write_Pubrec311 :: "PubrecPacket311 \<Rightarrow> PubrecPacket311 \<times> byte list" where
  "Write_Pubrec311 p =
     (let p' = p\<lparr>RemainingLength := 2\<rparr>
      in (p', Pack p' @ EncodeUint16 (Pubrec_MessageID311 p')))"

definition Unpack_Pubrec311 :: "PubrecPacket311 \<Rightarrow> PubrecPacket311 decoder" where
  "Unpack_Pubrec311 p =
     bindd DecodeUint16 (\<lambda>messageID. retd (p\<lparr>Pubrec_MessageID311 := messageID\<rparr>))"

definition new_Pubrec311 :: "FixedHeader \<Rightarrow> PubrecPacket311" where
  "new_Pubrec311 fh = FixedHeader.extend fh (PubrecPacket311.fields 0)"

definition ok_Pubrec311 :: "PubrecPacket311 \<Rightarrow> bool" where
  "ok_Pubrec311 p \<longleftrightarrow> MessageType p < 16 \<and> Qos p < 4"

interpretation pubrec311: packet_format new_Pubrec311 Unpack_Pubrec311 Write_Pubrec311
    body_Pubrec311 ok_Pubrec311 "\<lambda>_. True"
  by unfold_locales
    (auto simp: ok_Pubrec311_def body_Pubrec311_def Write_Pubrec311_def Unpack_Pubrec311_def new_Pubrec311_def
      FixedHeader.defs PubrecPacket311.defs maxRemainingLength_def header_ok_def Let_def codec_simps
      decoder_cases field_iffs)

section \<open>PUBREL (pubrel.go)\<close>

record PubrelPacket311 = FixedHeader +
  Pubrel_MessageID311 :: u16

definition Name_Pubrel311 :: "PubrelPacket311 \<Rightarrow> string" where
  "Name_Pubrel311 p = ''PUBREL''"

definition body_Pubrel311 :: "PubrelPacket311 \<Rightarrow> byte list" where
  "body_Pubrel311 p = EncodeUint16 (Pubrel_MessageID311 p)"

definition Write_Pubrel311 :: "PubrelPacket311 \<Rightarrow> PubrelPacket311 \<times> byte list" where
  "Write_Pubrel311 p =
     (let p' = p\<lparr>RemainingLength := 2\<rparr>
      in (p', Pack p' @ EncodeUint16 (Pubrel_MessageID311 p')))"

definition Unpack_Pubrel311 :: "PubrelPacket311 \<Rightarrow> PubrelPacket311 decoder" where
  "Unpack_Pubrel311 p =
     bindd DecodeUint16 (\<lambda>messageID. retd (p\<lparr>Pubrel_MessageID311 := messageID\<rparr>))"

definition new_Pubrel311 :: "FixedHeader \<Rightarrow> PubrelPacket311" where
  "new_Pubrel311 fh = FixedHeader.extend fh (PubrelPacket311.fields 0)"

definition ok_Pubrel311 :: "PubrelPacket311 \<Rightarrow> bool" where
  "ok_Pubrel311 p \<longleftrightarrow> MessageType p < 16 \<and> Qos p < 4"

interpretation pubrel311: packet_format new_Pubrel311 Unpack_Pubrel311 Write_Pubrel311
    body_Pubrel311 ok_Pubrel311 "\<lambda>_. True"
  by unfold_locales
    (auto simp: ok_Pubrel311_def body_Pubrel311_def Write_Pubrel311_def Unpack_Pubrel311_def new_Pubrel311_def
      FixedHeader.defs PubrelPacket311.defs maxRemainingLength_def header_ok_def Let_def codec_simps
      decoder_cases field_iffs)

section \<open>PUBCOMP (pubcomp.go)\<close>

record PubcompPacket311 = FixedHeader +
  Pubcomp_MessageID311 :: u16

definition Name_Pubcomp311 :: "PubcompPacket311 \<Rightarrow> string" where
  "Name_Pubcomp311 p = ''PUBCOMP''"

definition body_Pubcomp311 :: "PubcompPacket311 \<Rightarrow> byte list" where
  "body_Pubcomp311 p = EncodeUint16 (Pubcomp_MessageID311 p)"

definition Write_Pubcomp311 :: "PubcompPacket311 \<Rightarrow> PubcompPacket311 \<times> byte list" where
  "Write_Pubcomp311 p =
     (let p' = p\<lparr>RemainingLength := 2\<rparr>
      in (p', Pack p' @ EncodeUint16 (Pubcomp_MessageID311 p')))"

definition Unpack_Pubcomp311 :: "PubcompPacket311 \<Rightarrow> PubcompPacket311 decoder" where
  "Unpack_Pubcomp311 p =
     bindd DecodeUint16 (\<lambda>messageID. retd (p\<lparr>Pubcomp_MessageID311 := messageID\<rparr>))"

definition new_Pubcomp311 :: "FixedHeader \<Rightarrow> PubcompPacket311" where
  "new_Pubcomp311 fh = FixedHeader.extend fh (PubcompPacket311.fields 0)"

definition ok_Pubcomp311 :: "PubcompPacket311 \<Rightarrow> bool" where
  "ok_Pubcomp311 p \<longleftrightarrow> MessageType p < 16 \<and> Qos p < 4"

interpretation pubcomp311: packet_format new_Pubcomp311 Unpack_Pubcomp311 Write_Pubcomp311
    body_Pubcomp311 ok_Pubcomp311 "\<lambda>_. True"
  by unfold_locales
    (auto simp: ok_Pubcomp311_def body_Pubcomp311_def Write_Pubcomp311_def Unpack_Pubcomp311_def new_Pubcomp311_def
      FixedHeader.defs PubcompPacket311.defs maxRemainingLength_def header_ok_def Let_def codec_simps
      decoder_cases field_iffs)

section \<open>SUBSCRIBE (subscribe.go)\<close>

record TopicSubscription =
  TopicFilter :: string
  TopicQos :: byte

record SubscribePacket311 = FixedHeader +
  Subscribe_MessageID311 :: u16
  TopicSubscriptions311 :: "TopicSubscription list"

definition Name_Subscribe311 :: "SubscribePacket311 \<Rightarrow> string" where
  "Name_Subscribe311 p = ''SUBSCRIBE''"

definition EncodeTopicSubscription :: "TopicSubscription \<Rightarrow> byte list" where
  "EncodeTopicSubscription ts = EncodeString (TopicFilter ts) @ [TopicQos ts]"

definition body_Subscribe311 :: "SubscribePacket311 \<Rightarrow> byte list" where
  "body_Subscribe311 p =
     EncodeUint16 (Subscribe_MessageID311 p) @ concat (map EncodeTopicSubscription (TopicSubscriptions311 p))"

definition Write_Subscribe311 :: "SubscribePacket311 \<Rightarrow> SubscribePacket311 \<times> byte list" where
  "Write_Subscribe311 p =
     (let body = body_Subscribe311 p;
          p' = p\<lparr>RemainingLength := int (length body)\<rparr>
      in (p', Pack p' @ body))"

text \<open>The loop of \<open>Unpack\<close>: the remaining payload length, the subscriptions so far, the reader.\<close>

function Unpack_Subscribe_loop :: "int \<Rightarrow> TopicSubscription list \<Rightarrow> TopicSubscription list decoder" where
  "Unpack_Subscribe_loop payloadLength tss b =
     (if payloadLength > 0 then
        (case DecodeString b of
           Inl e \<Rightarrow> Inl e
         | Inr (topicFilter, b) \<Rightarrow>
             (case DecodeByte b of
                Inl e \<Rightarrow> Inl e
              | Inr (qos, b) \<Rightarrow>
                  Unpack_Subscribe_loop (payloadLength - (3 + int (length topicFilter)))
                    (tss @ [\<lparr>TopicFilter = topicFilter, TopicQos = qos\<rparr>]) b))
      else Inr (tss, b))"
  by pat_completeness auto
termination
  by (relation "measure (\<lambda>(payloadLength, tss, b). nat payloadLength)") auto

declare Unpack_Subscribe_loop.simps [simp del]

definition Unpack_Subscribe311 :: "SubscribePacket311 \<Rightarrow> SubscribePacket311 decoder" where
  "Unpack_Subscribe311 p =
     bindd DecodeUint16 (\<lambda>messageID.
     bindd (Unpack_Subscribe_loop (RemainingLength p - 2) (TopicSubscriptions311 p)) (\<lambda>tss.
     retd (p\<lparr>Subscribe_MessageID311 := messageID, TopicSubscriptions311 := tss\<rparr>)))"

definition new_Subscribe311 :: "FixedHeader \<Rightarrow> SubscribePacket311" where
  "new_Subscribe311 fh = FixedHeader.extend fh (SubscribePacket311.fields 0 [])"

definition ok_Subscribe311 :: "SubscribePacket311 \<Rightarrow> bool" where
  "ok_Subscribe311 p \<longleftrightarrow>
     MessageType p < 16 \<and> Qos p < 4 \<and> (\<forall>ts\<in>set (TopicSubscriptions311 p). length (TopicFilter ts) < 65536) \<and>
     int (length (body_Subscribe311 p)) \<le> maxRemainingLength"

lemma length_EncodeTopicSubscription [simp]:
  "length (EncodeTopicSubscription ts) = 3 + length (TopicFilter ts)"
  by (simp add: EncodeTopicSubscription_def)

lemma Unpack_Subscribe_loop_encode:
  assumes "\<forall>ts\<in>set tss. length (TopicFilter ts) < 65536"
  shows "Unpack_Subscribe_loop (int (length (concat (map EncodeTopicSubscription tss)))) acc
           (Reader (concat (map EncodeTopicSubscription tss) @ rest) e) = Inr (acc @ tss, Reader rest e)"
  using assms
proof (induction tss arbitrary: acc)
  case Nil
  show ?case
    by (simp add: Unpack_Subscribe_loop.simps)
next
  case (Cons ts tss)
  let ?b = "concat (map EncodeTopicSubscription tss)"
  have "int (length (concat (map EncodeTopicSubscription (ts # tss)))) - (3 + int (length (TopicFilter ts))) =
      int (length ?b)"
    by simp
  with Cons show ?case
    by (subst Unpack_Subscribe_loop.simps) (simp add: EncodeTopicSubscription_def [of ts] codec_simps)
qed

lemma Unpack_Subscribe_loop_eq_InrE:
  assumes "Unpack_Subscribe_loop n acc r = Inr (tss', r')"
  obtains tss where "tss' = acc @ tss" and "rd_data r = concat (map EncodeTopicSubscription tss) @ rd_data r'"
    and "rd_err r' = rd_err r" and "\<forall>ts\<in>set tss. length (TopicFilter ts) < 65536"
  using assms
proof (induction n acc r arbitrary: thesis rule: Unpack_Subscribe_loop.induct)
  case (1 n acc r)
  show ?case
  proof (cases "n > 0")
    case False
    with "1.prems" show ?thesis
      by (simp add: Unpack_Subscribe_loop.simps [of n])
  next
    case True
    with "1.prems"(2) obtain tf r1 q r2 where f: "DecodeString r = Inr (tf, r1)" "DecodeByte r1 = Inr (q, r2)"
      and loop: "Unpack_Subscribe_loop (n - (3 + int (length tf)))
          (acc @ [\<lparr>TopicFilter = tf, TopicQos = q\<rparr>]) r2 = Inr (tss', r')"
      by (auto simp: Unpack_Subscribe_loop.simps [of n] split: sum.splits)
    from "1.IH" [OF True f(1) refl f(2) refl _ loop] obtain tss
      where "tss' = acc @ \<lparr>TopicFilter = tf, TopicQos = q\<rparr> # tss"
        "rd_data r2 = concat (map EncodeTopicSubscription tss) @ rd_data r'" "rd_err r' = rd_err r2"
        "\<forall>ts\<in>set tss. length (TopicFilter ts) < 65536"
      by auto
    with f show ?thesis
      by (intro "1.prems"(1) [of "\<lparr>TopicFilter = tf, TopicQos = q\<rparr> # tss"])
        (auto simp: field_iffs EncodeTopicSubscription_def [of "\<lparr>TopicFilter = tf, TopicQos = q\<rparr>"])
  qed
qed

interpretation subscribe311: packet_format new_Subscribe311 Unpack_Subscribe311 Write_Subscribe311
    body_Subscribe311 ok_Subscribe311 "\<lambda>_. True"
proof unfold_locales
  fix p assume ok: "ok_Subscribe311 p"
  let ?b = "concat (map EncodeTopicSubscription (TopicSubscriptions311 p))"
  from ok have "Unpack_Subscribe_loop (int (length ?b)) [] (Reader (?b @ []) EOF) =
      Inr ([] @ TopicSubscriptions311 p, Reader [] EOF)"
    by (intro Unpack_Subscribe_loop_encode) (simp add: ok_Subscribe311_def)
  then show "Unpack_Subscribe311 (new_Subscribe311 (FixedHeader.truncate (p\<lparr>RemainingLength := int (length (body_Subscribe311 p))\<rparr>)))
      (Reader (body_Subscribe311 p) EOF) =
    Inr (p\<lparr>RemainingLength := int (length (body_Subscribe311 p))\<rparr>, Reader [] EOF)"
    by (simp add: Unpack_Subscribe311_def body_Subscribe311_def new_Subscribe311_def FixedHeader.defs
        SubscribePacket311.defs codec_simps del: length_concat)
next
  fix fh bs p r'
  assume fh: "header_ok fh" "RemainingLength fh = int (length bs)"
    and "Unpack_Subscribe311 (new_Subscribe311 fh) (Reader bs EOF) = Inr (p, r')"
  then obtain mid r1 tss where mid: "DecodeUint16 (Reader bs EOF) = Inr (mid, r1)"
    and loop: "Unpack_Subscribe_loop (RemainingLength fh - 2) [] r1 = Inr (tss, r')"
    and p: "p = (new_Subscribe311 fh)\<lparr>Subscribe_MessageID311 := mid, TopicSubscriptions311 := tss\<rparr>"
    by (auto simp: Unpack_Subscribe311_def decoder_cases new_Subscribe311_def FixedHeader.defs SubscribePacket311.defs)
  from loop have "rd_data r1 = concat (map EncodeTopicSubscription tss) @ rd_data r'"
      "\<forall>ts\<in>set tss. length (TopicFilter ts) < 65536"
    by (auto elim: Unpack_Subscribe_loop_eq_InrE)
  with fh mid show "FixedHeader.truncate p = fh \<and> length (body_Subscribe311 p) \<le> length bs \<and>
      (True \<longrightarrow> ok_Subscribe311 p)"
    by (auto simp: p ok_Subscribe311_def body_Subscribe311_def field_iffs new_Subscribe311_def FixedHeader.defs
        SubscribePacket311.defs header_ok_def)
qed (simp_all add: ok_Subscribe311_def Write_Subscribe311_def Let_def)

section \<open>SUBACK (suback.go)\<close>

record SubackPacket311 = FixedHeader +
  Suback_MessageID311 :: u16
  ReturnCodes311 :: "byte list"

definition Name_Suback311 :: "SubackPacket311 \<Rightarrow> string" where
  "Name_Suback311 p = ''SUBACK''"

definition body_Suback311 :: "SubackPacket311 \<Rightarrow> byte list" where
  "body_Suback311 p = EncodeUint16 (Suback_MessageID311 p) @ ReturnCodes311 p"

definition Write_Suback311 :: "SubackPacket311 \<Rightarrow> SubackPacket311 \<times> byte list" where
  "Write_Suback311 p =
     (let body = body_Suback311 p;
          p' = p\<lparr>RemainingLength := int (length body)\<rparr>
      in (p', Pack p' @ body))"

text \<open>The body of the loop returns, so it runs at most once.\<close>

definition Unpack_Suback311 :: "SubackPacket311 \<Rightarrow> SubackPacket311 decoder" where
  "Unpack_Suback311 p =
     bindd DecodeUint16 (\<lambda>messageID.
     let p = p\<lparr>Suback_MessageID311 := messageID\<rparr>;
         payloadLength = RemainingLength p - 2
     in if payloadLength > 0
        then bindd (read_full (nat payloadLength)) (\<lambda>codes. retd (p\<lparr>ReturnCodes311 := codes\<rparr>))
        else retd p)"

definition new_Suback311 :: "FixedHeader \<Rightarrow> SubackPacket311" where
  "new_Suback311 fh = FixedHeader.extend fh (SubackPacket311.fields 0 [])"

definition ok_Suback311 :: "SubackPacket311 \<Rightarrow> bool" where
  "ok_Suback311 p \<longleftrightarrow>
     MessageType p < 16 \<and> Qos p < 4 \<and> int (length (body_Suback311 p)) \<le> maxRemainingLength"

interpretation suback311: packet_format new_Suback311 Unpack_Suback311 Write_Suback311
    body_Suback311 ok_Suback311 "\<lambda>_. True"
proof unfold_locales
  fix p assume ok: "ok_Suback311 p"
  show "Unpack_Suback311 (new_Suback311 (FixedHeader.truncate (p\<lparr>RemainingLength := int (length (body_Suback311 p))\<rparr>)))
      (Reader (body_Suback311 p) EOF) =
    Inr (p\<lparr>RemainingLength := int (length (body_Suback311 p))\<rparr>, Reader [] EOF)"
    using ok
    by (cases p) (simp add: Let_def ok_Suback311_def Unpack_Suback311_def body_Suback311_def codec_simps
        new_Suback311_def FixedHeader.defs SubackPacket311.defs)
next
  fix fh bs p r'
  assume fh: "header_ok fh" "RemainingLength fh = int (length bs)"
    and unp: "Unpack_Suback311 (new_Suback311 fh) (Reader bs EOF) = Inr (p, r')"
  have new: "new_Suback311 fh = \<lparr>MessageType = MessageType fh, Dup = Dup fh, Qos = Qos fh, Retain = Retain fh,
      RemainingLength = RemainingLength fh, Suback_MessageID311 = 0, ReturnCodes311 = []\<rparr>"
    by (simp add: new_Suback311_def FixedHeader.defs SubackPacket311.defs)
  then have rl: "RemainingLength (new_Suback311 fh) = RemainingLength fh"
    by simp
  from unp obtain mid r1 where mid: "DecodeUint16 (Reader bs EOF) = Inr (mid, r1)"
    and tail: "(if RemainingLength fh - 2 > 0
       then bindd (read_full (nat (RemainingLength fh - 2))) (\<lambda>codes.
              retd ((new_Suback311 fh)\<lparr>Suback_MessageID311 := mid, ReturnCodes311 := codes\<rparr>))
       else retd ((new_Suback311 fh)\<lparr>Suback_MessageID311 := mid\<rparr>)) r1 = Inr (p, r')"
    unfolding Unpack_Suback311_def Let_def bindd_eq_Inr [of _ _ "Reader bs EOF"] by (auto simp: rl cong: if_cong)
  from tail obtain codes where p: "p = (new_Suback311 fh)\<lparr>Suback_MessageID311 := mid, ReturnCodes311 := codes\<rparr>"
    and "rd_data r1 = codes @ rd_data r'"
    by (cases "RemainingLength fh - 2 > 0") (auto simp: decoder_cases read_full_eq_Inr new)
  with mid fh show "FixedHeader.truncate p = fh \<and> length (body_Suback311 p) \<le> length bs \<and>
      (True \<longrightarrow> ok_Suback311 p)"
    by (auto simp: ok_Suback311_def body_Suback311_def field_iffs FixedHeader.defs header_ok_def p new)
qed (simp_all add: ok_Suback311_def Write_Suback311_def Let_def)

section \<open>UNSUBSCRIBE (unsubscribe.go)\<close>

record UnsubscribePacket311 = FixedHeader +
  Unsubscribe_MessageID311 :: u16
  TopicFilters311 :: "string list"

definition Name_Unsubscribe311 :: "UnsubscribePacket311 \<Rightarrow> string" where
  "Name_Unsubscribe311 p = ''UNSUBSCRIBE''"

definition body_Unsubscribe311 :: "UnsubscribePacket311 \<Rightarrow> byte list" where
  "body_Unsubscribe311 p =
     EncodeUint16 (Unsubscribe_MessageID311 p) @ concat (map EncodeString (TopicFilters311 p))"

definition Write_Unsubscribe311 :: "UnsubscribePacket311 \<Rightarrow> UnsubscribePacket311 \<times> byte list" where
  "Write_Unsubscribe311 p =
     (let body = body_Unsubscribe311 p;
          p' = p\<lparr>RemainingLength := int (length body)\<rparr>
      in (p', Pack p' @ body))"

function Unpack_Unsubscribe_loop :: "int \<Rightarrow> string list \<Rightarrow> string list decoder" where
  "Unpack_Unsubscribe_loop payloadLength tfs b =
     (if payloadLength > 0 then
        (case DecodeString b of
           Inl e \<Rightarrow> Inl e
         | Inr (topicFilter, b) \<Rightarrow>
             Unpack_Unsubscribe_loop (payloadLength - (2 + int (length topicFilter))) (tfs @ [topicFilter]) b)
      else Inr (tfs, b))"
  by pat_completeness auto
termination
  by (relation "measure (\<lambda>(payloadLength, tfs, b). nat payloadLength)") auto

declare Unpack_Unsubscribe_loop.simps [simp del]

definition Unpack_Unsubscribe311 :: "UnsubscribePacket311 \<Rightarrow> UnsubscribePacket311 decoder" where
  "Unpack_Unsubscribe311 p =
     bindd DecodeUint16 (\<lambda>messageID.
     bindd (Unpack_Unsubscribe_loop (RemainingLength p - 2) (TopicFilters311 p)) (\<lambda>tfs.
     retd (p\<lparr>Unsubscribe_MessageID311 := messageID, TopicFilters311 := tfs\<rparr>)))"

definition new_Unsubscribe311 :: "FixedHeader \<Rightarrow> UnsubscribePacket311" where
  "new_Unsubscribe311 fh = FixedHeader.extend fh (UnsubscribePacket311.fields 0 [])"

definition ok_Unsubscribe311 :: "UnsubscribePacket311 \<Rightarrow> bool" where
  "ok_Unsubscribe311 p \<longleftrightarrow>
     MessageType p < 16 \<and> Qos p < 4 \<and> (\<forall>tf\<in>set (TopicFilters311 p). length tf < 65536) \<and>
     int (length (body_Unsubscribe311 p)) \<le> maxRemainingLength"

lemma Unpack_Unsubscribe_loop_encode:
  assumes "\<forall>tf\<in>set tfs. length tf < 65536"
  shows "Unpack_Unsubscribe_loop (int (length (concat (map EncodeString tfs)))) acc
           (Reader (concat (map EncodeString tfs) @ rest) e) = Inr (acc @ tfs, Reader rest e)"
  using assms
proof (induction tfs arbitrary: acc)
  case Nil
  show ?case
    by (simp add: Unpack_Unsubscribe_loop.simps)
next
  case (Cons tf tfs)
  have "int (length (concat (map EncodeString (tf # tfs)))) - (2 + int (length tf)) =
      int (length (concat (map EncodeString tfs)))"
    by simp
  with Cons show ?case
    by (subst Unpack_Unsubscribe_loop.simps) (simp add: codec_simps)
qed

lemma Unpack_Unsubscribe_loop_eq_InrE:
  assumes "Unpack_Unsubscribe_loop n acc r = Inr (tfs', r')"
  obtains tfs where "tfs' = acc @ tfs" and "rd_data r = concat (map EncodeString tfs) @ rd_data r'"
    and "rd_err r' = rd_err r" and "\<forall>tf\<in>set tfs. length tf < 65536"
  using assms
proof (induction n acc r arbitrary: thesis rule: Unpack_Unsubscribe_loop.induct)
  case (1 n acc r)
  show ?case
  proof (cases "n > 0")
    case False
    with "1.prems" show ?thesis
      by (simp add: Unpack_Unsubscribe_loop.simps [of n])
  next
    case True
    with "1.prems"(2) obtain tf r1 where f: "DecodeString r = Inr (tf, r1)"
      and loop: "Unpack_Unsubscribe_loop (n - (2 + int (length tf))) (acc @ [tf]) r1 = Inr (tfs', r')"
      by (auto simp: Unpack_Unsubscribe_loop.simps [of n] split: sum.splits)
    from "1.IH" [OF True f refl _ loop] obtain tfs where "tfs' = acc @ tf # tfs"
        "rd_data r1 = concat (map EncodeString tfs) @ rd_data r'" "rd_err r' = rd_err r1"
        "\<forall>tf\<in>set tfs. length tf < 65536"
      by auto
    with f show ?thesis
      by (intro "1.prems"(1) [of "tf # tfs"]) (auto simp: field_iffs)
  qed
qed

interpretation unsubscribe311: packet_format new_Unsubscribe311 Unpack_Unsubscribe311 Write_Unsubscribe311
    body_Unsubscribe311 ok_Unsubscribe311 "\<lambda>_. True"
proof unfold_locales
  fix p assume ok: "ok_Unsubscribe311 p"
  let ?b = "concat (map EncodeString (TopicFilters311 p))"
  from ok have "Unpack_Unsubscribe_loop (int (length ?b)) [] (Reader (?b @ []) EOF) =
      Inr ([] @ TopicFilters311 p, Reader [] EOF)"
    by (intro Unpack_Unsubscribe_loop_encode) (simp add: ok_Unsubscribe311_def)
  then show "Unpack_Unsubscribe311 (new_Unsubscribe311 (FixedHeader.truncate (p\<lparr>RemainingLength := int (length (body_Unsubscribe311 p))\<rparr>)))
      (Reader (body_Unsubscribe311 p) EOF) =
    Inr (p\<lparr>RemainingLength := int (length (body_Unsubscribe311 p))\<rparr>, Reader [] EOF)"
    by (simp add: Unpack_Unsubscribe311_def body_Unsubscribe311_def new_Unsubscribe311_def FixedHeader.defs
        UnsubscribePacket311.defs codec_simps del: length_concat)
next
  fix fh bs p r'
  assume fh: "header_ok fh" "RemainingLength fh = int (length bs)"
    and "Unpack_Unsubscribe311 (new_Unsubscribe311 fh) (Reader bs EOF) = Inr (p, r')"
  then obtain mid r1 tfs where mid: "DecodeUint16 (Reader bs EOF) = Inr (mid, r1)"
    and loop: "Unpack_Unsubscribe_loop (RemainingLength fh - 2) [] r1 = Inr (tfs, r')"
    and p: "p = (new_Unsubscribe311 fh)\<lparr>Unsubscribe_MessageID311 := mid, TopicFilters311 := tfs\<rparr>"
    by (auto simp: Unpack_Unsubscribe311_def decoder_cases new_Unsubscribe311_def FixedHeader.defs
        UnsubscribePacket311.defs)
  from loop have "rd_data r1 = concat (map EncodeString tfs) @ rd_data r'"
      "\<forall>tf\<in>set tfs. length tf < 65536"
    by (auto elim: Unpack_Unsubscribe_loop_eq_InrE)
  with fh mid show "FixedHeader.truncate p = fh \<and> length (body_Unsubscribe311 p) \<le> length bs \<and>
      (True \<longrightarrow> ok_Unsubscribe311 p)"
    by (auto simp: p ok_Unsubscribe311_def body_Unsubscribe311_def field_iffs new_Unsubscribe311_def
        FixedHeader.defs UnsubscribePacket311.defs header_ok_def)
qed (simp_all add: ok_Unsubscribe311_def Write_Unsubscribe311_def Let_def)

section \<open>UNSUBACK (unsuback.go)\<close>

record UnsubackPacket311 = FixedHeader +
  Unsuback_MessageID311 :: u16

definition Name_Unsuback311 :: "UnsubackPacket311 \<Rightarrow> string" where
  "Name_Unsuback311 p = ''UNSUBACK''"

definition body_Unsuback311 :: "UnsubackPacket311 \<Rightarrow> byte list" where
  "body_Unsuback311 p = EncodeUint16 (Unsuback_MessageID311 p)"

definition Write_Unsuback311 :: "UnsubackPacket311 \<Rightarrow> UnsubackPacket311 \<times> byte list" where
  "Write_Unsuback311 p =
     (let p' = p\<lparr>RemainingLength := 2\<rparr>
      in (p', Pack p' @ EncodeUint16 (Unsuback_MessageID311 p')))"

definition Unpack_Unsuback311 :: "UnsubackPacket311 \<Rightarrow> UnsubackPacket311 decoder" where
  "Unpack_Unsuback311 p =
     bindd DecodeUint16 (\<lambda>messageID. retd (p\<lparr>Unsuback_MessageID311 := messageID\<rparr>))"

definition new_Unsuback311 :: "FixedHeader \<Rightarrow> UnsubackPacket311" where
  "new_Unsuback311 fh = FixedHeader.extend fh (UnsubackPacket311.fields 0)"

definition ok_Unsuback311 :: "UnsubackPacket311 \<Rightarrow> bool" where
  "ok_Unsuback311 p \<longleftrightarrow> MessageType p < 16 \<and> Qos p < 4"

interpretation unsuback311: packet_format new_Unsuback311 Unpack_Unsuback311 Write_Unsuback311
    body_Unsuback311 ok_Unsuback311 "\<lambda>_. True"
  by unfold_locales
    (auto simp: ok_Unsuback311_def body_Unsuback311_def Write_Unsuback311_def Unpack_Unsuback311_def new_Unsuback311_def
      FixedHeader.defs UnsubackPacket311.defs maxRemainingLength_def header_ok_def Let_def codec_simps
      decoder_cases field_iffs)

section \<open>PINGREQ, PINGRESP and DISCONNECT (pingreq.go, pingresp.go, disconnect.go)\<close>

text \<open>
  The packets without fields of their own. \<open>Write\<close> sends the header as it is, so it must announce
  an empty body; \<open>Unpack\<close> reads nothing, whatever the header announces.
\<close>

type_synonym PingreqPacket311 = FixedHeader

definition Name_Pingreq311 :: "PingreqPacket311 \<Rightarrow> string" where
  "Name_Pingreq311 p = ''PINGREQ''"

definition Write_Pingreq311 :: "PingreqPacket311 \<Rightarrow> PingreqPacket311 \<times> byte list" where
  "Write_Pingreq311 p = (p, Pack p)"

definition Unpack_Pingreq311 :: "PingreqPacket311 \<Rightarrow> PingreqPacket311 decoder" where
  "Unpack_Pingreq311 p = retd p"

type_synonym PingrespPacket311 = FixedHeader

definition Name_Pingresp311 :: "PingrespPacket311 \<Rightarrow> string" where
  "Name_Pingresp311 p = ''PINGRESP''"

definition Write_Pingresp311 :: "PingrespPacket311 \<Rightarrow> PingrespPacket311 \<times> byte list" where
  "Write_Pingresp311 p = (p, Pack p)"

definition Unpack_Pingresp311 :: "PingrespPacket311 \<Rightarrow> PingrespPacket311 decoder" where
  "Unpack_Pingresp311 p = retd p"

type_synonym DisconnectPacket311 = FixedHeader

definition Name_Disconnect311 :: "DisconnectPacket311 \<Rightarrow> string" where
  "Name_Disconnect311 p = ''DISCONNECT''"

definition Write_Disconnect311 :: "DisconnectPacket311 \<Rightarrow> DisconnectPacket311 \<times> byte list" where
  "Write_Disconnect311 p = (p, Pack p)"

definition Unpack_Disconnect311 :: "DisconnectPacket311 \<Rightarrow> DisconnectPacket311 decoder" where
  "Unpack_Disconnect311 p = retd p"

interpretation pingreq311: packet_format "\<lambda>fh. fh" Unpack_Pingreq311 Write_Pingreq311
    "\<lambda>_. []" ok_empty "\<lambda>p. RemainingLength p = 0"
  by unfold_locales
    (auto simp: ok_emptyD Write_Pingreq311_def Unpack_Pingreq311_def ok_empty_def FixedHeader.defs maxRemainingLength_def
      header_ok_def codec_simps)

interpretation pingresp311: packet_format "\<lambda>fh. fh" Unpack_Pingresp311 Write_Pingresp311
    "\<lambda>_. []" ok_empty "\<lambda>p. RemainingLength p = 0"
  by unfold_locales
    (auto simp: ok_emptyD Write_Pingresp311_def Unpack_Pingresp311_def ok_empty_def FixedHeader.defs maxRemainingLength_def
      header_ok_def codec_simps)

interpretation disconnect311: packet_format "\<lambda>fh. fh" Unpack_Disconnect311 Write_Disconnect311
    "\<lambda>_. []" ok_empty "\<lambda>p. RemainingLength p = 0"
  by unfold_locales
    (auto simp: ok_emptyD Write_Disconnect311_def Unpack_Disconnect311_def ok_empty_def FixedHeader.defs maxRemainingLength_def
      header_ok_def codec_simps)

end
