(* ===== verification/V311.thy ===== *)
theory V311
  imports V311_Connect V311_Packets
begin

text \<open>
  Package pkg/mqtt/codec/v311: the interface value of its packets, the constructors by packet type,
  \<open>ReadPacket\<close> (packets.go) and the CONNACK errors (errors.go). Reading back what \<open>Write\<close> sends, and
  the packets that \<open>ReadPacket\<close> can return, follow from the packet formats.
\<close>

section \<open>The packets as one interface value\<close>

datatype ControlPacket311 =
    is_Connect311: Connect311 ConnectPacket311
  | Connack311 ConnackPacket311
  | Publish311 PublishPacket311
  | Puback311 PubackPacket311
  | Pubrec311 PubrecPacket311
  | Pubrel311 PubrelPacket311
  | Pubcomp311 PubcompPacket311
  | Subscribe311 SubscribePacket311
  | Suback311 SubackPacket311
  | Unsubscribe311 UnsubscribePacket311
  | Unsuback311 UnsubackPacket311
  | Pingreq311 PingreqPacket311
  | Pingresp311 PingrespPacket311
  | Disconnect311 DisconnectPacket311

fun Write311 :: "ControlPacket311 \<Rightarrow> ControlPacket311 \<times> byte list" where
  "Write311 (Connect311 p) = map_prod Connect311 id (Write_Connect311 p)"
| "Write311 (Connack311 p) = map_prod Connack311 id (Write_Connack311 p)"
| "Write311 (Publish311 p) = map_prod Publish311 id (Write_Publish311 p)"
| "Write311 (Puback311 p) = map_prod Puback311 id (Write_Puback311 p)"
| "Write311 (Pubrec311 p) = map_prod Pubrec311 id (Write_Pubrec311 p)"
| "Write311 (Pubrel311 p) = map_prod Pubrel311 id (Write_Pubrel311 p)"
| "Write311 (Pubcomp311 p) = map_prod Pubcomp311 id (Write_Pubcomp311 p)"
| "Write311 (Subscribe311 p) = map_prod Subscribe311 id (Write_Subscribe311 p)"
| "Write311 (Suback311 p) = map_prod Suback311 id (Write_Suback311 p)"
| "Write311 (Unsubscribe311 p) = map_prod Unsubscribe311 id (Write_Unsubscribe311 p)"
| "Write311 (Unsuback311 p) = map_prod Unsuback311 id (Write_Unsuback311 p)"
| "Write311 (Pingreq311 p) = map_prod Pingreq311 id (Write_Pingreq311 p)"
| "Write311 (Pingresp311 p) = map_prod Pingresp311 id (Write_Pingresp311 p)"
| "Write311 (Disconnect311 p) = map_prod Disconnect311 id (Write_Disconnect311 p)"

fun Unpack311 :: "ControlPacket311 \<Rightarrow> ControlPacket311 decoder" where
  "Unpack311 (Connect311 p) = unpack_as Connect311 (Unpack_Connect311 p)"
| "Unpack311 (Connack311 p) = unpack_as Connack311 (Unpack_Connack311 p)"
| "Unpack311 (Publish311 p) = unpack_as Publish311 (Unpack_Publish311 p)"
| "Unpack311 (Puback311 p) = unpack_as Puback311 (Unpack_Puback311 p)"
| "Unpack311 (Pubrec311 p) = unpack_as Pubrec311 (Unpack_Pubrec311 p)"
| "Unpack311 (Pubrel311 p) = unpack_as Pubrel311 (Unpack_Pubrel311 p)"
| "Unpack311 (Pubcomp311 p) = unpack_as Pubcomp311 (Unpack_Pubcomp311 p)"
| "Unpack311 (Subscribe311 p) = unpack_as Subscribe311 (Unpack_Subscribe311 p)"
| "Unpack311 (Suback311 p) = unpack_as Suback311 (Unpack_Suback311 p)"
| "Unpack311 (Unsubscribe311 p) = unpack_as Unsubscribe311 (Unpack_Unsubscribe311 p)"
| "Unpack311 (Unsuback311 p) = unpack_as Unsuback311 (Unpack_Unsuback311 p)"
| "Unpack311 (Pingreq311 p) = unpack_as Pingreq311 (Unpack_Pingreq311 p)"
| "Unpack311 (Pingresp311 p) = unpack_as Pingresp311 (Unpack_Pingresp311 p)"
| "Unpack311 (Disconnect311 p) = unpack_as Disconnect311 (Unpack_Disconnect311 p)"

fun Name311 :: "ControlPacket311 \<Rightarrow> string" where
  "Name311 (Connect311 p) = Name_Connect311 p"
| "Name311 (Connack311 p) = Name_Connack311 p"
| "Name311 (Publish311 p) = Name_Publish311 p"
| "Name311 (Puback311 p) = Name_Puback311 p"
| "Name311 (Pubrec311 p) = Name_Pubrec311 p"
| "Name311 (Pubrel311 p) = Name_Pubrel311 p"
| "Name311 (Pubcomp311 p) = Name_Pubcomp311 p"
| "Name311 (Subscribe311 p) = Name_Subscribe311 p"
| "Name311 (Suback311 p) = Name_Suback311 p"
| "Name311 (Unsubscribe311 p) = Name_Unsubscribe311 p"
| "Name311 (Unsuback311 p) = Name_Unsuback311 p"
| "Name311 (Pingreq311 p) = Name_Pingreq311 p"
| "Name311 (Pingresp311 p) = Name_Pingresp311 p"
| "Name311 (Disconnect311 p) = Name_Disconnect311 p"

fun header311 :: "ControlPacket311 \<Rightarrow> FixedHeader" where
  "header311 (Connect311 p) = FixedHeader.truncate p"
| "header311 (Connack311 p) = FixedHeader.truncate p"
| "header311 (Publish311 p) = FixedHeader.truncate p"
| "header311 (Puback311 p) = FixedHeader.truncate p"
| "header311 (Pubrec311 p) = FixedHeader.truncate p"
| "header311 (Pubrel311 p) = FixedHeader.truncate p"
| "header311 (Pubcomp311 p) = FixedHeader.truncate p"
| "header311 (Subscribe311 p) = FixedHeader.truncate p"
| "header311 (Suback311 p) = FixedHeader.truncate p"
| "header311 (Unsubscribe311 p) = FixedHeader.truncate p"
| "header311 (Unsuback311 p) = FixedHeader.truncate p"
| "header311 (Pingreq311 p) = FixedHeader.truncate p"
| "header311 (Pingresp311 p) = FixedHeader.truncate p"
| "header311 (Disconnect311 p) = FixedHeader.truncate p"

definition Type311 :: "ControlPacket311 \<Rightarrow> byte" where
  "Type311 p = MessageType (header311 p)"

definition Version311 :: "ControlPacket311 \<Rightarrow> byte" where
  "Version311 p = MQTT_3_1_1"

section \<open>Constructors and reader (packets.go)\<close>

definition NewControlPacket311 :: "byte \<Rightarrow> ControlPacket311 option" where
  "NewControlPacket311 packetType =
     (let fh = zero_header packetType in
      if packetType = CONNECT then Some (Connect311 (new_Connect311 fh))
      else if packetType = CONNACK then Some (Connack311 (new_Connack311 fh))
      else if packetType = PUBLISH then Some (Publish311 (new_Publish311 fh))
      else if packetType = PUBACK then Some (Puback311 (new_Puback311 fh))
      else if packetType = PUBREC then Some (Pubrec311 (new_Pubrec311 fh))
      else if packetType = PUBREL then Some (Pubrel311 (new_Pubrel311 fh))
      else if packetType = PUBCOMP then Some (Pubcomp311 (new_Pubcomp311 fh))
      else if packetType = SUBSCRIBE then Some (Subscribe311 (new_Subscribe311 fh))
      else if packetType = SUBACK then Some (Suback311 (new_Suback311 fh))
      else if packetType = UNSUBSCRIBE then Some (Unsubscribe311 (new_Unsubscribe311 fh))
      else if packetType = UNSUBACK then Some (Unsuback311 (new_Unsuback311 fh))
      else if packetType = PINGREQ then Some (Pingreq311 fh)
      else if packetType = PINGRESP then Some (Pingresp311 fh)
      else if packetType = DISCONNECT then Some (Disconnect311 fh)
      else None)"

definition NewControlPacketWithHeader311 :: "FixedHeader \<Rightarrow> go_error + ControlPacket311" where
  "NewControlPacketWithHeader311 fh =
     (if MessageType fh = CONNECT then Inr (Connect311 (new_Connect311 fh))
     else if MessageType fh = CONNACK then Inr (Connack311 (new_Connack311 fh))
     else if MessageType fh = PUBLISH then Inr (Publish311 (new_Publish311 fh))
     else if MessageType fh = PUBACK then Inr (Puback311 (new_Puback311 fh))
     else if MessageType fh = PUBREC then Inr (Pubrec311 (new_Pubrec311 fh))
     else if MessageType fh = PUBREL then Inr (Pubrel311 (new_Pubrel311 fh))
     else if MessageType fh = PUBCOMP then Inr (Pubcomp311 (new_Pubcomp311 fh))
     else if MessageType fh = SUBSCRIBE then Inr (Subscribe311 (new_Subscribe311 fh))
     else if MessageType fh = SUBACK then Inr (Suback311 (new_Suback311 fh))
     else if MessageType fh = UNSUBSCRIBE then Inr (Unsubscribe311 (new_Unsubscribe311 fh))
     else if MessageType fh = UNSUBACK then Inr (Unsuback311 (new_Unsuback311 fh))
     else if MessageType fh = PINGREQ then Inr (Pingreq311 fh)
     else if MessageType fh = PINGRESP then Inr (Pingresp311 fh)
     else if MessageType fh = DISCONNECT then Inr (Disconnect311 fh)
      else Inl (Errorf ''unsupported packet type 0x%x'' [AInt (int (unat (MessageType fh)))]))"

definition ReadPacket311 :: "ControlPacket311 decoder" where
  "ReadPacket311 =
     bindd (read_full 1) (\<lambda>b1.
     bindd (Unpack (b1 ! 0)) (\<lambda>fh.
       case Validate fh of
         Some e \<Rightarrow> faild e
       | None \<Rightarrow>
           (case NewControlPacketWithHeader311 fh of
              Inl e \<Rightarrow> faild e
            | Inr cp \<Rightarrow>
                bindd (read_full (nat (RemainingLength fh))) (\<lambda>packetBytes.
                  if int (length packetBytes) \<noteq> RemainingLength fh
                  then faild (Errorf ''failed to read encoded data, read %d from %d''
                         [AInt (int (length packetBytes)), AInt (RemainingLength fh)])
                  else
                    (case Unpack311 cp (Reader packetBytes EOF) of
                       Inl e \<Rightarrow> faild e
                     | Inr (cp', _) \<Rightarrow> retd cp')))))"

section \<open>CONNACK errors (errors.go)\<close>

definition NewConnAckError :: "byte \<Rightarrow> string \<Rightarrow> fmt_arg list \<Rightarrow> go_error" where
  "NewConnAckError returnCode text args = ConnectAckError returnCode text args"

text \<open>\<open>Response\<close>: \<open>None\<close> is the panic of a failed type assertion.\<close>

definition ConnAckResponse :: "byte \<Rightarrow> ControlPacket311 option" where
  "ConnAckResponse rc =
     (case NewControlPacket311 CONNACK of
        Some (Connack311 packet) \<Rightarrow> Some (Connack311 (packet\<lparr>ReturnCode311 := rc\<rparr>))
      | _ \<Rightarrow> None)"

section \<open>What can be sent, what can be read\<close>

fun body311 :: "ControlPacket311 \<Rightarrow> byte list" where
  "body311 (Connect311 p) = body_Connect311 p"
| "body311 (Connack311 p) = body_Connack311 p"
| "body311 (Publish311 p) = body_Publish311 p"
| "body311 (Puback311 p) = body_Puback311 p"
| "body311 (Pubrec311 p) = body_Pubrec311 p"
| "body311 (Pubrel311 p) = body_Pubrel311 p"
| "body311 (Pubcomp311 p) = body_Pubcomp311 p"
| "body311 (Subscribe311 p) = body_Subscribe311 p"
| "body311 (Suback311 p) = body_Suback311 p"
| "body311 (Unsubscribe311 p) = body_Unsubscribe311 p"
| "body311 (Unsuback311 p) = body_Unsuback311 p"
| "body311 (Pingreq311 p) = []"
| "body311 (Pingresp311 p) = []"
| "body311 (Disconnect311 p) = []"

fun ok311 :: "ControlPacket311 \<Rightarrow> bool" where
  "ok311 (Connect311 p) = (MessageType p = CONNECT \<and> ok_Connect311 p)"
| "ok311 (Connack311 p) = (MessageType p = CONNACK \<and> ok_Connack311 p)"
| "ok311 (Publish311 p) = (MessageType p = PUBLISH \<and> ok_Publish311 p)"
| "ok311 (Puback311 p) = (MessageType p = PUBACK \<and> ok_Puback311 p)"
| "ok311 (Pubrec311 p) = (MessageType p = PUBREC \<and> ok_Pubrec311 p)"
| "ok311 (Pubrel311 p) = (MessageType p = PUBREL \<and> ok_Pubrel311 p)"
| "ok311 (Pubcomp311 p) = (MessageType p = PUBCOMP \<and> ok_Pubcomp311 p)"
| "ok311 (Subscribe311 p) = (MessageType p = SUBSCRIBE \<and> ok_Subscribe311 p)"
| "ok311 (Suback311 p) = (MessageType p = SUBACK \<and> ok_Suback311 p)"
| "ok311 (Unsubscribe311 p) = (MessageType p = UNSUBSCRIBE \<and> ok_Unsubscribe311 p)"
| "ok311 (Unsuback311 p) = (MessageType p = UNSUBACK \<and> ok_Unsuback311 p)"
| "ok311 (Pingreq311 p) = (MessageType p = PINGREQ \<and> ok_empty p)"
| "ok311 (Pingresp311 p) = (MessageType p = PINGRESP \<and> ok_empty p)"
| "ok311 (Disconnect311 p) = (MessageType p = DISCONNECT \<and> ok_empty p)"

fun clean311 :: "ControlPacket311 \<Rightarrow> bool" where
  "clean311 (Connect311 p) = (\<not> ReservedBit311 p)"
| "clean311 (Connack311 p) = True"
| "clean311 (Publish311 p) = True"
| "clean311 (Puback311 p) = True"
| "clean311 (Pubrec311 p) = True"
| "clean311 (Pubrel311 p) = True"
| "clean311 (Pubcomp311 p) = True"
| "clean311 (Subscribe311 p) = True"
| "clean311 (Suback311 p) = True"
| "clean311 (Unsubscribe311 p) = True"
| "clean311 (Unsuback311 p) = True"
| "clean311 (Pingreq311 p) = (RemainingLength p = 0)"
| "clean311 (Pingresp311 p) = (RemainingLength p = 0)"
| "clean311 (Disconnect311 p) = (RemainingLength p = 0)"

interpretation v311: packet_reader NewControlPacketWithHeader311 Unpack311 ReadPacket311
  by unfold_locales (rule ReadPacket311_def)

interpretation connect311: packet_kind NewControlPacketWithHeader311 Unpack311 ReadPacket311
    new_Connect311 Unpack_Connect311 Write_Connect311 body_Connect311 ok_Connect311 "\<lambda>p. \<not> ReservedBit311 p" Connect311 CONNECT
  by unfold_locales (simp_all add: NewControlPacketWithHeader311_def message_types)

interpretation connack311: packet_kind NewControlPacketWithHeader311 Unpack311 ReadPacket311
    new_Connack311 Unpack_Connack311 Write_Connack311 body_Connack311 ok_Connack311 "\<lambda>_. True" Connack311 CONNACK
  by unfold_locales (simp_all add: NewControlPacketWithHeader311_def message_types)

interpretation publish311: packet_kind NewControlPacketWithHeader311 Unpack311 ReadPacket311
    new_Publish311 Unpack_Publish311 Write_Publish311 body_Publish311 ok_Publish311 "\<lambda>_. True" Publish311 PUBLISH
  by unfold_locales (simp_all add: NewControlPacketWithHeader311_def message_types)

interpretation puback311: packet_kind NewControlPacketWithHeader311 Unpack311 ReadPacket311
    new_Puback311 Unpack_Puback311 Write_Puback311 body_Puback311 ok_Puback311 "\<lambda>_. True" Puback311 PUBACK
  by unfold_locales (simp_all add: NewControlPacketWithHeader311_def message_types)

interpretation pubrec311: packet_kind NewControlPacketWithHeader311 Unpack311 ReadPacket311
    new_Pubrec311 Unpack_Pubrec311 Write_Pubrec311 body_Pubrec311 ok_Pubrec311 "\<lambda>_. True" Pubrec311 PUBREC
  by unfold_locales (simp_all add: NewControlPacketWithHeader311_def message_types)

interpretation pubrel311: packet_kind NewControlPacketWithHeader311 Unpack311 ReadPacket311
    new_Pubrel311 Unpack_Pubrel311 Write_Pubrel311 body_Pubrel311 ok_Pubrel311 "\<lambda>_. True" Pubrel311 PUBREL
  by unfold_locales (simp_all add: NewControlPacketWithHeader311_def message_types)

interpretation pubcomp311: packet_kind NewControlPacketWithHeader311 Unpack311 ReadPacket311
    new_Pubcomp311 Unpack_Pubcomp311 Write_Pubcomp311 body_Pubcomp311 ok_Pubcomp311 "\<lambda>_. True" Pubcomp311 PUBCOMP
  by unfold_locales (simp_all add: NewControlPacketWithHeader311_def message_types)

interpretation subscribe311: packet_kind NewControlPacketWithHeader311 Unpack311 ReadPacket311
    new_Subscribe311 Unpack_Subscribe311 Write_Subscribe311 body_Subscribe311 ok_Subscribe311 "\<lambda>_. True" Subscribe311 SUBSCRIBE
  by unfold_locales (simp_all add: NewControlPacketWithHeader311_def message_types)

interpretation suback311: packet_kind NewControlPacketWithHeader311 Unpack311 ReadPacket311
    new_Suback311 Unpack_Suback311 Write_Suback311 body_Suback311 ok_Suback311 "\<lambda>_. True" Suback311 SUBACK
  by unfold_locales (simp_all add: NewControlPacketWithHeader311_def message_types)

interpretation unsubscribe311: packet_kind NewControlPacketWithHeader311 Unpack311 ReadPacket311
    new_Unsubscribe311 Unpack_Unsubscribe311 Write_Unsubscribe311 body_Unsubscribe311 ok_Unsubscribe311 "\<lambda>_. True" Unsubscribe311 UNSUBSCRIBE
  by unfold_locales (simp_all add: NewControlPacketWithHeader311_def message_types)

interpretation unsuback311: packet_kind NewControlPacketWithHeader311 Unpack311 ReadPacket311
    new_Unsuback311 Unpack_Unsuback311 Write_Unsuback311 body_Unsuback311 ok_Unsuback311 "\<lambda>_. True" Unsuback311 UNSUBACK
  by unfold_locales (simp_all add: NewControlPacketWithHeader311_def message_types)

interpretation pingreq311: packet_kind NewControlPacketWithHeader311 Unpack311 ReadPacket311
    "\<lambda>fh. fh" Unpack_Pingreq311 Write_Pingreq311 "\<lambda>_. []" ok_empty "\<lambda>p. RemainingLength p = 0" Pingreq311 PINGREQ
  by unfold_locales (simp_all add: NewControlPacketWithHeader311_def message_types)

interpretation pingresp311: packet_kind NewControlPacketWithHeader311 Unpack311 ReadPacket311
    "\<lambda>fh. fh" Unpack_Pingresp311 Write_Pingresp311 "\<lambda>_. []" ok_empty "\<lambda>p. RemainingLength p = 0" Pingresp311 PINGRESP
  by unfold_locales (simp_all add: NewControlPacketWithHeader311_def message_types)

interpretation disconnect311: packet_kind NewControlPacketWithHeader311 Unpack311 ReadPacket311
    "\<lambda>fh. fh" Unpack_Disconnect311 Write_Disconnect311 "\<lambda>_. []" ok_empty "\<lambda>p. RemainingLength p = 0" Disconnect311 DISCONNECT
  by unfold_locales (simp_all add: NewControlPacketWithHeader311_def message_types)

lemma NewControlPacketWithHeader311_types:
  assumes "NewControlPacketWithHeader311 fh = Inr cp"
  obtains "MessageType fh = CONNECT" | "MessageType fh = CONNACK" | "MessageType fh = PUBLISH" | "MessageType fh = PUBACK" | "MessageType fh = PUBREC" | "MessageType fh = PUBREL" | "MessageType fh = PUBCOMP" | "MessageType fh = SUBSCRIBE" | "MessageType fh = SUBACK" | "MessageType fh = UNSUBSCRIBE" | "MessageType fh = UNSUBACK" | "MessageType fh = PINGREQ" | "MessageType fh = PINGRESP" | "MessageType fh = DISCONNECT"
proof (rule ccontr)
  assume "\<not> thesis"
  with that have "MessageType fh \<notin> {CONNECT, CONNACK, PUBLISH, PUBACK, PUBREC, PUBREL, PUBCOMP, SUBSCRIBE, SUBACK, UNSUBSCRIBE, UNSUBACK, PINGREQ, PINGRESP, DISCONNECT}"
    by blast
  with assms show False
    by (simp add: NewControlPacketWithHeader311_def)
qed

lemmas read_wr311 =
  connect311.read_wr
  connack311.read_wr
  publish311.read_wr
  puback311.read_wr
  pubrec311.read_wr
  pubrel311.read_wr
  pubcomp311.read_wr
  subscribe311.read_wr
  suback311.read_wr
  unsubscribe311.read_wr
  unsuback311.read_wr
  pingreq311.read_wr
  pingresp311.read_wr
  disconnect311.read_wr

lemma ReadPacket311_wr:
  assumes "ok311 p"
  shows "ReadPacket311 (Reader (snd (Write311 p) @ rest) e) = Inr (fst (Write311 p), Reader rest e)"
  using assms by (cases p) (simp_all add: read_wr311)

lemma Unpack311_ok:
  assumes "header_ok fh" and "NewControlPacketWithHeader311 fh = Inr cp"
    and "RemainingLength fh = int (length bs)" and "Unpack311 cp (Reader bs EOF) = Inr (p, r1)"
  shows "header311 p = fh \<and> length (body311 p) \<le> length bs \<and> (clean311 p \<longrightarrow> ok311 p)"
  using assms(2)
proof (cases rule: NewControlPacketWithHeader311_types)
  case 1
  from connect311.unpacked [OF assms(1) this assms(2-4)] show ?thesis
    by auto
next
  case 2
  from connack311.unpacked [OF assms(1) this assms(2-4)] show ?thesis
    by auto
next
  case 3
  from publish311.unpacked [OF assms(1) this assms(2-4)] show ?thesis
    by auto
next
  case 4
  from puback311.unpacked [OF assms(1) this assms(2-4)] show ?thesis
    by auto
next
  case 5
  from pubrec311.unpacked [OF assms(1) this assms(2-4)] show ?thesis
    by auto
next
  case 6
  from pubrel311.unpacked [OF assms(1) this assms(2-4)] show ?thesis
    by auto
next
  case 7
  from pubcomp311.unpacked [OF assms(1) this assms(2-4)] show ?thesis
    by auto
next
  case 8
  from subscribe311.unpacked [OF assms(1) this assms(2-4)] show ?thesis
    by auto
next
  case 9
  from suback311.unpacked [OF assms(1) this assms(2-4)] show ?thesis
    by auto
next
  case 10
  from unsubscribe311.unpacked [OF assms(1) this assms(2-4)] show ?thesis
    by auto
next
  case 11
  from unsuback311.unpacked [OF assms(1) this assms(2-4)] show ?thesis
    by auto
next
  case 12
  from pingreq311.unpacked [OF assms(1) this assms(2-4)] show ?thesis
    by auto
next
  case 13
  from pingresp311.unpacked [OF assms(1) this assms(2-4)] show ?thesis
    by auto
next
  case 14
  from disconnect311.unpacked [OF assms(1) this assms(2-4)] show ?thesis
    by auto
qed

lemma ReadPacket311_ok:
  assumes "ReadPacket311 r = Inr (p, r')"
  shows "header_ok (header311 p)" and "clean311 p \<longrightarrow> ok311 p"
    and "int (length (body311 p)) \<le> RemainingLength (header311 p)"
proof -
  from assms obtain fh cp body r1 where fh: "header_ok fh" "NewControlPacketWithHeader311 fh = Inr cp"
    and rl: "RemainingLength fh = int (length body)" and p: "Unpack311 cp (Reader body EOF) = Inr (p, r1)"
    by (rule v311.read_packet_eq_InrE)
  from Unpack311_ok [OF fh rl p] fh(1) rl
  show "header_ok (header311 p)" and "clean311 p \<longrightarrow> ok311 p"
    and "int (length (body311 p)) \<le> RemainingLength (header311 p)"
    by simp_all
qed

lemma Unpack311_is_Connect:
  "Unpack311 cp r = Inr (p, r') \<Longrightarrow> is_Connect311 p \<longleftrightarrow> is_Connect311 cp"
  by (cases cp) (auto simp: unpack_as_eq split: sum.splits)

text \<open>The packet is a CONNECT packet exactly when the header says so, and then its body names its level.\<close>

lemma ReadPacket311_connectE:
  assumes "ReadPacket311 r = Inr (p, r')"
  obtains fh body where
    "Unpack (hd (rd_data r)) (Reader (tl (rd_data r)) (rd_err r)) = Inr (fh, Reader (body @ rd_data r') (rd_err r))"
    and "rd_data r \<noteq> []" and "header_ok fh" and "rd_err r' = rd_err r"
    and "MessageType fh = CONNECT \<longleftrightarrow> is_Connect311 p"
    and "\<And>q. p = Connect311 q \<Longrightarrow> \<exists>name s. body = EncodeString name @ ProtocolLevel311 q # s \<and> length name < 65536"
proof -
  from assms obtain fh cp len body r1 where fh: "header_ok fh" and cp: "NewControlPacketWithHeader311 fh = Inr cp"
    and data: "rd_data r = getFixedHeaderByte1 fh # len @ body @ rd_data r'" and err: "rd_err r' = rd_err r"
    and p: "Unpack311 cp (Reader body EOF) = Inr (p, r1)"
    and up: "Unpack (hd (rd_data r)) (Reader (tl (rd_data r)) (rd_err r)) = Inr (fh, Reader (body @ rd_data r') (rd_err r))"
    by (rule v311.read_packet_eq_InrE)
  from cp have "is_Connect311 cp \<longleftrightarrow> MessageType fh = CONNECT"
    by (cases rule: NewControlPacketWithHeader311_types)
      (use cp in \<open>auto simp: NewControlPacketWithHeader311_def message_types\<close>)
  with p have conn: "MessageType fh = CONNECT \<longleftrightarrow> is_Connect311 p"
    by (simp add: Unpack311_is_Connect)
  have "\<exists>name s. body = EncodeString name @ ProtocolLevel311 q # s \<and> length name < 65536"
    if q: "p = Connect311 q" for q
  proof -
    from q conn cp have "cp = Connect311 (new_Connect311 fh)"
      by (simp add: NewControlPacketWithHeader311_def)
    with p q have "Unpack_Connect311 (new_Connect311 fh) (Reader body EOF) = Inr (q, r1)"
      by (auto simp: unpack_as_eq split: sum.splits)
    then show ?thesis
      by (rule Unpack_Connect311_level) blast
  qed
  with that up fh err conn data show thesis
    by simp
qed

text \<open>A CONNECT packet that was read can be sent if its reserved flag is cleared.\<close>

lemma ReadPacket311_cleared:
  assumes "ReadPacket311 r = Inr (Connect311 q, r')"
  shows "ok311 (Connect311 (q\<lparr>ReservedBit311 := False\<rparr>))"
proof -
  from assms obtain fh cp body r1 where fh: "header_ok fh" and cp: "NewControlPacketWithHeader311 fh = Inr cp"
    and rl: "RemainingLength fh = int (length body)" and p: "Unpack311 cp (Reader body EOF) = Inr (Connect311 q, r1)"
    by (rule v311.read_packet_eq_InrE)
  from p have "is_Connect311 cp"
    using Unpack311_is_Connect [OF p] by simp
  with cp have ty: "MessageType fh = CONNECT"
    by (cases rule: NewControlPacketWithHeader311_types)
      (use cp in \<open>auto simp: NewControlPacketWithHeader311_def message_types\<close>)
  with cp p have "Unpack_Connect311 (new_Connect311 fh) (Reader body EOF) = Inr (q, r1)"
    by (auto simp: NewControlPacketWithHeader311_def unpack_as_eq split: sum.splits)
  from Unpack_Connect311_cleared [OF fh this] ty show ?thesis
    by (auto simp: FixedHeader.truncate_def)
qed

end
