(* ===== verification/V5_Properties.thy ===== *)
theory V5_Properties
  imports Framing
begin

text \<open>
  The properties of MQTT 5 packets (pkg/mqtt/codec/v5/properties.go): the code keeps them as raw
  bytes behind a variable byte integer. A sender may use more length bytes than needed, so the codec
  is minimal, not exact.
\<close>

section \<open>Properties (properties.go)\<close>

record Properties =
  RawData :: "byte list"

definition no_properties :: Properties where
  "no_properties = \<lparr>RawData = []\<rparr>"

definition Unpack_Properties :: "Properties decoder" where
  "Unpack_Properties =
     bindd DecodeUvarint (\<lambda>totalLength.
       if totalLength < 0
       then faild (Errorf ''negative property length %d'' [AInt totalLength])
       else bindd (read_full (nat totalLength)) (\<lambda>rawData.
         if int (length rawData) \<noteq> totalLength
         then faild (Errorf ''failed to read encoded data, read %d from %d''
                [AInt (int (length rawData)), AInt totalLength])
         else retd \<lparr>RawData = rawData\<rparr>))"

definition Encode_Properties :: "Properties \<Rightarrow> byte list" where
  "Encode_Properties p = fst (WriteUvarint [] (word_of_nat (length (RawData p)))) @ RawData p"

definition Write_Properties :: "Properties \<Rightarrow> byte list" where
  "Write_Properties p = Encode_Properties p"

section \<open>The properties codec\<close>

lemma length_uvarint_bytes_min:
  assumes "c \<noteq> []" and "n < 2 ^ (7 * length c)"
  shows "length (uvarint_bytes n) \<le> length c"
proof -
  from assms(1) obtain k where k: "length c = Suc k"
    by (cases c) auto
  with assms(2) have "n < 128 ^ Suc k"
    by (simp add: power_add power_mult)
  with k show ?thesis
    by (simp add: length_uvarint_bytes_le del: power_Suc)
qed

lemma Encode_Properties_eq:
  "length (RawData p) < 2 ^ 28 \<Longrightarrow> Encode_Properties p = uvarint_bytes (length (RawData p)) @ RawData p"
  by (simp add: Encode_Properties_def WriteUvarint_eq unat_of_nat)

interpretation properties: minimal_codec Encode_Properties Unpack_Properties
    "\<lambda>p. length (RawData p) < 2 ^ 28"
proof unfold_locales
  show "Unpack_Properties (Reader (Encode_Properties p @ rest) e) = Inr (p, Reader rest e)"
    if "length (RawData p) < 2 ^ 28" for p rest e
    using DecodeUvarint_uvarint_bytes [OF that]
    by (simp add: Encode_Properties_eq [OF that] Unpack_Properties_def bindd_def retd_def read_full_append)
  show "consuming Unpack_Properties"
    unfolding Unpack_Properties_def by (intro consuming_intros)
  fix r p r'
  assume "Unpack_Properties r = Inr (p, r')"
  then obtain n r1 raw where n: "DecodeUvarint r = Inr (n, r1)" and raw': "length raw = nat n" "\<not> n < 0"
    and raw2: "rd_data r1 = raw @ rd_data r'" and p: "p = \<lparr>RawData = raw\<rparr>"
    by (auto simp: Unpack_Properties_def decoder_cases read_full_eq_Inr split: if_splits)
  then have raw: "int (length raw) = n" "rd_data r1 = raw @ rd_data r'"
    by simp_all
  from n obtain c where c: "rd_data r = c @ rd_data r1" "c \<noteq> []" "length c \<le> 4" "n < 2 ^ (7 * length c)"
    by (rule DecodeUvarint_eq_InrE)
  from c(4) raw(1) have "int (length raw) < int (2 ^ (7 * length c))"
    by simp
  then have len: "length raw < 2 ^ (7 * length c)"
    by (simp only: of_nat_less_iff)
  moreover have "(2::nat) ^ (7 * length c) \<le> 2 ^ (7 * 4)"
    using c(3) by (intro power_increasing) auto
  ultimately show lt: "length (RawData p) < 2 ^ 28"
    by (simp add: p)
  show "length (Encode_Properties p) + length (rd_data r') \<le> length (rd_data r)"
    using length_uvarint_bytes_min [OF c(2) len] c(1) raw(2) by (simp add: Encode_Properties_eq [OF lt]) (simp add: p)
qed

lemmas properties_simps [codec_simps] = properties.dec_enc properties.dec_enc_exact

lemma length_Encode_Properties:
  "length (RawData p) < 2 ^ 28 \<Longrightarrow>
   1 + length (RawData p) \<le> length (Encode_Properties p) \<and> length (Encode_Properties p) \<le> 4 + length (RawData p)"
  using length_uvarint_bytes_le [of "length (RawData p)" 3]
  by (simp add: Encode_Properties_eq Suc_leI)

text \<open>What a field decoder accepts and how many bytes it takes at least.\<close>

lemmas field_ok = str.min_ok bytes.min_ok properties.min_ok
lemmas field_length =
  byte.min_length u16.min_length str.min_length bytes.min_length properties.min_length
lemmas field_bound =
  byte.min_bound u16.min_bound str.min_bound bytes.min_bound properties.min_bound

end
