(* ===== verification/V5_Connect.thy ===== *)
theory V5_Connect
  imports V5_Properties
begin

text \<open>
  The CONNECT packet of MQTT 5 (pkg/mqtt/codec/v5/connect.go). As for every packet, the record
  extends the fixed header, as the Go struct embeds it; \<open>Write\<close> returns the packet (its
  \<open>RemainingLength\<close> is set on the way) and the bytes; \<open>Unpack\<close> fills the packet from its body.
\<close>

section \<open>CONNECT (connect.go)\<close>

record ConnectPacket5 = FixedHeader +
  ProtocolName5 :: string
  ProtocolLevel5 :: byte
  HasUsername5 :: bool
  HasPassword5 :: bool
  WillRetain5 :: bool
  WillQos5 :: byte
  WillFlag5 :: bool
  CleanStart5 :: bool
  ReservedBit5 :: bool
  KeepAliveSeconds5 :: u16
  ConnectProperties5 :: Properties
  ClientIdentifier5 :: string
  WillProperties5 :: Properties
  WillTopic5 :: string
  WillPayload5 :: "byte list"
  Username5 :: string
  Password5 :: "byte list"

definition getConnectFlags5 :: "ConnectPacket5 \<Rightarrow> byte" where
  "getConnectFlags5 p =
     (let connectFlags = or_if (HasUsername5 p) 0x80 0;
          connectFlags = or_if (HasPassword5 p) 0x40 connectFlags;
          connectFlags = or_if (WillRetain5 p) 0x20 connectFlags;
          connectFlags = connectFlags OR push_bit 3 (WillQos5 p AND 0x03);
          connectFlags = or_if (WillFlag5 p) 0x04 connectFlags
      in or_if (CleanStart5 p) 0x02 connectFlags)"

definition body_Connect5 :: "ConnectPacket5 \<Rightarrow> byte list" where
  "body_Connect5 p =
     EncodeString (ProtocolName5 p) @ [ProtocolLevel5 p] @ [getConnectFlags5 p] @
     EncodeUint16 (KeepAliveSeconds5 p) @ Encode_Properties (ConnectProperties5 p) @
     EncodeString (ClientIdentifier5 p) @
     (if WillFlag5 p
      then Encode_Properties (WillProperties5 p) @ EncodeString (WillTopic5 p) @ EncodeBytes (WillPayload5 p)
      else []) @
     (if HasUsername5 p then EncodeString (Username5 p) else []) @
     (if HasPassword5 p then EncodeBytes (Password5 p) else [])"

definition Write_Connect5 :: "ConnectPacket5 \<Rightarrow> ConnectPacket5 \<times> byte list" where
  "Write_Connect5 p =
     (let body = body_Connect5 p;
          p' = p\<lparr>RemainingLength := int (length body)\<rparr>
      in (p', Pack p' @ body))"

definition Unpack_Connect5 :: "ConnectPacket5 \<Rightarrow> ConnectPacket5 decoder" where
  "Unpack_Connect5 p =
     bindd DecodeString (\<lambda>protocolName.
     bindd DecodeByte (\<lambda>version.
     bindd DecodeByte (\<lambda>connectFlags.
     bindd DecodeUint16 (\<lambda>keepAliveSeconds.
     bindd Unpack_Properties (\<lambda>connectProperties.
     bindd DecodeString (\<lambda>clientIdentifier.
     let p = p\<lparr>ProtocolName5 := protocolName,
               ProtocolLevel5 := version,
               HasUsername5 := (connectFlags AND 0x80 = 0x80),
               HasPassword5 := (connectFlags AND 0x40 = 0x40),
               WillRetain5 := (connectFlags AND 0x20 = 0x20),
               WillQos5 := drop_bit 3 (connectFlags AND 0x18),
               WillFlag5 := (connectFlags AND 0x04 = 0x04),
               CleanStart5 := (connectFlags AND 0x02 = 0x02),
               ReservedBit5 := (connectFlags AND 0x01 = 0x01),
               KeepAliveSeconds5 := keepAliveSeconds,
               ConnectProperties5 := connectProperties,
               ClientIdentifier5 := clientIdentifier\<rparr>
     in
     bindd (if WillFlag5 p
            then bindd Unpack_Properties (\<lambda>willProperties.
                 bindd DecodeString (\<lambda>willTopic.
                 bindd DecodeBytes (\<lambda>willPayload.
                 retd (p\<lparr>WillProperties5 := willProperties, WillTopic5 := willTopic,
                         WillPayload5 := willPayload\<rparr>))))
            else retd p) (\<lambda>p.
     bindd (if HasUsername5 p
            then bindd DecodeString (\<lambda>username. retd (p\<lparr>Username5 := username\<rparr>))
            else retd p) (\<lambda>p.
     if HasPassword5 p
     then bindd DecodeBytes (\<lambda>password. retd (p\<lparr>Password5 := password\<rparr>))
     else retd p))))))))"

definition Name_Connect5 :: "ConnectPacket5 \<Rightarrow> string" where
  "Name_Connect5 p = ''CONNECT''"

definition new_Connect5 :: "FixedHeader \<Rightarrow> ConnectPacket5" where
  "new_Connect5 fh = FixedHeader.extend fh
     (ConnectPacket5.fields [] 0 False False False 0 False False False 0 no_properties [] no_properties [] [] [] [])"

definition ok_Connect5 :: "ConnectPacket5 \<Rightarrow> bool" where
  "ok_Connect5 p \<longleftrightarrow>
     MessageType p < 16 \<and> Qos p < 4 \<and>
     length (ProtocolName5 p) < 65536 \<and> length (ClientIdentifier5 p) < 65536 \<and>
     WillQos5 p < 4 \<and> \<not> ReservedBit5 p \<and>
     length (RawData (ConnectProperties5 p)) < 2 ^ 28 \<and>
     (if WillFlag5 p
      then length (RawData (WillProperties5 p)) < 2 ^ 28 \<and> length (WillTopic5 p) < 65536 \<and>
        length (WillPayload5 p) < 65536
      else WillProperties5 p = no_properties \<and> WillTopic5 p = [] \<and> WillPayload5 p = []) \<and>
     (if HasUsername5 p then length (Username5 p) < 65536 else Username5 p = []) \<and>
     (if HasPassword5 p then length (Password5 p) < 65536 else Password5 p = []) \<and>
     int (length (body_Connect5 p)) \<le> maxRemainingLength"

lemma bit_getConnectFlags5: "bit (getConnectFlags5 p) n \<longleftrightarrow>
    n < 8 \<and> (HasUsername5 p \<and> n = 7 \<or> HasPassword5 p \<and> n = 6 \<or> WillRetain5 p \<and> n = 5 \<or>
    3 \<le> n \<and> n < 5 \<and> bit (WillQos5 p) (n - 3) \<or> WillFlag5 p \<and> n = 2 \<or> CleanStart5 p \<and> n = 1)"
  unfolding getConnectFlags5_def Let_def by (simp only: bit_byte_ops) auto

lemma getConnectFlags5_fields:
  shows "getConnectFlags5 p AND 0x80 = 0x80 \<longleftrightarrow> HasUsername5 p"
    and "getConnectFlags5 p AND 0x40 = 0x40 \<longleftrightarrow> HasPassword5 p"
    and "getConnectFlags5 p AND 0x20 = 0x20 \<longleftrightarrow> WillRetain5 p"
    and "getConnectFlags5 p AND 0x04 = 0x04 \<longleftrightarrow> WillFlag5 p"
    and "getConnectFlags5 p AND 0x02 = 0x02 \<longleftrightarrow> CleanStart5 p"
    and "getConnectFlags5 p AND 0x01 = 0x01 \<longleftrightarrow> False"
  unfolding and_flag bit_getConnectFlags5 by simp_all

lemma getConnectFlags5_WillQos:
  assumes "WillQos5 p < 4"
  shows "drop_bit 3 (getConnectFlags5 p) AND 0x03 = WillQos5 p"
  unfolding byte_eq_iff bit_byte_ops bit_getConnectFlags5 using bit_less_4 [OF assms] by fastforce

text \<open>The three optional parts of the payload, as \<open>Unpack\<close> reads them.\<close>

lemma Unpack_Connect5_will:
  assumes "(if WillFlag5 p then bindd Unpack_Properties (\<lambda>willProperties. bindd DecodeString (\<lambda>willTopic.
        bindd DecodeBytes (\<lambda>willPayload. retd (p\<lparr>WillProperties5 := willProperties, WillTopic5 := willTopic,
          WillPayload5 := willPayload\<rparr>)))) else retd p) r = Inr (p', r')"
  obtains wp t m where "p' = p\<lparr>WillProperties5 := wp, WillTopic5 := t, WillPayload5 := m\<rparr>"
    and "length (if WillFlag5 p then Encode_Properties wp @ EncodeString t @ EncodeBytes m else []) +
           length (rd_data r') \<le> length (rd_data r)"
    and "if WillFlag5 p then length (RawData wp) < 268435456 \<and> length t < 65536 \<and> length m < 65536
         else wp = WillProperties5 p \<and> t = WillTopic5 p \<and> m = WillPayload5 p"
proof (cases "WillFlag5 p")
  case True
  with assms obtain wp r1 t r2 m where "p' = p\<lparr>WillProperties5 := wp, WillTopic5 := t, WillPayload5 := m\<rparr>"
    and f: "Unpack_Properties r = Inr (wp, r1)" "DecodeString r1 = Inr (t, r2)" "DecodeBytes r2 = Inr (m, r')"
    by (auto simp: decoder_cases)
  with True show ?thesis
    by (intro that [of m t wp]) (auto dest!: field_bound)
next
  case False
  with assms show ?thesis
    by (intro that [of "WillPayload5 p" "WillTopic5 p" "WillProperties5 p"]) (auto simp: decoder_cases)
qed

lemma Unpack_Connect5_username:
  assumes "(if HasUsername5 p then bindd DecodeString (\<lambda>username. retd (p\<lparr>Username5 := username\<rparr>))
        else retd p) r = Inr (p', r')"
  obtains u where "p' = p\<lparr>Username5 := u\<rparr>"
    and "length (if HasUsername5 p then EncodeString u else []) + length (rd_data r') \<le> length (rd_data r)"
    and "if HasUsername5 p then length u < 65536 else u = Username5 p"
  using assms by (auto simp: decoder_cases dest!: field_bound split: if_splits)

lemma Unpack_Connect5_password:
  assumes "(if HasPassword5 p then bindd DecodeBytes (\<lambda>password. retd (p\<lparr>Password5 := password\<rparr>))
        else retd p) r = Inr (p', r')"
  obtains w where "p' = p\<lparr>Password5 := w\<rparr>"
    and "length (if HasPassword5 p then EncodeBytes w else []) + length (rd_data r') \<le> length (rd_data r)"
    and "if HasPassword5 p then length w < 65536 else w = Password5 p"
  using assms by (auto simp: decoder_cases dest!: field_bound split: if_splits)

lemma Unpack_Connect5_eq_InrE:
  assumes "Unpack_Connect5 p0 (Reader bs e) = Inr (p, r')"
  obtains name ver flags ka cp cid wp t m u w p1 where
    "p1 = p0\<lparr>ProtocolName5 := name, ProtocolLevel5 := ver,
               HasUsername5 := (flags AND 0x80 = 0x80), HasPassword5 := (flags AND 0x40 = 0x40),
               WillRetain5 := (flags AND 0x20 = 0x20), WillQos5 := drop_bit 3 (flags AND 0x18),
               WillFlag5 := (flags AND 0x04 = 0x04), CleanStart5 := (flags AND 0x02 = 0x02),
               ReservedBit5 := (flags AND 0x01 = 0x01), KeepAliveSeconds5 := ka,
               ConnectProperties5 := cp,
               ClientIdentifier5 := cid\<rparr>"
    and "p = p1\<lparr>WillProperties5 := wp, WillTopic5 := t, WillPayload5 := m, Username5 := u, Password5 := w\<rparr>"
    and "2 + length name + 4 + length (Encode_Properties cp) + 2 + length cid +
          length (if WillFlag5 p1 then Encode_Properties wp @ EncodeString t @ EncodeBytes m else []) +
          length (if HasUsername5 p1 then EncodeString u else []) +
          length (if HasPassword5 p1 then EncodeBytes w else []) \<le> length bs"
    and "\<exists>s. bs = EncodeString name @ ver # s" and "length (RawData cp) < 2 ^ 28"
    and "length name < 65536" and "length cid < 65536"
    and "if WillFlag5 p1 then length (RawData wp) < 268435456 \<and> length t < 65536 \<and> length m < 65536
       else wp = WillProperties5 p0 \<and> t = WillTopic5 p0 \<and> m = WillPayload5 p0"
    and "if HasUsername5 p1 then length u < 65536 else u = Username5 p0"
    and "if HasPassword5 p1 then length w < 65536 else w = Password5 p0"
proof -
  from assms obtain name r1 ver r2 flags r3 ka r4 cp r45 cid r5 p1 p2 r6 p3 r7
    where f: "DecodeString (Reader bs e) = Inr (name, r1)" "DecodeByte r1 = Inr (ver, r2)"
      "DecodeByte r2 = Inr (flags, r3)" "DecodeUint16 r3 = Inr (ka, r4)"
      "Unpack_Properties r4 = Inr (cp, r45)" "DecodeString r45 = Inr (cid, r5)"
    and p1: "p1 = p0\<lparr>ProtocolName5 := name, ProtocolLevel5 := ver,
               HasUsername5 := (flags AND 0x80 = 0x80), HasPassword5 := (flags AND 0x40 = 0x40),
               WillRetain5 := (flags AND 0x20 = 0x20), WillQos5 := drop_bit 3 (flags AND 0x18),
               WillFlag5 := (flags AND 0x04 = 0x04), CleanStart5 := (flags AND 0x02 = 0x02),
               ReservedBit5 := (flags AND 0x01 = 0x01), KeepAliveSeconds5 := ka,
               ConnectProperties5 := cp, ClientIdentifier5 := cid\<rparr>"
    and o1: "(if WillFlag5 p1 then bindd Unpack_Properties (\<lambda>willProperties. bindd DecodeString (\<lambda>willTopic.
        bindd DecodeBytes (\<lambda>willPayload. retd (p1\<lparr>WillProperties5 := willProperties, WillTopic5 := willTopic,
          WillPayload5 := willPayload\<rparr>)))) else retd p1) r5 = Inr (p2, r6)"
    and o2: "(if HasUsername5 p2 then bindd DecodeString (\<lambda>username. retd (p2\<lparr>Username5 := username\<rparr>))
        else retd p2) r6 = Inr (p3, r7)"
    and o3: "(if HasPassword5 p3 then bindd DecodeBytes (\<lambda>password. retd (p3\<lparr>Password5 := password\<rparr>))
        else retd p3) r7 = Inr (p, r')"
    unfolding Unpack_Connect5_def Let_def bindd_eq_Inr [of _ _ "Reader bs e"] by (simp only: bindd_eq_Inr) metis
  from o1 obtain wp t m where p2: "p2 = p1\<lparr>WillProperties5 := wp, WillTopic5 := t, WillPayload5 := m\<rparr>"
      "length (if WillFlag5 p1 then Encode_Properties wp @ EncodeString t @ EncodeBytes m else []) +
         length (rd_data r6) \<le> length (rd_data r5)"
      "if WillFlag5 p1 then length (RawData wp) < 268435456 \<and> length t < 65536 \<and> length m < 65536
       else wp = WillProperties5 p1 \<and> t = WillTopic5 p1 \<and> m = WillPayload5 p1"
    by (rule Unpack_Connect5_will)
  from o2 obtain u where p3: "p3 = p2\<lparr>Username5 := u\<rparr>"
      "length (if HasUsername5 p2 then EncodeString u else []) + length (rd_data r7) \<le> length (rd_data r6)"
      "if HasUsername5 p2 then length u < 65536 else u = Username5 p2"
    by (rule Unpack_Connect5_username)
  from o3 obtain w where p: "p = p3\<lparr>Password5 := w\<rparr>"
      "length (if HasPassword5 p3 then EncodeBytes w else []) + length (rd_data r') \<le> length (rd_data r7)"
      "if HasPassword5 p3 then length w < 65536 else w = Password5 p3"
    by (rule Unpack_Connect5_password)
  have old: "WillTopic5 p1 = WillTopic5 p0" "WillPayload5 p1 = WillPayload5 p0" "WillProperties5 p1 = WillProperties5 p0"
      "Username5 p2 = Username5 p0" "Password5 p3 = Password5 p0"
      "HasUsername5 p2 = HasUsername5 p1" "HasPassword5 p3 = HasPassword5 p1"
    by (simp_all add: p2(1) p3(1)) (simp_all add: p1)
  show thesis
  proof (rule that [OF p1])
    show "p = p1\<lparr>WillProperties5 := wp, WillTopic5 := t, WillPayload5 := m, Username5 := u, Password5 := w\<rparr>"
      by (simp only: p(1) p3(1) p2(1))
    have "2 + length name + 4 + length (Encode_Properties cp) + 2 + length cid + length (rd_data r5) \<le> length bs"
      using f by (auto dest!: field_bound)
    with p2(2) p3(2) p(2) show "2 + length name + 4 + length (Encode_Properties cp) + 2 + length cid +
          length (if WillFlag5 p1 then Encode_Properties wp @ EncodeString t @ EncodeBytes m else []) +
          length (if HasUsername5 p1 then EncodeString u else []) +
          length (if HasPassword5 p1 then EncodeBytes w else []) \<le> length bs"
      unfolding old by linarith
    show "\<exists>s. bs = EncodeString name @ ver # s"
      using f(1,2) by (auto simp: field_iffs)
  qed (use f p2(3) p3(3) p(3) in \<open>auto simp: old dest!: field_bound\<close>)
qed

text \<open>A packet whose reserved flag is cleared is written with the same body, and can be sent.\<close>

lemma body_Connect5_cleared [simp]: "body_Connect5 (p\<lparr>ReservedBit5 := b\<rparr>) = body_Connect5 p"
  by (simp add: body_Connect5_def getConnectFlags5_def)

lemma Unpack_Connect5_cleared:
  assumes "header_ok fh" and rl: "RemainingLength fh = int (length bs)"
    and "Unpack_Connect5 (new_Connect5 fh) (Reader bs EOF) = Inr (p, r')"
  shows "FixedHeader.truncate p = fh \<and> length (body_Connect5 p) \<le> length bs \<and>
      ok_Connect5 (p\<lparr>ReservedBit5 := False\<rparr>)"
proof -
  from assms(3) obtain name ver flags ka cp cid wp t m u w p1 where
    p1: "p1 = (new_Connect5 fh)\<lparr>ProtocolName5 := name, ProtocolLevel5 := ver,
               HasUsername5 := (flags AND 0x80 = 0x80), HasPassword5 := (flags AND 0x40 = 0x40),
               WillRetain5 := (flags AND 0x20 = 0x20), WillQos5 := drop_bit 3 (flags AND 0x18),
               WillFlag5 := (flags AND 0x04 = 0x04), CleanStart5 := (flags AND 0x02 = 0x02),
               ReservedBit5 := (flags AND 0x01 = 0x01), KeepAliveSeconds5 := ka,
               ConnectProperties5 := cp,
               ClientIdentifier5 := cid\<rparr>"
    and p: "p = p1\<lparr>WillProperties5 := wp, WillTopic5 := t, WillPayload5 := m, Username5 := u, Password5 := w\<rparr>"
    and bs: "2 + length name + 4 + length (Encode_Properties cp) + 2 + length cid +
          length (if WillFlag5 p1 then Encode_Properties wp @ EncodeString t @ EncodeBytes m else []) +
          length (if HasUsername5 p1 then EncodeString u else []) +
          length (if HasPassword5 p1 then EncodeBytes w else []) \<le> length bs"
    and "\<exists>s. bs = EncodeString name @ ver # s" and cp: "length (RawData cp) < 2 ^ 28"
    and fields: "length name < 65536" "length cid < 65536"
      "if WillFlag5 p1 then length (RawData wp) < 268435456 \<and> length t < 65536 \<and> length m < 65536
       else wp = WillProperties5 (new_Connect5 fh) \<and> t = WillTopic5 (new_Connect5 fh) \<and> m = WillPayload5 (new_Connect5 fh)"
      "if HasUsername5 p1 then length u < 65536 else u = Username5 (new_Connect5 fh)"
      "if HasPassword5 p1 then length w < 65536 else w = Password5 (new_Connect5 fh)"
    by (rule Unpack_Connect5_eq_InrE)
  have new: "FixedHeader.truncate p1 = fh" "WillQos5 p1 < 4" "ProtocolName5 p1 = name"
      "ClientIdentifier5 p1 = cid" "ConnectProperties5 p1 = cp"
    by (simp_all add: p1 new_Connect5_def FixedHeader.truncate_def FixedHeader.extend_def
        ConnectPacket5.fields_def will_qos_less del: and_zero_eq drop_bit_and)
  have zero: "WillProperties5 (new_Connect5 fh) = no_properties" "WillTopic5 (new_Connect5 fh) = []" "WillPayload5 (new_Connect5 fh) = []"
      "Username5 (new_Connect5 fh) = []" "Password5 (new_Connect5 fh) = []"
    by (simp_all add: new_Connect5_def FixedHeader.extend_def ConnectPacket5.fields_def)
  from new(1) have hd: "FixedHeader.truncate p = fh" "MessageType p1 = MessageType fh" "Qos p1 = Qos fh"
    by (auto simp: p FixedHeader.truncate_def)
  have "length (body_Connect5 p) = 2 + length name + 4 + length (Encode_Properties cp) + 2 + length cid +
      length (if WillFlag5 p1 then Encode_Properties wp @ EncodeString t @ EncodeBytes m else []) +
      length (if HasUsername5 p1 then EncodeString u else []) + length (if HasPassword5 p1 then EncodeBytes w else [])"
    by (simp add: body_Connect5_def p new)
  with bs have len: "length (body_Connect5 p) \<le> length bs"
    by linarith
  with fields assms(1) rl cp have "ok_Connect5 (p\<lparr>ReservedBit5 := False\<rparr>)"
    unfolding zero by (simp add: body_Connect5_cleared ok_Connect5_def header_ok_def hd p new cong: if_cong)
  with hd(1) len show ?thesis
    by simp
qed

lemma Unpack_Connect5_ok:
  assumes "header_ok fh" and rl: "RemainingLength fh = int (length bs)"
    and "Unpack_Connect5 (new_Connect5 fh) (Reader bs EOF) = Inr (p, r')"
  shows "FixedHeader.truncate p = fh \<and> length (body_Connect5 p) \<le> length bs \<and>
      (\<not> ReservedBit5 p \<longrightarrow> ok_Connect5 p)"
proof -
  have same: "p\<lparr>ReservedBit5 := False\<rparr> = p" if "\<not> ReservedBit5 p"
    using that by simp
  show ?thesis
    using Unpack_Connect5_cleared [OF assms] by (metis same)
qed

text \<open>The packet's protocol level stands right after the protocol name.\<close>

lemma Unpack_Connect5_level:
  assumes "Unpack_Connect5 p (Reader bs e) = Inr (q, r')"
  obtains name s where "bs = EncodeString name @ ProtocolLevel5 q # s" and "length name < 65536"
  using assms by (rule Unpack_Connect5_eq_InrE) auto

interpretation connect5: packet_format new_Connect5 Unpack_Connect5 Write_Connect5
    body_Connect5 ok_Connect5 "\<lambda>p. \<not> ReservedBit5 p"
proof unfold_locales
  fix p assume ok: "ok_Connect5 p"
  then show "MessageType p < 16 \<and> Qos p < 4 \<and> int (length (body_Connect5 p)) \<le> maxRemainingLength"
    by (simp add: ok_Connect5_def)
  show "Write_Connect5 p = (p\<lparr>RemainingLength := int (length (body_Connect5 p))\<rparr>,
      Pack (p\<lparr>RemainingLength := int (length (body_Connect5 p))\<rparr>) @ body_Connect5 p)"
    by (simp add: Write_Connect5_def Let_def)
  show "Unpack_Connect5 (new_Connect5 (FixedHeader.truncate (p\<lparr>RemainingLength := int (length (body_Connect5 p))\<rparr>)))
      (Reader (body_Connect5 p) EOF) =
    Inr (p\<lparr>RemainingLength := int (length (body_Connect5 p))\<rparr>, Reader [] EOF)"
    using ok
    by (simp add: ok_Connect5_def Unpack_Connect5_def body_Connect5_def codec_simps
        getConnectFlags5_fields getConnectFlags5_WillQos new_Connect5_def FixedHeader.truncate_def
        FixedHeader.extend_def ConnectPacket5.fields_def cong: if_cong)
qed (rule Unpack_Connect5_ok)

end
