(* ===== verification/V5_Packets.thy ===== *)
theory V5_Packets
  imports V5_Properties
begin

text \<open>
  The packets of MQTT 5 other than CONNECT (pkg/mqtt/codec/v5), in the form of \<open>V311_Packets\<close>. The
  acknowledgements and DISCONNECT have a short form without reason code and properties.
\<close>

section \<open>CONNACK (connack.go)\<close>

record ConnackPacket5 = FixedHeader +
  SessionPresent5 :: bool
  ReturnCode5 :: byte
  ConnackProperties5 :: Properties

definition Name_Connack5 :: "ConnackPacket5 \<Rightarrow> string" where
  "Name_Connack5 p = ''CONNACK''"

definition getConnAckFlags5 :: "ConnackPacket5 \<Rightarrow> byte" where
  "getConnAckFlags5 p = (if SessionPresent5 p then 0x01 else 0x00)"

definition body_Connack5 :: "ConnackPacket5 \<Rightarrow> byte list" where
  "body_Connack5 p = [getConnAckFlags5 p] @ [ReturnCode5 p] @ Encode_Properties (ConnackProperties5 p)"

definition Write_Connack5 :: "ConnackPacket5 \<Rightarrow> ConnackPacket5 \<times> byte list" where
  "Write_Connack5 p =
     (let body = body_Connack5 p;
          p' = p\<lparr>RemainingLength := int (length body)\<rparr>
      in (p', Pack p' @ body))"

definition Unpack_Connack5 :: "ConnackPacket5 \<Rightarrow> ConnackPacket5 decoder" where
  "Unpack_Connack5 p =
     bindd DecodeByte (\<lambda>connAckFlags.
     bindd DecodeByte (\<lambda>returnCode.
     bindd Unpack_Properties (\<lambda>props.
     retd (p\<lparr>SessionPresent5 := (connAckFlags AND 0x01 = 0x01), ReturnCode5 := returnCode,
             ConnackProperties5 := props\<rparr>))))"

definition new_Connack5 :: "FixedHeader \<Rightarrow> ConnackPacket5" where
  "new_Connack5 fh = FixedHeader.extend fh (ConnackPacket5.fields False 0 no_properties)"

definition ok_Connack5 :: "ConnackPacket5 \<Rightarrow> bool" where
  "ok_Connack5 p \<longleftrightarrow>
     MessageType p < 16 \<and> Qos p < 4 \<and> length (RawData (ConnackProperties5 p)) < 2 ^ 28 \<and>
     int (length (body_Connack5 p)) \<le> maxRemainingLength"

interpretation connack5: packet_format new_Connack5 Unpack_Connack5 Write_Connack5
    body_Connack5 ok_Connack5 "\<lambda>_. True"
proof unfold_locales
  fix p assume ok: "ok_Connack5 p"
  then show "Unpack_Connack5 (new_Connack5 (FixedHeader.truncate (p\<lparr>RemainingLength := int (length (body_Connack5 p))\<rparr>)))
      (Reader (body_Connack5 p) EOF) =
    Inr (p\<lparr>RemainingLength := int (length (body_Connack5 p))\<rparr>, Reader [] EOF)"
    by (cases p) (simp add: ok_Connack5_def Unpack_Connack5_def body_Connack5_def codec_simps
        getConnAckFlags5_def new_Connack5_def FixedHeader.defs ConnackPacket5.defs)
next
  fix fh bs p r'
  assume "header_ok fh" "RemainingLength fh = int (length bs)"
    "Unpack_Connack5 (new_Connack5 fh) (Reader bs EOF) = Inr (p, r')"
  then show "FixedHeader.truncate p = fh \<and> length (body_Connack5 p) \<le> length bs \<and>
      (True \<longrightarrow> ok_Connack5 p)"
    by (auto simp: Unpack_Connack5_def decoder_cases ok_Connack5_def body_Connack5_def header_ok_def
        new_Connack5_def FixedHeader.defs ConnackPacket5.defs dest!: field_bound)
qed (simp_all add: ok_Connack5_def Write_Connack5_def Let_def)

section \<open>PUBLISH (publish.go)\<close>

record PublishPacket5 = FixedHeader +
  TopicName5 :: string
  Publish_MessageID5 :: u16
  PublishProperties5 :: Properties
  Message5 :: "byte list"

definition Name_Publish5 :: "PublishPacket5 \<Rightarrow> string" where
  "Name_Publish5 c = ''PUBLISH''"

definition head_Publish5 :: "PublishPacket5 \<Rightarrow> byte list" where
  "head_Publish5 p =
     EncodeString (TopicName5 p) @ (if Qos p > 0 then EncodeUint16 (Publish_MessageID5 p) else []) @
     Encode_Properties (PublishProperties5 p)"

definition body_Publish5 :: "PublishPacket5 \<Rightarrow> byte list" where
  "body_Publish5 p = head_Publish5 p @ Message5 p"

definition Write_Publish5 :: "PublishPacket5 \<Rightarrow> PublishPacket5 \<times> byte list" where
  "Write_Publish5 p =
     (let body = head_Publish5 p;
          p' = p\<lparr>RemainingLength := int (length body) + int (length (Message5 p))\<rparr>
      in (p', Pack p' @ body @ Message5 p'))"

definition Unpack_Publish5 :: "PublishPacket5 \<Rightarrow> PublishPacket5 decoder" where
  "Unpack_Publish5 p r =
     (case bindd DecodeString (\<lambda>topicName.
           let p = p\<lparr>TopicName5 := topicName\<rparr>
           in bindd (if Qos p > 0
                     then bindd DecodeUint16 (\<lambda>messageID. retd (p\<lparr>Publish_MessageID5 := messageID\<rparr>))
                     else retd p) (\<lambda>p.
              bindd Unpack_Properties (\<lambda>props. retd (p\<lparr>PublishProperties5 := props\<rparr>)))) r of
        Inl e \<Rightarrow> Inl e
      | Inr (p, cr) \<Rightarrow>
          let payloadLength = RemainingLength p - int (delivered r cr)
          in if payloadLength < 0
             then Inl (Errorf ''error unpacking publish, payload length < 0'' [])
             else bindd (read_full (nat payloadLength)) (\<lambda>message. retd (p\<lparr>Message5 := message\<rparr>)) cr)"

definition new_Publish5 :: "FixedHeader \<Rightarrow> PublishPacket5" where
  "new_Publish5 fh = FixedHeader.extend fh (PublishPacket5.fields [] 0 no_properties [])"

definition ok_Publish5 :: "PublishPacket5 \<Rightarrow> bool" where
  "ok_Publish5 p \<longleftrightarrow>
     MessageType p < 16 \<and> Qos p < 4 \<and> length (TopicName5 p) < 65536 \<and>
     (Qos p = 0 \<longrightarrow> Publish_MessageID5 p = 0) \<and> length (RawData (PublishProperties5 p)) < 2 ^ 28 \<and>
     int (length (body_Publish5 p)) \<le> maxRemainingLength"

lemma Unpack_Publish5_ok:
  assumes fh: "header_ok fh" "RemainingLength fh = int (length bs)"
    and "Unpack_Publish5 (new_Publish5 fh) (Reader bs EOF) = Inr (p, r')"
  shows "FixedHeader.truncate p = fh \<and> length (body_Publish5 p) \<le> length bs \<and>
      (True \<longrightarrow> ok_Publish5 p)"
proof -
  define p0 where "p0 = new_Publish5 fh"
  have new: "FixedHeader.truncate p0 = fh" "Publish_MessageID5 p0 = 0" "Qos p0 = Qos fh" "RemainingLength p0 = RemainingLength fh"
    by (simp_all add: p0_def new_Publish5_def FixedHeader.defs PublishPacket5.defs)
  from assms(3) obtain p2 cr m
    where head: "bindd DecodeString (\<lambda>t. bindd (if Qos p0 > 0
          then bindd DecodeUint16 (\<lambda>messageID. retd (p0\<lparr>TopicName5 := t, Publish_MessageID5 := messageID\<rparr>))
          else retd (p0\<lparr>TopicName5 := t\<rparr>)) (\<lambda>p. bindd Unpack_Properties (\<lambda>props.
            retd (p\<lparr>PublishProperties5 := props\<rparr>)))) (Reader bs EOF) = Inr (p2, cr)"
      and m: "read_full (nat (RemainingLength p2 - int (delivered (Reader bs EOF) cr))) cr = Inr (m, r')"
      and p2: "p = p2\<lparr>Message5 := m\<rparr>"
    by (auto simp: Unpack_Publish5_def p0_def [symmetric] decoder_cases(2) bindd_eq_Inr [of "read_full _"] Let_def
        split: sum.splits if_splits)
  from head obtain t r1 p1 r2 props
    where t: "DecodeString (Reader bs EOF) = Inr (t, r1)"
      and p1: "(if 0 < Qos p0 then bindd DecodeUint16 (\<lambda>messageID. retd (p0\<lparr>TopicName5 := t, Publish_MessageID5 := messageID\<rparr>))
           else retd (p0\<lparr>TopicName5 := t\<rparr>)) r1 = Inr (p1, r2)"
      and props: "Unpack_Properties r2 = Inr (props, cr)"
      and p3: "p2 = p1\<lparr>PublishProperties5 := props\<rparr>"
    unfolding bindd_eq_Inr [of DecodeString] bindd_eq_Inr [of "If _ _ _"] bindd_eq_Inr [of Unpack_Properties]
      retd_eq_Inr by blast
  note p = p2 [unfolded p3]
  from p1 obtain mid where mid: "p1 = p0\<lparr>TopicName5 := t, Publish_MessageID5 := mid\<rparr>"
      "length (if 0 < Qos fh then EncodeUint16 mid else []) + length (rd_data r2) \<le> length (rd_data r1)"
      "Qos fh = 0 \<longrightarrow> mid = 0"
  proof (cases "0 < Qos fh")
    case True
    with p1 obtain mid where "p1 = p0\<lparr>TopicName5 := t, Publish_MessageID5 := mid\<rparr>"
        "DecodeUint16 r1 = Inr (mid, r2)"
      by (auto simp: decoder_cases new)
    with True show ?thesis
      by (intro that [of mid]) (auto dest: field_length)
  next
    case False
    moreover have "p0\<lparr>TopicName5 := t\<rparr> = p0\<lparr>TopicName5 := t, Publish_MessageID5 := 0\<rparr>"
      using new(2) by (cases p0) simp
    ultimately show ?thesis
      using p1 that [of 0] by (simp add: decoder_cases new)
  qed
  from m have m: "length (rd_data cr) = length m + length (rd_data r')"
    by (simp add: read_full_eq_Inr)
  from new(1) have hd: "FixedHeader.truncate p = fh" "MessageType p = MessageType fh" "Qos p = Qos fh"
    by (auto simp: p mid(1) FixedHeader.truncate_def)
  have "length (body_Publish5 p) = length (EncodeString t) +
      length (if 0 < Qos fh then EncodeUint16 mid else []) + length (Encode_Properties props) + length m"
    by (simp add: body_Publish5_def head_Publish5_def p mid(1) new)
  also have "\<dots> \<le> length bs"
    using field_length(3) [OF t] mid(2) field_length(5) [OF props] m by simp
  finally show ?thesis
    using hd fh field_ok(1) [OF t] mid(3) field_ok(3) [OF props]
    by (simp add: ok_Publish5_def header_ok_def) (simp add: p mid(1))
qed

interpretation publish5: packet_format new_Publish5 Unpack_Publish5 Write_Publish5
    body_Publish5 ok_Publish5 "\<lambda>_. True"
proof unfold_locales
  fix p assume ok: "ok_Publish5 p"
  then show "Unpack_Publish5 (new_Publish5 (FixedHeader.truncate (p\<lparr>RemainingLength := int (length (body_Publish5 p))\<rparr>)))
      (Reader (body_Publish5 p) EOF) =
    Inr (p\<lparr>RemainingLength := int (length (body_Publish5 p))\<rparr>, Reader [] EOF)"
    by (cases p) (simp add: ok_Publish5_def Unpack_Publish5_def body_Publish5_def head_Publish5_def
        codec_simps new_Publish5_def FixedHeader.defs PublishPacket5.defs delivered_def word_greater_zero_iff)
next
  fix p assume "ok_Publish5 p"
  then show "MessageType p < 16 \<and> Qos p < 4 \<and> int (length (body_Publish5 p)) \<le> maxRemainingLength"
    by (simp add: ok_Publish5_def)
  show "Write_Publish5 p = (p\<lparr>RemainingLength := int (length (body_Publish5 p))\<rparr>,
      Pack (p\<lparr>RemainingLength := int (length (body_Publish5 p))\<rparr>) @ body_Publish5 p)"
    by (simp add: Write_Publish5_def body_Publish5_def Let_def)
qed (rule Unpack_Publish5_ok)

section \<open>PUBACK (puback.go)\<close>

record PubackPacket5 = FixedHeader +
  Puback_MessageID5 :: u16
  Puback_ReasonCode5 :: byte
  PubackProperties5 :: Properties

definition Name_Puback5 :: "PubackPacket5 \<Rightarrow> string" where
  "Name_Puback5 p = ''PUBACK''"

definition body_Puback5 :: "PubackPacket5 \<Rightarrow> byte list" where
  "body_Puback5 p =
     (if Puback_ReasonCode5 p = 0 \<and> length (RawData (PubackProperties5 p)) = 0
      then EncodeUint16 (Puback_MessageID5 p)
      else EncodeUint16 (Puback_MessageID5 p) @ [Puback_ReasonCode5 p] @ Encode_Properties (PubackProperties5 p))"

definition Write_Puback5 :: "PubackPacket5 \<Rightarrow> PubackPacket5 \<times> byte list" where
  "Write_Puback5 p =
     (if Puback_ReasonCode5 p = 0 \<and> length (RawData (PubackProperties5 p)) = 0
      then let p' = p\<lparr>RemainingLength := 2\<rparr>
           in (p', Pack p' @ EncodeUint16 (Puback_MessageID5 p'))
      else let body = EncodeUint16 (Puback_MessageID5 p) @ [Puback_ReasonCode5 p] @ Encode_Properties (PubackProperties5 p);
               p' = p\<lparr>RemainingLength := int (length body)\<rparr>
           in (p', Pack p' @ body))"

definition Unpack_Puback5 :: "PubackPacket5 \<Rightarrow> PubackPacket5 decoder" where
  "Unpack_Puback5 p =
     bindd DecodeUint16 (\<lambda>messageID.
     let p = p\<lparr>Puback_MessageID5 := messageID\<rparr>
     in if RemainingLength p = 2
        then retd (p\<lparr>Puback_ReasonCode5 := 0, PubackProperties5 := no_properties\<rparr>)
        else bindd DecodeByte (\<lambda>reasonCode.
             bindd Unpack_Properties (\<lambda>props.
             retd (p\<lparr>Puback_ReasonCode5 := reasonCode, PubackProperties5 := props\<rparr>))))"

definition new_Puback5 :: "FixedHeader \<Rightarrow> PubackPacket5" where
  "new_Puback5 fh = FixedHeader.extend fh (PubackPacket5.fields 0 0 no_properties)"

definition ok_Puback5 :: "PubackPacket5 \<Rightarrow> bool" where
  "ok_Puback5 p \<longleftrightarrow>
     MessageType p < 16 \<and> Qos p < 4 \<and> length (RawData (PubackProperties5 p)) < 2 ^ 28 \<and>
     int (length (body_Puback5 p)) \<le> maxRemainingLength"

lemma Unpack_Puback5_ok:
  assumes fh: "header_ok fh" and "Unpack_Puback5 (new_Puback5 fh) (Reader bs EOF) = Inr (p, r')"
  shows "FixedHeader.truncate p = fh \<and> length (body_Puback5 p) \<le> length bs \<and>
      length (RawData (PubackProperties5 p)) < 2 ^ 28"
  using assms(2)
  by (cases "RemainingLength fh = 2")
    (auto simp: Unpack_Puback5_def decoder_cases Let_def body_Puback5_def no_properties_def new_Puback5_def
      FixedHeader.defs PubackPacket5.defs dest!: field_bound)

interpretation puback5: packet_format new_Puback5 Unpack_Puback5 Write_Puback5
    body_Puback5 ok_Puback5 "\<lambda>_. True"
proof unfold_locales
  fix p assume ok: "ok_Puback5 p"
  then show "Unpack_Puback5 (new_Puback5 (FixedHeader.truncate (p\<lparr>RemainingLength := int (length (body_Puback5 p))\<rparr>)))
      (Reader (body_Puback5 p) EOF) =
    Inr (p\<lparr>RemainingLength := int (length (body_Puback5 p))\<rparr>, Reader [] EOF)"
    by (cases p) (auto simp: ok_Puback5_def Unpack_Puback5_def body_Puback5_def codec_simps Let_def no_properties_def
        new_Puback5_def FixedHeader.defs PubackPacket5.defs)
next
  fix fh bs p r'
  assume fh: "header_ok fh" "RemainingLength fh = int (length bs)"
    and "Unpack_Puback5 (new_Puback5 fh) (Reader bs EOF) = Inr (p, r')"
  from Unpack_Puback5_ok [OF this(1,3)] fh
  show "FixedHeader.truncate p = fh \<and> length (body_Puback5 p) \<le> length bs \<and> (True \<longrightarrow> ok_Puback5 p)"
    by (auto simp: ok_Puback5_def header_ok_def FixedHeader.truncate_def)
qed (simp_all add: ok_Puback5_def Write_Puback5_def body_Puback5_def Let_def)

section \<open>PUBREC (pubrec.go)\<close>

record PubrecPacket5 = FixedHeader +
  Pubrec_MessageID5 :: u16
  Pubrec_ReasonCode5 :: byte
  PubrecProperties5 :: Properties

definition Name_Pubrec5 :: "PubrecPacket5 \<Rightarrow> string" where
  "Name_Pubrec5 p = ''PUBREC''"

definition body_Pubrec5 :: "PubrecPacket5 \<Rightarrow> byte list" where
  "body_Pubrec5 p =
     (if Pubrec_ReasonCode5 p = 0 \<and> length (RawData (PubrecProperties5 p)) = 0
      then EncodeUint16 (Pubrec_MessageID5 p)
      else EncodeUint16 (Pubrec_MessageID5 p) @ [Pubrec_ReasonCode5 p] @ Encode_Properties (PubrecProperties5 p))"

definition Write_Pubrec5 :: "PubrecPacket5 \<Rightarrow> PubrecPacket5 \<times> byte list" where
  "Write_Pubrec5 p =
     (if Pubrec_ReasonCode5 p = 0 \<and> length (RawData (PubrecProperties5 p)) = 0
      then let p' = p\<lparr>RemainingLength := 2\<rparr>
           in (p', Pack p' @ EncodeUint16 (Pubrec_MessageID5 p'))
      else let body = EncodeUint16 (Pubrec_MessageID5 p) @ [Pubrec_ReasonCode5 p] @ Encode_Properties (PubrecProperties5 p);
               p' = p\<lparr>RemainingLength := int (length body)\<rparr>
           in (p', Pack p' @ body))"

definition Unpack_Pubrec5 :: "PubrecPacket5 \<Rightarrow> PubrecPacket5 decoder" where
  "Unpack_Pubrec5 p =
     bindd DecodeUint16 (\<lambda>messageID.
     let p = p\<lparr>Pubrec_MessageID5 := messageID\<rparr>
     in if RemainingLength p = 2
        then retd (p\<lparr>Pubrec_ReasonCode5 := 0, PubrecProperties5 := no_properties\<rparr>)
        else bindd DecodeByte (\<lambda>reasonCode.
             bindd Unpack_Properties (\<lambda>props.
             retd (p\<lparr>Pubrec_ReasonCode5 := reasonCode, PubrecProperties5 := props\<rparr>))))"

definition new_Pubrec5 :: "FixedHeader \<Rightarrow> PubrecPacket5" where
  "new_Pubrec5 fh = FixedHeader.extend fh (PubrecPacket5.fields 0 0 no_properties)"

definition ok_Pubrec5 :: "PubrecPacket5 \<Rightarrow> bool" where
  "ok_Pubrec5 p \<longleftrightarrow>
     MessageType p < 16 \<and> Qos p < 4 \<and> length (RawData (PubrecProperties5 p)) < 2 ^ 28 \<and>
     int (length (body_Pubrec5 p)) \<le> maxRemainingLength"

lemma Unpack_Pubrec5_ok:
  assumes fh: "header_ok fh" and "Unpack_Pubrec5 (new_Pubrec5 fh) (Reader bs EOF) = Inr (p, r')"
  shows "FixedHeader.truncate p = fh \<and> length (body_Pubrec5 p) \<le> length bs \<and>
      length (RawData (PubrecProperties5 p)) < 2 ^ 28"
  using assms(2)
  by (cases "RemainingLength fh = 2")
    (auto simp: Unpack_Pubrec5_def decoder_cases Let_def body_Pubrec5_def no_properties_def new_Pubrec5_def
      FixedHeader.defs PubrecPacket5.defs dest!: field_bound)

interpretation pubrec5: packet_format new_Pubrec5 Unpack_Pubrec5 Write_Pubrec5
    body_Pubrec5 ok_Pubrec5 "\<lambda>_. True"
proof unfold_locales
  fix p assume ok: "ok_Pubrec5 p"
  then show "Unpack_Pubrec5 (new_Pubrec5 (FixedHeader.truncate (p\<lparr>RemainingLength := int (length (body_Pubrec5 p))\<rparr>)))
      (Reader (body_Pubrec5 p) EOF) =
    Inr (p\<lparr>RemainingLength := int (length (body_Pubrec5 p))\<rparr>, Reader [] EOF)"
    by (cases p) (auto simp: ok_Pubrec5_def Unpack_Pubrec5_def body_Pubrec5_def codec_simps Let_def no_properties_def
        new_Pubrec5_def FixedHeader.defs PubrecPacket5.defs)
next
  fix fh bs p r'
  assume fh: "header_ok fh" "RemainingLength fh = int (length bs)"
    and "Unpack_Pubrec5 (new_Pubrec5 fh) (Reader bs EOF) = Inr (p, r')"
  from Unpack_Pubrec5_ok [OF this(1,3)] fh
  show "FixedHeader.truncate p = fh \<and> length (body_Pubrec5 p) \<le> length bs \<and> (True \<longrightarrow> ok_Pubrec5 p)"
    by (auto simp: ok_Pubrec5_def header_ok_def FixedHeader.truncate_def)
qed (simp_all add: ok_Pubrec5_def Write_Pubrec5_def body_Pubrec5_def Let_def)

section \<open>PUBREL (pubrel.go)\<close>

record PubrelPacket5 = FixedHeader +
  Pubrel_MessageID5 :: u16
  Pubrel_ReasonCode5 :: byte
  PubrelProperties5 :: Properties

definition Name_Pubrel5 :: "PubrelPacket5 \<Rightarrow> string" where
  "Name_Pubrel5 p = ''PUBREL''"

definition body_Pubrel5 :: "PubrelPacket5 \<Rightarrow> byte list" where
  "body_Pubrel5 p =
     (if Pubrel_ReasonCode5 p = 0 \<and> length (RawData (PubrelProperties5 p)) = 0
      then EncodeUint16 (Pubrel_MessageID5 p)
      else EncodeUint16 (Pubrel_MessageID5 p) @ [Pubrel_ReasonCode5 p] @ Encode_Properties (PubrelProperties5 p))"

definition Write_Pubrel5 :: "PubrelPacket5 \<Rightarrow> PubrelPacket5 \<times> byte list" where
  "Write_Pubrel5 p =
     (if Pubrel_ReasonCode5 p = 0 \<and> length (RawData (PubrelProperties5 p)) = 0
      then let p' = p\<lparr>RemainingLength := 2\<rparr>
           in (p', Pack p' @ EncodeUint16 (Pubrel_MessageID5 p'))
      else let body = EncodeUint16 (Pubrel_MessageID5 p) @ [Pubrel_ReasonCode5 p] @ Encode_Properties (PubrelProperties5 p);
               p' = p\<lparr>RemainingLength := int (length body)\<rparr>
           in (p', Pack p' @ body))"

definition Unpack_Pubrel5 :: "PubrelPacket5 \<Rightarrow> PubrelPacket5 decoder" where
  "Unpack_Pubrel5 p =
     bindd DecodeUint16 (\<lambda>messageID.
     let p = p\<lparr>Pubrel_MessageID5 := messageID\<rparr>
     in if RemainingLength p = 2
        then retd (p\<lparr>Pubrel_ReasonCode5 := 0, PubrelProperties5 := no_properties\<rparr>)
        else bindd DecodeByte (\<lambda>reasonCode.
             bindd Unpack_Properties (\<lambda>props.
             retd (p\<lparr>Pubrel_ReasonCode5 := reasonCode, PubrelProperties5 := props\<rparr>))))"

definition new_Pubrel5 :: "FixedHeader \<Rightarrow> PubrelPacket5" where
  "new_Pubrel5 fh = FixedHeader.extend fh (PubrelPacket5.fields 0 0 no_properties)"

definition ok_Pubrel5 :: "PubrelPacket5 \<Rightarrow> bool" where
  "ok_Pubrel5 p \<longleftrightarrow>
     MessageType p < 16 \<and> Qos p < 4 \<and> length (RawData (PubrelProperties5 p)) < 2 ^ 28 \<and>
     int (length (body_Pubrel5 p)) \<le> maxRemainingLength"

lemma Unpack_Pubrel5_ok:
  assumes fh: "header_ok fh" and "Unpack_Pubrel5 (new_Pubrel5 fh) (Reader bs EOF) = Inr (p, r')"
  shows "FixedHeader.truncate p = fh \<and> length (body_Pubrel5 p) \<le> length bs \<and>
      length (RawData (PubrelProperties5 p)) < 2 ^ 28"
  using assms(2)
  by (cases "RemainingLength fh = 2")
    (auto simp: Unpack_Pubrel5_def decoder_cases Let_def body_Pubrel5_def no_properties_def new_Pubrel5_def
      FixedHeader.defs PubrelPacket5.defs dest!: field_bound)

interpretation pubrel5: packet_format new_Pubrel5 Unpack_Pubrel5 Write_Pubrel5
    body_Pubrel5 ok_Pubrel5 "\<lambda>_. True"
proof unfold_locales
  fix p assume ok: "ok_Pubrel5 p"
  then show "Unpack_Pubrel5 (new_Pubrel5 (FixedHeader.truncate (p\<lparr>RemainingLength := int (length (body_Pubrel5 p))\<rparr>)))
      (Reader (body_Pubrel5 p) EOF) =
    Inr (p\<lparr>RemainingLength := int (length (body_Pubrel5 p))\<rparr>, Reader [] EOF)"
    by (cases p) (auto simp: ok_Pubrel5_def Unpack_Pubrel5_def body_Pubrel5_def codec_simps Let_def no_properties_def
        new_Pubrel5_def FixedHeader.defs PubrelPacket5.defs)
next
  fix fh bs p r'
  assume fh: "header_ok fh" "RemainingLength fh = int (length bs)"
    and "Unpack_Pubrel5 (new_Pubrel5 fh) (Reader bs EOF) = Inr (p, r')"
  from Unpack_Pubrel5_ok [OF this(1,3)] fh
  show "FixedHeader.truncate p = fh \<and> length (body_Pubrel5 p) \<le> length bs \<and> (True \<longrightarrow> ok_Pubrel5 p)"
    by (auto simp: ok_Pubrel5_def header_ok_def FixedHeader.truncate_def)
qed (simp_all add: ok_Pubrel5_def Write_Pubrel5_def body_Pubrel5_def Let_def)

section \<open>PUBCOMP (pubcomp.go)\<close>

record PubcompPacket5 = FixedHeader +
  Pubcomp_MessageID5 :: u16
  Pubcomp_ReasonCode5 :: byte
  PubcompProperties5 :: Properties

definition Name_Pubcomp5 :: "PubcompPacket5 \<Rightarrow> string" where
  "Name_Pubcomp5 p = ''PUBCOMP''"

definition body_Pubcomp5 :: "PubcompPacket5 \<Rightarrow> byte list" where
  "body_Pubcomp5 p =
     (if Pubcomp_ReasonCode5 p = 0 \<and> length (RawData (PubcompProperties5 p)) = 0
      then EncodeUint16 (Pubcomp_MessageID5 p)
      else EncodeUint16 (Pubcomp_MessageID5 p) @ [Pubcomp_ReasonCode5 p] @ Encode_Properties (PubcompProperties5 p))"

definition Write_Pubcomp5 :: "PubcompPacket5 \<Rightarrow> PubcompPacket5 \<times> byte list" where
  "Write_Pubcomp5 p =
     (if Pubcomp_ReasonCode5 p = 0 \<and> length (RawData (PubcompProperties5 p)) = 0
      then let p' = p\<lparr>RemainingLength := 2\<rparr>
           in (p', Pack p' @ EncodeUint16 (Pubcomp_MessageID5 p'))
      else let body = EncodeUint16 (Pubcomp_MessageID5 p) @ [Pubcomp_ReasonCode5 p] @ Encode_Properties (PubcompProperties5 p);
               p' = p\<lparr>RemainingLength := int (length body)\<rparr>
           in (p', Pack p' @ body))"

definition Unpack_Pubcomp5 :: "PubcompPacket5 \<Rightarrow> PubcompPacket5 decoder" where
  "Unpack_Pubcomp5 p =
     bindd DecodeUint16 (\<lambda>messageID.
     let p = p\<lparr>Pubcomp_MessageID5 := messageID\<rparr>
     in if RemainingLength p = 2
        then retd (p\<lparr>Pubcomp_ReasonCode5 := 0, PubcompProperties5 := no_properties\<rparr>)
        else bindd DecodeByte (\<lambda>reasonCode.
             bindd Unpack_Properties (\<lambda>props.
             retd (p\<lparr>Pubcomp_ReasonCode5 := reasonCode, PubcompProperties5 := props\<rparr>))))"

definition new_Pubcomp5 :: "FixedHeader \<Rightarrow> PubcompPacket5" where
  "new_Pubcomp5 fh = FixedHeader.extend fh (PubcompPacket5.fields 0 0 no_properties)"

definition ok_Pubcomp5 :: "PubcompPacket5 \<Rightarrow> bool" where
  "ok_Pubcomp5 p \<longleftrightarrow>
     MessageType p < 16 \<and> Qos p < 4 \<and> length (RawData (PubcompProperties5 p)) < 2 ^ 28 \<and>
     int (length (body_Pubcomp5 p)) \<le> maxRemainingLength"

lemma Unpack_Pubcomp5_ok:
  assumes fh: "header_ok fh" and "Unpack_Pubcomp5 (new_Pubcomp5 fh) (Reader bs EOF) = Inr (p, r')"
  shows "FixedHeader.truncate p = fh \<and> length (body_Pubcomp5 p) \<le> length bs \<and>
      length (RawData (PubcompProperties5 p)) < 2 ^ 28"
  using assms(2)
  by (cases "RemainingLength fh = 2")
    (auto simp: Unpack_Pubcomp5_def decoder_cases Let_def body_Pubcomp5_def no_properties_def new_Pubcomp5_def
      FixedHeader.defs PubcompPacket5.defs dest!: field_bound)

interpretation pubcomp5: packet_format new_Pubcomp5 Unpack_Pubcomp5 Write_Pubcomp5
    body_Pubcomp5 ok_Pubcomp5 "\<lambda>_. True"
proof unfold_locales
  fix p assume ok: "ok_Pubcomp5 p"
  then show "Unpack_Pubcomp5 (new_Pubcomp5 (FixedHeader.truncate (p\<lparr>RemainingLength := int (length (body_Pubcomp5 p))\<rparr>)))
      (Reader (body_Pubcomp5 p) EOF) =
    Inr (p\<lparr>RemainingLength := int (length (body_Pubcomp5 p))\<rparr>, Reader [] EOF)"
    by (cases p) (auto simp: ok_Pubcomp5_def Unpack_Pubcomp5_def body_Pubcomp5_def codec_simps Let_def no_properties_def
        new_Pubcomp5_def FixedHeader.defs PubcompPacket5.defs)
next
  fix fh bs p r'
  assume fh: "header_ok fh" "RemainingLength fh = int (length bs)"
    and "Unpack_Pubcomp5 (new_Pubcomp5 fh) (Reader bs EOF) = Inr (p, r')"
  from Unpack_Pubcomp5_ok [OF this(1,3)] fh
  show "FixedHeader.truncate p = fh \<and> length (body_Pubcomp5 p) \<le> length bs \<and> (True \<longrightarrow> ok_Pubcomp5 p)"
    by (auto simp: ok_Pubcomp5_def header_ok_def FixedHeader.truncate_def)
qed (simp_all add: ok_Pubcomp5_def Write_Pubcomp5_def body_Pubcomp5_def Let_def)

section \<open>PINGREQ and PINGRESP (pingreq.go, pingresp.go)\<close>

type_synonym PingreqPacket5 = FixedHeader

definition Name_Pingreq5 :: "PingreqPacket5 \<Rightarrow> string" where
  "Name_Pingreq5 p = ''PINGREQ''"

definition Write_Pingreq5 :: "PingreqPacket5 \<Rightarrow> PingreqPacket5 \<times> byte list" where
  "Write_Pingreq5 p = (p, Pack p)"

definition Unpack_Pingreq5 :: "PingreqPacket5 \<Rightarrow> PingreqPacket5 decoder" where
  "Unpack_Pingreq5 p = retd p"

type_synonym PingrespPacket5 = FixedHeader

definition Name_Pingresp5 :: "PingrespPacket5 \<Rightarrow> string" where
  "Name_Pingresp5 p = ''PINGRESP''"

definition Write_Pingresp5 :: "PingrespPacket5 \<Rightarrow> PingrespPacket5 \<times> byte list" where
  "Write_Pingresp5 p = (p, Pack p)"

definition Unpack_Pingresp5 :: "PingrespPacket5 \<Rightarrow> PingrespPacket5 decoder" where
  "Unpack_Pingresp5 p = retd p"

interpretation pingreq5: packet_format "\<lambda>fh. fh" Unpack_Pingreq5 Write_Pingreq5
    "\<lambda>_. []" ok_empty "\<lambda>p. RemainingLength p = 0"
  by unfold_locales
    (auto simp: ok_emptyD Write_Pingreq5_def Unpack_Pingreq5_def ok_empty_def FixedHeader.defs maxRemainingLength_def
      header_ok_def codec_simps)

interpretation pingresp5: packet_format "\<lambda>fh. fh" Unpack_Pingresp5 Write_Pingresp5
    "\<lambda>_. []" ok_empty "\<lambda>p. RemainingLength p = 0"
  by unfold_locales
    (auto simp: ok_emptyD Write_Pingresp5_def Unpack_Pingresp5_def ok_empty_def FixedHeader.defs maxRemainingLength_def
      header_ok_def codec_simps)

section \<open>DISCONNECT (disconnect.go)\<close>

record DisconnectPacket5 = FixedHeader +
  Disconnect_ReasonCode5 :: byte
  DisconnectProperties5 :: Properties

definition Name_Disconnect5 :: "DisconnectPacket5 \<Rightarrow> string" where
  "Name_Disconnect5 p = ''DISCONNECT''"

definition body_Disconnect5 :: "DisconnectPacket5 \<Rightarrow> byte list" where
  "body_Disconnect5 p =
     (if Disconnect_ReasonCode5 p = 0 \<and> length (RawData (DisconnectProperties5 p)) = 0
      then []
      else [Disconnect_ReasonCode5 p] @ Encode_Properties (DisconnectProperties5 p))"

text \<open>The short form sends the header as it is: \<open>RemainingLength\<close> is not reset.\<close>

definition Write_Disconnect5 :: "DisconnectPacket5 \<Rightarrow> DisconnectPacket5 \<times> byte list" where
  "Write_Disconnect5 p =
     (if Disconnect_ReasonCode5 p = 0 \<and> length (RawData (DisconnectProperties5 p)) = 0
      then (p, Pack p)
      else let body = [Disconnect_ReasonCode5 p] @ Encode_Properties (DisconnectProperties5 p);
               p' = p\<lparr>RemainingLength := int (length body)\<rparr>
           in (p', Pack p' @ body))"

definition Unpack_Disconnect5 :: "DisconnectPacket5 \<Rightarrow> DisconnectPacket5 decoder" where
  "Unpack_Disconnect5 p =
     (if RemainingLength p = 0
      then retd (p\<lparr>Disconnect_ReasonCode5 := 0, DisconnectProperties5 := no_properties\<rparr>)
      else bindd DecodeByte (\<lambda>reasonCode.
           bindd Unpack_Properties (\<lambda>props.
           retd (p\<lparr>Disconnect_ReasonCode5 := reasonCode, DisconnectProperties5 := props\<rparr>))))"

definition new_Disconnect5 :: "FixedHeader \<Rightarrow> DisconnectPacket5" where
  "new_Disconnect5 fh = FixedHeader.extend fh (DisconnectPacket5.fields 0 no_properties)"

definition clean_Disconnect5 :: "DisconnectPacket5 \<Rightarrow> bool" where
  "clean_Disconnect5 p \<longleftrightarrow>
     (Disconnect_ReasonCode5 p = 0 \<and> length (RawData (DisconnectProperties5 p)) = 0 \<longrightarrow> RemainingLength p = 0)"

definition ok_Disconnect5 :: "DisconnectPacket5 \<Rightarrow> bool" where
  "ok_Disconnect5 p \<longleftrightarrow>
     MessageType p < 16 \<and> Qos p < 4 \<and> clean_Disconnect5 p \<and>
     length (RawData (DisconnectProperties5 p)) < 2 ^ 28 \<and>
     int (length (body_Disconnect5 p)) \<le> maxRemainingLength"

lemma Unpack_Disconnect5_ok:
  assumes fh: "header_ok fh" and "Unpack_Disconnect5 (new_Disconnect5 fh) (Reader bs EOF) = Inr (p, r')"
  shows "FixedHeader.truncate p = fh \<and> length (body_Disconnect5 p) \<le> length bs \<and>
      length (RawData (DisconnectProperties5 p)) < 2 ^ 28"
  using assms(2)
  by (cases "RemainingLength fh = 0")
    (auto simp: Unpack_Disconnect5_def decoder_cases Let_def body_Disconnect5_def no_properties_def
      new_Disconnect5_def FixedHeader.defs DisconnectPacket5.defs dest!: field_bound)

interpretation disconnect5: packet_format new_Disconnect5 Unpack_Disconnect5 Write_Disconnect5
    body_Disconnect5 ok_Disconnect5 clean_Disconnect5
proof unfold_locales
  fix p assume ok: "ok_Disconnect5 p"
  show "Unpack_Disconnect5 (new_Disconnect5 (FixedHeader.truncate (p\<lparr>RemainingLength := int (length (body_Disconnect5 p))\<rparr>)))
      (Reader (body_Disconnect5 p) EOF) =
    Inr (p\<lparr>RemainingLength := int (length (body_Disconnect5 p))\<rparr>, Reader [] EOF)"
    using ok
    by (cases p) (auto simp: ok_Disconnect5_def Unpack_Disconnect5_def body_Disconnect5_def codec_simps
        no_properties_def new_Disconnect5_def FixedHeader.defs DisconnectPacket5.defs)
  show "Write_Disconnect5 p = (p\<lparr>RemainingLength := int (length (body_Disconnect5 p))\<rparr>,
      Pack (p\<lparr>RemainingLength := int (length (body_Disconnect5 p))\<rparr>) @ body_Disconnect5 p)"
    using ok by (cases p) (auto simp: ok_Disconnect5_def clean_Disconnect5_def Write_Disconnect5_def
        body_Disconnect5_def Let_def)
next
  fix fh bs p r'
  assume fh: "header_ok fh" "RemainingLength fh = int (length bs)"
    and "Unpack_Disconnect5 (new_Disconnect5 fh) (Reader bs EOF) = Inr (p, r')"
  from Unpack_Disconnect5_ok [OF this(1,3)] fh
  show "FixedHeader.truncate p = fh \<and> length (body_Disconnect5 p) \<le> length bs \<and>
      (clean_Disconnect5 p \<longrightarrow> ok_Disconnect5 p)"
    by (auto simp: ok_Disconnect5_def header_ok_def FixedHeader.truncate_def)
qed (simp_all add: ok_Disconnect5_def)

end
