(* ===== verification/V5.thy ===== *)
theory V5
  imports V5_Connect V5_Packets
begin

text \<open>
  Package pkg/mqtt/codec/v5: the interface value of its packets, the constructors by packet type and
  \<open>ReadPacket\<close> (packets.go), with the same facts as for MQTT 3.1.1. The package has no SUBSCRIBE and
  UNSUBSCRIBE packets.
\<close>

section \<open>The packets as one interface value\<close>

datatype ControlPacket5 =
    is_Connect5: Connect5 ConnectPacket5
  | Connack5 ConnackPacket5
  | Publish5 PublishPacket5
  | Puback5 PubackPacket5
  | Pubrec5 PubrecPacket5
  | Pubrel5 PubrelPacket5
  | Pubcomp5 PubcompPacket5
  | Pingreq5 PingreqPacket5
  | Pingresp5 PingrespPacket5
  | Disconnect5 DisconnectPacket5

fun Write5 :: "ControlPacket5 \<Rightarrow> ControlPacket5 \<times> byte list" where
  "Write5 (Connect5 p) = map_prod Connect5 id (Write_Connect5 p)"
| "Write5 (Connack5 p) = map_prod Connack5 id (Write_Connack5 p)"
| "Write5 (Publish5 p) = map_prod Publish5 id (Write_Publish5 p)"
| "Write5 (Puback5 p) = map_prod Puback5 id (Write_Puback5 p)"
| "Write5 (Pubrec5 p) = map_prod Pubrec5 id (Write_Pubrec5 p)"
| "Write5 (Pubrel5 p) = map_prod Pubrel5 id (Write_Pubrel5 p)"
| "Write5 (Pubcomp5 p) = map_prod Pubcomp5 id (Write_Pubcomp5 p)"
| "Write5 (Pingreq5 p) = map_prod Pingreq5 id (Write_Pingreq5 p)"
| "Write5 (Pingresp5 p) = map_prod Pingresp5 id (Write_Pingresp5 p)"
| "Write5 (Disconnect5 p) = map_prod Disconnect5 id (Write_Disconnect5 p)"

fun Unpack5 :: "ControlPacket5 \<Rightarrow> ControlPacket5 decoder" where
  "Unpack5 (Connect5 p) = unpack_as Connect5 (Unpack_Connect5 p)"
| "Unpack5 (Connack5 p) = unpack_as Connack5 (Unpack_Connack5 p)"
| "Unpack5 (Publish5 p) = unpack_as Publish5 (Unpack_Publish5 p)"
| "Unpack5 (Puback5 p) = unpack_as Puback5 (Unpack_Puback5 p)"
| "Unpack5 (Pubrec5 p) = unpack_as Pubrec5 (Unpack_Pubrec5 p)"
| "Unpack5 (Pubrel5 p) = unpack_as Pubrel5 (Unpack_Pubrel5 p)"
| "Unpack5 (Pubcomp5 p) = unpack_as Pubcomp5 (Unpack_Pubcomp5 p)"
| "Unpack5 (Pingreq5 p) = unpack_as Pingreq5 (Unpack_Pingreq5 p)"
| "Unpack5 (Pingresp5 p) = unpack_as Pingresp5 (Unpack_Pingresp5 p)"
| "Unpack5 (Disconnect5 p) = unpack_as Disconnect5 (Unpack_Disconnect5 p)"

fun Name5 :: "ControlPacket5 \<Rightarrow> string" where
  "Name5 (Connect5 p) = Name_Connect5 p"
| "Name5 (Connack5 p) = Name_Connack5 p"
| "Name5 (Publish5 p) = Name_Publish5 p"
| "Name5 (Puback5 p) = Name_Puback5 p"
| "Name5 (Pubrec5 p) = Name_Pubrec5 p"
| "Name5 (Pubrel5 p) = Name_Pubrel5 p"
| "Name5 (Pubcomp5 p) = Name_Pubcomp5 p"
| "Name5 (Pingreq5 p) = Name_Pingreq5 p"
| "Name5 (Pingresp5 p) = Name_Pingresp5 p"
| "Name5 (Disconnect5 p) = Name_Disconnect5 p"

fun header5 :: "ControlPacket5 \<Rightarrow> FixedHeader" where
  "header5 (Connect5 p) = FixedHeader.truncate p"
| "header5 (Connack5 p) = FixedHeader.truncate p"
| "header5 (Publish5 p) = FixedHeader.truncate p"
| "header5 (Puback5 p) = FixedHeader.truncate p"
| "header5 (Pubrec5 p) = FixedHeader.truncate p"
| "header5 (Pubrel5 p) = FixedHeader.truncate p"
| "header5 (Pubcomp5 p) = FixedHeader.truncate p"
| "header5 (Pingreq5 p) = FixedHeader.truncate p"
| "header5 (Pingresp5 p) = FixedHeader.truncate p"
| "header5 (Disconnect5 p) = FixedHeader.truncate p"

definition Type5 :: "ControlPacket5 \<Rightarrow> byte" where
  "Type5 p = MessageType (header5 p)"

definition Version5 :: "ControlPacket5 \<Rightarrow> byte" where
  "Version5 p = MQTT_5"

section \<open>Constructors and reader (packets.go)\<close>

definition NewControlPacket5 :: "byte \<Rightarrow> ControlPacket5 option" where
  "NewControlPacket5 packetType =
     (let fh = zero_header packetType in
      if packetType = CONNECT then Some (Connect5 (new_Connect5 fh))
      else if packetType = CONNACK then Some (Connack5 (new_Connack5 fh))
      else if packetType = PUBLISH then Some (Publish5 (new_Publish5 fh))
      else if packetType = PUBACK then Some (Puback5 (new_Puback5 fh))
      else if packetType = PUBREC then Some (Pubrec5 (new_Pubrec5 fh))
      else if packetType = PUBREL then Some (Pubrel5 (new_Pubrel5 fh))
      else if packetType = PUBCOMP then Some (Pubcomp5 (new_Pubcomp5 fh))
      else if packetType = PINGREQ then Some (Pingreq5 fh)
      else if packetType = PINGRESP then Some (Pingresp5 fh)
      else if packetType = DISCONNECT then Some (Disconnect5 (new_Disconnect5 fh))
      else None)"

definition NewControlPacketWithHeader5 :: "FixedHeader \<Rightarrow> go_error + ControlPacket5" where
  "NewControlPacketWithHeader5 fh =
     (if MessageType fh = CONNECT then Inr (Connect5 (new_Connect5 fh))
     else if MessageType fh = CONNACK then Inr (Connack5 (new_Connack5 fh))
     else if MessageType fh = PUBLISH then Inr (Publish5 (new_Publish5 fh))
     else if MessageType fh = PUBACK then Inr (Puback5 (new_Puback5 fh))
     else if MessageType fh = PUBREC then Inr (Pubrec5 (new_Pubrec5 fh))
     else if MessageType fh = PUBREL then Inr (Pubrel5 (new_Pubrel5 fh))
     else if MessageType fh = PUBCOMP then Inr (Pubcomp5 (new_Pubcomp5 fh))
     else if MessageType fh = PINGREQ then Inr (Pingreq5 fh)
     else if MessageType fh = PINGRESP then Inr (Pingresp5 fh)
     else if MessageType fh = DISCONNECT then Inr (Disconnect5 (new_Disconnect5 fh))
      else Inl (Errorf ''unsupported packet type 0x%x'' [AInt (int (unat (MessageType fh)))]))"

definition ReadPacket5 :: "ControlPacket5 decoder" where
  "ReadPacket5 =
     bindd (read_full 1) (\<lambda>b1.
     bindd (Unpack (b1 ! 0)) (\<lambda>fh.
       case Validate fh of
         Some e \<Rightarrow> faild e
       | None \<Rightarrow>
           (case NewControlPacketWithHeader5 fh of
              Inl e \<Rightarrow> faild e
            | Inr cp \<Rightarrow>
                bindd (read_full (nat (RemainingLength fh))) (\<lambda>packetBytes.
                  if int (length packetBytes) \<noteq> RemainingLength fh
                  then faild (Errorf ''failed to read encoded data, read %d from %d''
                         [AInt (int (length packetBytes)), AInt (RemainingLength fh)])
                  else
                    (case Unpack5 cp (Reader packetBytes EOF) of
                       Inl e \<Rightarrow> faild e
                     | Inr (cp', _) \<Rightarrow> retd cp')))))"

section \<open>What can be sent, what can be read\<close>

fun body5 :: "ControlPacket5 \<Rightarrow> byte list" where
  "body5 (Connect5 p) = body_Connect5 p"
| "body5 (Connack5 p) = body_Connack5 p"
| "body5 (Publish5 p) = body_Publish5 p"
| "body5 (Puback5 p) = body_Puback5 p"
| "body5 (Pubrec5 p) = body_Pubrec5 p"
| "body5 (Pubrel5 p) = body_Pubrel5 p"
| "body5 (Pubcomp5 p) = body_Pubcomp5 p"
| "body5 (Pingreq5 p) = []"
| "body5 (Pingresp5 p) = []"
| "body5 (Disconnect5 p) = body_Disconnect5 p"

fun ok5 :: "ControlPacket5 \<Rightarrow> bool" where
  "ok5 (Connect5 p) = (MessageType p = CONNECT \<and> ok_Connect5 p)"
| "ok5 (Connack5 p) = (MessageType p = CONNACK \<and> ok_Connack5 p)"
| "ok5 (Publish5 p) = (MessageType p = PUBLISH \<and> ok_Publish5 p)"
| "ok5 (Puback5 p) = (MessageType p = PUBACK \<and> ok_Puback5 p)"
| "ok5 (Pubrec5 p) = (MessageType p = PUBREC \<and> ok_Pubrec5 p)"
| "ok5 (Pubrel5 p) = (MessageType p = PUBREL \<and> ok_Pubrel5 p)"
| "ok5 (Pubcomp5 p) = (MessageType p = PUBCOMP \<and> ok_Pubcomp5 p)"
| "ok5 (Pingreq5 p) = (MessageType p = PINGREQ \<and> ok_empty p)"
| "ok5 (Pingresp5 p) = (MessageType p = PINGRESP \<and> ok_empty p)"
| "ok5 (Disconnect5 p) = (MessageType p = DISCONNECT \<and> ok_Disconnect5 p)"

fun clean5 :: "ControlPacket5 \<Rightarrow> bool" where
  "clean5 (Connect5 p) = (\<not> ReservedBit5 p)"
| "clean5 (Connack5 p) = True"
| "clean5 (Publish5 p) = True"
| "clean5 (Puback5 p) = True"
| "clean5 (Pubrec5 p) = True"
| "clean5 (Pubrel5 p) = True"
| "clean5 (Pubcomp5 p) = True"
| "clean5 (Pingreq5 p) = (RemainingLength p = 0)"
| "clean5 (Pingresp5 p) = (RemainingLength p = 0)"
| "clean5 (Disconnect5 p) = (clean_Disconnect5 p)"

interpretation v5: packet_reader NewControlPacketWithHeader5 Unpack5 ReadPacket5
  by unfold_locales (rule ReadPacket5_def)

interpretation connect5: packet_kind NewControlPacketWithHeader5 Unpack5 ReadPacket5
    new_Connect5 Unpack_Connect5 Write_Connect5 body_Connect5 ok_Connect5 "\<lambda>p. \<not> ReservedBit5 p" Connect5 CONNECT
  by unfold_locales (simp_all add: NewControlPacketWithHeader5_def message_types)

interpretation connack5: packet_kind NewControlPacketWithHeader5 Unpack5 ReadPacket5
    new_Connack5 Unpack_Connack5 Write_Connack5 body_Connack5 ok_Connack5 "\<lambda>_. True" Connack5 CONNACK
  by unfold_locales (simp_all add: NewControlPacketWithHeader5_def message_types)

interpretation publish5: packet_kind NewControlPacketWithHeader5 Unpack5 ReadPacket5
    new_Publish5 Unpack_Publish5 Write_Publish5 body_Publish5 ok_Publish5 "\<lambda>_. True" Publish5 PUBLISH
  by unfold_locales (simp_all add: NewControlPacketWithHeader5_def message_types)

interpretation puback5: packet_kind NewControlPacketWithHeader5 Unpack5 ReadPacket5
    new_Puback5 Unpack_Puback5 Write_Puback5 body_Puback5 ok_Puback5 "\<lambda>_. True" Puback5 PUBACK
  by unfold_locales (simp_all add: NewControlPacketWithHeader5_def message_types)

interpretation pubrec5: packet_kind NewControlPacketWithHeader5 Unpack5 ReadPacket5
    new_Pubrec5 Unpack_Pubrec5 Write_Pubrec5 body_Pubrec5 ok_Pubrec5 "\<lambda>_. True" Pubrec5 PUBREC
  by unfold_locales (simp_all add: NewControlPacketWithHeader5_def message_types)

interpretation pubrel5: packet_kind NewControlPacketWithHeader5 Unpack5 ReadPacket5
    new_Pubrel5 Unpack_Pubrel5 Write_Pubrel5 body_Pubrel5 ok_Pubrel5 "\<lambda>_. True" Pubrel5 PUBREL
  by unfold_locales (simp_all add: NewControlPacketWithHeader5_def message_types)

interpretation pubcomp5: packet_kind NewControlPacketWithHeader5 Unpack5 ReadPacket5
    new_Pubcomp5 Unpack_Pubcomp5 Write_Pubcomp5 body_Pubcomp5 ok_Pubcomp5 "\<lambda>_. True" Pubcomp5 PUBCOMP
  by unfold_locales (simp_all add: NewControlPacketWithHeader5_def message_types)

interpretation pingreq5: packet_kind NewControlPacketWithHeader5 Unpack5 ReadPacket5
    "\<lambda>fh. fh" Unpack_Pingreq5 Write_Pingreq5 "\<lambda>_. []" ok_empty "\<lambda>p. RemainingLength p = 0" Pingreq5 PINGREQ
  by unfold_locales (simp_all add: NewControlPacketWithHeader5_def message_types)

interpretation pingresp5: packet_kind NewControlPacketWithHeader5 Unpack5 ReadPacket5
    "\<lambda>fh. fh" Unpack_Pingresp5 Write_Pingresp5 "\<lambda>_. []" ok_empty "\<lambda>p. RemainingLength p = 0" Pingresp5 PINGRESP
  by unfold_locales (simp_all add: NewControlPacketWithHeader5_def message_types)

interpretation disconnect5: packet_kind NewControlPacketWithHeader5 Unpack5 ReadPacket5
    new_Disconnect5 Unpack_Disconnect5 Write_Disconnect5 body_Disconnect5 ok_Disconnect5 "\<lambda>p. clean_Disconnect5 p" Disconnect5 DISCONNECT
  by unfold_locales (simp_all add: NewControlPacketWithHeader5_def message_types)

lemma NewControlPacketWithHeader5_types:
  assumes "NewControlPacketWithHeader5 fh = Inr cp"
  obtains "MessageType fh = CONNECT" | "MessageType fh = CONNACK" | "MessageType fh = PUBLISH" | "MessageType fh = PUBACK" | "MessageType fh = PUBREC" | "MessageType fh = PUBREL" | "MessageType fh = PUBCOMP" | "MessageType fh = PINGREQ" | "MessageType fh = PINGRESP" | "MessageType fh = DISCONNECT"
proof (rule ccontr)
  assume "\<not> thesis"
  with that have "MessageType fh \<notin> {CONNECT, CONNACK, PUBLISH, PUBACK, PUBREC, PUBREL, PUBCOMP, PINGREQ, PINGRESP, DISCONNECT}"
    by blast
  with assms show False
    by (simp add: NewControlPacketWithHeader5_def)
qed

lemmas read_wr5 =
  connect5.read_wr
  connack5.read_wr
  publish5.read_wr
  puback5.read_wr
  pubrec5.read_wr
  pubrel5.read_wr
  pubcomp5.read_wr
  pingreq5.read_wr
  pingresp5.read_wr
  disconnect5.read_wr

lemma ReadPacket5_wr:
  assumes "ok5 p"
  shows "ReadPacket5 (Reader (snd (Write5 p) @ rest) e) = Inr (fst (Write5 p), Reader rest e)"
  using assms by (cases p) (simp_all add: read_wr5)

lemma Unpack5_ok:
  assumes "header_ok fh" and "NewControlPacketWithHeader5 fh = Inr cp"
    and "RemainingLength fh = int (length bs)" and "Unpack5 cp (Reader bs EOF) = Inr (p, r1)"
  shows "header5 p = fh \<and> length (body5 p) \<le> length bs \<and> (clean5 p \<longrightarrow> ok5 p)"
  using assms(2)
proof (cases rule: NewControlPacketWithHeader5_types)
  case 1
  from connect5.unpacked [OF assms(1) this assms(2-4)] show ?thesis
    by auto
next
  case 2
  from connack5.unpacked [OF assms(1) this assms(2-4)] show ?thesis
    by auto
next
  case 3
  from publish5.unpacked [OF assms(1) this assms(2-4)] show ?thesis
    by auto
next
  case 4
  from puback5.unpacked [OF assms(1) this assms(2-4)] show ?thesis
    by auto
next
  case 5
  from pubrec5.unpacked [OF assms(1) this assms(2-4)] show ?thesis
    by auto
next
  case 6
  from pubrel5.unpacked [OF assms(1) this assms(2-4)] show ?thesis
    by auto
next
  case 7
  from pubcomp5.unpacked [OF assms(1) this assms(2-4)] show ?thesis
    by auto
next
  case 8
  from pingreq5.unpacked [OF assms(1) this assms(2-4)] show ?thesis
    by auto
next
  case 9
  from pingresp5.unpacked [OF assms(1) this assms(2-4)] show ?thesis
    by auto
next
  case 10
  from disconnect5.unpacked [OF assms(1) this assms(2-4)] show ?thesis
    by auto
qed

lemma ReadPacket5_ok:
  assumes "ReadPacket5 r = Inr (p, r')"
  shows "header_ok (header5 p)" and "clean5 p \<longrightarrow> ok5 p"
    and "int (length (body5 p)) \<le> RemainingLength (header5 p)"
proof -
  from assms obtain fh cp body r1 where fh: "header_ok fh" "NewControlPacketWithHeader5 fh = Inr cp"
    and rl: "RemainingLength fh = int (length body)" and p: "Unpack5 cp (Reader body EOF) = Inr (p, r1)"
    by (rule v5.read_packet_eq_InrE)
  from Unpack5_ok [OF fh rl p] fh(1) rl
  show "header_ok (header5 p)" and "clean5 p \<longrightarrow> ok5 p"
    and "int (length (body5 p)) \<le> RemainingLength (header5 p)"
    by simp_all
qed

lemma Unpack5_is_Connect:
  "Unpack5 cp r = Inr (p, r') \<Longrightarrow> is_Connect5 p \<longleftrightarrow> is_Connect5 cp"
  by (cases cp) (auto simp: unpack_as_eq split: sum.splits)

text \<open>The packet is a CONNECT packet exactly when the header says so, and then its body names its level.\<close>

lemma ReadPacket5_connectE:
  assumes "ReadPacket5 r = Inr (p, r')"
  obtains fh body where
    "Unpack (hd (rd_data r)) (Reader (tl (rd_data r)) (rd_err r)) = Inr (fh, Reader (body @ rd_data r') (rd_err r))"
    and "rd_data r \<noteq> []" and "header_ok fh" and "rd_err r' = rd_err r"
    and "MessageType fh = CONNECT \<longleftrightarrow> is_Connect5 p"
    and "\<And>q. p = Connect5 q \<Longrightarrow> \<exists>name s. body = EncodeString name @ ProtocolLevel5 q # s \<and> length name < 65536"
proof -
  from assms obtain fh cp len body r1 where fh: "header_ok fh" and cp: "NewControlPacketWithHeader5 fh = Inr cp"
    and data: "rd_data r = getFixedHeaderByte1 fh # len @ body @ rd_data r'" and err: "rd_err r' = rd_err r"
    and p: "Unpack5 cp (Reader body EOF) = Inr (p, r1)"
    and up: "Unpack (hd (rd_data r)) (Reader (tl (rd_data r)) (rd_err r)) = Inr (fh, Reader (body @ rd_data r') (rd_err r))"
    by (rule v5.read_packet_eq_InrE)
  from cp have "is_Connect5 cp \<longleftrightarrow> MessageType fh = CONNECT"
    by (cases rule: NewControlPacketWithHeader5_types)
      (use cp in \<open>auto simp: NewControlPacketWithHeader5_def message_types\<close>)
  with p have conn: "MessageType fh = CONNECT \<longleftrightarrow> is_Connect5 p"
    by (simp add: Unpack5_is_Connect)
  have "\<exists>name s. body = EncodeString name @ ProtocolLevel5 q # s \<and> length name < 65536"
    if q: "p = Connect5 q" for q
  proof -
    from q conn cp have "cp = Connect5 (new_Connect5 fh)"
      by (simp add: NewControlPacketWithHeader5_def)
    with p q have "Unpack_Connect5 (new_Connect5 fh) (Reader body EOF) = Inr (q, r1)"
      by (auto simp: unpack_as_eq split: sum.splits)
    then show ?thesis
      by (rule Unpack_Connect5_level) blast
  qed
  with that up fh err conn data show thesis
    by simp
qed

text \<open>A CONNECT packet that was read can be sent if its reserved flag is cleared.\<close>

lemma ReadPacket5_cleared:
  assumes "ReadPacket5 r = Inr (Connect5 q, r')"
  shows "ok5 (Connect5 (q\<lparr>ReservedBit5 := False\<rparr>))"
proof -
  from assms obtain fh cp body r1 where fh: "header_ok fh" and cp: "NewControlPacketWithHeader5 fh = Inr cp"
    and rl: "RemainingLength fh = int (length body)" and p: "Unpack5 cp (Reader body EOF) = Inr (Connect5 q, r1)"
    by (rule v5.read_packet_eq_InrE)
  from p have "is_Connect5 cp"
    using Unpack5_is_Connect [OF p] by simp
  with cp have ty: "MessageType fh = CONNECT"
    by (cases rule: NewControlPacketWithHeader5_types)
      (use cp in \<open>auto simp: NewControlPacketWithHeader5_def message_types\<close>)
  with cp p have "Unpack_Connect5 (new_Connect5 fh) (Reader body EOF) = Inr (q, r1)"
    by (auto simp: NewControlPacketWithHeader5_def unpack_as_eq split: sum.splits)
  from Unpack_Connect5_cleared [OF fh rl this] ty show ?thesis
    by (auto simp: FixedHeader.truncate_def)
qed

end
