(* ===== verification/Codec.thy ===== *)
theory Codec
  imports V311 V5
begin

text \<open>
  Package pkg/mqtt/codec (packets.go): the packet reader of a connection. Before the version is
  known the first packet is read twice: once up to the protocol level, through a \<open>TeeReader\<close> that
  keeps the bytes, and then in full from a \<open>MultiReader\<close> over the kept bytes and the connection.
\<close>

section \<open>Reading the protocol version\<close>

datatype ControlPacket = P311 ControlPacket311 | P5 ControlPacket5

definition readConnectVersion :: "byte decoder" where
  "readConnectVersion =
     bindd (read_full 1) (\<lambda>b1.
     bindd (Unpack (b1 ! 0)) (\<lambda>fh.
       case Validate fh of
         Some e \<Rightarrow> faild e
       | None \<Rightarrow>
           if MessageType fh \<noteq> CONNECT
           then faild (Errorf ''expected CONNECT packet but got type 0x%x''
                  [AInt (int (unat (MessageType fh)))])
           else bindd DecodeString (\<lambda>_. bindd DecodeByte retd)))"

text \<open>\<open>io.TeeReader(r, &buf)\<close>: the bytes a decoder took, and \<open>io.MultiReader\<close> over them and the rest.\<close>

definition tee :: "'a decoder \<Rightarrow> ('a \<times> byte list) decoder" where
  "tee dec r =
     (case dec r of
        Inl e \<Rightarrow> Inl e
      | Inr (x, r') \<Rightarrow> Inr ((x, take (delivered r r') (rd_data r)), r'))"

definition multi_reader :: "byte list \<Rightarrow> reader \<Rightarrow> reader" where
  "multi_reader buf r = Reader (buf @ rd_data r) (rd_err r)"

text \<open>
  The underlying reader after something read from a \<open>MultiReader\<close>: what is left of the kept bytes
  is gone with the \<open>MultiReader\<close>.
\<close>

definition multi_rest :: "reader \<Rightarrow> reader \<Rightarrow> reader" where
  "multi_rest r m = (if length (rd_data r) < length (rd_data m) then r else m)"

section \<open>ReadPacket\<close>

definition ReadVersionPacket :: "byte \<Rightarrow> ControlPacket decoder" where
  "ReadVersionPacket protocolVersion =
     (if protocolVersion = MQTT_3_1_1 then unpack_as P311 ReadPacket311
      else if protocolVersion = MQTT_5 then unpack_as P5 ReadPacket5
      else faild (NewConnAckError RefusedUnacceptableProtocolVersion
             ''unsupported protocol version %v'' [AInt (int (unat protocolVersion))]))"

definition ReadPacket :: "byte \<Rightarrow> ControlPacket decoder" where
  "ReadPacket protocolVersion r =
     (if protocolVersion = 0 then
        (case tee readConnectVersion r of
           Inl e \<Rightarrow> Inl e
         | Inr ((version, buf), r') \<Rightarrow>
             (case ReadVersionPacket version (multi_reader buf r') of
                Inl e \<Rightarrow> Inl e
              | Inr (p, m) \<Rightarrow> Inr (p, multi_rest r' m)))
      else ReadVersionPacket protocolVersion r)"

section \<open>The interface value\<close>

fun Write :: "ControlPacket \<Rightarrow> ControlPacket \<times> byte list" where
  "Write (P311 p) = map_prod P311 id (Write311 p)"
| "Write (P5 p) = map_prod P5 id (Write5 p)"

fun Name :: "ControlPacket \<Rightarrow> string" where
  "Name (P311 p) = Name311 p"
| "Name (P5 p) = Name5 p"

fun Type :: "ControlPacket \<Rightarrow> byte" where
  "Type (P311 p) = Type311 p"
| "Type (P5 p) = Type5 p"

fun Version :: "ControlPacket \<Rightarrow> byte" where
  "Version (P311 p) = Version311 p"
| "Version (P5 p) = Version5 p"

fun packet_header :: "ControlPacket \<Rightarrow> FixedHeader" where
  "packet_header (P311 p) = header311 p"
| "packet_header (P5 p) = header5 p"

fun ok_packet :: "ControlPacket \<Rightarrow> bool" where
  "ok_packet (P311 p) = ok311 p"
| "ok_packet (P5 p) = ok5 p"

text \<open>The protocol level a CONNECT packet names.\<close>

fun connect_level :: "ControlPacket \<Rightarrow> byte option" where
  "connect_level (P311 (Connect311 c)) = Some (ProtocolLevel311 c)"
| "connect_level (P5 (Connect5 c)) = Some (ProtocolLevel5 c)"
| "connect_level _ = None"

section \<open>Reading with a known version\<close>

lemma consuming_unpack_as [consuming_intros]: "consuming dec \<Longrightarrow> consuming (unpack_as wrap dec)"
  unfolding unpack_as_def by (intro consuming_intros)

lemma consuming_ReadVersionPacket: "consuming (ReadVersionPacket v)"
  unfolding ReadVersionPacket_def
  by (intro consuming_intros v311.consuming_read_packet v5.consuming_read_packet)

lemma versions_distinct: "MQTT_3_1_1 \<noteq> MQTT_5" "MQTT_5 \<noteq> MQTT_3_1_1" "MQTT_3_1_1 \<noteq> 0" "MQTT_5 \<noteq> 0"
  by (simp_all add: MQTT_3_1_1_def MQTT_5_def)

lemma ReadVersionPacket_Write:
  assumes "ok_packet p"
  shows "ReadVersionPacket (Version p) (Reader (snd (Write p) @ rest) e) = Inr (fst (Write p), Reader rest e)"
  using assms
  by (cases p)
    (simp_all add: ReadVersionPacket_def Version311_def Version5_def versions_distinct unpack_as_eq
      ReadPacket311_wr ReadPacket5_wr)

interpretation packets311: codec "\<lambda>p. snd (Write311 p)" ReadPacket311 "\<lambda>p. ok311 p \<and> fst (Write311 p) = p"
  by unfold_locales (simp_all add: ReadPacket311_wr v311.consuming_read_packet)

interpretation packets5: codec "\<lambda>p. snd (Write5 p)" ReadPacket5 "\<lambda>p. ok5 p \<and> fst (Write5 p) = p"
  by unfold_locales (simp_all add: ReadPacket5_wr v5.consuming_read_packet)

text \<open>
  What a successful read is: a header, its body, and a packet of the version that was asked for.
\<close>

lemma ReadVersionPacket_eq_InrE:
  assumes "ReadVersionPacket v r = Inr (p, r')"
  obtains (mqtt311) q where "v = MQTT_3_1_1" and "p = P311 q" and "ReadPacket311 r = Inr (q, r')"
  | (mqtt5) q where "v = MQTT_5" and "p = P5 q" and "ReadPacket5 r = Inr (q, r')"
  using assms
  by (auto simp: ReadVersionPacket_def unpack_as_eq faild_def split: if_splits sum.splits)

lemma ReadVersionPacket_progress:
  assumes "ReadVersionPacket v r = Inr (p, r')"
  shows "length (rd_data r') + 2 \<le> length (rd_data r)"
  using assms
  by (cases rule: ReadVersionPacket_eq_InrE) (auto dest: v311.read_packet_progress v5.read_packet_progress)

lemma ReadVersionPacket_Version: "ReadVersionPacket v r = Inr (p, r') \<Longrightarrow> Version p = v"
  by (erule ReadVersionPacket_eq_InrE) (simp_all add: Version311_def Version5_def)

section \<open>The first packet\<close>

lemma readConnectVersion_eq:
  "readConnectVersion r =
     (case r of
        Reader [] e \<Rightarrow> Inl e
      | Reader (b # bs) e \<Rightarrow>
          bindd (Unpack b) (\<lambda>fh.
            case Validate fh of
              Some e \<Rightarrow> faild e
            | None \<Rightarrow>
                if MessageType fh \<noteq> CONNECT
                then faild (Errorf ''expected CONNECT packet but got type 0x%x''
                       [AInt (int (unat (MessageType fh)))])
                else bindd DecodeString (\<lambda>_. bindd DecodeByte retd)) (Reader bs e))"
  by (cases r) (auto simp: readConnectVersion_def codec_simps read_full_def split: list.split)

lemma consuming_readConnectVersion: "consuming readConnectVersion"
  unfolding readConnectVersion_def by (intro consuming_intros)

text \<open>A header that was read passes \<open>Validate\<close>.\<close>

lemma Unpack_Validate: "Unpack b r = Inr (fh, r') \<Longrightarrow> Validate fh = None"
  by (erule Unpack_eq_InrE) (simp add: Validate_None_iff header_ok_def)

lemma readConnectVersion_connect:
  assumes "Unpack b (Reader bs e) = Inr (fh, Reader (EncodeString name @ l # s) e)"
    and "MessageType fh = CONNECT" and "length name < 65536"
  shows "readConnectVersion (Reader (b # bs) e) = Inr (l, Reader s e)"
  using assms
  by (simp add: readConnectVersion_eq bindd_def Unpack_Validate retd_def codec_simps)

text \<open>Reading the version through the tee and then from both readers is reading from the start.\<close>

lemma tee_multi_reader:
  assumes "consuming dec" and "dec r = Inr (x, r')"
  shows "multi_reader (take (delivered r r') (rd_data r)) r' = r"
proof -
  from assms obtain c where c: "rd_data r = c @ rd_data r'" "rd_err r' = rd_err r"
    by (rule consumingD)
  then have "take (delivered r r') (rd_data r) = c"
    by (simp add: delivered_def)
  with c show ?thesis
    by (cases r) (simp add: multi_reader_def)
qed

lemma ReadPacket_0:
  "ReadPacket 0 r =
     (case readConnectVersion r of
        Inl e \<Rightarrow> Inl e
      | Inr (version, r') \<Rightarrow>
          (case ReadVersionPacket version r of
             Inl e \<Rightarrow> Inl e
           | Inr (p, m) \<Rightarrow> Inr (p, multi_rest r' m)))"
  by (auto simp: ReadPacket_def tee_def tee_multi_reader [OF consuming_readConnectVersion] split: sum.split)

text \<open>
  A packet whose header says CONNECT: what reading the version finds in it, and that it ends before
  the packet does.
\<close>

lemma ReadVersionPacket_connect:
  assumes "ReadVersionPacket v r = Inr (p, r')"
  shows "case connect_level p of
      Some l \<Rightarrow> \<exists>r1. readConnectVersion r = Inr (l, r1) \<and> length (rd_data r') \<le> length (rd_data r1)
    | None \<Rightarrow> \<exists>e. readConnectVersion r = Inl e"
proof -
  have main: "if conn then \<exists>r1. readConnectVersion r = Inr (l, r1) \<and> length (rd_data r') \<le> length (rd_data r1)
      else \<exists>e. readConnectVersion r = Inl e"
    if "Unpack (hd (rd_data r)) (Reader (tl (rd_data r)) (rd_err r)) = Inr (fh, Reader (body @ rd_data r') (rd_err r))"
      and "rd_data r \<noteq> []" and "MessageType fh = CONNECT \<longleftrightarrow> conn"
      and "conn \<Longrightarrow> \<exists>name s. body = EncodeString name @ l # s \<and> length name < 65536"
    for fh body conn l
  proof -
    from that(2) obtain b bs where r: "r = Reader (b # bs) (rd_err r)"
      by (cases r; cases "rd_data r") auto
    with that(1) have up: "Unpack b (Reader bs (rd_err r)) = Inr (fh, Reader (body @ rd_data r') (rd_err r))"
      by (cases r) auto
    show ?thesis
    proof (cases conn)
      case True
      with that(4) obtain name s where "body = EncodeString name @ l # s" "length name < 65536"
        by blast
      with readConnectVersion_connect [of b bs "rd_err r" fh name l "s @ rd_data r'"] up True that(3)
      have "readConnectVersion r = Inr (l, Reader (s @ rd_data r') (rd_err r))"
        by (subst r) simp
      with True show ?thesis
        by simp
    next
      case False
      with up that(3) have "\<exists>e. readConnectVersion (Reader (b # bs) (rd_err r)) = Inl e"
        by (simp add: readConnectVersion_eq bindd_def Unpack_Validate faild_def)
      with False r show ?thesis
        by simp
    qed
  qed
  from assms show ?thesis
  proof (cases rule: ReadVersionPacket_eq_InrE)
    case (mqtt311 q)
    from mqtt311(3) show ?thesis
      by (rule ReadPacket311_connectE) (use main mqtt311(2) in \<open>cases q; force\<close>)
  next
    case (mqtt5 q)
    from mqtt5(3) show ?thesis
      by (rule ReadPacket5_connectE) (use main mqtt5(2) in \<open>cases q; force\<close>)
  qed
qed

text \<open>
  The first packet of a connection is a CONNECT packet of the version it names itself, read exactly
  as with that version known from the start: the second pass loses no byte.
\<close>

lemma ReadPacket_first:
  "ReadPacket 0 r = Inr (p, r') \<longleftrightarrow>
     ReadVersionPacket (Version p) r = Inr (p, r') \<and> connect_level p = Some (Version p)"
proof
  assume "ReadPacket 0 r = Inr (p, r')"
  then obtain v r1 m where v: "readConnectVersion r = Inr (v, r1)"
    and p: "ReadVersionPacket v r = Inr (p, m)" and r': "r' = multi_rest r1 m"
    by (auto simp: ReadPacket_0 split: sum.splits)
  from p have "Version p = v"
    by (rule ReadVersionPacket_Version)
  moreover from ReadVersionPacket_connect [OF p] v
  have "connect_level p = Some v" "length (rd_data m) \<le> length (rd_data r1)"
    by (auto split: option.splits)
  ultimately show "ReadVersionPacket (Version p) r = Inr (p, r') \<and> connect_level p = Some (Version p)"
    using p r' by (simp add: multi_rest_def)
next
  assume p: "ReadVersionPacket (Version p) r = Inr (p, r') \<and> connect_level p = Some (Version p)"
  with ReadVersionPacket_connect [of "Version p" r p r'] obtain r1
    where "readConnectVersion r = Inr (Version p, r1)" "length (rd_data r') \<le> length (rd_data r1)"
    by auto
  with p show "ReadPacket 0 r = Inr (p, r')"
    by (simp add: ReadPacket_0 multi_rest_def)
qed

lemma ReadPacket_known: "v \<noteq> 0 \<Longrightarrow> ReadPacket v r = ReadVersionPacket v r"
  by (simp add: ReadPacket_def)

lemma ReadPacket_eq_InrD:
  assumes "ReadPacket v r = Inr (p, r')"
  shows "ReadVersionPacket (Version p) r = Inr (p, r')" and "v \<noteq> 0 \<longrightarrow> Version p = v"
  using assms
  by (cases "v = 0"; simp add: ReadPacket_first ReadPacket_known ReadVersionPacket_Version; fail)+

section \<open>What a read packet is like\<close>

text \<open>A packet as clients send it, where the code keeps no field it would not send again.\<close>

fun clean_packet :: "ControlPacket \<Rightarrow> bool" where
  "clean_packet (P311 p) = clean311 p"
| "clean_packet (P5 p) = clean5 p"

lemma ReadVersionPacket_typed:
  assumes "ReadVersionPacket v r = Inr (p, r')"
  shows "header_ok (packet_header p) \<and> (clean_packet p \<longrightarrow> ok_packet p)"
  using assms by (cases rule: ReadVersionPacket_eq_InrE) (simp_all add: ReadPacket311_ok ReadPacket5_ok)

lemmas ReadPacket_typed = ReadVersionPacket_typed [OF ReadPacket_eq_InrD(1)]

end
