(* ===== verification/Api.thy ===== *)
theory Api
  imports Codec
begin

text \<open>
  The interfaces between the proxy's parts (package apis): publish requests and responses, the
  publisher and the authenticator. An implementation is a record of its operations; a publisher's
  operations carry the publisher's state. What the handler relies on is stated as locales, which
  the implementations' theories interpret.
\<close>

section \<open>Publishing (publish.go)\<close>

text \<open>The identifier a broker gives a message is an \<open>interface{}\<close>: absent, a number or a string.\<close>

datatype PublishID = NoID | IntID int | StrID string

record PublishRequest =
  req_Dup :: bool
  req_Qos :: byte
  req_Retain :: bool
  req_TopicName :: string
  req_MessageID :: u16
  req_Message :: "byte list"
  req_ClientID :: string

record PublishResponse =
  resp_ID :: PublishID
  resp_Error :: "go_error option"

text \<open>
  The results of the two publish operations: a returned error, a returned response, or a panic that
  unwinds the caller. \<open>PublishAsync\<close> either called the callback before it returned
  (\<open>AsyncCalled\<close>), or arranged for it to be called later from another goroutine (\<open>AsyncQueued\<close>).
\<close>

datatype sync_result = SyncErr go_error | SyncOk PublishResponse | SyncPanic string

datatype async_result = AsyncErr go_error | AsyncCalled PublishResponse | AsyncQueued | AsyncPanic string

text \<open>
  \<open>pub_Complete\<close> is what the other goroutine does for a queued request: the response it calls the
  callback with, and the publisher's state then.
\<close>

text \<open>The context of a call: the timeout of its deadline in nanoseconds, if it has one.\<close>

type_synonym Context = "int option"

record 's Publisher =
  pub_Name :: string
  pub_Publish :: "Context \<Rightarrow> PublishRequest \<Rightarrow> 's \<Rightarrow> sync_result \<times> 's"
  pub_PublishAsync :: "Context \<Rightarrow> PublishRequest \<Rightarrow> 's \<Rightarrow> async_result \<times> 's"
  pub_Complete :: "PublishRequest \<Rightarrow> 's \<Rightarrow> PublishResponse \<times> 's"

section \<open>Authentication (auth.go)\<close>

definition AuthAccepted :: byte where
  "AuthAccepted = Accepted"

definition AuthUnauthorized :: byte where
  "AuthUnauthorized = RefusedBadUserNameOrPassword"

record UserPasswordAuthRequest =
  auth_Username :: string
  auth_Password :: string

record UserPasswordAuthResponse =
  auth_ReturnCode :: byte

record UserPasswordAuthenticator =
  auth_Name :: string
  auth_Login :: "UserPasswordAuthRequest \<Rightarrow> go_error + UserPasswordAuthResponse"

section \<open>What an implementation promises\<close>

text \<open>
  An authenticator accepts exactly the credentials it is configured with and answers every other
  request with the unauthorized code; it does not fail.
\<close>

locale authenticator =
  fixes auth :: UserPasswordAuthenticator and valid :: "string \<Rightarrow> string \<Rightarrow> bool"
  assumes login: "auth_Login auth \<lparr>auth_Username = u, auth_Password = p\<rparr> =
      Inr \<lparr>auth_ReturnCode = (if valid u p then AuthAccepted else AuthUnauthorized)\<rparr>"
begin

lemma accepted_iff:
  "auth_Login auth r = Inr resp \<Longrightarrow>
   auth_ReturnCode resp = Accepted \<longleftrightarrow> valid (auth_Username r) (auth_Password r)"
  using login [of "auth_Username r" "auth_Password r"]
  by (cases r) (auto simp: AuthAccepted_def AuthUnauthorized_def Accepted_def
    RefusedBadUserNameOrPassword_def split: if_splits)

lemma no_error: "auth_Login auth r \<noteq> Inl e"
  using login [of "auth_Username r" "auth_Password r"] by (cases r) simp

end

text \<open>
  A publisher delivers what it confirms: its state determines which messages the broker has taken.
  A request that is answered without an error, by the call or by the callback, has been taken, and no
  operation forgets a delivery.
\<close>

locale publisher =
  fixes pub :: "'s Publisher" and taken :: "'s \<Rightarrow> PublishRequest \<Rightarrow> bool"
  assumes publish_confirmed: "pub_Publish pub ctx r s = (SyncOk resp, s') \<Longrightarrow> resp_Error resp = None \<Longrightarrow>
      taken s' r"
    and publish_keeps: "pub_Publish pub ctx r s = (res, s') \<Longrightarrow> taken s q \<Longrightarrow> taken s' q"
    and async_confirmed: "pub_PublishAsync pub ctx r s = (AsyncCalled resp, s') \<Longrightarrow> resp_Error resp = None \<Longrightarrow>
      taken s' r"
    and async_keeps: "pub_PublishAsync pub ctx r s = (ares, s') \<Longrightarrow> taken s q \<Longrightarrow> taken s' q"
    and complete_confirmed: "pub_Complete pub r s = (resp, s') \<Longrightarrow> resp_Error resp = None \<Longrightarrow> taken s' r"
    and complete_keeps: "pub_Complete pub r s = (resp, s') \<Longrightarrow> taken s q \<Longrightarrow> taken s' q"

text \<open>
  What holds of every publisher follows with the view that everything was taken, which satisfies the
  laws whatever the operations do.
\<close>

interpretation any_publisher: publisher pub "\<lambda>_ _. True" for pub
  by unfold_locales simp_all

end
