(* ===== verification/Util.thy ===== *)
theory Util
  imports Api
begin

text \<open>
  The shared helpers: the stack of closers (pkg/util/closers.go), the channel that is closed once
  (pkg/runtime/donechannel.go), and the message formats (pkg/util/publisher.go) with the parts of the
  standard library they use: decimal numbers, base64 and the JSON encoding of a publish request.
\<close>

section \<open>MultiCloser (closers.go)\<close>

text \<open>
  A closer acts on the state it closes and may fail. The errors of \<open>multierror.Append\<close> are collected
  in order; no error is the nil error.
\<close>

type_synonym 's closer = "'s \<Rightarrow> go_error option \<times> 's"

definition MultiCloser_Add :: "'s closer option \<Rightarrow> 's closer list \<Rightarrow> 's closer list" where
  "MultiCloser_Add closeFunc c = (case closeFunc of None \<Rightarrow> c | Some f \<Rightarrow> c @ [f])"

fun MultiCloser_loop :: "'s closer list \<Rightarrow> nat \<Rightarrow> nat \<Rightarrow> go_error list \<Rightarrow> 's \<Rightarrow> go_error list \<times> 's" where
  "MultiCloser_loop c i 0 result s = (result, s)"
| "MultiCloser_loop c i (Suc n) result s =
     (case (c ! (length c - 1 - i)) s of
        (Some err, s) \<Rightarrow> MultiCloser_loop c (i + 1) n (result @ [err]) s
      | (None, s) \<Rightarrow> MultiCloser_loop c (i + 1) n result s)"

definition MultiCloser_Close :: "'s closer list \<Rightarrow> 's \<Rightarrow> go_error list \<times> 's" where
  "MultiCloser_Close c s = (if length c = 0 then ([], s) else MultiCloser_loop c 0 (length c) [] s)"

text \<open>The specification: the closers run in the reverse of the order they were added in, all of them.\<close>

fun close_all :: "'s closer list \<Rightarrow> 's \<Rightarrow> go_error list \<times> 's" where
  "close_all [] s = ([], s)"
| "close_all (f # fs) s =
     (case f s of (e, s) \<Rightarrow> (case close_all fs s of (es, s) \<Rightarrow> ((case e of None \<Rightarrow> es | Some e \<Rightarrow> e # es), s)))"

lemma MultiCloser_loop_eq:
  "i + n = length c \<Longrightarrow>
   MultiCloser_loop c i n result s =
     (case close_all (drop i (rev c)) s of (es, s) \<Rightarrow> (result @ es, s))"
proof (induction n arbitrary: i result s)
  case 0
  then show ?case by simp
next
  case (Suc n)
  then have i: "i < length c" "length c - 1 - i = length c - Suc i"
    by auto
  then have "drop i (rev c) = (c ! (length c - 1 - i)) # drop (i + 1) (rev c)"
    by (simp add: Cons_nth_drop_Suc [symmetric] rev_nth)
  with Suc show ?case
    by (auto split: prod.split option.split)
qed

lemma MultiCloser_Close_eq: "MultiCloser_Close c s = close_all (rev c) s"
  using MultiCloser_loop_eq [of 0 "length c" c "[]" s]
  by (simp add: MultiCloser_Close_def split: prod.split)

section \<open>DoneChannel (donechannel.go)\<close>

record DoneChannel =
  done_closed :: bool
  done_once :: bool
  done_panic :: bool

definition NewDoneChannel :: DoneChannel where
  "NewDoneChannel = \<lparr>done_closed = False, done_once = False, done_panic = False\<rparr>"

text \<open>\<open>close(s.done)\<close> panics on a closed channel; \<open>once\<close> runs it the first time only.\<close>

definition DoneChannel_Close :: "DoneChannel \<Rightarrow> DoneChannel" where
  "DoneChannel_Close s =
     (if done_once s then s
      else s\<lparr>done_once := True, done_panic := done_panic s \<or> done_closed s, done_closed := True\<rparr>)"

text \<open>
  \<open><-s.Done()\<close> returns once the channel is closed. An operation that may block has the result \<open>None\<close>
  as long as it does; \<open>wait_done\<close> is the wait of a \<open>Serve\<close> that then returns the nil error.
\<close>

definition wait_done :: "DoneChannel \<Rightarrow> go_error option option" where
  "wait_done s = (if done_closed s then Some None else None)"

lemma DoneChannel_Close_closed:
  "done_once s = done_closed s \<Longrightarrow> done_closed (DoneChannel_Close s) \<and> done_once (DoneChannel_Close s) \<and>
     done_panic (DoneChannel_Close s) = done_panic s"
  by (simp add: DoneChannel_Close_def)

section \<open>Durations (package time)\<close>

text \<open>A duration is its number of nanoseconds.\<close>

definition second :: int where
  "second = 1000000000"

section \<open>Decimal numbers (package strconv)\<close>

fun decimal :: "nat \<Rightarrow> string" where
  "decimal n = (if n < 10 then [char_of (48 + n)] else decimal (n div 10) @ [char_of (48 + n mod 10)])"

declare decimal.simps [simp del]

definition FormatBool :: "bool \<Rightarrow> string" where
  "FormatBool b = (if b then ''true'' else ''false'')"

definition decimal_value :: "string \<Rightarrow> nat" where
  "decimal_value s = fold (\<lambda>c v. 10 * v + (of_char c - 48)) s 0"

lemma decimal_value_snoc: "decimal_value (s @ [c]) = 10 * decimal_value s + (of_char c - 48)"
  by (simp add: decimal_value_def)

lemma decimal_value_digit: "d < 10 \<Longrightarrow> decimal_value [char_of (48 + d)] = d"
  by (simp add: decimal_value_def)

lemma decimal_value_decimal: "decimal_value (decimal n) = n"
proof (induction n rule: decimal.induct)
  case (1 n)
  show ?case
  proof (cases "n < 10")
    case True
    then show ?thesis
      by (simp add: decimal.simps [of n] decimal_value_digit)
  next
    case False
    then have "decimal_value (decimal n) = 10 * (n div 10) + n mod 10"
      using 1 by (simp add: decimal.simps [of n] decimal_value_snoc)
    then show ?thesis
      by simp
  qed
qed

lemma decimal_inject: "decimal m = decimal n \<Longrightarrow> m = n"
  by (metis decimal_value_decimal)

section \<open>Base64 (package encoding/base64)\<close>

definition base64_alphabet :: string where
  "base64_alphabet = ''ABCDEFGHIJKLMNOPQRSTUVWXYZabcdefghijklmnopqrstuvwxyz0123456789+/''"

definition base64_char :: "nat \<Rightarrow> char" where
  "base64_char n = base64_alphabet ! n"

text \<open>\<open>StdEncoding.EncodeToString\<close>, on the numbers of the bytes.\<close>

fun base64_encode_nat :: "nat list \<Rightarrow> string" where
  "base64_encode_nat [] = []"
| "base64_encode_nat [a] = [base64_char (a div 4), base64_char (a mod 4 * 16), CHR ''='', CHR ''='']"
| "base64_encode_nat [a, b] =
     [base64_char (a div 4), base64_char (a mod 4 * 16 + b div 16), base64_char (b mod 16 * 4), CHR ''='']"
| "base64_encode_nat (a # b # c # rest) =
     base64_char (a div 4) # base64_char (a mod 4 * 16 + b div 16) #
     base64_char (b mod 16 * 4 + c div 64) # base64_char (c mod 64) # base64_encode_nat rest"

definition base64_encode :: "byte list \<Rightarrow> string" where
  "base64_encode bs = base64_encode_nat (map unat bs)"

text \<open>A decoder of the standard encoding, the specification of the encoder.\<close>

fun index_of :: "char \<Rightarrow> string \<Rightarrow> nat" where
  "index_of c [] = 0"
| "index_of c (x # xs) = (if x = c then 0 else Suc (index_of c xs))"

definition base64_index :: "char \<Rightarrow> nat" where
  "base64_index c = index_of c base64_alphabet"

fun base64_decode_nat :: "string \<Rightarrow> nat list" where
  "base64_decode_nat (p # q # r # s # rest) =
     (let a = base64_index p * 4 + base64_index q div 16;
          b = base64_index q mod 16 * 16 + base64_index r div 4;
          c = base64_index r mod 4 * 64 + base64_index s
      in if r = CHR ''='' then [a]
         else if s = CHR ''='' then [a, b]
         else a # b # c # base64_decode_nat rest)"
| "base64_decode_nat _ = []"

lemma base64_alphabet_distinct: "distinct base64_alphabet"
  by (simp add: base64_alphabet_def)

lemma length_base64_alphabet: "length base64_alphabet = 64"
  by (simp add: base64_alphabet_def)

lemma index_of_nth: "distinct xs \<Longrightarrow> n < length xs \<Longrightarrow> index_of (xs ! n) xs = n"
  by (induction xs arbitrary: n) (auto simp: nth_Cons split: nat.splits)

lemma base64_index_char: "n < 64 \<Longrightarrow> base64_index (base64_char n) = n"
  by (simp add: base64_index_def base64_char_def index_of_nth base64_alphabet_distinct length_base64_alphabet)

lemma base64_char_not_pad: "n < 64 \<Longrightarrow> base64_char n \<noteq> CHR ''=''"
proof
  assume "n < 64" and "base64_char n = CHR ''=''"
  then have "CHR ''='' \<in> set base64_alphabet"
    unfolding base64_char_def by (metis length_base64_alphabet nth_mem)
  then show False
    by (simp add: base64_alphabet_def)
qed

lemma base64_sextets:
  fixes a b :: nat
  assumes "b < m * k" "0 < k" "m * n = 64" "0 < m"
  shows "a mod n * m + b div k < 64" "(a mod n * m + b div k) div m = a mod n"
    "(a mod n * m + b div k) mod m = b div k"
proof -
  have b: "b div k < m"
    using assms by (simp add: div_less_iff_less_mult)
  have n: "0 < n"
    using assms by (cases n) simp_all
  then have "a mod n + 1 \<le> n"
    by (simp add: Suc_le_eq)
  then have "(a mod n + 1) * m \<le> n * m"
    by (rule mult_le_mono1)
  with b assms show "a mod n * m + b div k < 64"
    by (simp add: algebra_simps)
  show "(a mod n * m + b div k) div m = a mod n" "(a mod n * m + b div k) mod m = b div k"
    using b assms by simp_all
qed

lemmas base64_sextets_2 = base64_sextets [of _ 16 16 4, simplified]
lemmas base64_sextets_3 = base64_sextets [of _ 4 64 16, simplified]

lemma base64_bounds:
  fixes a :: nat
  assumes "a < 256"
  shows "a div 4 < 64" "a mod 4 * 16 < 64" "a mod 16 * 4 < 64" "a mod 64 < 64" "a div 4 * 4 + a mod 4 = a"
    "a div 16 * 16 + a mod 16 = a" "a div 64 * 64 + a mod 64 = a"
proof -
  have "a mod 4 < 4" "a mod 16 < 16"
    by simp_all
  then show "a mod 4 * 16 < 64" "a mod 16 * 4 < 64"
    by linarith+
qed (use assms in \<open>simp_all add: div_less_iff_less_mult\<close>)

lemmas base64_simps = base64_index_char base64_char_not_pad base64_sextets_2 base64_sextets_3 base64_bounds Let_def

lemma base64_decode_encode_nat:
  "\<forall>n\<in>set ns. n < 256 \<Longrightarrow> base64_decode_nat (base64_encode_nat ns) = ns"
  by (induction ns rule: base64_encode_nat.induct) (simp_all add: base64_simps)

lemma base64_decode_encode: "map word_of_nat (base64_decode_nat (base64_encode bs)) = bs"
proof -
  have "base64_decode_nat (base64_encode bs) = map unat bs"
    unfolding base64_encode_def by (rule base64_decode_encode_nat) (auto intro: unat_byte_less)
  then show ?thesis
    by (simp add: comp_def)
qed

section \<open>JSON (package encoding/json)\<close>

definition hex_digit :: "nat \<Rightarrow> char" where
  "hex_digit n = ''0123456789abcdef'' ! n"

text \<open>
  The escapes of a character below 128: quotes and backslashes, the three control characters with a
  letter of their own, the other control characters and the characters HTML treats specially.
\<close>

definition json_escape_ascii :: "nat \<Rightarrow> string" where
  "json_escape_ascii b =
     (if b = 34 \<or> b = 92 then [CHR 0x5C, char_of b]
      else if b = 10 then [CHR 0x5C, CHR ''n'']
      else if b = 13 then [CHR 0x5C, CHR ''r'']
      else if b = 9 then [CHR 0x5C, CHR ''t'']
      else if b < 32 \<or> b = 60 \<or> b = 62 \<or> b = 38
      then [CHR 0x5C, CHR ''u'', CHR ''0'', CHR ''0'', hex_digit (b div 16), hex_digit (b mod 16)]
      else [char_of b])"

text \<open>The length of the valid UTF-8 sequence at the front of a string, 0 if there is none.\<close>

definition is_cont :: "nat \<Rightarrow> bool" where
  "is_cont b \<longleftrightarrow> 128 \<le> b \<and> b < 192"

fun utf8_len :: "nat list \<Rightarrow> nat" where
  "utf8_len [] = 0"
| "utf8_len (b0 # bs) =
     (if b0 < 128 then 1
      else if 194 \<le> b0 \<and> b0 < 224 \<and> 1 \<le> length bs \<and> is_cont (bs ! 0) then 2
      else if 224 \<le> b0 \<and> b0 < 240 \<and> 2 \<le> length bs \<and> is_cont (bs ! 0) \<and> is_cont (bs ! 1) \<and>
        (b0 = 224 \<longrightarrow> 160 \<le> bs ! 0) \<and> (b0 = 237 \<longrightarrow> bs ! 0 < 160) then 3
      else if 240 \<le> b0 \<and> b0 < 245 \<and> 3 \<le> length bs \<and> is_cont (bs ! 0) \<and> is_cont (bs ! 1) \<and> is_cont (bs ! 2) \<and>
        (b0 = 240 \<longrightarrow> 144 \<le> bs ! 0) \<and> (b0 = 244 \<longrightarrow> bs ! 0 < 144) then 4
      else 0)"

lemma utf8_len_le: "utf8_len bs \<le> length bs"
  by (cases bs) auto

function json_chars :: "nat list \<Rightarrow> string" where
  "json_chars [] = []"
| "json_chars (b # bs) =
     (if b < 128 then json_escape_ascii b @ json_chars bs
      else
        (case utf8_len (b # bs) of
           0 \<Rightarrow> CHR 0x5C # ''ufffd'' @ json_chars bs
         | Suc n \<Rightarrow>
             (if take 3 (b # bs) = [226, 128, 168] then CHR 0x5C # ''u2028''
              else if take 3 (b # bs) = [226, 128, 169] then CHR 0x5C # ''u2029''
              else map char_of (take (Suc n) (b # bs))) @ json_chars (drop n bs)))"
  by pat_completeness auto
termination
  by (relation "measure length") auto

definition json_string :: "string \<Rightarrow> string" where
  "json_string s = [CHR 0x22] @ json_chars (map of_char s) @ [CHR 0x22]"

definition json_field :: "string \<Rightarrow> string \<Rightarrow> string" where
  "json_field name v = [CHR 0x22] @ name @ [CHR 0x22, CHR '':''] @ v"

text \<open>
  The fields of a \<open>PublishRequest\<close> in the order of the struct, under the names of its tags; a byte
  slice is base64.
\<close>

definition json_request :: "PublishRequest \<Rightarrow> string" where
  "json_request r =
     ''{'' @ json_field ''dup'' (FormatBool (req_Dup r)) @ '','' @
     json_field ''qos'' (decimal (unat (req_Qos r))) @ '','' @
     json_field ''retain'' (FormatBool (req_Retain r)) @ '','' @
     json_field ''topic_name'' (json_string (req_TopicName r)) @ '','' @
     json_field ''packet_id'' (decimal (unat (req_MessageID r))) @ '','' @
     json_field ''payload'' ([CHR 0x22] @ base64_encode (req_Message r) @ [CHR 0x22]) @ '','' @
     json_field ''client_id'' (json_string (req_ClientID r)) @ ''}''"

section \<open>Message formats (publisher.go)\<close>

definition MessageFormatPlain :: string where
  "MessageFormatPlain = ''plain''"

definition MessageFormatBase64 :: string where
  "MessageFormatBase64 = ''base64''"

definition MessageFormatJson :: string where
  "MessageFormatJson = ''json''"

definition GetMessageBody :: "string \<Rightarrow> PublishRequest \<Rightarrow> go_error + byte list" where
  "GetMessageBody messageFormat request =
     (if messageFormat = MessageFormatPlain then Inr (req_Message request)
      else if messageFormat = MessageFormatBase64 then Inr (bytes_of_string (base64_encode (req_Message request)))
      else if messageFormat = MessageFormatJson then Inr (bytes_of_string (json_request request))
      else Inl (Errorf (''unsupported message format '' @ [CHR 0x27] @ ''%s'' @ [CHR 0x27]) [AStr messageFormat]))"

end
