(* ===== verification/Auth.thy ===== *)
theory Auth
  imports Util
begin

text \<open>
  The authenticators (pkg/auth): \<open>noop\<close> accepts everyone, \<open>plain\<close> checks a table of credentials,
  and \<open>instrument\<close> wraps another authenticator and observes each login.
\<close>

section \<open>The noop authenticator (noop/noop.go)\<close>

definition noop_Login :: "UserPasswordAuthRequest \<Rightarrow> go_error + UserPasswordAuthResponse" where
  "noop_Login _ = Inr \<lparr>auth_ReturnCode = AuthAccepted\<rparr>"

definition noop_authenticator :: UserPasswordAuthenticator where
  "noop_authenticator = \<lparr>auth_Name = ''noop'', auth_Login = noop_Login\<rparr>"

interpretation noop_auth: authenticator noop_authenticator "\<lambda>_ _. True"
  by unfold_locales (simp add: noop_authenticator_def noop_Login_def)

section \<open>The plain authenticator (plain/option.go, plain/plain.go)\<close>

record plain_options =
  credentials :: "string \<rightharpoonup> string"

text \<open>
  The result map always exists (\<open>New\<close> makes it, and a nil map is replaced), so \<open>appendCredentials\<close>
  is the map update: the later table wins.
\<close>

definition appendCredentials :: "(string \<rightharpoonup> string) \<Rightarrow> (string \<rightharpoonup> string) \<Rightarrow> string \<rightharpoonup> string" where
  "appendCredentials result creds = result ++ creds"

type_synonym plain_option = "plain_options \<Rightarrow> go_error + plain_options"

definition WithCredentials :: "(string \<rightharpoonup> string) \<Rightarrow> plain_option" where
  "WithCredentials creds opts = Inr (opts\<lparr>credentials := appendCredentials (credentials opts) creds\<rparr>)"

text \<open>
  The CSV reader is a source of records: each \<open>Read\<close> gives the next record, or the error it ends
  with (\<open>EOF\<close> at the end of the file).
\<close>

fun credentialsFromCSV_loop ::
  "(string \<rightharpoonup> string) \<Rightarrow> string list list \<Rightarrow> go_error \<Rightarrow> go_error + (string \<rightharpoonup> string)" where
  "credentialsFromCSV_loop creds [] e = (if e = EOF then Inr creds else Inl e)"
| "credentialsFromCSV_loop creds (csv_record # rest) e =
     (if length csv_record \<noteq> 2
      then Inl (Errorf ''csv record username,password expected but got %v'' (map AStr csv_record))
      else credentialsFromCSV_loop (creds(csv_record ! 0 \<mapsto> csv_record ! 1)) rest e)"

definition credentialsFromCSV :: "string list list \<Rightarrow> go_error \<Rightarrow> go_error + (string \<rightharpoonup> string)" where
  "credentialsFromCSV records e = credentialsFromCSV_loop Map.empty records e"

text \<open>The file system gives the open error or the records of the file.\<close>

definition WithCredentialsFile ::
  "(string \<Rightarrow> go_error + string list list \<times> go_error) \<Rightarrow> string \<Rightarrow> plain_option" where
  "WithCredentialsFile open_file filename opts =
     (if filename = [] then Inr opts
      else
        (case open_file filename of
           Inl e \<Rightarrow> Inl e
         | Inr (records, e) \<Rightarrow>
             (case credentialsFromCSV records e of
                Inl e \<Rightarrow> Inl e
              | Inr creds \<Rightarrow> Inr (opts\<lparr>credentials := appendCredentials (credentials opts) creds\<rparr>))))"

text \<open>\<open>password := p.opts.credentials[request.Username]\<close> is the empty string for an unknown user.\<close>

definition plain_Login :: "plain_options \<Rightarrow> UserPasswordAuthRequest \<Rightarrow> go_error + UserPasswordAuthResponse" where
  "plain_Login opts request =
     (let password = (case credentials opts (auth_Username request) of None \<Rightarrow> [] | Some p \<Rightarrow> p)
      in if password \<noteq> [] \<and> password = auth_Password request
         then Inr \<lparr>auth_ReturnCode = AuthAccepted\<rparr>
         else Inr \<lparr>auth_ReturnCode = AuthUnauthorized\<rparr>)"

definition plain_authenticator :: "plain_options \<Rightarrow> UserPasswordAuthenticator" where
  "plain_authenticator opts = \<lparr>auth_Name = ''plain'', auth_Login = plain_Login opts\<rparr>"

fun apply_plain_options :: "plain_option list \<Rightarrow> plain_options \<Rightarrow> go_error + plain_options" where
  "apply_plain_options [] options = Inr options"
| "apply_plain_options (opt # rest) options =
     (case opt options of
        Inl e \<Rightarrow> Inl (Wrapf ''apply plain authenticator options: %w'' [] e)
      | Inr options \<Rightarrow> apply_plain_options rest options)"

definition New_plain :: "plain_option list \<Rightarrow> go_error + UserPasswordAuthenticator" where
  "New_plain opts =
     (case apply_plain_options opts \<lparr>credentials = Map.empty\<rparr> of
        Inl e \<Rightarrow> Inl e
      | Inr options \<Rightarrow> Inr (plain_authenticator options))"

text \<open>A user is accepted with the password of the table, which must not be empty.\<close>

definition valid_login :: "(string \<rightharpoonup> string) \<Rightarrow> string \<Rightarrow> string \<Rightarrow> bool" where
  "valid_login creds u p \<longleftrightarrow> creds u = Some p \<and> p \<noteq> []"

interpretation plain_auth: authenticator "plain_authenticator opts" "valid_login (credentials opts)" for opts
  by unfold_locales
    (auto simp: plain_authenticator_def plain_Login_def valid_login_def Let_def split: option.splits)

section \<open>The instrumented authenticator (instrument/instrument.go)\<close>

text \<open>
  \<open>Login\<close> of the wrapper: the result of the delegate, and the labels \<open>code\<close> and \<open>error\<close> of the
  duration it observes.
\<close>

definition instrument_Login ::
  "UserPasswordAuthenticator \<Rightarrow> UserPasswordAuthRequest \<Rightarrow>
   (go_error + UserPasswordAuthResponse) \<times> (string \<times> string)" where
  "instrument_Login delegate authRequest =
     (let res = auth_Login delegate authRequest;
          code = (case res of Inl _ \<Rightarrow> [] | Inr r \<Rightarrow> decimal (unat (auth_ReturnCode r)));
          isError = (case res of Inl _ \<Rightarrow> ''1'' | Inr _ \<Rightarrow> ''0'')
      in (res, (code, isError)))"

definition instrument_authenticator :: "UserPasswordAuthenticator \<Rightarrow> UserPasswordAuthenticator" where
  "instrument_authenticator delegate =
     \<lparr>auth_Name = auth_Name delegate,
      auth_Login = (\<lambda>r. fst (instrument_Login delegate r))\<rparr>"

lemma instrument_authenticator_id: "auth_Login (instrument_authenticator a) = auth_Login a"
  by (simp add: instrument_authenticator_def instrument_Login_def fun_eq_iff Let_def)

interpretation instrumented_plain: authenticator "instrument_authenticator (plain_authenticator opts)"
    "valid_login (credentials opts)" for opts
  by unfold_locales (simp only: instrument_authenticator_id plain_auth.login)

section \<open>Configured credentials\<close>

lemma credentialsFromCSV_loop_eq:
  "credentialsFromCSV_loop creds records e = Inr m \<Longrightarrow>
   e = EOF \<and> (\<forall>r\<in>set records. length r = 2) \<and> m = creds ++ map_of (rev (map (\<lambda>r. (r ! 0, r ! 1)) records))"
  by (induction creds records e rule: credentialsFromCSV_loop.induct) (auto split: if_splits)

end
