(* ===== verification/Connection.thy ===== *)
theory Connection
  imports Api
begin

text \<open>
  A client connection as its handlers see it (pkg/mqtt/server/response.go and the state part of
  conn.go): the network connection with its buffers, the properties that handlers set, and the
  packed connection state.
\<close>

section \<open>Connection properties (response.go)\<close>

record properties =
  idleTimeout :: int
  authenticated :: bool
  protocolVersion :: u32
  clientIdentifier :: string

definition new_properties :: properties where
  "new_properties =
     \<lparr>idleTimeout = 0, authenticated = False, protocolVersion = 0, clientIdentifier = []\<rparr>"

definition SetIdleTimeout :: "int \<Rightarrow> properties \<Rightarrow> properties" where
  "SetIdleTimeout d w = w\<lparr>idleTimeout := d\<rparr>"

definition SetAuthenticated :: "bool \<Rightarrow> properties \<Rightarrow> properties" where
  "SetAuthenticated b w = w\<lparr>authenticated := b\<rparr>"

definition SetProtocolVersion :: "byte \<Rightarrow> properties \<Rightarrow> properties" where
  "SetProtocolVersion b w = w\<lparr>protocolVersion := ucast b\<rparr>"

definition ProtocolVersion :: "properties \<Rightarrow> byte" where
  "ProtocolVersion w = ucast (protocolVersion w)"

definition SetClientIdentifier :: "string \<Rightarrow> properties \<Rightarrow> properties" where
  "SetClientIdentifier s w = w\<lparr>clientIdentifier := s\<rparr>"

lemma ProtocolVersion_SetProtocolVersion [simp]: "ProtocolVersion (SetProtocolVersion b w) = b"
  by (simp add: ProtocolVersion_def SetProtocolVersion_def ucast_down_ucast_id is_down)

lemma ProtocolVersion_other [simp]:
  "ProtocolVersion (SetIdleTimeout d w) = ProtocolVersion w"
  "ProtocolVersion (SetAuthenticated b w) = ProtocolVersion w"
  "ProtocolVersion (SetClientIdentifier s w) = ProtocolVersion w"
  by (simp_all add: ProtocolVersion_def SetIdleTimeout_def SetAuthenticated_def SetClientIdentifier_def)

lemma authenticated_simps [simp]:
  "authenticated (SetIdleTimeout d w) = authenticated w"
  "authenticated (SetAuthenticated b w) = b"
  "authenticated (SetProtocolVersion v w) = authenticated w"
  "authenticated (SetClientIdentifier s w) = authenticated w"
  by (simp_all add: SetIdleTimeout_def SetAuthenticated_def SetProtocolVersion_def SetClientIdentifier_def)

section \<open>Connection states (conn.go)\<close>

datatype ConnState = StateNew | StateActive | StateIdle | StateClosed

text \<open>The states are numbered by \<open>iota\<close>.\<close>

fun state_code :: "ConnState \<Rightarrow> nat" where
  "state_code StateNew = 0"
| "state_code StateActive = 1"
| "state_code StateIdle = 2"
| "state_code StateClosed = 3"

text \<open>\<open>ConnState.String\<close> looks a state up in \<open>stateName\<close>; the name of a state that is not there is empty.\<close>

definition stateName :: "(ConnState \<times> string) list" where
  "stateName =
     [(StateNew, ''new''), (StateActive, ''active''), (StateIdle, ''idle''), (StateClosed, ''closed'')]"

definition ConnState_String :: "ConnState \<Rightarrow> string" where
  "ConnState_String c = (case map_of stateName c of None \<Rightarrow> [] | Some n \<Rightarrow> n)"

text \<open>States with the same name are the same.\<close>

lemma ConnState_String_inject [simp]: "ConnState_String c = ConnState_String d \<longleftrightarrow> c = d"
  by (cases c; cases d) (simp_all add: ConnState_String_def stateName_def)

text \<open>
  \<open>setState\<close> packs the state with the time in seconds, \<open>uint64(now<<8) | uint64(state)\<close>, and
  \<open>getState\<close> takes them apart again; a state is known by its number.
\<close>

definition pack_state :: "int \<Rightarrow> ConnState \<Rightarrow> u64" where
  "pack_state now state = word_of_int (push_bit 8 now) OR word_of_nat (state_code state)"

definition getState :: "u64 \<Rightarrow> nat \<times> int" where
  "getState packedState = (unat (packedState AND 0xff), sint (drop_bit 8 packedState))"

text \<open>\<open>getBufferSize\<close>: a size that is not positive means the default.\<close>

definition getBufferSize :: "int \<Rightarrow> int \<Rightarrow> int" where
  "getBufferSize sz defaultSize = (if sz > 0 then sz else defaultSize)"

section \<open>The network connection and the response writer\<close>

text \<open>
  A connection: the input that is buffered or will still arrive (\<open>bufr\<close>) with the number of bytes of
  it that the buffered reader already holds, whether the network connection is open, the bytes the
  peer received, how many more bytes it will take before a write fails (unlimited: \<open>None\<close>), the error
  the buffered writer stopped with, the properties, and the packed state. The reads and writes that
  fail because a deadline passed are failures of the network connection.
\<close>

record conn =
  bufr :: reader
  buffered :: nat
  rwc_open :: bool
  rwc_out :: "byte list"
  rwc_budget :: "nat option"
  bufw_err :: "go_error option"
  props :: properties
  curState :: u64

definition closed_error :: go_error where
  "closed_error = IOError ''use of closed network connection''"

text \<open>\<open>rwc.Write(b)\<close>.\<close>

definition rwc_Write :: "byte list \<Rightarrow> conn \<Rightarrow> go_error option \<times> conn" where
  "rwc_Write b c =
     (if \<not> rwc_open c then (Some closed_error, c)
      else
        (case rwc_budget c of
           None \<Rightarrow> (None, c\<lparr>rwc_out := rwc_out c @ b\<rparr>)
         | Some n \<Rightarrow>
             if length b \<le> n
             then (None, c\<lparr>rwc_out := rwc_out c @ b, rwc_budget := Some (n - length b)\<rparr>)
             else (Some (IOError ''write failed''),
                   c\<lparr>rwc_out := rwc_out c @ take n b, rwc_budget := Some 0\<rparr>)))"

text \<open>
  \<open>response.Write\<close>: every write of the buffered writer is flushed, so its buffer is empty between
  writes; an error stays with it.
\<close>

definition response_Write :: "byte list \<Rightarrow> conn \<Rightarrow> go_error option \<times> conn" where
  "response_Write b c =
     (case bufw_err c of
        Some e \<Rightarrow> (Some e, c)
      | None \<Rightarrow>
          if b = [] then (None, c)
          else
            (case rwc_Write b c of
               (None, c) \<Rightarrow> (None, c)
             | (Some e, c) \<Rightarrow> (Some e, c\<lparr>bufw_err := Some e\<rparr>)))"

text \<open>
  \<open>response.Close\<close>: the network connection is closed; what the buffered reader already holds can
  still be read.
\<close>

definition response_Close :: "conn \<Rightarrow> go_error option \<times> conn" where
  "response_Close c =
     (if rwc_open c
      then (None, c\<lparr>rwc_open := False,
                    bufr := Reader (take (buffered c) (rd_data (bufr c))) closed_error\<rparr>)
      else (Some closed_error, c))"

section \<open>Facts\<close>

lemma word_255_eq_mask: "(0xff :: u64) = mask 8"
  by (simp add: mask_eq_exp_minus_1)

lemma state_code_less: "state_code st < 4"
  by (cases st) simp_all

lemma state_code_inject: "state_code st = state_code st' \<longleftrightarrow> st = st'"
  by (cases st; cases st') simp_all

lemma pack_state_bits:
  assumes "0 \<le> now" and "now < 2 ^ 55"
  shows "unat (pack_state now st) = nat now * 256 + state_code st"
proof -
  from assms have n: "now * 256 < 2 ^ 63"
    by simp
  then have "uint (word_of_int (push_bit 8 now) :: u64) = now * 256"
    using assms(1) n by (simp only: uint_word_of_int push_bit_eq_mult) simp
  then have w: "unat (word_of_int (push_bit 8 now) :: u64) = nat now * 256"
    using assms(1) by (simp add: unat_eq_nat_uint nat_mult_distrib)
  have eq: "pack_state now st = word_of_nat (state_code st) OR push_bit 8 (word_of_int now)"
    by (simp add: pack_state_def or.commute push_bit_eq_mult)
  have s: "unat (word_of_nat (state_code st) :: u64) = state_code st"
    using state_code_less [of st] by (simp add: unat_of_nat)
  then have lt: "unat (word_of_nat (state_code st) :: u64) < 2 ^ 8"
    using state_code_less [of st] by simp
  have "pack_state now st = word_of_nat (state_code st) + word_of_int (push_bit 8 now)"
    unfolding eq or_push_bit_add [OF lt] by (simp add: push_bit_eq_mult)
  moreover have "nat now < 2 ^ 55"
    using assms by (simp add: nat_less_iff)
  ultimately show ?thesis
    using state_code_less [of st] by (simp add: unat_word_ariths w s)
qed

lemma getState_pack_state:
  assumes "0 \<le> now" and "now < 2 ^ 55"
  shows "getState (pack_state now st) = (state_code st, now)"
proof -
  note u = pack_state_bits [OF assms, of st]
  have "unat (pack_state now st AND 0xff) = unat (pack_state now st) mod 256"
    unfolding word_255_eq_mask take_bit_eq_mask [symmetric] unsigned_take_bit_eq by (simp add: take_bit_eq_mod)
  then have low: "unat (pack_state now st AND 0xff) = state_code st"
    using state_code_less [of st] by (simp add: u)
  have high: "unat (drop_bit 8 (pack_state now st)) = nat now"
    using state_code_less [of st] by (simp add: drop_bit_eq_div unat_div u)
  then have "uint (drop_bit 8 (pack_state now st)) = now"
    using assms(1) by (metis int_nat_eq uint_nat)
  then have "sint (drop_bit 8 (pack_state now st)) = now"
    using assms by (simp add: sint_uint signed_take_bit_int_eq_self)
  with low show ?thesis
    by (simp add: getState_def)
qed

lemma response_Write_None:
  assumes "response_Write b c = (None, c')"
  shows "rwc_out c' = rwc_out c @ b" and "props c' = props c" and "bufr c' = bufr c"
    and "rwc_open c' = rwc_open c" and "curState c' = curState c"
  using assms
  by (auto simp: response_Write_def rwc_Write_def split: option.splits if_splits)

text \<open>A failed write leaves a prefix of the message with the peer, and no later write succeeds.\<close>

lemma response_Write_Some:
  assumes "response_Write b c = (Some e, c')"
  shows "bufw_err c' = Some e" and "\<exists>n. rwc_out c' = rwc_out c @ take n b"
    and "props c' = props c" and "bufr c' = bufr c" and "rwc_open c' = rwc_open c"
proof -
  from assms show "bufw_err c' = Some e" and "props c' = props c" and "bufr c' = bufr c"
    and "rwc_open c' = rwc_open c"
    by (auto simp: response_Write_def rwc_Write_def split: option.splits if_splits)
  from assms show "\<exists>n. rwc_out c' = rwc_out c @ take n b"
    by (auto simp: response_Write_def rwc_Write_def split: option.splits if_splits
        intro: exI [of _ 0])
qed

lemma response_Write_keeps [simp]:
  "props (snd (response_Write b c)) = props c"
  "bufr (snd (response_Write b c)) = bufr c"
  "buffered (snd (response_Write b c)) = buffered c"
  "rwc_open (snd (response_Write b c)) = rwc_open c"
  "curState (snd (response_Write b c)) = curState c"
  by (auto simp: response_Write_def rwc_Write_def split: option.splits)

lemma response_Write_closed: "\<not> rwc_open c \<Longrightarrow> rwc_out (snd (response_Write b c)) = rwc_out c"
  by (auto simp: response_Write_def rwc_Write_def split: option.splits)

lemma response_Close_simps [simp]:
  "rwc_open (snd (response_Close c)) = False"
  "props (snd (response_Close c)) = props c"
  "rwc_out (snd (response_Close c)) = rwc_out c"
  "curState (snd (response_Close c)) = curState c"
  by (simp_all add: response_Close_def)

lemma response_Close_twice:
  "response_Close (snd (response_Close c)) = (Some closed_error, snd (response_Close c))"
  by (simp add: response_Close_def)

end
