(* ===== verification/Handler.thy ===== *)
theory Handler
  imports Auth Connection
begin

text \<open>
  The MQTT handler (pkg/mqtt/handler) and the request multiplexer (pkg/mqtt/server/handler.go): the
  options, the state a handler acts on, one function per handler, and the construction of the
  handler with its dispatch table.
\<close>

section \<open>Options (option.go)\<close>

record options =
  ignoreUnsupported :: "string list"
  allowUnauthenticated :: "string list"
  publishTimeout :: int
  publishAsyncAtMostOnce :: bool
  publishAsyncAtLeastOnce :: bool
  publishAsyncExactlyOnce :: bool
  authenticator_opt :: "UserPasswordAuthenticator option"

definition no_options :: options where
  "no_options =
     \<lparr>ignoreUnsupported = [], allowUnauthenticated = [], publishTimeout = 0,
      publishAsyncAtMostOnce = False, publishAsyncAtLeastOnce = False,
      publishAsyncExactlyOnce = False, authenticator_opt = None\<rparr>"

type_synonym handler_option = "options \<Rightarrow> options"

definition WithIgnoreUnsupported :: "string list \<Rightarrow> handler_option" where
  "WithIgnoreUnsupported a o' = o'\<lparr>ignoreUnsupported := a\<rparr>"

definition WithAllowUnauthenticated :: "string list \<Rightarrow> handler_option" where
  "WithAllowUnauthenticated a o' = o'\<lparr>allowUnauthenticated := a\<rparr>"

definition WithPublishTimeout :: "int \<Rightarrow> handler_option" where
  "WithPublishTimeout d o' = o'\<lparr>publishTimeout := d\<rparr>"

definition WithPublishAsyncAtMostOnce :: "bool \<Rightarrow> handler_option" where
  "WithPublishAsyncAtMostOnce b o' = o'\<lparr>publishAsyncAtMostOnce := b\<rparr>"

definition WithPublishAsyncAtLeastOnce :: "bool \<Rightarrow> handler_option" where
  "WithPublishAsyncAtLeastOnce b o' = o'\<lparr>publishAsyncAtLeastOnce := b\<rparr>"

definition WithPublishAsyncExactlyOnce :: "bool \<Rightarrow> handler_option" where
  "WithPublishAsyncExactlyOnce b o' = o'\<lparr>publishAsyncExactlyOnce := b\<rparr>"

definition WithAuthenticator :: "UserPasswordAuthenticator \<Rightarrow> handler_option" where
  "WithAuthenticator a o' = o'\<lparr>authenticator_opt := Some a\<rparr>"

section \<open>What a handler acts on\<close>

text \<open>
  A publish callback is a closure over the connection and the packet it answers; it is represented
  by the branch of \<open>handlePublish\<close> that made it and that packet.
\<close>

datatype publish_callback =
    NoResponse
  | PubackCallback ControlPacket
  | PubrecCallback ControlPacket

text \<open>
  The state: the connection, the publisher's state, the two counters, the asynchronous requests
  whose callback was not called yet, and whether a panic unwound the handler. The trace is a ghost
  component: it records what happened, in order, and no operation reads it.
\<close>

datatype event =
    Received ControlPacket
  | LoggedIn byte
  | PublishCalled PublishRequest
  | Confirmed PublishRequest
  | Sent ControlPacket
  | Refused ControlPacket
  | Closed

record 's world =
  w_conn :: conn
  w_pub :: 's
  requestsTotal :: "string \<times> string \<Rightarrow> nat"
  responsesTotal :: "string \<times> string \<Rightarrow> nat"
  pending :: "(PublishRequest \<times> publish_callback) list"
  panicked :: bool
  trace :: "event list"

definition note_event :: "event \<Rightarrow> 's world \<Rightarrow> 's world" where
  "note_event e w = w\<lparr>trace := trace w @ [e]\<rparr>"

definition inc :: "string \<times> string \<Rightarrow> (string \<times> string \<Rightarrow> nat) \<Rightarrow> string \<times> string \<Rightarrow> nat" where
  "inc l m = m(l := m l + 1)"

text \<open>The labels of a packet's counter.\<close>

definition packet_labels :: "ControlPacket \<Rightarrow> string \<times> string" where
  "packet_labels p = (Name p, MqttProtocolVersionName (Version p))"

definition conn_Close :: "'s world \<Rightarrow> 's world" where
  "conn_Close w = note_event Closed (w\<lparr>w_conn := snd (response_Close (w_conn w))\<rparr>)"

text \<open>\<open>res.Write(conn)\<close>: the bytes of the packet in one write of the connection.\<close>

definition packet_Write :: "ControlPacket \<Rightarrow> 's world \<Rightarrow> go_error option \<times> 's world" where
  "packet_Write res w =
     (case response_Write (snd (Write res)) (w_conn w) of
        (None, c) \<Rightarrow> (None, note_event (Sent res) (w\<lparr>w_conn := c\<rparr>))
      | (Some e, c) \<Rightarrow> (Some e, w\<lparr>w_conn := c\<rparr>))"

text \<open>The write of a response that is counted when it succeeds and only logged when it fails.\<close>

definition respond :: "ControlPacket \<Rightarrow> 's world \<Rightarrow> 's world" where
  "respond res w =
     (case packet_Write res w of
        (Some _, w) \<Rightarrow> w
      | (None, w) \<Rightarrow> w\<lparr>responsesTotal := inc (packet_labels res) (responsesTotal w)\<rparr>)"

section \<open>The multiplexer (server/handler.go)\<close>

datatype handler_id = HConnect | HPublish | HDisconnect | HPublishRelease | HPing | HIgnore

type_synonym ServeMux = "byte \<rightharpoonup> handler_id"

definition NewServeMux :: ServeMux where
  "NewServeMux = Map.empty"

definition Handle :: "byte \<Rightarrow> handler_id \<Rightarrow> ServeMux \<Rightarrow> ServeMux" where
  "Handle messageType h mux = mux(messageType \<mapsto> h)"

record 's MQTTHandler =
  mux :: ServeMux
  h_publisher :: "'s Publisher"
  opts :: options

section \<open>CONNECT\<close>

definition disconnectUnauthenticated :: "'s MQTTHandler \<Rightarrow> string \<Rightarrow> 's world \<Rightarrow> bool \<times> 's world" where
  "disconnectUnauthenticated h packetName w =
     (if authenticated (props (w_conn w)) then (False, w)
      else if packetName \<in> set (allowUnauthenticated (opts h)) then (False, w)
      else (True, conn_Close w))"

fun getConnectData :: "ControlPacket \<Rightarrow> go_error + string \<times> string \<times> string \<times> u16" where
  "getConnectData (P311 (Connect311 req)) =
     Inr (Username311 req, string_of_bytes (Password311 req), ClientIdentifier311 req, KeepAliveSeconds311 req)"
| "getConnectData (P5 (Connect5 req)) =
     Inr (Username5 req, string_of_bytes (Password5 req), ClientIdentifier5 req, KeepAliveSeconds5 req)"
| "getConnectData packet = Inl (Errorf ''unsupported connect packet type %v'' [AStr (Name packet)])"

text \<open>
  A type assertion \<open>NewControlPacket(...).(*T)\<close> that failed would panic; the error below stands for
  that panic, which the facts about the constructors rule out.
\<close>

definition assertion_panic :: go_error where
  "assertion_panic = Errorf ''interface conversion'' []"

definition getConnectAck :: "ControlPacket \<Rightarrow> byte \<Rightarrow> go_error + ControlPacket" where
  "getConnectAck packet returnCode =
     (case packet of
        P311 (Connect311 _) \<Rightarrow>
          (case NewControlPacket311 CONNACK of
             Some (Connack311 res) \<Rightarrow> Inr (P311 (Connack311 (res\<lparr>ReturnCode311 := returnCode\<rparr>)))
           | _ \<Rightarrow> Inl assertion_panic)
      | P5 (Connect5 _) \<Rightarrow>
          (case NewControlPacket5 CONNACK of
             Some (Connack5 res) \<Rightarrow>
               let res = res\<lparr>ReturnCode5 := returnCode\<rparr>;
                   res = (if returnCode = RefusedBadUserNameOrPassword
                          then res\<lparr>ReturnCode5 := RefusedV5BadUserNameOrPassword\<rparr> else res)
               in Inr (P5 (Connack5 res))
           | _ \<Rightarrow> Inl assertion_panic)
      | _ \<Rightarrow> Inl (Errorf ''unsupported connect packet type %v'' [AStr (Name packet)]))"

definition loginUser :: "'s MQTTHandler \<Rightarrow> string \<Rightarrow> string \<Rightarrow> go_error + byte" where
  "loginUser h username password =
     (case authenticator_opt (opts h) of
        Some a \<Rightarrow>
          (case auth_Login a \<lparr>auth_Username = username, auth_Password = password\<rparr> of
             Inl e \<Rightarrow> Inl e
           | Inr authResp \<Rightarrow> Inr (auth_ReturnCode authResp))
      | None \<Rightarrow> Inr Accepted)"

text \<open>
  \<open>time.Duration(float64(keepAliveSeconds)*1.5) * time.Second\<close>: the product of a 16-bit number and
  1.5 is exact in a \<open>float64\<close>, and the conversion drops the half second.
\<close>

definition keepAliveTimeout :: "u16 \<Rightarrow> int" where
  "keepAliveTimeout keepAliveSeconds = (uint keepAliveSeconds * 3 div 2) * second"

definition update_props :: "(properties \<Rightarrow> properties) \<Rightarrow> 's world \<Rightarrow> 's world" where
  "update_props f w = w\<lparr>w_conn := (w_conn w)\<lparr>props := f (props (w_conn w))\<rparr>\<rparr>"

definition handleConnect :: "'s MQTTHandler \<Rightarrow> ControlPacket \<Rightarrow> 's world \<Rightarrow> 's world" where
  "handleConnect h packet w =
     (case getConnectData packet of
        Inl _ \<Rightarrow> conn_Close w
      | Inr (username, password, clientId, keepAliveSeconds) \<Rightarrow>
          (case loginUser h username password of
             Inl _ \<Rightarrow> conn_Close w
           | Inr returnCode \<Rightarrow>
               let w = note_event (LoggedIn returnCode) w;
                   w = (if keepAliveSeconds > 0
                        then update_props (SetIdleTimeout (keepAliveTimeout keepAliveSeconds)) w else w);
                   auth = (returnCode = Accepted);
                   w = update_props (SetAuthenticated auth) w;
                   w = update_props (SetClientIdentifier clientId) w
               in (case getConnectAck packet returnCode of
                     Inl _ \<Rightarrow> conn_Close w
                   | Inr res \<Rightarrow>
                       let w = respond res w
                       in if \<not> auth then conn_Close w else w)))"

section \<open>PUBLISH\<close>

definition getPublishRequest :: "'s world \<Rightarrow> ControlPacket \<Rightarrow> go_error + PublishRequest" where
  "getPublishRequest w packet =
     (case packet of
        P311 (Publish311 req) \<Rightarrow>
          Inr \<lparr>req_Dup = Dup req, req_Qos = Qos req, req_Retain = Retain req,
               req_TopicName = TopicName311 req, req_MessageID = Publish_MessageID311 req,
               req_Message = Message311 req, req_ClientID = clientIdentifier (props (w_conn w))\<rparr>
      | P5 (Publish5 req) \<Rightarrow>
          Inr \<lparr>req_Dup = Dup req, req_Qos = Qos req, req_Retain = Retain req,
               req_TopicName = TopicName5 req, req_MessageID = Publish_MessageID5 req,
               req_Message = Message5 req, req_ClientID = clientIdentifier (props (w_conn w))\<rparr>
      | _ \<Rightarrow> Inl (Errorf ''unsupported publish packet type %v'' [AStr (Name packet)]))"

definition getPublishAck :: "ControlPacket \<Rightarrow> u16 \<Rightarrow> go_error + ControlPacket" where
  "getPublishAck packet messageID =
     (case packet of
        P311 (Publish311 _) \<Rightarrow>
          (case NewControlPacket311 PUBACK of
             Some (Puback311 res) \<Rightarrow> Inr (P311 (Puback311 (res\<lparr>Puback_MessageID311 := messageID\<rparr>)))
           | _ \<Rightarrow> Inl assertion_panic)
      | P5 (Publish5 _) \<Rightarrow>
          (case NewControlPacket5 PUBACK of
             Some (Puback5 res) \<Rightarrow>
               Inr (P5 (Puback5 (res\<lparr>Puback_MessageID5 := messageID, Puback_ReasonCode5 := 0\<rparr>)))
           | _ \<Rightarrow> Inl assertion_panic)
      | _ \<Rightarrow> Inl (Errorf ''unsupported publish packet type %v'' [AStr (Name packet)]))"

definition getPublishRec :: "ControlPacket \<Rightarrow> u16 \<Rightarrow> go_error + ControlPacket" where
  "getPublishRec packet messageID =
     (case packet of
        P311 (Publish311 _) \<Rightarrow>
          (case NewControlPacket311 PUBREC of
             Some (Pubrec311 res) \<Rightarrow> Inr (P311 (Pubrec311 (res\<lparr>Pubrec_MessageID311 := messageID\<rparr>)))
           | _ \<Rightarrow> Inl assertion_panic)
      | P5 (Publish5 _) \<Rightarrow>
          (case NewControlPacket5 PUBREC of
             Some (Pubrec5 res) \<Rightarrow>
               Inr (P5 (Pubrec5 (res\<lparr>Pubrec_MessageID5 := messageID, Pubrec_ReasonCode5 := 0\<rparr>)))
           | _ \<Rightarrow> Inl assertion_panic)
      | _ \<Rightarrow> Inl (Errorf ''unsupported publish packet type %v'' [AStr (Name packet)]))"

text \<open>The body of a callback, for the request and the response the publisher calls it with.\<close>

definition run_callback ::
  "publish_callback \<Rightarrow> PublishRequest \<Rightarrow> PublishResponse \<Rightarrow> 's world \<Rightarrow> 's world" where
  "run_callback callback request response w =
     (case callback of
        NoResponse \<Rightarrow> w
      | PubackCallback packet \<Rightarrow>
          if resp_Error response \<noteq> None then w
          else
            (let w = note_event (Confirmed request) w in
             case getPublishAck packet (req_MessageID request) of
               Inl _ \<Rightarrow> conn_Close w
             | Inr res \<Rightarrow> respond res w)
      | PubrecCallback packet \<Rightarrow>
          if resp_Error response \<noteq> None then w
          else
            (let w = note_event (Confirmed request) w in
             case getPublishRec packet (req_MessageID request) of
               Inl _ \<Rightarrow> conn_Close w
             | Inr res \<Rightarrow> respond res w))"

definition isPublishAsync :: "'s MQTTHandler \<Rightarrow> byte \<Rightarrow> bool" where
  "isPublishAsync h qos =
     (if qos = AT_MOST_ONCE then publishAsyncAtMostOnce (opts h)
      else if qos = AT_LEAST_ONCE then publishAsyncAtLeastOnce (opts h)
      else if qos = EXACTLY_ONCE then publishAsyncExactlyOnce (opts h)
      else False)"

definition doPublish ::
  "'s MQTTHandler \<Rightarrow> Context \<Rightarrow> PublishRequest \<Rightarrow> publish_callback \<Rightarrow> 's world \<Rightarrow>
   go_error option \<times> 's world" where
  "doPublish h ctx publishRequest callback w =
     (let w = note_event (PublishCalled publishRequest) w in
      if isPublishAsync h (req_Qos publishRequest) then
        (case pub_PublishAsync (h_publisher h) ctx publishRequest (w_pub w) of
           (AsyncErr e, s) \<Rightarrow> (Some (Wrapf ''async publish failed: %w'' [] e), w\<lparr>w_pub := s\<rparr>)
         | (AsyncCalled response, s) \<Rightarrow>
             (None, run_callback callback publishRequest response (w\<lparr>w_pub := s\<rparr>))
         | (AsyncQueued, s) \<Rightarrow>
             (None, w\<lparr>w_pub := s, pending := pending w @ [(publishRequest, callback)]\<rparr>)
         | (AsyncPanic _, s) \<Rightarrow> (None, w\<lparr>w_pub := s, panicked := True\<rparr>))
      else
        (case pub_Publish (h_publisher h) ctx publishRequest (w_pub w) of
           (SyncErr e, s) \<Rightarrow> (Some (Wrapf ''sync publish failed: %w'' [] e), w\<lparr>w_pub := s\<rparr>)
         | (SyncOk response, s) \<Rightarrow>
             (None, run_callback callback publishRequest response (w\<lparr>w_pub := s\<rparr>))
         | (SyncPanic _, s) \<Rightarrow> (None, w\<lparr>w_pub := s, panicked := True\<rparr>)))"

definition publish_context :: "'s MQTTHandler \<Rightarrow> Context" where
  "publish_context h = (if publishTimeout (opts h) > 0 then Some (publishTimeout (opts h)) else None)"

definition handlePublish :: "'s MQTTHandler \<Rightarrow> ControlPacket \<Rightarrow> 's world \<Rightarrow> 's world" where
  "handlePublish h packet w =
     (case getPublishRequest w packet of
        Inl _ \<Rightarrow> conn_Close w
      | Inr publishRequest \<Rightarrow>
          (case disconnectUnauthenticated h (Name packet) w of
             (True, w) \<Rightarrow> w
           | (False, w) \<Rightarrow>
               (case (if req_Qos publishRequest = AT_MOST_ONCE then Some NoResponse
                      else if req_Qos publishRequest = AT_LEAST_ONCE then Some (PubackCallback packet)
                      else if req_Qos publishRequest = EXACTLY_ONCE then Some (PubrecCallback packet)
                      else None) of
                  None \<Rightarrow> w
                | Some callback \<Rightarrow>
                    (case doPublish h (publish_context h) publishRequest callback w of
                       (None, w) \<Rightarrow> w
                     | (Some _, w) \<Rightarrow>
                         if req_Qos publishRequest = AT_MOST_ONCE then w else conn_Close w))))"

section \<open>PUBREL, PINGREQ, DISCONNECT and ignored packets\<close>

definition getPublishComp :: "ControlPacket \<Rightarrow> go_error + ControlPacket" where
  "getPublishComp packet =
     (case packet of
        P311 (Pubrel311 req) \<Rightarrow>
          (case NewControlPacket311 PUBCOMP of
             Some (Pubcomp311 res) \<Rightarrow>
               Inr (P311 (Pubcomp311 (res\<lparr>Pubcomp_MessageID311 := Pubrel_MessageID311 req\<rparr>)))
           | _ \<Rightarrow> Inl assertion_panic)
      | P5 (Pubrel5 req) \<Rightarrow>
          (case NewControlPacket5 PUBCOMP of
             Some (Pubcomp5 res) \<Rightarrow>
               Inr (P5 (Pubcomp5 (res\<lparr>Pubcomp_MessageID5 := Pubrel_MessageID5 req, Pubcomp_ReasonCode5 := 0\<rparr>)))
           | _ \<Rightarrow> Inl assertion_panic)
      | _ \<Rightarrow> Inl (Errorf ''unsupported pubrel packet type %v'' [AStr (Name packet)]))"

definition handlePublishRelease :: "'s MQTTHandler \<Rightarrow> ControlPacket \<Rightarrow> 's world \<Rightarrow> 's world" where
  "handlePublishRelease h packet w =
     (case disconnectUnauthenticated h (Name packet) w of
        (True, w) \<Rightarrow> w
      | (False, w) \<Rightarrow>
          (case getPublishComp packet of
             Inl _ \<Rightarrow> conn_Close w
           | Inr res \<Rightarrow> snd (packet_Write res w)))"

text \<open>The response to a ping, if the packet is one.\<close>

definition getPingResp :: "ControlPacket \<Rightarrow> ControlPacket option" where
  "getPingResp packet =
     (case packet of
        P311 (Pingreq311 _) \<Rightarrow> map_option P311 (NewControlPacket311 PINGRESP)
      | P5 (Pingreq5 _) \<Rightarrow> map_option P5 (NewControlPacket5 PINGRESP)
      | _ \<Rightarrow> None)"

definition handlePing :: "'s MQTTHandler \<Rightarrow> ControlPacket \<Rightarrow> 's world \<Rightarrow> 's world" where
  "handlePing h packet w =
     (case disconnectUnauthenticated h (Name packet) w of
        (True, w) \<Rightarrow> w
      | (False, w) \<Rightarrow>
          (case getPingResp packet of
             None \<Rightarrow> w
           | Some res \<Rightarrow> snd (packet_Write res w)))"

definition handleDisconnect :: "ControlPacket \<Rightarrow> 's world \<Rightarrow> 's world" where
  "handleDisconnect packet w = conn_Close w"

section \<open>Dispatch and construction\<close>

fun run_handler :: "'s MQTTHandler \<Rightarrow> handler_id \<Rightarrow> ControlPacket \<Rightarrow> 's world \<Rightarrow> 's world" where
  "run_handler h HConnect packet w = handleConnect h packet w"
| "run_handler h HPublish packet w = handlePublish h packet w"
| "run_handler h HDisconnect packet w = handleDisconnect packet w"
| "run_handler h HPublishRelease packet w = handlePublishRelease h packet w"
| "run_handler h HPing packet w = handlePing h packet w"
| "run_handler h HIgnore packet w = w"

definition mux_ServeMQTT :: "'s MQTTHandler \<Rightarrow> ControlPacket \<Rightarrow> 's world \<Rightarrow> 's world" where
  "mux_ServeMQTT h p w =
     (case mux h (Type p) of
        None \<Rightarrow> conn_Close w
      | Some entry \<Rightarrow> run_handler h entry p w)"

definition ServeMQTT :: "'s MQTTHandler \<Rightarrow> ControlPacket \<Rightarrow> 's world \<Rightarrow> 's world" where
  "ServeMQTT h p w =
     mux_ServeMQTT h p (w\<lparr>requestsTotal := inc (packet_labels p) (requestsTotal w)\<rparr>)"

text \<open>
  The loops over the names to ignore and over the table of message types, whose order does not
  matter.
\<close>

definition ignore_name :: "string \<Rightarrow> ServeMux \<Rightarrow> ServeMux" where
  "ignore_name name m =
     fold (\<lambda>(t, n) m. if n = name then Handle t HIgnore m else m) MqttMessageTypeNames m"

definition New :: "'s Publisher \<Rightarrow> handler_option list \<Rightarrow> 's MQTTHandler" where
  "New pub os =
     (let o' = fold (\<lambda>f o'. f o') os no_options;
          m = NewServeMux;
          m = Handle CONNECT HConnect m;
          m = Handle PUBLISH HPublish m;
          m = Handle DISCONNECT HDisconnect m;
          m = Handle PUBREL HPublishRelease m;
          m = Handle PINGREQ HPing m;
          m = fold ignore_name (ignoreUnsupported o') m
      in \<lparr>mux = m, h_publisher = pub, opts = o'\<rparr>)"

end
