(* ===== verification/Handler_Facts.thy ===== *)
theory Handler_Facts
  imports Handler
begin

text \<open>
  Facts about the handlers: the responses they build, what each of them leaves unchanged, when the
  publisher is called, and the dispatch table. The later theories use these instead of the
  definitions.
\<close>

section \<open>Responses\<close>

text \<open>The type assertions on new packets succeed.\<close>

lemma NewControlPacket311_simps [simp]:
  "NewControlPacket311 CONNACK = Some (Connack311 (new_Connack311 (zero_header CONNACK)))"
  "NewControlPacket311 PUBACK = Some (Puback311 (new_Puback311 (zero_header PUBACK)))"
  "NewControlPacket311 PUBREC = Some (Pubrec311 (new_Pubrec311 (zero_header PUBREC)))"
  "NewControlPacket311 PUBCOMP = Some (Pubcomp311 (new_Pubcomp311 (zero_header PUBCOMP)))"
  "NewControlPacket311 PINGRESP = Some (Pingresp311 (zero_header PINGRESP))"
  by (simp_all add: NewControlPacket311_def message_types Let_def)

lemma NewControlPacket5_simps [simp]:
  "NewControlPacket5 CONNACK = Some (Connack5 (new_Connack5 (zero_header CONNACK)))"
  "NewControlPacket5 PUBACK = Some (Puback5 (new_Puback5 (zero_header PUBACK)))"
  "NewControlPacket5 PUBREC = Some (Pubrec5 (new_Pubrec5 (zero_header PUBREC)))"
  "NewControlPacket5 PUBCOMP = Some (Pubcomp5 (new_Pubcomp5 (zero_header PUBCOMP)))"
  "NewControlPacket5 PINGRESP = Some (Pingresp5 (zero_header PINGRESP))"
  by (simp_all add: NewControlPacket5_def message_types Let_def)

text \<open>
  What kind of response a packet is: the acknowledgement of a message id, or one of the two others.
\<close>

datatype response_kind = RConnack byte | RPuback u16 | RPubrec u16 | RPubcomp u16 | RPingresp

fun kind_of :: "ControlPacket \<Rightarrow> response_kind option" where
  "kind_of (P311 (Connack311 p)) = Some (RConnack (ReturnCode311 p))"
| "kind_of (P311 (Puback311 p)) = Some (RPuback (Puback_MessageID311 p))"
| "kind_of (P311 (Pubrec311 p)) = Some (RPubrec (Pubrec_MessageID311 p))"
| "kind_of (P311 (Pubcomp311 p)) = Some (RPubcomp (Pubcomp_MessageID311 p))"
| "kind_of (P311 (Pingresp311 p)) = Some RPingresp"
| "kind_of (P5 (Connack5 p)) = Some (RConnack (ReturnCode5 p))"
| "kind_of (P5 (Puback5 p)) = Some (RPuback (Puback_MessageID5 p))"
| "kind_of (P5 (Pubrec5 p)) = Some (RPubrec (Pubrec_MessageID5 p))"
| "kind_of (P5 (Pubcomp5 p)) = Some (RPubcomp (Pubcomp_MessageID5 p))"
| "kind_of (P5 (Pingresp5 p)) = Some RPingresp"
| "kind_of _ = None"

fun request_message_id :: "ControlPacket \<Rightarrow> u16 option" where
  "request_message_id (P311 (Pubrel311 p)) = Some (Pubrel_MessageID311 p)"
| "request_message_id (P5 (Pubrel5 p)) = Some (Pubrel_MessageID5 p)"
| "request_message_id _ = None"

fun is_publish :: "ControlPacket \<Rightarrow> bool" where
  "is_publish (P311 (Publish311 _)) = True"
| "is_publish (P5 (Publish5 _)) = True"
| "is_publish _ = False"

fun is_connect :: "ControlPacket \<Rightarrow> bool" where
  "is_connect (P311 (Connect311 _)) = True"
| "is_connect (P5 (Connect5 _)) = True"
| "is_connect _ = False"

text \<open>The return code a client of the packet's version sees.\<close>

definition wire_return_code :: "byte \<Rightarrow> byte \<Rightarrow> byte" where
  "wire_return_code version returnCode =
     (if version = MQTT_5 \<and> returnCode = RefusedBadUserNameOrPassword
      then RefusedV5BadUserNameOrPassword else returnCode)"

text \<open>A response to a packet: one that can be written, of the packet's version and a given kind.\<close>

definition is_response :: "ControlPacket \<Rightarrow> response_kind \<Rightarrow> ControlPacket \<Rightarrow> bool" where
  "is_response packet kind res \<longleftrightarrow>
     ok_packet res \<and> Version res = Version packet \<and> kind_of res = Some kind"

lemma response_types_less:
  "CONNACK < 16" "PUBACK < 16" "PUBREC < 16" "PUBCOMP < 16" "PINGRESP < 16"
  by (simp_all add: message_types)

lemmas response_defs =
  is_response_def zero_header_def FixedHeader.defs Version311_def Version5_def response_types_less
  new_Connack311_def ConnackPacket311.defs ok_Connack311_def
  new_Puback311_def PubackPacket311.defs ok_Puback311_def
  new_Pubrec311_def PubrecPacket311.defs ok_Pubrec311_def
  new_Pubcomp311_def PubcompPacket311.defs ok_Pubcomp311_def ok_empty_def
  new_Connack5_def ConnackPacket5.defs ok_Connack5_def
  new_Puback5_def PubackPacket5.defs ok_Puback5_def body_Puback5_def
  new_Pubrec5_def PubrecPacket5.defs ok_Pubrec5_def body_Pubrec5_def
  new_Pubcomp5_def PubcompPacket5.defs ok_Pubcomp5_def body_Pubcomp5_def
  no_properties_def maxRemainingLength_def

lemma length_no_properties: "length (Encode_Properties no_properties) \<le> 4"
  using length_Encode_Properties [of no_properties] by (simp add: no_properties_def)

lemma getConnectAck_response:
  assumes "is_connect packet"
  obtains res where "getConnectAck packet rc = Inr res"
    and "is_response packet (RConnack (wire_return_code (Version packet) rc)) res"
proof (cases packet rule: is_connect.cases)
  case (1 c)
  show ?thesis
    by (rule that [of "P311 (Connack311 ((new_Connack311 (zero_header CONNACK))\<lparr>ReturnCode311 := rc\<rparr>))"])
      (simp_all add: 1 getConnectAck_def response_defs wire_return_code_def MQTT_3_1_1_def MQTT_5_def)
next
  case (2 c)
  let ?rc = "wire_return_code MQTT_5 rc"
  have "int (length (Encode_Properties \<lparr>RawData = []\<rparr>)) \<le> 4"
    using length_no_properties by (simp add: no_properties_def)
  then show ?thesis
    by (intro that [of "P5 (Connack5 ((new_Connack5 (zero_header CONNACK))\<lparr>ReturnCode5 := ?rc\<rparr>))"])
      (simp_all add: 2 getConnectAck_def response_defs wire_return_code_def body_Connack5_def Let_def)
qed (use assms in simp_all)

lemma getPublishAck_response:
  assumes "is_publish packet"
  obtains res where "getPublishAck packet mid = Inr res" and "is_response packet (RPuback mid) res"
proof (cases packet rule: is_publish.cases)
  case (1 p)
  show ?thesis
    by (rule that [of "P311 (Puback311 ((new_Puback311 (zero_header PUBACK))\<lparr>Puback_MessageID311 := mid\<rparr>))"])
      (simp_all add: 1 getPublishAck_def response_defs)
next
  case (2 p)
  show ?thesis
    by (rule that [of "P5 (Puback5 ((new_Puback5 (zero_header PUBACK))
          \<lparr>Puback_MessageID5 := mid, Puback_ReasonCode5 := 0\<rparr>))"])
      (simp_all add: 2 getPublishAck_def response_defs)
qed (use assms in simp_all)

lemma getPublishRec_response:
  assumes "is_publish packet"
  obtains res where "getPublishRec packet mid = Inr res" and "is_response packet (RPubrec mid) res"
proof (cases packet rule: is_publish.cases)
  case (1 p)
  show ?thesis
    by (rule that [of "P311 (Pubrec311 ((new_Pubrec311 (zero_header PUBREC))\<lparr>Pubrec_MessageID311 := mid\<rparr>))"])
      (simp_all add: 1 getPublishRec_def response_defs)
next
  case (2 p)
  show ?thesis
    by (rule that [of "P5 (Pubrec5 ((new_Pubrec5 (zero_header PUBREC))
          \<lparr>Pubrec_MessageID5 := mid, Pubrec_ReasonCode5 := 0\<rparr>))"])
      (simp_all add: 2 getPublishRec_def response_defs)
qed (use assms in simp_all)

lemma getPublishComp_response:
  assumes "request_message_id packet = Some mid"
  obtains res where "getPublishComp packet = Inr res" and "is_response packet (RPubcomp mid) res"
proof (cases packet rule: request_message_id.cases)
  case (1 p)
  with assms show ?thesis
    by (intro that [of "P311 (Pubcomp311 ((new_Pubcomp311 (zero_header PUBCOMP))\<lparr>Pubcomp_MessageID311 := mid\<rparr>))"])
      (simp_all add: getPublishComp_def response_defs)
next
  case (2 p)
  with assms show ?thesis
    by (intro that [of "P5 (Pubcomp5 ((new_Pubcomp5 (zero_header PUBCOMP))
          \<lparr>Pubcomp_MessageID5 := mid, Pubcomp_ReasonCode5 := 0\<rparr>))"])
      (simp_all add: getPublishComp_def response_defs)
qed (use assms in simp_all)

lemma getPublishComp_Inr:
  "getPublishComp packet = Inr res \<Longrightarrow> \<exists>mid. request_message_id packet = Some mid \<and> is_response packet (RPubcomp mid) res"
  by (cases packet rule: request_message_id.cases)
    (auto simp: getPublishComp_def response_defs)

lemma getPingResp_response:
  "getPingResp packet = Some res \<Longrightarrow> is_response packet RPingresp res"
  by (auto simp: getPingResp_def response_defs split: ControlPacket.splits ControlPacket311.splits ControlPacket5.splits)

section \<open>The trace of a connection\<close>

text \<open>
  When an event may happen, given the events before it. The publisher is called after an accepted
  login, unless unauthenticated publishing is allowed; a request is confirmed after the publisher was
  called with it; a response answers something: PUBACK and PUBREC a confirmed request of the right
  QoS, CONNACK a login, PUBCOMP a PUBREL with its message id.
\<close>

definition event_ok :: "bool \<Rightarrow> event list \<Rightarrow> event \<Rightarrow> bool" where
  "event_ok allow past e =
     (case e of
        PublishCalled r \<Rightarrow> allow \<or> LoggedIn Accepted \<in> set past
      | Confirmed r \<Rightarrow> PublishCalled r \<in> set past
      | Sent p \<Rightarrow>
          (case kind_of p of
             Some (RPuback m) \<Rightarrow>
               (\<exists>r. Confirmed r \<in> set past \<and> req_MessageID r = m \<and> req_Qos r = AT_LEAST_ONCE)
           | Some (RPubrec m) \<Rightarrow>
               (\<exists>r. Confirmed r \<in> set past \<and> req_MessageID r = m \<and> req_Qos r = EXACTLY_ONCE)
           | Some (RConnack c) \<Rightarrow> (\<exists>rc. LoggedIn rc \<in> set past \<and> c = wire_return_code (Version p) rc)
           | Some (RPubcomp m) \<Rightarrow> (\<exists>q. Received q \<in> set past \<and> request_message_id q = Some m)
           | Some RPingresp \<Rightarrow> True
           | None \<Rightarrow> False)
      | _ \<Rightarrow> True)"

fun trace_ok_from :: "bool \<Rightarrow> event list \<Rightarrow> event list \<Rightarrow> bool" where
  "trace_ok_from allow past [] \<longleftrightarrow> True"
| "trace_ok_from allow past (e # es) \<longleftrightarrow> event_ok allow past e \<and> trace_ok_from allow (past @ [e]) es"

definition trace_ok :: "bool \<Rightarrow> event list \<Rightarrow> bool" where
  "trace_ok allow es = trace_ok_from allow [] es"

lemma trace_ok_from_append:
  "trace_ok_from allow past (xs @ ys) \<longleftrightarrow> trace_ok_from allow past xs \<and> trace_ok_from allow (past @ xs) ys"
  by (induction xs arbitrary: past) simp_all

lemma trace_ok_snoc: "trace_ok allow (es @ [e]) \<longleftrightarrow> trace_ok allow es \<and> event_ok allow es e"
  by (simp add: trace_ok_def trace_ok_from_append)

lemma trace_ok_snoc2:
  "trace_ok allow (es @ [e, e']) \<longleftrightarrow> trace_ok allow es \<and> event_ok allow es e \<and> event_ok allow (es @ [e]) e'"
  by (simp add: trace_ok_def trace_ok_from_append)

lemma trace_ok_nth:
  assumes "trace_ok allow (xs @ e # ys)"
  shows "event_ok allow xs e"
  using assms by (simp add: trace_ok_def trace_ok_from_append)

text \<open>The packets a connection sent, and the bytes they are.\<close>

fun sents :: "event list \<Rightarrow> ControlPacket list" where
  "sents [] = []"
| "sents (Sent p # es) = p # sents es"
| "sents (_ # es) = sents es"

lemma sents_append [simp]: "sents (xs @ ys) = sents xs @ sents ys"
  by (induction xs rule: sents.induct) simp_all

definition wire :: "ControlPacket list \<Rightarrow> byte list" where
  "wire ps = concat (map (\<lambda>p. snd (Write p)) ps)"

lemma wire_append [simp]: "wire (ps @ qs) = wire ps @ wire qs"
  by (simp add: wire_def)

lemma wire_single [simp]: "wire [p] = snd (Write p)"
  by (simp add: wire_def)

section \<open>The invariant of a connection\<close>

text \<open>A callback that waits belongs to a request the publisher was called with, of the callback's QoS.\<close>

definition callback_ok :: "byte \<Rightarrow> event list \<Rightarrow> PublishRequest \<Rightarrow> publish_callback \<Rightarrow> bool" where
  "callback_ok v es r cb \<longleftrightarrow>
     PublishCalled r \<in> set es \<and>
     (case cb of
        NoResponse \<Rightarrow> True
      | PubackCallback p \<Rightarrow> req_Qos r = AT_LEAST_ONCE \<and> is_publish p \<and> Version p = v
      | PubrecCallback p \<Rightarrow> req_Qos r = EXACTLY_ONCE \<and> is_publish p \<and> Version p = v)"

text \<open>
  The invariant, for a connection that negotiated version \<open>v\<close>, received the packets \<open>rs\<close> and has at
  most \<open>n\<close> bytes of input left: the trace is in order, an authenticated connection has an accepted
  login, what was confirmed was taken, the waiting callbacks are in order, and the peer received
  exactly the packets sent, followed by something else only when the connection takes no more.
\<close>

fun receiveds :: "event list \<Rightarrow> ControlPacket list" where
  "receiveds [] = []"
| "receiveds (Received p # es) = p # receiveds es"
| "receiveds (_ # es) = receiveds es"

lemma receiveds_append [simp]: "receiveds (xs @ ys) = receiveds xs @ receiveds ys"
  by (induction xs rule: receiveds.induct) simp_all

lemma set_receiveds: "p \<in> set (receiveds es) \<longleftrightarrow> Received p \<in> set es"
  by (induction es rule: receiveds.induct) auto

definition world_ok ::
  "('s \<Rightarrow> PublishRequest \<Rightarrow> bool) \<Rightarrow> bool \<Rightarrow> byte \<Rightarrow> ControlPacket list \<Rightarrow> nat \<Rightarrow> 's world \<Rightarrow> bool" where
  "world_ok taken allow v rs n w \<longleftrightarrow>
     trace_ok allow (trace w) \<and>
     (authenticated (props (w_conn w)) \<longrightarrow> LoggedIn Accepted \<in> set (trace w)) \<and>
     (\<forall>r. Confirmed r \<in> set (trace w) \<longrightarrow> taken (w_pub w) r) \<and>
     (\<forall>(r, cb) \<in> set (pending w). callback_ok v (trace w) r cb) \<and>
     (\<forall>p \<in> set (sents (trace w)). ok_packet p \<and> Version p = v) \<and>
     (\<exists>part. rwc_out (w_conn w) = wire (sents (trace w)) @ part \<and>
             (rwc_open (w_conn w) \<and> bufw_err (w_conn w) = None \<longrightarrow> part = [])) \<and>
     ProtocolVersion (props (w_conn w)) = v \<and> receiveds (trace w) = rs \<and>
     length (rd_data (bufr (w_conn w))) \<le> n"

lemma world_okI:
  assumes "world_ok taken allow v rs n w" and "trace w' = trace w"
    and "authenticated (props (w_conn w')) \<longrightarrow>
           authenticated (props (w_conn w)) \<or> LoggedIn Accepted \<in> set (trace w)"
    and "ProtocolVersion (props (w_conn w')) = ProtocolVersion (props (w_conn w))"
    and "\<And>r. Confirmed r \<in> set (trace w) \<Longrightarrow> taken (w_pub w) r \<Longrightarrow> taken (w_pub w') r"
    and "set (pending w') \<subseteq> set (pending w)" and "rwc_out (w_conn w') = rwc_out (w_conn w)"
    and "rwc_open (w_conn w') \<longrightarrow> rwc_open (w_conn w)"
    and "bufw_err (w_conn w') = bufw_err (w_conn w)"
    and "length (rd_data (bufr (w_conn w'))) \<le> length (rd_data (bufr (w_conn w)))"
  shows "world_ok taken allow v rs n w'"
  using assms unfolding world_ok_def by (auto 0 3)

lemma world_ok_event:
  assumes "world_ok taken allow v rs n w" and "event_ok allow (trace w) e" and "sents [e] = []"
    and "receiveds [e] = []" and "\<And>r. e = Confirmed r \<Longrightarrow> taken (w_pub w) r"
  shows "world_ok taken allow v rs n (note_event e w)"
  using assms by (auto simp: world_ok_def note_event_def trace_ok_snoc callback_ok_def)

lemma world_ok_Close: "world_ok taken allow v rs n w \<Longrightarrow> world_ok taken allow v rs n (conn_Close w)"
  unfolding conn_Close_def
  by (rule world_ok_event)
    (auto simp: event_ok_def response_Close_def world_ok_def)

lemma world_ok_packet_Write:
  assumes "world_ok taken allow v rs n w" and "ok_packet res" and "Version res = v"
    and "event_ok allow (trace w) (Sent res)"
  shows "world_ok taken allow v rs n (snd (packet_Write res w))"
proof (cases "response_Write (snd (Write res)) (w_conn w)")
  case (Pair err c)
  show ?thesis
  proof (cases err)
    case None
    with Pair have b: "bufw_err (w_conn w) = None" "bufw_err c = None"
        "rwc_open (w_conn w) \<or> snd (Write res) = []"
      by (auto simp: response_Write_def rwc_Write_def split: option.splits if_splits)
    from None Pair have c: "rwc_out c = rwc_out (w_conn w) @ snd (Write res)" "props c = props (w_conn w)"
        "rwc_open c = rwc_open (w_conn w)" "bufr c = bufr (w_conn w)"
      by (auto dest: response_Write_None)
    have "\<exists>part. rwc_out c = wire (sents (trace w) @ [res]) @ part \<and>
        (rwc_open c \<and> bufw_err c = None \<longrightarrow> part = [])"
      using assms(1) b(1,3) unfolding world_ok_def c(1,3) by auto
    with assms c None Pair show ?thesis
      by (auto simp: packet_Write_def world_ok_def note_event_def trace_ok_snoc callback_ok_def)
  next
    case (Some e)
    with Pair have c: "bufw_err c = Some e" "props c = props (w_conn w)"
        "\<exists>n. rwc_out c = rwc_out (w_conn w) @ take n (snd (Write res))" "bufr c = bufr (w_conn w)"
      by (auto dest: response_Write_Some)
    with assms Some Pair show ?thesis
      by (auto simp: packet_Write_def world_ok_def)
  qed
qed

lemma world_ok_respond:
  assumes "world_ok taken allow v rs n w" and "ok_packet res" and "Version res = v"
    and "event_ok allow (trace w) (Sent res)"
  shows "world_ok taken allow v rs n (respond res w)"
  using world_ok_packet_Write [OF assms]
  by (auto simp: respond_def split: prod.splits option.splits elim: world_okI simp: world_ok_def)

lemma world_ok_update_props:
  assumes "world_ok taken allow v rs n w" and "authenticated (f (props (w_conn w))) \<longrightarrow> LoggedIn Accepted \<in> set (trace w)"
    and "ProtocolVersion (f (props (w_conn w))) = ProtocolVersion (props (w_conn w))"
  shows "world_ok taken allow v rs n (update_props f w)"
  using assms by (elim world_okI) (auto simp: update_props_def)

section \<open>Every handler keeps the invariant\<close>

lemma trace_note_event [simp]: "trace (note_event e w) = trace w @ [e]"
  by (simp add: note_event_def)

lemma note_event_simps [simp]:
  "w_conn (note_event e w) = w_conn w" "w_pub (note_event e w) = w_pub w"
  "pending (note_event e w) = pending w" "panicked (note_event e w) = panicked w"
  by (simp_all add: note_event_def)

lemma update_props_simps [simp]:
  "trace (update_props f w) = trace w" "w_pub (update_props f w) = w_pub w"
  "props (w_conn (update_props f w)) = f (props (w_conn w))"
  "pending (update_props f w) = pending w" "panicked (update_props f w) = panicked w"
  "rwc_open (w_conn (update_props f w)) = rwc_open (w_conn w)"
  "rwc_out (w_conn (update_props f w)) = rwc_out (w_conn w)"
  "bufr (w_conn (update_props f w)) = bufr (w_conn w)"
  "bufw_err (w_conn (update_props f w)) = bufw_err (w_conn w)"
  by (simp_all add: update_props_def)

lemma Name_publish: "is_publish p \<Longrightarrow> Name p = ''PUBLISH''"
  by (cases p rule: is_publish.cases) (simp_all add: Name_Publish311_def Name_Publish5_def)

lemma getPublishRequest_Inr:
  "getPublishRequest w packet = Inr r \<Longrightarrow> is_publish packet"
  by (cases packet rule: is_publish.cases) (simp_all add: getPublishRequest_def)

lemma world_ok_run_callback:
  assumes w: "world_ok taken allow v rs n w" and cb: "callback_ok v (trace w) r cb"
    and taken: "resp_Error resp = None \<Longrightarrow> taken (w_pub w) r"
  shows "world_ok taken allow v rs n (run_callback cb r resp w)"
proof (cases "cb = NoResponse \<or> resp_Error resp \<noteq> None")
  case True
  with w show ?thesis
    by (auto simp: run_callback_def split: publish_callback.split)
next
  case False
  from cb have "PublishCalled r \<in> set (trace w)"
    by (simp add: callback_ok_def)
  with w have c: "world_ok taken allow v rs n (note_event (Confirmed r) w)"
    using False taken by (intro world_ok_event) (auto simp: event_ok_def)
  have send: "world_ok taken allow v rs n (respond res (note_event (Confirmed r) w))"
    if "is_response p kind res" and "Version p = v"
      and "kind = RPuback (req_MessageID r) \<and> req_Qos r = AT_LEAST_ONCE \<or>
           kind = RPubrec (req_MessageID r) \<and> req_Qos r = EXACTLY_ONCE" for p kind res
    using c that by (intro world_ok_respond) (auto simp: is_response_def event_ok_def)
  from False cb consider
      (ack) p where "cb = PubackCallback p" "req_Qos r = AT_LEAST_ONCE" "is_publish p" "Version p = v"
    | (rec) p where "cb = PubrecCallback p" "req_Qos r = EXACTLY_ONCE" "is_publish p" "Version p = v"
    by (cases cb) (auto simp: callback_ok_def)
  then show ?thesis
  proof cases
    case ack
    obtain res where "getPublishAck p (req_MessageID r) = Inr res" "is_response p (RPuback (req_MessageID r)) res"
      by (rule getPublishAck_response [OF ack(3)])
    with ack False send show ?thesis
      by (simp add: run_callback_def Let_def)
  next
    case rec
    obtain res where "getPublishRec p (req_MessageID r) = Inr res" "is_response p (RPubrec (req_MessageID r)) res"
      by (rule getPublishRec_response [OF rec(3)])
    with rec False send show ?thesis
      by (simp add: run_callback_def Let_def)
  qed
qed

lemma world_ok_pub:
  "world_ok taken allow v rs n w \<Longrightarrow> (\<And>q. taken (w_pub w) q \<Longrightarrow> taken s q) \<Longrightarrow>
   world_ok taken allow v rs n (w\<lparr>w_pub := s\<rparr>)"
  by (erule world_okI) simp_all

lemma world_ok_panicked: "world_ok taken allow v rs n w \<Longrightarrow> world_ok taken allow v rs n (w\<lparr>panicked := b\<rparr>)"
  by (erule world_okI) simp_all

lemma world_ok_pending:
  "world_ok taken allow v rs n w \<Longrightarrow> callback_ok v (trace w) r cb \<Longrightarrow>
   world_ok taken allow v rs n (w\<lparr>pending := pending w @ [(r, cb)]\<rparr>)"
  by (auto simp: world_ok_def)

lemma world_ok_disconnectUnauthenticated:
  "world_ok taken allow v rs n w \<Longrightarrow> world_ok taken allow v rs n (snd (disconnectUnauthenticated h nm w))"
  by (simp add: disconnectUnauthenticated_def world_ok_Close)

lemma disconnectUnauthenticated_False:
  "disconnectUnauthenticated h nm w = (False, w') \<Longrightarrow>
   w' = w \<and> (authenticated (props (w_conn w)) \<or> nm \<in> set (allowUnauthenticated (opts h)))"
  by (auto simp: disconnectUnauthenticated_def split: if_splits)

lemma world_ok_handleConnect:
  assumes w: "world_ok taken allow v rs n w" and v: "Version packet = v"
  shows "world_ok taken allow v rs n (handleConnect h packet w)"
proof (cases "getConnectData packet")
  case (Inl e)
  with w show ?thesis
    by (simp add: handleConnect_def world_ok_Close)
next
  case (Inr d)
  obtain u pw cid ka where d: "d = (u, pw, cid, ka)"
    by (cases d) auto
  from Inr have c: "is_connect packet"
    by (cases packet rule: getConnectData.cases) simp_all
  show ?thesis
  proof (cases "loginUser h u pw")
    case (Inl e)
    with Inr d w show ?thesis
      by (simp add: handleConnect_def world_ok_Close)
  next
    case (Inr rc)
    define w1 where "w1 = note_event (LoggedIn rc) w"
    define w2 where "w2 = (if ka > 0 then update_props (SetIdleTimeout (keepAliveTimeout ka)) w1 else w1)"
    define w3 where "w3 = update_props (SetClientIdentifier cid) (update_props (SetAuthenticated (rc = Accepted)) w2)"
    have t: "trace w3 = trace w @ [LoggedIn rc]"
      by (simp add: w3_def w2_def w1_def)
    have "world_ok taken allow v rs n w1"
      unfolding w1_def using w by (rule world_ok_event) (simp_all add: event_ok_def)
    then have "world_ok taken allow v rs n w2"
      unfolding w2_def by (auto intro!: world_ok_update_props simp: world_ok_def)
    then have "world_ok taken allow v rs n w3"
      unfolding w3_def by (intro world_ok_update_props) (auto simp: w2_def w1_def)
    moreover obtain res where res: "getConnectAck packet rc = Inr res"
        "is_response packet (RConnack (wire_return_code (Version packet) rc)) res"
      by (rule getConnectAck_response [OF c])
    ultimately have "world_ok taken allow v rs n (respond res w3)"
      using v by (intro world_ok_respond) (auto simp: is_response_def event_ok_def t)
    moreover have "handleConnect h packet w =
        (if rc \<noteq> Accepted then conn_Close (respond res w3) else respond res w3)"
      using \<open>getConnectData packet = Inr d\<close> d Inr res(1)
      by (simp add: handleConnect_def Let_def w3_def w2_def w1_def)
    ultimately show ?thesis
      by (simp add: world_ok_Close)
  qed
qed

lemma world_ok_reply:
  assumes w: "world_ok taken allow v rs n w" and "Version packet = v" and "is_response packet kind res"
    and "kind = RPingresp \<or> (\<exists>m. kind = RPubcomp m \<and> request_message_id packet = Some m \<and> Received packet \<in> set (trace w))"
  shows "world_ok taken allow v rs n (snd (packet_Write res w))"
  using assms by (intro world_ok_packet_Write) (auto simp: is_response_def event_ok_def)

context publisher
begin

lemma world_ok_doPublish:
  assumes w: "world_ok taken allow v rs n w" and pub: "allow \<or> LoggedIn Accepted \<in> set (trace w)"
    and cb: "callback_ok v (trace w @ [PublishCalled r]) r cb" and h: "h_publisher h = pub"
  shows "world_ok taken allow v rs n (snd (doPublish h ctx r cb w))"
proof -
  let ?w = "note_event (PublishCalled r) w"
  from w pub have w1: "world_ok taken allow v rs n ?w"
    by (intro world_ok_event) (simp_all add: event_ok_def)
  have p: "world_ok taken allow v rs n (?w\<lparr>w_pub := s\<rparr>)" if "\<And>q. taken (w_pub w) q \<Longrightarrow> taken s q" for s
    using w1 that by (intro world_ok_pub) simp_all
  have c: "world_ok taken allow v rs n (run_callback cb r resp (?w\<lparr>w_pub := s\<rparr>))"
    if "\<And>q. taken (w_pub w) q \<Longrightarrow> taken s q" and "resp_Error resp = None \<Longrightarrow> taken s r" for resp s
    using p [OF that(1)] by (rule world_ok_run_callback) (simp_all add: cb that(2))
  have q: "world_ok taken allow v rs n (?w\<lparr>w_pub := s, pending := pending w @ [(r, cb)]\<rparr>)"
    if "\<And>q. taken (w_pub w) q \<Longrightarrow> taken s q" for s
    using world_ok_pending [OF p [OF that], of r cb] cb by simp
  have x: "world_ok taken allow v rs n (?w\<lparr>w_pub := s, panicked := True\<rparr>)"
    if "\<And>q. taken (w_pub w) q \<Longrightarrow> taken s q" for s
    using world_ok_panicked [OF p [OF that], of True] by simp
  show ?thesis
  proof (cases "isPublishAsync h (req_Qos r)")
    case True
    obtain res s where a: "pub_PublishAsync pub ctx r (w_pub w) = (res, s)"
      by (cases "pub_PublishAsync pub ctx r (w_pub w)") auto
    note keep = async_keeps [OF a]
    have "world_ok taken allow v rs n (run_callback cb r resp (?w\<lparr>w_pub := s\<rparr>))" if "res = AsyncCalled resp" for resp
      by (rule c [OF keep]) (use a that in \<open>auto dest: async_confirmed\<close>)
    with True h a p [OF keep] q [OF keep] x [OF keep] show ?thesis
      by (cases res) (simp_all add: doPublish_def Let_def)
  next
    case False
    obtain res s where a: "pub_Publish pub ctx r (w_pub w) = (res, s)"
      by (cases "pub_Publish pub ctx r (w_pub w)") auto
    note keep = publish_keeps [OF a]
    have "world_ok taken allow v rs n (run_callback cb r resp (?w\<lparr>w_pub := s\<rparr>))" if "res = SyncOk resp" for resp
      by (rule c [OF keep]) (use a that in \<open>auto dest: publish_confirmed\<close>)
    with False h a p [OF keep] x [OF keep] show ?thesis
      by (cases res) (simp_all add: doPublish_def Let_def)
  qed
qed

lemma world_ok_handlePublish:
  assumes w: "world_ok taken allow v rs n w" and "Version packet = v"
    and h: "h_publisher h = pub" and allow: "''PUBLISH'' \<in> set (allowUnauthenticated (opts h)) \<longrightarrow> allow"
  shows "world_ok taken allow v rs n (handlePublish h packet w)"
proof (cases "getPublishRequest w packet")
  case (Inl e)
  with w show ?thesis
    by (simp add: handlePublish_def world_ok_Close)
next
  case (Inr r)
  then have p: "is_publish packet"
    by (rule getPublishRequest_Inr)
  show ?thesis
  proof (cases "disconnectUnauthenticated h (Name packet) w")
    case (Pair b w')
    show ?thesis
    proof (cases b)
      case True
      with Inr Pair world_ok_disconnectUnauthenticated [OF w, of h "Name packet"] show ?thesis
        by (simp add: handlePublish_def)
    next
      case False
      with Pair have w': "w' = w"
        and a: "authenticated (props (w_conn w)) \<or> ''PUBLISH'' \<in> set (allowUnauthenticated (opts h))"
        by (auto dest: disconnectUnauthenticated_False simp: Name_publish [OF p])
      with w allow have "allow \<or> LoggedIn Accepted \<in> set (trace w)"
        by (auto simp: world_ok_def)
      then have do: "world_ok taken allow v rs n (snd (doPublish h (publish_context h) r cb w))"
        if "callback_ok v (trace w @ [PublishCalled r]) r cb" for cb
        using w that h by (intro world_ok_doPublish)
      have "world_ok taken allow v rs n (case doPublish h (publish_context h) r cb w of
            (None, w) \<Rightarrow> w | (Some _, w) \<Rightarrow> if q then w else conn_Close w)"
        if "callback_ok v (trace w @ [PublishCalled r]) r cb" for cb q
        using do [OF that] by (auto simp: world_ok_Close split: prod.split option.split)
      then show ?thesis
        using w assms(2) p False Pair Inr w'
        by (simp add: handlePublish_def callback_ok_def)
    qed
  qed
qed

lemma world_ok_run_handler:
  assumes w: "world_ok taken allow v rs n w" and v: "Version packet = v" and rcv: "Received packet \<in> set (trace w)"
    and h: "h_publisher h = pub" and allow: "''PUBLISH'' \<in> set (allowUnauthenticated (opts h)) \<longrightarrow> allow"
  shows "world_ok taken allow v rs n (run_handler h hid packet w)"
proof (cases hid)
  case HConnect
  with w v show ?thesis by (simp add: world_ok_handleConnect)
next
  case HPublish
  with w v h allow show ?thesis by (simp add: world_ok_handlePublish)
next
  case HDisconnect
  with w show ?thesis by (simp add: handleDisconnect_def world_ok_Close)
next
  case HPublishRelease
  from w v rcv have "world_ok taken allow v rs n (snd (packet_Write res w))" if "getPublishComp packet = Inr res" for res
    using getPublishComp_Inr [OF that] by (blast intro: world_ok_reply)
  with HPublishRelease w show ?thesis
    by (auto simp: handlePublishRelease_def world_ok_Close disconnectUnauthenticated_def split: sum.split)
next
  case HPing
  from w v rcv have "world_ok taken allow v rs n (snd (packet_Write res w))" if "getPingResp packet = Some res" for res
    using getPingResp_response [OF that] by (blast intro: world_ok_reply)
  with HPing w show ?thesis
    by (auto simp: handlePing_def world_ok_Close disconnectUnauthenticated_def split: option.split)
next
  case HIgnore
  with w show ?thesis by simp
qed

lemma world_ok_ServeMQTT:
  assumes "world_ok taken allow v rs n w" and "Version packet = v" and "Received packet \<in> set (trace w)"
    and "h_publisher h = pub" and "''PUBLISH'' \<in> set (allowUnauthenticated (opts h)) \<longrightarrow> allow"
  shows "world_ok taken allow v rs n (ServeMQTT h packet w)"
proof -
  let ?w = "w\<lparr>requestsTotal := inc (packet_labels packet) (requestsTotal w)\<rparr>"
  from assms(1) have "world_ok taken allow v rs n ?w"
    by (rule world_okI) simp_all
  with assms(2-5) show ?thesis
    by (auto simp: ServeMQTT_def mux_ServeMQTT_def world_ok_Close split: option.split intro!: world_ok_run_handler)
qed

end

end
