(* ===== verification/Serve.thy ===== *)
theory Serve
  imports Handler_Facts
begin

text \<open>
  The loop that serves a connection (\<open>conn.serve\<close> and \<open>readRequest\<close> in pkg/mqtt/server/conn.go), as
  steps: one request is read, handled, and the connection waits for the next one. The steps between
  them are the environment's: a queued publish completes, the network gives up, the server stops.
\<close>

section \<open>Reading a request\<close>

text \<open>
  \<open>readRequest\<close>: \<open>k\<close> is how many of the remaining bytes the buffered reader holds afterwards. The
  read deadline is the environment's (\<open>Cut\<close> below).
\<close>

definition readRequest :: "nat \<Rightarrow> conn \<Rightarrow> go_error + ControlPacket \<times> conn" where
  "readRequest k c =
     (case ReadPacket (ProtocolVersion (props c)) (bufr c) of
        Inl e \<Rightarrow> Inl e
      | Inr (req, r) \<Rightarrow>
          Inr (req, c\<lparr>bufr := r, buffered := min k (length (rd_data r)),
                      props := SetProtocolVersion (Version req) (props c)\<rparr>))"

text \<open>The response an error carries (\<open>err.(mqttproto.ResponsePacket)\<close>).\<close>

definition error_response :: "go_error \<Rightarrow> ControlPacket option" where
  "error_response e =
     (case e of
        ConnectAckError rc _ _ \<Rightarrow> map_option P311 (ConnAckResponse rc)
      | _ \<Rightarrow> None)"

section \<open>The states of the loop\<close>

datatype phase = Reading | Handling ControlPacket | Handled | Finished

record 's serve_state =
  phase :: phase
  world :: "'s world"
  shutting_down :: bool

definition set_state :: "int \<Rightarrow> ConnState \<Rightarrow> 's world \<Rightarrow> 's world" where
  "set_state now st w = w\<lparr>w_conn := (w_conn w)\<lparr>curState := pack_state now st\<rparr>\<rparr>"

text \<open>The deferred function of \<open>serve\<close>, which also runs when a panic unwinds a handler.\<close>

definition finish :: "int \<Rightarrow> 's world \<Rightarrow> 's world" where
  "finish now w = set_state now StateClosed (conn_Close w)"

text \<open>The response of an error is written to the network connection itself, not to its buffer.\<close>

definition refuse :: "go_error \<Rightarrow> 's world \<Rightarrow> 's world" where
  "refuse e w =
     (let w = (case error_response e of
                 None \<Rightarrow> w
               | Some res \<Rightarrow>
                   note_event (Refused res) (w\<lparr>w_conn := snd (rwc_Write (snd (Write res)) (w_conn w))\<rparr>))
      in conn_Close w)"

text \<open>
  The actions. The loop's own: \<open>Read\<close> and \<open>Serve\<close> are the two halves of an iteration up to the
  handler's return, \<open>Next\<close> is the rest of it, with the outcome of \<open>Peek(2)\<close>. The environment's:
  \<open>Deliver\<close> completes the \<open>i\<close>-th waiting publish, \<open>Cut\<close> and \<open>Stall\<close> end the network connection's
  input after \<open>k\<close> bytes and its output, \<open>Stop\<close> is the server's shutdown flag, and \<open>CloseConn\<close> the
  server closing the network connection.
\<close>

datatype action =
    Read nat int
  | Serve
  | Next bool nat int
  | Deliver nat
  | Cut nat go_error
  | Stall nat
  | Stop
  | CloseConn

definition is_loop_action :: "action \<Rightarrow> bool" where
  "is_loop_action a \<longleftrightarrow> (case a of Read _ _ \<Rightarrow> True | Serve \<Rightarrow> True | Next _ _ _ \<Rightarrow> True | _ \<Rightarrow> False)"

definition deliver :: "'s MQTTHandler \<Rightarrow> nat \<Rightarrow> 's world \<Rightarrow> 's world" where
  "deliver h i w =
     (let (r, cb) = pending w ! i;
          (resp, s) = pub_Complete (h_publisher h) r (w_pub w)
      in run_callback cb r resp (w\<lparr>w_pub := s, pending := take i (pending w) @ drop (i + 1) (pending w)\<rparr>))"

fun step :: "'s MQTTHandler \<Rightarrow> action \<Rightarrow> 's serve_state \<Rightarrow> 's serve_state option" where
  "step h (Read k now) s =
     (if phase s \<noteq> Reading then None
      else
        (case readRequest k (w_conn (world s)) of
           Inl e \<Rightarrow>
             Some (s\<lparr>phase := Finished, world := finish now (refuse e (set_state now StateActive (world s)))\<rparr>)
         | Inr (req, c) \<Rightarrow>
             Some (s\<lparr>phase := Handling req,
                     world := note_event (Received req)
                       (set_state now StateActive ((world s)\<lparr>w_conn := c\<rparr>))\<rparr>)))"
| "step h Serve s =
     (case phase s of
        Handling req \<Rightarrow>
          let w = ServeMQTT h req (world s)
          in if panicked w then Some (s\<lparr>phase := Finished, world := finish 0 w\<rparr>)
             else Some (s\<lparr>phase := Handled, world := w\<rparr>)
      | _ \<Rightarrow> None)"
| "step h (Next peek_ok k now) s =
     (if phase s \<noteq> Handled then None
      else
        (let w = set_state now StateIdle (world s);
             c = w_conn w
         in if shutting_down s then Some (s\<lparr>phase := Finished, world := finish now w\<rparr>)
            else if idleTimeout (props c) = 0 then Some (s\<lparr>phase := Reading, world := w\<rparr>)
            else if peek_ok then
              (if length (rd_data (bufr c)) < 2 then None
               else Some (s\<lparr>phase := Reading,
                            world := w\<lparr>w_conn := c\<lparr>buffered := max 2 (min k (length (rd_data (bufr c))))\<rparr>\<rparr>\<rparr>))
            else
              (if 2 \<le> buffered c then None
               else Some (s\<lparr>phase := Finished, world := finish now w\<rparr>))))"
| "step h (Deliver i) s =
     (if i < length (pending (world s)) then Some (s\<lparr>world := deliver h i (world s)\<rparr>) else None)"
| "step h (Cut k e) s =
     (let c = w_conn (world s)
      in if buffered c \<le> k
         then Some (s\<lparr>world := (world s)\<lparr>w_conn := c\<lparr>bufr := Reader (take k (rd_data (bufr c))) e\<rparr>\<rparr>\<rparr>)
         else None)"
| "step h (Stall n) s =
     Some (s\<lparr>world := (world s)\<lparr>w_conn := (w_conn (world s))\<lparr>rwc_budget := Some n\<rparr>\<rparr>\<rparr>)"
| "step h Stop s = Some (s\<lparr>shutting_down := True\<rparr>)"
| "step h CloseConn s = Some (s\<lparr>world := conn_Close (world s)\<rparr>)"

text \<open>\<open>serve\<close> starts with new properties, whose idle timeout is the server's.\<close>

definition init_state :: "int \<Rightarrow> reader \<Rightarrow> 's \<Rightarrow> 's serve_state" where
  "init_state serverIdleTimeout input pub =
     \<lparr>phase = Reading,
      world =
        \<lparr>w_conn =
           \<lparr>bufr = input, buffered = 0, rwc_open = True, rwc_out = [], rwc_budget = None,
            bufw_err = None, props = SetIdleTimeout serverIdleTimeout new_properties,
            curState = pack_state 0 StateNew\<rparr>,
         w_pub = pub, requestsTotal = (\<lambda>_. 0), responsesTotal = (\<lambda>_. 0), pending = [],
         panicked = False, trace = []\<rparr>,
      shutting_down = False\<rparr>"

fun run :: "'s MQTTHandler \<Rightarrow> action list \<Rightarrow> 's serve_state \<Rightarrow> 's serve_state option" where
  "run h [] s = Some s"
| "run h (a # as) s = (case step h a s of None \<Rightarrow> None | Some s' \<Rightarrow> run h as s')"

inductive reachable :: "'s MQTTHandler \<Rightarrow> 's serve_state \<Rightarrow> 's serve_state \<Rightarrow> bool" for h s0 where
  start: "reachable h s0 s0"
| more: "reachable h s0 s \<Longrightarrow> step h a s = Some s' \<Longrightarrow> reachable h s0 s'"

inductive_cases reachableE: "reachable h s0 s"

lemma reachable_run: "run h as s = Some s' \<Longrightarrow> reachable h s s'"
proof (induction as arbitrary: s s' rule: rev_induct)
  case Nil
  then show ?case
    by (auto intro: reachable.start)
next
  case (snoc a as)
  have "run h (as @ [a]) s = (case run h as s of None \<Rightarrow> None | Some t \<Rightarrow> step h a t)"
    by (induction as arbitrary: s) (auto split: option.splits)
  with snoc show ?case
    by (auto split: option.splits intro: reachable.more)
qed

section \<open>The invariant of the loop\<close>

text \<open>
  Beside the connection's invariant: nothing happened before the first packet, which is a CONNECT
  packet of the version it names; every packet has that version and is well typed; the packets received and the input
  left are bounded by the input; and a finished connection is closed.
\<close>

definition first_ok :: "byte \<Rightarrow> ControlPacket list \<Rightarrow> bool" where
  "first_ok v rs \<longleftrightarrow>
     (case rs of [] \<Rightarrow> v = 0 | p # _ \<Rightarrow> v \<noteq> 0 \<and> connect_level p = Some v \<and> (\<forall>q \<in> set rs. Version q = v)) \<and>
     (\<forall>q \<in> set rs. header_ok (packet_header q) \<and> (clean_packet q \<longrightarrow> ok_packet q))"

definition serve_ok ::
  "('s \<Rightarrow> PublishRequest \<Rightarrow> bool) \<Rightarrow> bool \<Rightarrow> nat \<Rightarrow> 's serve_state \<Rightarrow> bool" where
  "serve_ok taken allow N s \<longleftrightarrow>
     (\<exists>v rs n. world_ok taken allow v rs n (world s) \<and> first_ok v rs \<and> 2 * length rs + n \<le> N \<and>
        (v = 0 \<longrightarrow> pending (world s) = [] \<and> sents (trace (world s)) = []) \<and>
        (\<forall>req. phase s = Handling req \<longrightarrow> req \<in> set rs)) \<and>
     (phase s = Finished \<longrightarrow> \<not> rwc_open (w_conn (world s)))"

lemma set_state_simps [simp]:
  "trace (set_state now st w) = trace w" "pending (set_state now st w) = pending w"
  "w_pub (set_state now st w) = w_pub w" "props (w_conn (set_state now st w)) = props (w_conn w)"
  "rwc_open (w_conn (set_state now st w)) = rwc_open (w_conn w)"
  "bufr (w_conn (set_state now st w)) = bufr (w_conn w)"
  by (simp_all add: set_state_def)

lemma world_ok_set_state:
  "world_ok taken allow v rs n w \<Longrightarrow> world_ok taken allow v rs n (set_state now st w)"
  by (erule world_okI) (simp_all add: set_state_def)

lemma conn_Close_simps [simp]:
  "pending (conn_Close w) = pending w" "trace (conn_Close w) = trace w @ [Closed]"
  "rwc_open (w_conn (conn_Close w)) = False" "props (w_conn (conn_Close w)) = props (w_conn w)"
  "w_pub (conn_Close w) = w_pub w" "panicked (conn_Close w) = panicked w"
  by (simp_all add: conn_Close_def note_event_def)

lemma world_ok_finish:
  "world_ok taken allow v rs n w \<Longrightarrow> world_ok taken allow v rs n (finish now w)"
  by (simp add: finish_def world_ok_set_state world_ok_Close)

lemma finish_simps [simp]:
  "pending (finish now w) = pending w" "trace (finish now w) = trace w @ [Closed]"
  "rwc_open (w_conn (finish now w)) = False"
  by (simp_all add: finish_def)

text \<open>A response that is written past the buffer goes out just before the connection is closed.\<close>

lemma world_ok_refuse:
  assumes "world_ok taken allow v rs n w"
  shows "world_ok taken allow v rs n (refuse e w)"
proof (cases "error_response e")
  case None
  with assms show ?thesis
    by (simp add: refuse_def world_ok_Close)
next
  case (Some res)
  let ?c = "snd (rwc_Write (snd (Write res)) (w_conn w))"
  have c: "props ?c = props (w_conn w)" "bufr ?c = bufr (w_conn w)" "bufw_err ?c = bufw_err (w_conn w)"
      "\<exists>x. rwc_out ?c = rwc_out (w_conn w) @ x" "buffered ?c = buffered (w_conn w)"
    by (auto simp: rwc_Write_def split: option.split)
  have "world_ok taken allow v rs n (conn_Close (note_event (Refused res) (w\<lparr>w_conn := ?c\<rparr>)))"
    using assms c
    by (auto simp: world_ok_def conn_Close_def note_event_def trace_ok_snoc2 event_ok_def callback_ok_def
        response_Close_def)
  with Some show ?thesis
    by (simp add: refuse_def Let_def)
qed

lemma refuse_simps [simp]:
  "pending (refuse e w) = pending w" "sents (trace (refuse e w)) = sents (trace w)"
  by (auto simp: refuse_def Let_def note_event_def split: option.split)

section \<open>Every step keeps the invariant\<close>

lemma ReadPacket_Version_nonzero:
  assumes "ReadPacket v r = Inr (p, r')"
  shows "Version p \<noteq> 0" and "length (rd_data r') + 2 \<le> length (rd_data r)"
proof -
  note p = ReadPacket_eq_InrD(1) [OF assms]
  from p show "Version p \<noteq> 0"
    by (cases rule: ReadVersionPacket_eq_InrE) (simp_all add: versions_distinct)
  from p show "length (rd_data r') + 2 \<le> length (rd_data r)"
    by (rule ReadVersionPacket_progress)
qed

lemma readRequest_Inr:
  assumes "readRequest k c = Inr (req, c')"
  shows "ProtocolVersion (props c') = Version req" and "authenticated (props c') = authenticated (props c)"
    and "rwc_out c' = rwc_out c" and "rwc_open c' = rwc_open c" and "bufw_err c' = bufw_err c"
    and "length (rd_data (bufr c')) + 2 \<le> length (rd_data (bufr c))" and "Version req \<noteq> 0"
    and "ProtocolVersion (props c) \<noteq> 0 \<longrightarrow> Version req = ProtocolVersion (props c)"
    and "ProtocolVersion (props c) = 0 \<longrightarrow> connect_level req = Some (Version req)"
    and "header_ok (packet_header req) \<and> (clean_packet req \<longrightarrow> ok_packet req)"
proof -
  from assms obtain r where r: "ReadPacket (ProtocolVersion (props c)) (bufr c) = Inr (req, r)"
    and c': "c' = c\<lparr>bufr := r, buffered := min k (length (rd_data r)),
      props := SetProtocolVersion (Version req) (props c)\<rparr>"
    by (auto simp: readRequest_def split: sum.splits)
  show "ProtocolVersion (props c') = Version req" and "authenticated (props c') = authenticated (props c)"
    and "rwc_out c' = rwc_out c" and "rwc_open c' = rwc_open c" and "bufw_err c' = bufw_err c"
    by (simp_all add: c')
  show "length (rd_data (bufr c')) + 2 \<le> length (rd_data (bufr c))" and "Version req \<noteq> 0"
    using ReadPacket_Version_nonzero [OF r] by (simp_all add: c')
  show "ProtocolVersion (props c) \<noteq> 0 \<longrightarrow> Version req = ProtocolVersion (props c)"
    using ReadPacket_eq_InrD(2) [OF r] .
  show "ProtocolVersion (props c) = 0 \<longrightarrow> connect_level req = Some (Version req)"
    using r by (auto simp: ReadPacket_first)
  show "header_ok (packet_header req) \<and> (clean_packet req \<longrightarrow> ok_packet req)"
    using r by (rule ReadPacket_typed)
qed

lemma world_ok_Received:
  assumes "world_ok taken allow v rs n w" and "v = v' \<or> pending w = [] \<and> sents (trace w) = []"
    and "ProtocolVersion (props c) = v'" and "authenticated (props c) = authenticated (props (w_conn w))"
    and "rwc_out c = rwc_out (w_conn w)" and "rwc_open c = rwc_open (w_conn w)"
    and "bufw_err c = bufw_err (w_conn w)" and "length (rd_data (bufr c)) \<le> n'"
  shows "world_ok taken allow v' (rs @ [req]) n'
           (note_event (Received req) (set_state now st (w\<lparr>w_conn := c\<rparr>)))"
proof -
  from assms(1,2) have "\<forall>(r, cb) \<in> set (pending w). callback_ok v' (trace w @ [Received req]) r cb"
    by (auto simp: world_ok_def callback_ok_def)
  moreover from assms(1,2) have "\<forall>p \<in> set (sents (trace w)). ok_packet p \<and> Version p = v'"
    by (auto simp: world_ok_def)
  moreover from assms(1) have "trace_ok allow (trace w @ [Received req])"
    by (simp add: world_ok_def trace_ok_snoc event_ok_def)
  ultimately show ?thesis
    using assms unfolding world_ok_def by (simp add: set_state_def)
qed

lemma first_ok_snoc:
  assumes "first_ok v rs" and "v \<noteq> 0 \<longrightarrow> Version req = v" and "v = 0 \<longrightarrow> connect_level req = Some (Version req)"
    and "Version req \<noteq> 0" and "header_ok (packet_header req) \<and> (clean_packet req \<longrightarrow> ok_packet req)"
  shows "first_ok (Version req) (rs @ [req])"
  using assms by (cases rs) (auto simp: first_ok_def)

lemma serve_okI:
  assumes "world_ok taken allow v rs n (world s)" and "first_ok v rs" and "2 * length rs + n \<le> N"
    and "v = 0 \<longrightarrow> pending (world s) = [] \<and> sents (trace (world s)) = []"
    and "\<And>req. phase s = Handling req \<Longrightarrow> req \<in> set rs"
    and "phase s = Finished \<longrightarrow> \<not> rwc_open (w_conn (world s))"
  shows "serve_ok taken allow N s"
  using assms unfolding serve_ok_def by blast

lemma serve_ok_Read:
  assumes "serve_ok taken allow N s" and "step h (Read k now) s = Some s'"
  shows "serve_ok taken allow N s'"
proof -
  from assms(1) obtain v rs n where w: "world_ok taken allow v rs n (world s)" "first_ok v rs"
      "2 * length rs + n \<le> N" "v = 0 \<longrightarrow> pending (world s) = [] \<and> sents (trace (world s)) = []"
    unfolding serve_ok_def by blast
  from w(1) have v: "ProtocolVersion (props (w_conn (world s))) = v"
      and len: "length (rd_data (bufr (w_conn (world s)))) \<le> n"
    by (simp_all add: world_ok_def)
  show ?thesis
  proof (cases "readRequest k (w_conn (world s))")
    case (Inl e)
    with assms(2) have s': "s' = s\<lparr>phase := Finished,
        world := finish now (refuse e (set_state now StateActive (world s)))\<rparr>"
      by (simp split: if_splits)
    from w show ?thesis
      unfolding s' by (intro serve_okI [of _ _ v rs n])
        (simp_all add: world_ok_finish world_ok_refuse world_ok_set_state)
  next
    case (Inr x)
    obtain req c where x: "x = (req, c)"
      by (cases x)
    note r = readRequest_Inr [OF Inr [unfolded x], unfolded v]
    let ?w = "note_event (Received req) (set_state now StateActive ((world s)\<lparr>w_conn := c\<rparr>))"
    from assms(2) Inr x have s': "s' = s\<lparr>phase := Handling req, world := ?w\<rparr>"
      by (simp split: if_splits)
    from r(6) len obtain m where m: "n = m + 2" "length (rd_data (bufr c)) \<le> m"
      by (intro that [of "n - 2"]) auto
    have "world_ok taken allow (Version req) (rs @ [req]) m ?w"
      using w(1) by (rule world_ok_Received) (use w(4) r m in auto)
    with r(7) w(3) m first_ok_snoc [OF w(2) r(8,9,7,10)] show ?thesis
      unfolding s' by (intro serve_okI [of _ _ "Version req" "rs @ [req]" m]) simp_all
  qed
qed

lemma serve_ok_world:
  assumes "serve_ok taken allow N s" and "\<And>v rs n. world_ok taken allow v rs n (world s) \<Longrightarrow> world_ok taken allow v rs n w"
    and "set (pending w) \<subseteq> set (pending (world s))" and "sents (trace w) = sents (trace (world s))"
    and "\<And>req. ph = Handling req \<Longrightarrow> phase s = Handling req"
    and "ph = Finished \<Longrightarrow> phase s = Finished \<or> \<not> rwc_open (w_conn w)"
    and "rwc_open (w_conn w) \<Longrightarrow> rwc_open (w_conn (world s))"
  shows "serve_ok taken allow N (s\<lparr>phase := ph, world := w\<rparr>)"
proof -
  from assms(1) obtain v rs n where "world_ok taken allow v rs n (world s)" "first_ok v rs"
      "2 * length rs + n \<le> N" "v = 0 \<longrightarrow> pending (world s) = [] \<and> sents (trace (world s)) = []"
      "\<forall>req. phase s = Handling req \<longrightarrow> req \<in> set rs" "phase s = Finished \<longrightarrow> \<not> rwc_open (w_conn (world s))"
    unfolding serve_ok_def by blast
  with assms(2-) show ?thesis
    by (intro serve_okI [of _ _ v rs n]) auto
qed

lemma serve_ok_Next:
  assumes "serve_ok taken allow N s" and "step h (Next peek_ok k now) s = Some s'"
  shows "serve_ok taken allow N s'"
proof -
  let ?w = "set_state now StateIdle (world s)"
  have w: "world_ok taken allow v rs n (?w\<lparr>w_conn := (w_conn ?w)\<lparr>buffered := b\<rparr>\<rparr>)"
    if "world_ok taken allow v rs n (world s)" for v rs n b
    using world_ok_set_state [OF that] by (rule world_okI) simp_all
  have b: "?w = ?w\<lparr>w_conn := (w_conn ?w)\<lparr>buffered := buffered (w_conn ?w)\<rparr>\<rparr>"
    by simp
  from assms(2) consider "s' = s\<lparr>phase := Finished, world := finish now ?w\<rparr>"
    | "s' = s\<lparr>phase := Reading, world := ?w\<rparr>"
    | b where "s' = s\<lparr>phase := Reading, world := ?w\<lparr>w_conn := (w_conn ?w)\<lparr>buffered := b\<rparr>\<rparr>\<rparr>"
    by (auto simp: Let_def split: if_splits)
  then show ?thesis
  proof cases
    case 1
    show ?thesis
      unfolding 1 by (rule serve_ok_world [OF assms(1)]) (simp_all add: world_ok_finish world_ok_set_state)
  next
    case 2
    show ?thesis
      unfolding 2 by (rule serve_ok_world [OF assms(1)]) (simp_all add: world_ok_set_state)
  next
    case 3
    show ?thesis
      unfolding 3 by (rule serve_ok_world [OF assms(1)]) (simp_all add: w)
  qed
qed

lemma serve_ok_environment:
  assumes "serve_ok taken allow N s" and "step h a s = Some s'"
    and "\<not> is_loop_action a" and "\<nexists>i. a = Deliver i"
  shows "serve_ok taken allow N s'"
proof -
  let ?c = "w_conn (world s)"
  have eq: "s = s\<lparr>phase := phase s, world := world s\<rparr>"
    by simp
  have c: "world_ok taken allow v rs n ((world s)\<lparr>w_conn := c\<rparr>)"
    if "world_ok taken allow v rs n (world s)" and "props c = props ?c" and "rwc_out c = rwc_out ?c"
      and "rwc_open c = rwc_open ?c" and "bufw_err c = bufw_err ?c"
      and "length (rd_data (bufr c)) \<le> length (rd_data (bufr ?c))" for v rs n c
    using that by (intro world_okI [OF that(1)]) simp_all
  show ?thesis
  proof (cases a)
    case (Cut k e)
    with assms(2) have s': "s' = s\<lparr>phase := phase s, world := (world s)\<lparr>w_conn := ?c\<lparr>bufr := Reader (take k (rd_data (bufr ?c))) e\<rparr>\<rparr>\<rparr>"
      by (simp add: Let_def split: if_splits)
    show ?thesis
      unfolding s' by (rule serve_ok_world [OF assms(1)]) (simp_all add: c)
  next
    case (Stall n)
    with assms(2) have s': "s' = s\<lparr>phase := phase s, world := (world s)\<lparr>w_conn := ?c\<lparr>rwc_budget := Some n\<rparr>\<rparr>\<rparr>"
      by simp
    show ?thesis
      unfolding s' by (rule serve_ok_world [OF assms(1)]) (simp_all add: c)
  next
    case Stop
    with assms(2) have "world s' = world s" "phase s' = phase s"
      by auto
    with assms(1) show ?thesis
      by (simp add: serve_ok_def)
  next
    case CloseConn
    with assms(2) have s': "s' = s\<lparr>phase := phase s, world := conn_Close (world s)\<rparr>"
      by simp
    show ?thesis
      unfolding s' by (rule serve_ok_world [OF assms(1)]) (simp_all add: world_ok_Close)
  qed (use assms(3,4) in \<open>simp_all add: is_loop_action_def\<close>)
qed

lemma respond_open: "rwc_open (w_conn (respond res w)) = rwc_open (w_conn w)"
proof (cases "response_Write (snd (Write res)) (w_conn w)")
  case (Pair err c)
  then have "rwc_open c = rwc_open (w_conn w)"
    using response_Write_keeps(4) [of "snd (Write res)" "w_conn w"] by simp
  with Pair show ?thesis
    by (cases err) (simp_all add: respond_def packet_Write_def)
qed

lemma run_callback_closed:
  "\<not> rwc_open (w_conn w) \<Longrightarrow> \<not> rwc_open (w_conn (run_callback cb r resp w))"
  by (auto simp: run_callback_def Let_def respond_open split: publish_callback.split sum.split)

context publisher
begin

lemma serve_ok_Serve:
  assumes s: "serve_ok taken allow N s" and st: "step h Serve s = Some s'" and h: "h_publisher h = pub"
    and allow: "''PUBLISH'' \<in> set (allowUnauthenticated (opts h)) \<longrightarrow> allow"
  shows "serve_ok taken allow N s'"
proof -
  from st obtain req where ph: "phase s = Handling req"
    by (cases "phase s") simp_all
  from s obtain v rs n where w: "world_ok taken allow v rs n (world s)" "first_ok v rs"
      "2 * length rs + n \<le> N" "req \<in> set rs"
    unfolding serve_ok_def using ph by blast
  then have v: "v \<noteq> 0" "Version req = v"
    by (auto simp: first_ok_def split: list.splits)
  have "Received req \<in> set (trace (world s))"
    using w(1,4) by (simp add: world_ok_def flip: set_receiveds)
  with w(1) v(2) h allow have w': "world_ok taken allow v rs n (ServeMQTT h req (world s))"
    by (intro world_ok_ServeMQTT)
  from st ph have s': "s' = (if panicked (ServeMQTT h req (world s))
      then s\<lparr>phase := Finished, world := finish 0 (ServeMQTT h req (world s))\<rparr>
      else s\<lparr>phase := Handled, world := ServeMQTT h req (world s)\<rparr>)"
    by (simp add: Let_def split: if_splits)
  show ?thesis
    using w' w(2,3) v(1) unfolding s'
    by (auto intro!: serve_okI [of _ _ v rs n] simp: world_ok_finish)
qed

lemma serve_ok_Deliver:
  assumes s: "serve_ok taken allow N s" and st: "step h (Deliver i) s = Some s'" and h: "h_publisher h = pub"
  shows "serve_ok taken allow N s'"
proof -
  from st have i: "i < length (pending (world s))" and s': "s' = s\<lparr>world := deliver h i (world s)\<rparr>"
    by (simp_all split: if_splits)
  from s obtain v rs n where w: "world_ok taken allow v rs n (world s)" "first_ok v rs"
      "2 * length rs + n \<le> N" "v = 0 \<longrightarrow> pending (world s) = []"
      "\<forall>req. phase s = Handling req \<longrightarrow> req \<in> set rs" "phase s = Finished \<longrightarrow> \<not> rwc_open (w_conn (world s))"
    unfolding serve_ok_def by blast
  obtain r cb where p: "pending (world s) ! i = (r, cb)"
    by (cases "pending (world s) ! i") auto
  obtain resp ps where c: "pub_Complete pub r (w_pub (world s)) = (resp, ps)"
    by (cases "pub_Complete pub r (w_pub (world s))") auto
  let ?w = "(world s)\<lparr>w_pub := ps, pending := take i (pending (world s)) @ drop (i + 1) (pending (world s))\<rparr>"
  have "(r, cb) \<in> set (pending (world s))"
    using i p by (metis nth_mem)
  with w(1) have cb: "callback_ok v (trace (world s)) r cb"
    by (auto simp: world_ok_def)
  have "world_ok taken allow v rs n ?w"
    by (rule world_okI [OF w(1)])
      (use complete_keeps [OF c] in \<open>auto dest: in_set_takeD in_set_dropD\<close>)
  then have "world_ok taken allow v rs n (run_callback cb r resp ?w)"
    by (rule world_ok_run_callback) (use cb c in \<open>auto dest: complete_confirmed\<close>)
  then have w': "world_ok taken allow v rs n (deliver h i (world s))"
    by (simp add: deliver_def p c h)
  have "\<not> rwc_open (w_conn (deliver h i (world s)))" if "\<not> rwc_open (w_conn (world s))"
    using that by (simp add: deliver_def p c h run_callback_closed)
  then show ?thesis
    using w' w i unfolding s' by (intro serve_okI [of _ _ v rs n]) auto
qed

lemma serve_ok_step:
  assumes "serve_ok taken allow N s" and "step h a s = Some s'" and "h_publisher h = pub"
    and "''PUBLISH'' \<in> set (allowUnauthenticated (opts h)) \<longrightarrow> allow"
  shows "serve_ok taken allow N s'"
proof (cases a)
  case (Read k now)
  show ?thesis by (rule serve_ok_Read [OF assms(1) assms(2) [unfolded Read]])
next
  case Serve
  show ?thesis by (rule serve_ok_Serve [OF assms(1) assms(2) [unfolded Serve] assms(3,4)])
next
  case (Next p k now)
  show ?thesis by (rule serve_ok_Next [OF assms(1) assms(2) [unfolded Next]])
next
  case (Deliver i)
  show ?thesis by (rule serve_ok_Deliver [OF assms(1) assms(2) [unfolded Deliver] assms(3)])
qed (rule serve_ok_environment [OF assms(1,2)]; simp add: is_loop_action_def)+

lemma serve_ok_reachable:
  assumes "reachable h s0 s" and "serve_ok taken allow N s0" and "h_publisher h = pub"
    and "''PUBLISH'' \<in> set (allowUnauthenticated (opts h)) \<longrightarrow> allow"
  shows "serve_ok taken allow N s"
  using assms(1,2) by (induction rule: reachable.induct) (simp_all add: serve_ok_step [OF _ _ assms(3,4)])

end

lemma serve_ok_init:
  "serve_ok taken allow (length (rd_data input)) (init_state idle input ps)"
  by (rule serve_okI [of _ _ 0 "[]" "length (rd_data input)"])
    (simp_all add: init_state_def world_ok_def trace_ok_def first_ok_def new_properties_def wire_def ProtocolVersion_def SetIdleTimeout_def)

end
