(* ===== verification/Serve_Progress.thy ===== *)
theory Serve_Progress
  imports Serve
begin

text \<open>
  Why the loop of a connection ends: its input only shrinks, every iteration takes at least the two
  bytes of a fixed header, and a loop that is not finished can always take a step.
\<close>

section \<open>What the handlers leave of the input\<close>

text \<open>
  One world follows from another with the same or less input, and the buffered part is still part of
  the input.
\<close>

abbreviation input_len :: "'s world \<Rightarrow> nat" where
  "input_len w \<equiv> length (rd_data (bufr (w_conn w)))"

definition shrinks :: "'s world \<Rightarrow> 's world \<Rightarrow> bool" where
  "shrinks w w' \<longleftrightarrow>
     input_len w' \<le> input_len w \<and> (buffered (w_conn w) \<le> input_len w \<longrightarrow> buffered (w_conn w') \<le> input_len w')"

named_theorems shrinks_intros

lemma shrinks_refl [shrinks_intros]: "shrinks w w"
  by (simp add: shrinks_def)

lemma shrinks_trans: "shrinks w w' \<Longrightarrow> shrinks w' w'' \<Longrightarrow> shrinks w w''"
  by (auto simp: shrinks_def)

lemma shrinks_same:
  "bufr (w_conn w'') = bufr (w_conn w') \<Longrightarrow> buffered (w_conn w'') = buffered (w_conn w') \<Longrightarrow>
   shrinks w w' \<Longrightarrow> shrinks w w''"
  by (simp add: shrinks_def)

lemma shrinks_conn_Close [shrinks_intros]: "shrinks w w' \<Longrightarrow> shrinks w (conn_Close w')"
  by (rule shrinks_trans) (auto simp: shrinks_def conn_Close_def note_event_def response_Close_def)

lemma shrinks_note_event [shrinks_intros]: "shrinks w w' \<Longrightarrow> shrinks w (note_event e w')"
  by (erule shrinks_same [rotated 2]) simp_all

lemma shrinks_update_props [shrinks_intros]: "shrinks w w' \<Longrightarrow> shrinks w (update_props f w')"
  by (erule shrinks_same [rotated 2]) (simp_all add: update_props_def)

lemma shrinks_fields [shrinks_intros]:
  "shrinks w w' \<Longrightarrow> shrinks w (w'\<lparr>w_pub := ps\<rparr>)"
  "shrinks w w' \<Longrightarrow> shrinks w (w'\<lparr>panicked := b\<rparr>)"
  "shrinks w w' \<Longrightarrow> shrinks w (w'\<lparr>pending := pend\<rparr>)"
  "shrinks w w' \<Longrightarrow> shrinks w (w'\<lparr>requestsTotal := m\<rparr>)"
  "shrinks w w' \<Longrightarrow> shrinks w (w'\<lparr>responsesTotal := m\<rparr>)"
  by (auto elim!: shrinks_same [rotated 2])

lemma shrinks_set_state [shrinks_intros]: "shrinks w w' \<Longrightarrow> shrinks w (set_state now st w')"
  by (erule shrinks_same [rotated 2]) (simp_all add: set_state_def)

lemma shrinks_packet_Write [shrinks_intros]:
  assumes "shrinks w w'"
  shows "shrinks w (snd (packet_Write res w'))"
proof -
  obtain err c where "response_Write (snd (Write res)) (w_conn w') = (err, c)"
    by (cases "response_Write (snd (Write res)) (w_conn w')")
  moreover from this have "bufr c = bufr (w_conn w')" "buffered c = buffered (w_conn w')"
    using response_Write_keeps(2,3) [of "snd (Write res)" "w_conn w'"] by simp_all
  ultimately show ?thesis
    by (intro shrinks_same [OF _ _ assms]) (cases err; simp add: packet_Write_def)+
qed

lemma shrinks_respond [shrinks_intros]: "shrinks w w' \<Longrightarrow> shrinks w (respond res w')"
  using shrinks_packet_Write [of w w' res]
  by (auto simp: respond_def split: prod.split option.split intro: shrinks_intros)

lemma shrinks_run_callback [shrinks_intros]:
  "shrinks w w' \<Longrightarrow> shrinks w (run_callback cb r resp w')"
  by (auto simp: run_callback_def Let_def split: publish_callback.split sum.split intro!: shrinks_intros)

lemma shrinks_disconnectUnauthenticated:
  "shrinks w w' \<Longrightarrow> shrinks w (snd (disconnectUnauthenticated h nm w'))"
  by (simp add: disconnectUnauthenticated_def shrinks_intros)

lemma shrinks_handleConnect: "shrinks w (handleConnect h packet w)"
  by (auto simp: handleConnect_def Let_def split: sum.split intro!: shrinks_intros)

lemma shrinks_doPublish [shrinks_intros]: "shrinks w w' \<Longrightarrow> shrinks w (snd (doPublish h ctx r cb w'))"
  by (auto simp: doPublish_def Let_def split: prod.split sync_result.split async_result.split
      intro!: shrinks_intros)

lemma shrinks_handlePublish: "shrinks w (handlePublish h packet w)"
proof -
  have "shrinks w (case doPublish h ctx r cb w of
      (None, w) \<Rightarrow> w | (Some _, w) \<Rightarrow> if q then w else conn_Close w)" for ctx r cb q
    using shrinks_doPublish [OF shrinks_refl, of w h ctx r cb]
    by (auto split: prod.split option.split intro: shrinks_intros)
  then show ?thesis
    by (auto simp: handlePublish_def disconnectUnauthenticated_def split: sum.split option.split
        intro!: shrinks_intros)
qed

lemma shrinks_run_handler: "shrinks w (run_handler h hid packet w)"
  by (cases hid) (auto simp: shrinks_handleConnect shrinks_handlePublish handlePublishRelease_def handlePing_def
      handleDisconnect_def disconnectUnauthenticated_def split: sum.split option.split intro!: shrinks_intros)

lemma shrinks_ServeMQTT: "shrinks w (ServeMQTT h packet w)"
proof -
  let ?w = "w\<lparr>requestsTotal := inc (packet_labels packet) (requestsTotal w)\<rparr>"
  have "shrinks w ?w"
    by (intro shrinks_intros)
  moreover have "shrinks ?w (mux_ServeMQTT h packet ?w)"
    by (auto simp: mux_ServeMQTT_def shrinks_run_handler split: option.split intro!: shrinks_intros)
  ultimately show ?thesis
    unfolding ServeMQTT_def by (rule shrinks_trans)
qed

lemma shrinks_finish [shrinks_intros]: "shrinks w w' \<Longrightarrow> shrinks w (finish now w')"
  by (simp add: finish_def shrinks_intros)

lemma shrinks_refuse [shrinks_intros]:
  assumes "shrinks w w'"
  shows "shrinks w (refuse e w')"
proof -
  have "bufr (snd (rwc_Write b c)) = bufr c" "buffered (snd (rwc_Write b c)) = buffered c" for b c
    by (auto simp: rwc_Write_def split: option.split)
  then have "shrinks w (w'\<lparr>w_conn := snd (rwc_Write b (w_conn w'))\<rparr>)" for b
    by (intro shrinks_same [OF _ _ assms]) simp_all
  with assms show ?thesis
    by (auto simp: refuse_def Let_def split: option.split intro!: shrinks_intros)
qed

lemma shrinks_deliver: "shrinks w (deliver h i w)"
  by (auto simp: deliver_def split: prod.split intro!: shrinks_intros)

section \<open>The measure of the loop\<close>

fun phase_rank :: "phase \<Rightarrow> nat" where
  "phase_rank Finished = 0"
| "phase_rank Reading = 1"
| "phase_rank Handled = 2"
| "phase_rank (Handling _) = 3"

definition loop_measure :: "'s serve_state \<Rightarrow> nat" where
  "loop_measure s = 3 * (input_len (world s) div 2) + phase_rank (phase s)"

definition buffer_ok :: "'s serve_state \<Rightarrow> bool" where
  "buffer_ok s \<longleftrightarrow> buffered (w_conn (world s)) \<le> input_len (world s)"

lemma loop_measure_less:
  assumes "input_len (world s') \<le> input_len (world s)" and "phase_rank (phase s') < phase_rank (phase s)"
  shows "loop_measure s' < loop_measure s"
proof -
  from assms(1) have "input_len (world s') div 2 \<le> input_len (world s) div 2"
    by (rule div_le_mono)
  with assms(2) show ?thesis
    by (simp add: loop_measure_def)
qed

lemma loop_measure_le:
  assumes "input_len (world s') \<le> input_len (world s)" and "phase s' = phase s"
  shows "loop_measure s' \<le> loop_measure s"
  using div_le_mono [OF assms(1), of 2] assms(2) by (simp add: loop_measure_def)

lemma step_Read_measure:
  assumes "step h (Read k now) s = Some s'"
  shows "loop_measure s' < loop_measure s" and "buffer_ok s \<Longrightarrow> buffer_ok s'"
proof -
  have ph: "phase s = Reading"
    using assms by (simp split: if_splits)
  have "loop_measure s' < loop_measure s \<and> (buffer_ok s \<longrightarrow> buffer_ok s')"
  proof (cases "readRequest k (w_conn (world s))")
    case (Inl e)
    with assms ph have s': "s' = s\<lparr>phase := Finished,
        world := finish now (refuse e (set_state now StateActive (world s)))\<rparr>"
      by simp
    have "shrinks (world s) (world s')"
      unfolding s' by (simp add: shrinks_intros)
    with ph show ?thesis
      by (auto intro!: loop_measure_less simp: shrinks_def buffer_ok_def s')
  next
    case (Inr x)
    obtain req c where x: "x = (req, c)"
      by (cases x)
    with assms ph Inr have s': "s' = s\<lparr>phase := Handling req,
        world := note_event (Received req) (set_state now StateActive ((world s)\<lparr>w_conn := c\<rparr>))\<rparr>"
      by simp
    from Inr x have len: "length (rd_data (bufr c)) + 2 \<le> input_len (world s)"
      by (auto dest: readRequest_Inr)
    then have "length (rd_data (bufr c)) div 2 + 1 \<le> input_len (world s) div 2"
      using div_le_mono [OF len, of 2] by simp
    moreover have "buffered c \<le> length (rd_data (bufr c))"
      using Inr x by (auto simp: readRequest_def split: sum.splits)
    ultimately show ?thesis
      using ph by (simp add: loop_measure_def buffer_ok_def s' set_state_def)
  qed
  then show "loop_measure s' < loop_measure s" and "buffer_ok s \<Longrightarrow> buffer_ok s'"
    by simp_all
qed

lemma step_Serve_measure:
  assumes "step h Serve s = Some s'"
  shows "loop_measure s' < loop_measure s" and "buffer_ok s \<Longrightarrow> buffer_ok s'"
proof -
  from assms obtain req where ph: "phase s = Handling req"
    by (cases "phase s") simp_all
  have "shrinks (world s) (world s')" and "phase_rank (phase s') < 3"
    using assms ph shrinks_ServeMQTT [of "world s" h req]
    by (auto simp: Let_def split: if_splits intro: shrinks_intros)
  with ph show "loop_measure s' < loop_measure s" and "buffer_ok s \<Longrightarrow> buffer_ok s'"
    by (auto intro!: loop_measure_less simp: shrinks_def buffer_ok_def)
qed

lemma step_Next_measure:
  assumes "step h (Next peek_ok k now) s = Some s'"
  shows "loop_measure s' < loop_measure s" and "buffer_ok s \<Longrightarrow> buffer_ok s'"
proof -
  let ?w = "set_state now StateIdle (world s)"
  from assms have ph: "phase s = Handled"
    by (simp split: if_splits)
  from assms consider "s' = s\<lparr>phase := Finished, world := finish now ?w\<rparr>"
    | "s' = s\<lparr>phase := Reading, world := ?w\<rparr>"
    | "2 \<le> input_len (world s)" "s' = s\<lparr>phase := Reading,
          world := ?w\<lparr>w_conn := (w_conn ?w)\<lparr>buffered := max 2 (min k (input_len (world s)))\<rparr>\<rparr>\<rparr>"
    by (auto simp: Let_def split: if_splits)
  then have "input_len (world s') \<le> input_len (world s) \<and> phase_rank (phase s') < 2 \<and>
      (buffered (w_conn (world s)) \<le> input_len (world s) \<longrightarrow> buffered (w_conn (world s')) \<le> input_len (world s'))"
  proof cases
    case 1
    have "shrinks (world s) (world s')"
      unfolding 1 by (simp add: shrinks_intros)
    with 1 show ?thesis
      by (simp add: shrinks_def)
  qed (simp_all add: set_state_def)
  with ph show "loop_measure s' < loop_measure s" and "buffer_ok s \<Longrightarrow> buffer_ok s'"
    by (auto intro!: loop_measure_less simp: buffer_ok_def)
qed

lemma step_environment_measure:
  assumes "step h a s = Some s'" and "\<not> is_loop_action a"
  shows "loop_measure s' \<le> loop_measure s" and "buffer_ok s \<Longrightarrow> buffer_ok s'"
proof -
  have "shrinks (world s) (world s') \<and> phase s' = phase s"
    using assms
    by (cases a) (auto simp: is_loop_action_def Let_def shrinks_deliver split: if_splits intro!: shrinks_intros,
      auto simp: shrinks_def)
  then show "loop_measure s' \<le> loop_measure s" and "buffer_ok s \<Longrightarrow> buffer_ok s'"
    by (auto intro!: loop_measure_le simp: shrinks_def buffer_ok_def)
qed

lemma step_loop_measure:
  assumes "step h a s = Some s'" and "is_loop_action a"
  shows "loop_measure s' < loop_measure s" and "buffer_ok s \<Longrightarrow> buffer_ok s'"
proof -
  have "loop_measure s' < loop_measure s \<and> (buffer_ok s \<longrightarrow> buffer_ok s')"
  proof (cases a)
    case (Read k now)
    with assms(1) step_Read_measure show ?thesis by blast
  next
    case Serve
    with assms(1) step_Serve_measure show ?thesis by blast
  next
    case (Next p k now)
    with assms(1) step_Next_measure show ?thesis by blast
  qed (use assms(2) in \<open>simp_all add: is_loop_action_def\<close>)
  then show "loop_measure s' < loop_measure s" and "buffer_ok s \<Longrightarrow> buffer_ok s'"
    by simp_all
qed

lemma run_measure:
  "run h as s = Some s' \<Longrightarrow> loop_measure s' + length (filter is_loop_action as) \<le> loop_measure s"
proof (induction as arbitrary: s)
  case (Cons a as)
  from Cons.prems obtain t where t: "step h a s = Some t" "run h as t = Some s'"
    by (auto split: option.splits)
  from Cons.IH [OF t(2)] show ?case
    using step_loop_measure(1) [OF t(1)] step_environment_measure(1) [OF t(1)]
    by (cases "is_loop_action a") simp_all
qed simp

lemma buffer_ok_reachable:
  "reachable h s0 s \<Longrightarrow> buffer_ok s0 \<Longrightarrow> buffer_ok s"
proof (induction rule: reachable.induct)
  case (more s a s')
  then show ?case
    using step_loop_measure(2) [of h a s s'] step_environment_measure(2) [of h a s s']
    by (cases "is_loop_action a") simp_all
qed simp

lemma buffer_ok_init: "buffer_ok (init_state idle r ps)"
  by (simp add: buffer_ok_def init_state_def)

section \<open>Some step of the loop is always possible\<close>

lemma loop_enabled:
  assumes "buffer_ok s" and "phase s \<noteq> Finished"
  obtains a s' where "is_loop_action a" and "step h a s = Some s'"
proof -
  have "\<exists>a. is_loop_action a \<and> step h a s \<noteq> None"
  proof (cases "phase s")
    case Reading
    then have "step h (Read 0 0) s \<noteq> None"
      by (simp split: sum.split prod.split)
    then show ?thesis
      by (intro exI [of _ "Read 0 0"]) (simp add: is_loop_action_def del: step.simps)
  next
    case (Handling req)
    then have "step h Serve s \<noteq> None"
      by (simp add: Let_def)
    then show ?thesis
      by (intro exI [of _ Serve]) (simp add: is_loop_action_def del: step.simps)
  next
    case Handled
    let ?c = "w_conn (world s)"
    have "step h (Next True 0 0) s \<noteq> None \<or> step h (Next False 0 0) s \<noteq> None"
    proof (cases "shutting_down s \<or> idleTimeout (props ?c) = 0 \<or> 2 \<le> input_len (world s)")
      case True
      with Handled show ?thesis
        by (auto simp: Let_def)
    next
      case False
      with assms(1) have "\<not> 2 \<le> buffered ?c"
        by (auto simp: buffer_ok_def)
      with Handled False show ?thesis
        by (simp add: Let_def set_state_def)
    qed
    moreover have "is_loop_action (Next b 0 0)" for b
      by (simp add: is_loop_action_def)
    ultimately show ?thesis
      by blast
  qed (use assms in simp)
  then show thesis
    using that by blast
qed

text \<open>From every reachable state a run of loop actions finishes the connection.\<close>

lemma loop_finishes:
  "buffer_ok s \<Longrightarrow> \<exists>as s'. list_all is_loop_action as \<and> run h as s = Some s' \<and> phase s' = Finished"
proof (induction "loop_measure s" arbitrary: s rule: less_induct)
  case less
  show ?case
  proof (cases "phase s = Finished")
    case True
    then show ?thesis
      by (intro exI [of _ "[]"]) simp
  next
    case False
    with less.prems obtain a t where a: "is_loop_action a" "step h a s = Some t"
      by (rule loop_enabled)
    from less.hyps [OF step_loop_measure(1) [OF a(2,1)] step_loop_measure(2) [OF a(2,1) less.prems]]
    obtain as s' where "list_all is_loop_action as" "run h as t = Some s'" "phase s' = Finished"
      by blast
    with a show ?thesis
      by (intro exI [of _ "a # as"]) auto
  qed
qed

end
