(* ===== verification/Serve_Safety.thy ===== *)
theory Serve_Safety
  imports Serve_Progress
begin

text \<open>
  The history of a connection only grows, the publisher's state does not change before the publisher
  is called, and what a peer received reads back as the packets that were sent.
\<close>

section \<open>Histories grow\<close>

definition called :: "event list \<Rightarrow> bool" where
  "called es \<longleftrightarrow> (\<exists>r. PublishCalled r \<in> set es)"

lemma called_append [simp]: "called (xs @ ys) \<longleftrightarrow> called xs \<or> called ys"
  by (auto simp: called_def)

text \<open>One world follows from another: the trace is extended, and without a call the publisher is as before.\<close>

definition follows :: "'s world \<Rightarrow> 's world \<Rightarrow> bool" where
  "follows w w' \<longleftrightarrow>
     (\<exists>es. trace w' = trace w @ es) \<and> (called (trace w') \<or> w_pub w' = w_pub w)"

named_theorems follows_intros

lemma follows_refl [follows_intros]: "follows w w"
  by (simp add: follows_def)

lemma follows_trans: "follows w w' \<Longrightarrow> follows w' w'' \<Longrightarrow> follows w w''"
  by (auto simp: follows_def)

lemma follows_same: "trace w'' = trace w' \<Longrightarrow> w_pub w'' = w_pub w' \<Longrightarrow> follows w w' \<Longrightarrow> follows w w''"
  by (simp add: follows_def)

lemma follows_note_event [follows_intros]: "follows w w' \<Longrightarrow> follows w (note_event e w')"
  by (auto simp: follows_def)

lemma follows_conn_Close [follows_intros]: "follows w w' \<Longrightarrow> follows w (conn_Close w')"
  by (auto simp: follows_def)

lemma follows_update_props [follows_intros]: "follows w w' \<Longrightarrow> follows w (update_props f w')"
  by (erule follows_same [rotated 2]) simp_all

lemma follows_fields [follows_intros]:
  "follows w w' \<Longrightarrow> follows w (w'\<lparr>panicked := b\<rparr>)"
  "follows w w' \<Longrightarrow> follows w (w'\<lparr>pending := pend\<rparr>)"
  "follows w w' \<Longrightarrow> follows w (w'\<lparr>requestsTotal := m\<rparr>)"
  "follows w w' \<Longrightarrow> follows w (w'\<lparr>responsesTotal := m\<rparr>)"
  "follows w w' \<Longrightarrow> follows w (w'\<lparr>w_conn := c\<rparr>)"
  by (auto elim!: follows_same [rotated 2])

lemma follows_set_state [follows_intros]: "follows w w' \<Longrightarrow> follows w (set_state now st w')"
  by (simp add: set_state_def follows_intros)

lemma follows_publisher:
  assumes "follows w w'" and "called (trace w')"
  shows "follows w (w'\<lparr>w_pub := ps\<rparr>)"
  using assms by (auto simp: follows_def)

lemma follows_packet_Write [follows_intros]: "follows w w' \<Longrightarrow> follows w (snd (packet_Write res w'))"
  by (auto simp: packet_Write_def split: prod.split option.split intro!: follows_intros)

lemma follows_respond [follows_intros]: "follows w w' \<Longrightarrow> follows w (respond res w')"
  using follows_packet_Write [of w w' res]
  by (auto simp: respond_def split: prod.split option.split intro: follows_intros)

lemma follows_run_callback [follows_intros]: "follows w w' \<Longrightarrow> follows w (run_callback cb r resp w')"
  by (auto simp: run_callback_def Let_def split: publish_callback.split sum.split intro!: follows_intros)

lemma follows_handleConnect: "follows w (handleConnect h packet w)"
  by (auto simp: handleConnect_def Let_def split: sum.split intro!: follows_intros)

lemma follows_doPublish: "follows w (snd (doPublish h ctx r cb w))"
proof -
  let ?w = "note_event (PublishCalled r) w"
  have "follows w (?w\<lparr>w_pub := s\<rparr>)" for s
    by (rule follows_publisher) (auto intro: follows_intros simp: called_def)
  then show ?thesis
    by (auto simp: doPublish_def Let_def split: prod.split sync_result.split async_result.split
        intro!: follows_intros)
qed

lemma follows_handlePublish: "follows w (handlePublish h packet w)"
proof -
  have "follows w (case doPublish h ctx r cb w of
      (None, w) \<Rightarrow> w | (Some _, w) \<Rightarrow> if q then w else conn_Close w)" for ctx r cb q
    using follows_doPublish [of w h ctx r cb]
    by (auto split: prod.split option.split intro: follows_intros)
  then show ?thesis
    by (auto simp: handlePublish_def disconnectUnauthenticated_def split: sum.split option.split
        intro!: follows_intros)
qed

lemma follows_run_handler: "follows w (run_handler h hid packet w)"
  by (cases hid) (auto simp: follows_handleConnect follows_handlePublish handlePublishRelease_def handlePing_def
      handleDisconnect_def disconnectUnauthenticated_def split: sum.split option.split intro!: follows_intros)

lemma follows_ServeMQTT: "follows w (ServeMQTT h packet w)"
proof -
  let ?w = "w\<lparr>requestsTotal := inc (packet_labels packet) (requestsTotal w)\<rparr>"
  have "follows w ?w"
    by (intro follows_intros)
  moreover have "follows ?w (mux_ServeMQTT h packet ?w)"
    by (auto simp: mux_ServeMQTT_def follows_run_handler split: option.split intro!: follows_intros)
  ultimately show ?thesis
    unfolding ServeMQTT_def by (rule follows_trans)
qed

lemma follows_finish [follows_intros]: "follows w w' \<Longrightarrow> follows w (finish now w')"
  by (simp add: finish_def follows_intros)

lemma follows_refuse [follows_intros]: "follows w w' \<Longrightarrow> follows w (refuse e w')"
  by (auto simp: refuse_def Let_def split: option.split intro!: follows_intros)

lemma follows_deliver:
  assumes "i < length (pending w)" and "\<forall>(r, cb)\<in>set (pending w). PublishCalled r \<in> set (trace w)"
  shows "follows w (deliver h i w)"
proof -
  obtain r cb where p: "pending w ! i = (r, cb)"
    by (cases "pending w ! i")
  with assms have "PublishCalled r \<in> set (trace w)"
    using nth_mem [OF assms(1)] by auto
  then have "follows w (w\<lparr>w_pub := ps\<rparr>)" for ps
    by (intro follows_publisher follows_intros) (auto simp: called_def)
  then have "follows w (w\<lparr>w_pub := ps, pending := pend\<rparr>)" for ps pend
    by (intro follows_intros)
  with p show ?thesis
    by (auto simp: deliver_def split: prod.split intro!: follows_run_callback)
qed

text \<open>What the connection invariant says of the waiting requests.\<close>

lemma serve_ok_pending:
  assumes "serve_ok taken allow N s"
  shows "\<forall>(r, cb)\<in>set (pending (world s)). PublishCalled r \<in> set (trace (world s))"
  using assms unfolding serve_ok_def world_ok_def by (fastforce simp: callback_ok_def)

lemma follows_step:
  assumes "step h a s = Some s'" and "serve_ok taken allow N s"
  shows "follows (world s) (world s')"
proof (cases a)
  case (Read k now)
  with assms(1) show ?thesis
    by (auto split: if_splits sum.splits intro!: follows_intros)
next
  case Serve
  with assms(1) show ?thesis
    by (auto simp: Let_def split: phase.splits if_splits intro!: follows_intros follows_ServeMQTT)
next
  case (Next p k now)
  with assms(1) show ?thesis
    by (auto simp: Let_def split: if_splits intro!: follows_intros)
next
  case (Deliver i)
  with assms(1) show ?thesis
    using follows_deliver [OF _ serve_ok_pending [OF assms(2)]] by (auto split: if_splits)
qed (use assms(1) in \<open>auto simp: Let_def split: if_splits intro!: follows_intros\<close>)

section \<open>Reachable states\<close>

lemma reachable_run_from: "reachable h s0 s \<Longrightarrow> run h as s = Some s' \<Longrightarrow> reachable h s0 s'"
  by (induction as arbitrary: s) (auto split: option.splits intro: reachable.more)

text \<open>The invariant of all reachable states of a connection, whatever its publisher does.\<close>

lemma reachable_serve_ok:
  assumes "reachable h (init_state idle r ps) s"
  shows "serve_ok (\<lambda>_ _. True) (''PUBLISH'' \<in> set (allowUnauthenticated (opts h))) (length (rd_data r)) s"
  using assms serve_ok_init by (rule any_publisher.serve_ok_reachable) simp_all

lemma reachable_follows:
  "reachable h (init_state idle r ps) s \<Longrightarrow> follows (world (init_state idle r ps)) (world s)"
proof (induction rule: reachable.induct)
  case start
  show ?case by (rule follows_refl)
next
  case (more s a s')
  show ?case
    by (rule follows_trans [OF more.IH follows_step [OF more.hyps(2) reachable_serve_ok [OF more.hyps(1)]]])
qed

lemma serve_ok_world_ok:
  assumes "serve_ok taken allow N s"
  obtains v n where "world_ok taken allow v (receiveds (trace (world s))) n (world s)"
    and "first_ok v (receiveds (trace (world s)))" and "2 * length (receiveds (trace (world s))) + n \<le> N"
proof -
  from assms obtain v rs n where w: "world_ok taken allow v rs n (world s)" "first_ok v rs" "2 * length rs + n \<le> N"
    unfolding serve_ok_def by blast
  moreover from w(1) have "receiveds (trace (world s)) = rs"
    by (simp add: world_ok_def)
  ultimately show thesis
    using that by blast
qed

lemma serve_ok_event:
  assumes "serve_ok taken allow N s" and "trace (world s) = xs @ e # ys"
  shows "event_ok allow xs e"
proof -
  from assms(1) have "trace_ok allow (trace (world s))"
    by (rule serve_ok_world_ok) (simp add: world_ok_def)
  with assms(2) show ?thesis
    by (auto intro: trace_ok_nth)
qed

lemma serve_ok_confirmed:
  assumes "serve_ok taken allow N s" and "Confirmed r \<in> set (trace (world s))"
  shows "taken (w_pub (world s)) r"
  using assms(1) by (rule serve_ok_world_ok) (use assms(2) in \<open>auto simp: world_ok_def\<close>)

text \<open>Before a response that acknowledges a message there was a confirmed call of the publisher.\<close>

lemma serve_ok_acknowledged:
  assumes "serve_ok taken allow N s" and "trace (world s) = xs @ Sent p # ys"
    and "kind_of p = Some (RPuback m) \<and> q = AT_LEAST_ONCE \<or> kind_of p = Some (RPubrec m) \<and> q = EXACTLY_ONCE"
  shows "\<exists>r. PublishCalled r \<in> set xs \<and> req_MessageID r = m \<and> req_Qos r = q \<and> taken (w_pub (world s)) r"
proof -
  from serve_ok_event [OF assms(1,2)] assms(3)
  obtain r where r: "Confirmed r \<in> set xs" "req_MessageID r = m" "req_Qos r = q"
    by (auto simp: event_ok_def)
  then obtain us vs where u: "xs = us @ Confirmed r # vs"
    by (auto simp: in_set_conv_decomp)
  with assms(2) have "event_ok allow us (Confirmed r)"
    by (intro serve_ok_event [OF assms(1), of us _ "vs @ Sent p # ys"]) simp
  then have "PublishCalled r \<in> set xs"
    by (simp add: event_ok_def u)
  moreover have "taken (w_pub (world s)) r"
    using assms(1) by (rule serve_ok_confirmed) (simp add: assms(2) r(1))
  ultimately show ?thesis
    using r by blast
qed

section \<open>Reading back what was sent\<close>

text \<open>A client that reads \<open>n\<close> packets of a version.\<close>

fun read_packets :: "byte \<Rightarrow> nat \<Rightarrow> ControlPacket list decoder" where
  "read_packets v 0 r = Inr ([], r)"
| "read_packets v (Suc n) r =
     (case ReadVersionPacket v r of
        Inl e \<Rightarrow> Inl e
      | Inr (p, r) \<Rightarrow>
          (case read_packets v n r of
             Inl e \<Rightarrow> Inl e
           | Inr (ps, r) \<Rightarrow> Inr (p # ps, r)))"

lemma wire_Cons: "wire (p # ps) = snd (Write p) @ wire ps"
  by (simp add: wire_def)

lemma read_packets_wire:
  "\<forall>p\<in>set ps. ok_packet p \<and> Version p = v \<Longrightarrow>
   read_packets v (length ps) (Reader (wire ps @ rest) e) = Inr (map (\<lambda>p. fst (Write p)) ps, Reader rest e)"
proof (induction ps)
  case Nil
  then show ?case
    by (simp add: wire_def)
next
  case (Cons p ps)
  with ReadVersionPacket_Write [of p "wire ps @ rest" e] show ?case
    by (simp add: wire_Cons)
qed

lemma serve_ok_output:
  assumes "serve_ok taken allow N s"
  obtains part where "rwc_out (w_conn (world s)) = wire (sents (trace (world s))) @ part"
    and "rwc_open (w_conn (world s)) \<and> bufw_err (w_conn (world s)) = None \<longrightarrow> part = []"
    and "\<forall>p\<in>set (sents (trace (world s))). ok_packet p \<and> Version p = ProtocolVersion (props (w_conn (world s)))"
  using assms by (rule serve_ok_world_ok) (auto simp: world_ok_def intro: that)

end
