(* ===== verification/Noop_Publisher.thy ===== *)
theory Noop_Publisher
  imports Util
begin

text \<open>
  Two publishers: \<open>noop\<close>, which answers every request with the next number of a counter
  (pkg/publisher/noop/noop.go), and \<open>instrument\<close>, which wraps another publisher and observes the
  duration of each request (pkg/publisher/instrument/instrument.go).
\<close>

section \<open>noop\<close>

text \<open>A nil request or callback is refused; the handler passes neither.\<close>

record noop_state =
  noop_counter :: u32
  noop_done :: DoneChannel

definition New_noop :: noop_state where
  "New_noop = \<lparr>noop_counter = 0, noop_done = NewDoneChannel\<rparr>"

text \<open>\<open>p.counter.Inc()\<close> on an \<open>atomic.Int32\<close>: the new value, which wraps.\<close>

definition counter_Inc :: "noop_state \<Rightarrow> int \<times> noop_state" where
  "counter_Inc p = (let p = p\<lparr>noop_counter := noop_counter p + 1\<rparr> in (sint (noop_counter p), p))"

definition noop_Publish :: "PublishRequest option \<Rightarrow> noop_state \<Rightarrow> sync_result \<times> noop_state" where
  "noop_Publish request p =
     (case request of
        None \<Rightarrow> (SyncErr (Errorf ''empty request'' []), p)
      | Some _ \<Rightarrow> (case counter_Inc p of (n, p) \<Rightarrow> (SyncOk \<lparr>resp_ID = IntID n, resp_Error = None\<rparr>, p)))"

definition noop_PublishAsync :: "PublishRequest option \<Rightarrow> bool \<Rightarrow> noop_state \<Rightarrow> async_result \<times> noop_state" where
  "noop_PublishAsync request nil_callback p =
     (if request = None \<or> nil_callback then (AsyncErr (Errorf ''empty request/callback'' []), p)
      else (AsyncQueued, p))"

text \<open>The goroutine that \<open>PublishAsync\<close> starts.\<close>

definition noop_goroutine :: "PublishRequest \<Rightarrow> noop_state \<Rightarrow> PublishResponse \<times> noop_state" where
  "noop_goroutine request p =
     (case counter_Inc p of (n, p) \<Rightarrow> (\<lparr>resp_ID = IntID n, resp_Error = None\<rparr>, p))"

definition noop_Serve :: "noop_state \<Rightarrow> go_error option option" where
  "noop_Serve p = wait_done (noop_done p)"

definition noop_Shutdown :: "noop_state \<Rightarrow> noop_state" where
  "noop_Shutdown p =
     (let p = p\<lparr>noop_done := DoneChannel_Close (noop_done p)\<rparr>
      in p\<lparr>noop_done := DoneChannel_Close (noop_done p)\<rparr>)"

definition noop_Close :: "noop_state \<Rightarrow> noop_state" where
  "noop_Close p = p\<lparr>noop_done := DoneChannel_Close (noop_done p)\<rparr>"

definition noop_publisher :: "noop_state Publisher" where
  "noop_publisher =
     \<lparr>pub_Name = ''noop'',
      pub_Publish = (\<lambda>_ request. noop_Publish (Some request)),
      pub_PublishAsync = (\<lambda>_ request. noop_PublishAsync (Some request) False),
      pub_Complete = noop_goroutine\<rparr>"

text \<open>It drops every message, so \<open>any_publisher\<close> is all it promises.\<close>

text \<open>The identifiers of the answers to \<open>n\<close> requests.\<close>

fun noop_ids :: "PublishRequest list \<Rightarrow> noop_state \<Rightarrow> PublishID list" where
  "noop_ids [] p = []"
| "noop_ids (r # rs) p =
     (case noop_Publish (Some r) p of
        (SyncOk resp, p) \<Rightarrow> resp_ID resp # noop_ids rs p
      | (_, p) \<Rightarrow> noop_ids rs p)"

lemma noop_ids_eq:
  "noop_ids rs p = map (\<lambda>i. IntID (sint (noop_counter p + 1 + word_of_nat i))) [0..<length rs]"
proof (induction rs arbitrary: p)
  case (Cons r rs)
  have "map (\<lambda>i. IntID (sint (noop_counter p + 1 + word_of_nat i))) [0..<Suc (length rs)] =
      IntID (sint (noop_counter p + 1)) #
      map (\<lambda>i. IntID (sint (noop_counter p + 1 + word_of_nat (Suc i)))) [0..<length rs]"
    by (simp add: upt_conv_Cons map_Suc_upt [symmetric] del: upt_Suc of_nat_Suc)
  then show ?case
    using Cons.IH [of "p\<lparr>noop_counter := noop_counter p + 1\<rparr>"]
    by (simp add: noop_Publish_def counter_Inc_def Let_def ac_simps)
qed simp

lemma word_of_nat_inj_on:
  "inj_on (\<lambda>i. IntID (sint (c + word_of_nat i :: u32))) {..<2 ^ 32}"
proof (rule inj_onI)
  fix i j :: nat
  assume ij: "i \<in> {..<2 ^ 32}" "j \<in> {..<2 ^ 32}"
    and "IntID (sint (c + word_of_nat i :: u32)) = IntID (sint (c + word_of_nat j :: u32))"
  then have "sint (c + word_of_nat i) = sint (c + word_of_nat j)"
    by (simp only: PublishID.inject)
  then have "c + word_of_nat i = c + word_of_nat j"
    by (rule signed_word_eqI)
  then have "take_bit 32 i = take_bit 32 j"
    by (simp add: word_of_nat_eq_iff)
  with ij show "i = j"
    by (simp add: take_bit_nat_eq_self)
qed

lemma distinct_noop_ids:
  assumes "length rs \<le> 2 ^ 32"
  shows "distinct (noop_ids rs p)"
proof -
  have "inj_on (\<lambda>i. IntID (sint (noop_counter p + 1 + word_of_nat i))) (set [0..<length rs])"
    by (rule inj_on_subset [OF word_of_nat_inj_on]) (use assms in auto)
  then show ?thesis
    by (simp add: noop_ids_eq distinct_map)
qed

section \<open>instrument\<close>

text \<open>
  The labels \<open>type\<close> and \<open>qos\<close> of each observation, in order, beside the delegate's state. The
  observation of an asynchronous request comes with its callback.
\<close>

type_synonym 's instrumented = "'s \<times> (string \<times> string) list"

definition observe :: "string \<Rightarrow> PublishRequest \<Rightarrow> (string \<times> string) list \<Rightarrow> (string \<times> string) list" where
  "observe ty publishRequest obs = obs @ [(ty, decimal (unat (req_Qos publishRequest)))]"

definition instrument_Publish ::
  "'s Publisher \<Rightarrow> Context \<Rightarrow> PublishRequest \<Rightarrow> 's instrumented \<Rightarrow> sync_result \<times> 's instrumented" where
  "instrument_Publish delegate ctx publishRequest p =
     (case pub_Publish delegate ctx publishRequest (fst p) of
        (SyncPanic e, s) \<Rightarrow> (SyncPanic e, (s, snd p))
      | (res, s) \<Rightarrow> (res, (s, observe ''sync'' publishRequest (snd p))))"

definition instrument_PublishAsync ::
  "'s Publisher \<Rightarrow> Context \<Rightarrow> PublishRequest \<Rightarrow> 's instrumented \<Rightarrow> async_result \<times> 's instrumented" where
  "instrument_PublishAsync delegate ctx publishRequest p =
     (case pub_PublishAsync delegate ctx publishRequest (fst p) of
        (AsyncCalled resp, s) \<Rightarrow> (AsyncCalled resp, (s, observe ''async'' publishRequest (snd p)))
      | (res, s) \<Rightarrow> (res, (s, snd p)))"

definition instrument_callback ::
  "'s Publisher \<Rightarrow> PublishRequest \<Rightarrow> 's instrumented \<Rightarrow> PublishResponse \<times> 's instrumented" where
  "instrument_callback delegate publishRequest p =
     (case pub_Complete delegate publishRequest (fst p) of
        (resp, s) \<Rightarrow> (resp, (s, observe ''async'' publishRequest (snd p))))"

definition instrument_publisher :: "'s Publisher \<Rightarrow> 's instrumented Publisher" where
  "instrument_publisher delegate =
     \<lparr>pub_Name = pub_Name delegate,
      pub_Publish = instrument_Publish delegate,
      pub_PublishAsync = instrument_PublishAsync delegate,
      pub_Complete = instrument_callback delegate\<rparr>"

definition instrument_Serve :: "('s \<Rightarrow> 'r \<times> 's) \<Rightarrow> 's instrumented \<Rightarrow> 'r \<times> 's instrumented" where
  "instrument_Serve delegateServe p = (case delegateServe (fst p) of (res, s) \<Rightarrow> (res, (s, snd p)))"

definition instrument_Shutdown :: "('s \<Rightarrow> 's) \<Rightarrow> 's instrumented \<Rightarrow> 's instrumented" where
  "instrument_Shutdown delegateShutdown p = (delegateShutdown (fst p), snd p)"

definition instrument_Close :: "('s \<Rightarrow> go_error option \<times> 's) \<Rightarrow> 's instrumented \<Rightarrow> go_error option \<times> 's instrumented" where
  "instrument_Close delegateClose p = (case delegateClose (fst p) of (err, s) \<Rightarrow> (err, (s, snd p)))"

text \<open>The wrapper keeps the promises of what it wraps.\<close>

context publisher
begin

lemma instrumented: "publisher (instrument_publisher pub) (\<lambda>p. taken (fst p))"
  by unfold_locales
    (auto simp: instrument_publisher_def instrument_Publish_def instrument_PublishAsync_def instrument_callback_def
      split: prod.splits sync_result.splits async_result.splits
      dest: publish_confirmed publish_keeps async_confirmed async_keeps complete_confirmed complete_keeps)

end

end
