(* ===== verification/Config.thy ===== *)
theory Config
  imports Util
begin

text \<open>
  The configuration values that are parsed from text (pkg/config/config.go): topic mappings, Kafka
  properties, and the variables of the command line's help.
\<close>

section \<open>Strings (package strings)\<close>

text \<open>\<open>strings.Split\<close> with a separator of one character.\<close>

fun split_on :: "char \<Rightarrow> string \<Rightarrow> string list" where
  "split_on d [] = [[]]"
| "split_on d (c # cs) =
     (if c = d then [] # split_on d cs
      else (case split_on d cs of [] \<Rightarrow> [[c]] | x # xs \<Rightarrow> (c # x) # xs))"

fun join :: "string list \<Rightarrow> string \<Rightarrow> string" where
  "join [] sep = []"
| "join [x] sep = x"
| "join (x # y # ys) sep = x @ sep @ join (y # ys) sep"

lemma split_on_not_Nil [simp]: "split_on d s \<noteq> []"
  by (cases s) (auto split: list.split)

lemma split_on_none [simp]: "d \<notin> set s \<Longrightarrow> split_on d s = [s]"
  by (induction s) auto

lemma split_on_append: "d \<notin> set s \<Longrightarrow> split_on d (s @ d # t) = s # split_on d t"
  by (induction s) auto

lemma split_on_join:
  "xs \<noteq> [] \<Longrightarrow> \<forall>x\<in>set xs. d \<notin> set x \<Longrightarrow> split_on d (join xs [d]) = xs"
  by (induction xs "[d]" rule: join.induct) (simp_all add: split_on_append)

text \<open>
  \<open>strings.TrimSpace\<close>: the space characters of Unicode, as the bytes of their encoding.
\<close>

definition space_runes :: "string list" where
  "space_runes =
     map (map char_of)
       ([[9], [10], [11], [12], [13], [32], [194, 133], [194, 160 :: nat], [225, 154, 128]] @
        map (\<lambda>b. [226, 128, b]) [128, 129, 130, 131, 132, 133, 134, 135, 136, 137, 138, 168, 169, 175] @
        [[226, 129, 159], [227, 128, 128]])"

definition leading :: "string list \<Rightarrow> string \<Rightarrow> string option" where
  "leading ws s = List.find (\<lambda>w. w \<noteq> [] \<and> take (length w) s = w) ws"

lemma leading_SomeD: "leading ws s = Some w \<Longrightarrow> w \<noteq> [] \<and> length w \<le> length s"
  by (auto simp: leading_def find_Some_iff dest: arg_cong [where f = length])

function trim_leading :: "string list \<Rightarrow> string \<Rightarrow> string" where
  "trim_leading ws s = (case leading ws s of None \<Rightarrow> s | Some w \<Rightarrow> trim_leading ws (drop (length w) s))"
  by pat_completeness auto
termination
  by (relation "measure (length \<circ> snd)") (auto dest!: leading_SomeD, metis diff_less le_less_trans length_greater_0_conv not_le)

declare trim_leading.simps [simp del]

definition TrimSpace :: "string \<Rightarrow> string" where
  "TrimSpace s = rev (trim_leading (map rev space_runes) (rev (trim_leading space_runes s)))"

text \<open>A string that neither begins nor ends with a space character is its own trimming.\<close>

definition trimmed :: "string \<Rightarrow> bool" where
  "trimmed s \<longleftrightarrow> leading space_runes s = None \<and> leading (map rev space_runes) (rev s) = None"

definition plain_char :: "char \<Rightarrow> bool" where
  "plain_char c \<longleftrightarrow> 32 < (of_char c :: nat) \<and> (of_char c :: nat) < 128"

lemma leading_plain:
  assumes "s \<noteq> []" and "plain_char (hd s)" and "\<forall>w\<in>set ws. w \<noteq> [] \<and> \<not> plain_char (hd w)"
  shows "leading ws s = None"
proof -
  have "take (length w) s \<noteq> w" if "w \<in> set ws" for w
    using assms that by (cases s; cases w) auto
  then show ?thesis
    by (auto simp: leading_def find_None_iff)
qed

lemma trimmed_plain:
  assumes "s \<noteq> []" and "plain_char (hd s)" and "plain_char (last s)"
  shows "trimmed s"
proof -
  have "\<forall>w\<in>set space_runes. w \<noteq> [] \<and> \<not> plain_char (hd w)"
    and "\<forall>w\<in>set (map rev space_runes). w \<noteq> [] \<and> \<not> plain_char (hd w)"
    by code_simp+
  with assms show ?thesis
    by (auto simp: trimmed_def hd_rev intro!: leading_plain)
qed

lemma trim_leading_id: "leading ws s = None \<Longrightarrow> trim_leading ws s = s"
  by (simp add: trim_leading.simps)

lemma TrimSpace_trimmed: "trimmed s \<Longrightarrow> TrimSpace s = s"
  by (simp add: TrimSpace_def trimmed_def trim_leading_id)

lemma leading_trim_leading: "leading ws (trim_leading ws s) = None"
  by (induction ws s rule: trim_leading.induct) (subst trim_leading.simps, auto split: option.split)

section \<open>Topic mappings\<close>

text \<open>
  A compiled regular expression is the set of strings it matches. \<open>regexp.Compile\<close> is an argument of
  the parser, so that nothing depends on the syntax of the expressions.
\<close>

record TopicMapping =
  Topic :: string
  RegExp :: "string \<Rightarrow> bool"

type_synonym regexp_compiler = "string \<Rightarrow> go_error + (string \<Rightarrow> bool)"

definition quoted :: "string \<Rightarrow> string" where
  "quoted s = [CHR 0x27] @ s @ [CHR 0x27]"

definition parse_mapping :: "regexp_compiler \<Rightarrow> string \<Rightarrow> go_error + TopicMapping" where
  "parse_mapping Compile pair =
     (case split_on (CHR ''='') pair of
        [k, v] \<Rightarrow>
          let k = TrimSpace k; v = TrimSpace v
          in if k = [] then Inl (Errorf ''empty topic key %s'' [AStr pair])
             else if v = [] then Inl (Errorf ''empty regex value %s'' [AStr pair])
             else
               (case Compile v of
                  Inl err \<Rightarrow> Inl (Wrapf (''invalid topic mapping regexp '' @ quoted ''%s'' @ '': %w'') [AStr v] err)
                | Inr r \<Rightarrow> Inr \<lparr>Topic = k, RegExp = r\<rparr>)
      | _ \<Rightarrow> Inl (Errorf ''expected key=value, but got %s'' [AStr pair]))"

text \<open>The loop stops at the first error and keeps the mappings before it.\<close>

fun parse_mappings ::
  "regexp_compiler \<Rightarrow> string list \<Rightarrow> TopicMapping list \<Rightarrow> go_error option \<times> TopicMapping list" where
  "parse_mappings Compile [] Mappings = (None, Mappings)"
| "parse_mappings Compile (pair # pairs) Mappings =
     (case parse_mapping Compile pair of
        Inl err \<Rightarrow> (Some err, Mappings)
      | Inr m \<Rightarrow> parse_mappings Compile pairs (Mappings @ [m]))"

definition TopicMappings_Set ::
  "regexp_compiler \<Rightarrow> string \<Rightarrow> TopicMapping list \<Rightarrow> go_error option \<times> TopicMapping list" where
  "TopicMappings_Set Compile value Mappings = parse_mappings Compile (split_on (CHR '','') value) Mappings"

text \<open>The text of mappings, and when a mapping can be written as text.\<close>

definition show_mapping :: "string \<times> string \<Rightarrow> string" where
  "show_mapping = (\<lambda>(k, v). k @ CHR ''='' # v)"

definition mapping_text_ok :: "string \<times> string \<Rightarrow> bool" where
  "mapping_text_ok = (\<lambda>(k, v).
     k \<noteq> [] \<and> v \<noteq> [] \<and> trimmed k \<and> trimmed v \<and>
     CHR ''='' \<notin> set k \<and> CHR ''='' \<notin> set v \<and> CHR '','' \<notin> set k \<and> CHR '','' \<notin> set v)"

lemma parse_mapping_show:
  assumes "mapping_text_ok (k, v)" and "Compile v = Inr r"
  shows "parse_mapping Compile (show_mapping (k, v)) = Inr \<lparr>Topic = k, RegExp = r\<rparr>"
  using assms
  by (simp add: parse_mapping_def show_mapping_def mapping_text_ok_def split_on_append TrimSpace_trimmed)

lemma parse_mappings_show:
  assumes "\<forall>kv\<in>set kvs. mapping_text_ok kv \<and> Compile (snd kv) = Inr (re (snd kv))"
  shows "parse_mappings Compile (map show_mapping kvs) ms =
           (None, ms @ map (\<lambda>(k, v). \<lparr>Topic = k, RegExp = re v\<rparr>) kvs)"
  using assms
proof (induction kvs arbitrary: ms)
  case (Cons kv kvs)
  then show ?case
    by (cases kv) (simp add: parse_mapping_show)
qed simp

lemma TopicMappings_Set_show:
  assumes "kvs \<noteq> []" and "\<forall>kv\<in>set kvs. mapping_text_ok kv \<and> Compile (snd kv) = Inr (re (snd kv))"
  shows "TopicMappings_Set Compile (join (map show_mapping kvs) '','') ms =
           (None, ms @ map (\<lambda>(k, v). \<lparr>Topic = k, RegExp = re v\<rparr>) kvs)"
proof -
  from assms(2) have "\<forall>x\<in>set (map show_mapping kvs). CHR '','' \<notin> set x"
    by (auto simp: show_mapping_def mapping_text_ok_def)
  with assms(1) have "split_on (CHR '','') (join (map show_mapping kvs) '','') = map show_mapping kvs"
    by (intro split_on_join) simp_all
  with assms(2) show ?thesis
    by (simp add: TopicMappings_Set_def parse_mappings_show)
qed

text \<open>
  The lookup every publisher does with its mappings: the first mapping that matches, then the
  default unless it is empty.
\<close>

fun first_mapping :: "TopicMapping list \<Rightarrow> string \<Rightarrow> string option" where
  "first_mapping [] mqttTopic = None"
| "first_mapping (m # ms) mqttTopic =
     (if RegExp m mqttTopic then Some (Topic m) else first_mapping ms mqttTopic)"

lemma first_mapping_Some:
  "first_mapping ms t = Some d \<longleftrightarrow>
   (\<exists>i<length ms. RegExp (ms ! i) t \<and> Topic (ms ! i) = d \<and> (\<forall>j<i. \<not> RegExp (ms ! j) t))"
proof (induction ms)
  case (Cons m ms)
  then show ?case
    by (simp add: Ex_less_Suc2 All_less_Suc2)
qed simp

lemma first_mapping_None: "first_mapping ms t = None \<longleftrightarrow> (\<forall>m\<in>set ms. \<not> RegExp m t)"
  by (induction ms) auto

section \<open>Kafka properties\<close>

text \<open>
  The properties are a map of the Kafka library, here with an order of iteration; its \<open>Set\<close>, which
  parses one \<open>key=value\<close>, is an argument. An error leaves the properties that were set before it.
\<close>

type_synonym ConfigMap = "(string \<times> string) list"

fun set_pairs ::
  "(string \<Rightarrow> ConfigMap \<Rightarrow> go_error + ConfigMap) \<Rightarrow> string list \<Rightarrow> ConfigMap \<Rightarrow> go_error option \<times> ConfigMap" where
  "set_pairs ConfigMap_Set [] conf = (None, conf)"
| "set_pairs ConfigMap_Set (pair # pairs) conf =
     (case ConfigMap_Set pair conf of
        Inl err \<Rightarrow> (Some err, conf)
      | Inr conf \<Rightarrow> set_pairs ConfigMap_Set pairs conf)"

definition KafkaConfigArgs_Set ::
  "(string \<Rightarrow> ConfigMap \<Rightarrow> go_error + ConfigMap) \<Rightarrow> string \<Rightarrow> ConfigMap option \<Rightarrow>
   go_error option \<times> ConfigMap option" where
  "KafkaConfigArgs_Set ConfigMap_Set value conf =
     (let conf = (case conf of None \<Rightarrow> [] | Some c \<Rightarrow> c);
          (err, conf) = set_pairs ConfigMap_Set (split_on (CHR '','') value) conf
      in (err, Some conf))"

section \<open>Names and help variables\<close>

definition PublisherNoop :: string where "PublisherNoop = ''noop''"

definition PublisherKafka :: string where "PublisherKafka = ''kafka''"

definition PublisherSQS :: string where "PublisherSQS = ''sqs''"

definition PublisherSNS :: string where "PublisherSNS = ''sns''"

definition PublisherRabbitMQ :: string where "PublisherRabbitMQ = ''rabbitmq''"

definition AuthNoop :: string where "AuthNoop = ''noop''"

definition AuthPlain :: string where "AuthPlain = ''plain''"

definition CertSourceFile :: string where "CertSourceFile = ''file''"

definition ServerVars :: "(string \<Rightarrow> string) \<Rightarrow> string \<rightharpoonup> string" where
  "ServerVars Getenv = map_of
     [(''CertSourceDefault'', CertSourceFile),
      (''CertSourceEnum'', join [CertSourceFile] '', ''),
      (''IgnoreUnsupportedEnum'', join [''SUBSCRIBE'', ''UNSUBSCRIBE''] '', ''),
      (''AllowUnauthenticatedEnum'', join [''PUBLISH'', ''PUBREL'', ''PINGREQ''] '', ''),
      (''AuthDefault'', AuthNoop),
      (''AuthEnum'', join [AuthNoop, AuthPlain] '', ''),
      (''PublisherDefault'', PublisherNoop),
      (''PublisherEnum'',
        join [PublisherNoop, PublisherKafka, PublisherSQS, PublisherSNS, PublisherRabbitMQ] '', ''),
      (''MessageFormatDefault'', MessageFormatPlain),
      (''MessageFormatEnum'', join [MessageFormatPlain, MessageFormatBase64, MessageFormatJson] '', ''),
      (''RabbitMQSchemeDefault'', ''amqp''),
      (''RabbitMQSchemeEnum'', join [''amqp'', ''amqps''] '', ''),
      (''RabbitMQPassword'', Getenv ''MQTT_PUBLISHER_RABBITMQ_PASSWORD'')]"

end
