(* ===== verification/Kafka.thy ===== *)
theory Kafka
  imports Config
begin

text \<open>
  The Kafka publisher (pkg/publisher/kafka). The Kafka library is a record of its operations on the
  state of the brokers and the client; nothing is assumed about it.
\<close>

section \<open>Options (option.go)\<close>

record kafka_options =
  k_bootstrapServers :: string
  k_gracePeriod :: int
  k_workers :: int
  k_configMap :: ConfigMap
  k_defaultTopic :: string
  k_topicMappings :: "TopicMapping list"
  k_messageFormat :: string

definition k_validate :: "kafka_options \<Rightarrow> go_error option" where
  "k_validate o' =
     (if k_bootstrapServers o' = [] then Some (Errorf ''kafka.bootstrap-servers must not be empty'' [])
      else if k_workers o' < 1 then Some (Errorf ''kafka.workers must be greater than 0'' [])
      else if k_defaultTopic o' = [] \<and> length (k_topicMappings o') = 0
      then Some (Errorf ''kafka default topic or topic mappings must be provided'' [])
      else if k_messageFormat o' = [] then Some (Errorf ''publisher message format must not be empty'' [])
      else None)"

type_synonym kafka_option = "kafka_options \<Rightarrow> kafka_options"

definition k_WithGracePeriod :: "int \<Rightarrow> kafka_option" where
  "k_WithGracePeriod t o' = o'\<lparr>k_gracePeriod := t\<rparr>"

definition k_WithBootstrapServers :: "string \<Rightarrow> kafka_option" where
  "k_WithBootstrapServers s o' = o'\<lparr>k_bootstrapServers := s\<rparr>"

definition k_WithTopicMappings :: "TopicMapping list \<Rightarrow> kafka_option" where
  "k_WithTopicMappings m o' = o'\<lparr>k_topicMappings := m\<rparr>"

definition k_WithDefaultTopic :: "string \<Rightarrow> kafka_option" where
  "k_WithDefaultTopic s o' = o'\<lparr>k_defaultTopic := s\<rparr>"

definition k_WithConfigMap :: "ConfigMap \<Rightarrow> kafka_option" where
  "k_WithConfigMap m o' = o'\<lparr>k_configMap := m\<rparr>"

definition k_WithWorkers :: "int \<Rightarrow> kafka_option" where
  "k_WithWorkers v o' = o'\<lparr>k_workers := v\<rparr>"

definition k_WithMessageFormat :: "string \<Rightarrow> kafka_option" where
  "k_WithMessageFormat s o' = o'\<lparr>k_messageFormat := s\<rparr>"

section \<open>The Kafka library\<close>

text \<open>
  A message as it is produced, and the events of the library: a delivery report (the identifier of
  the partition it went to, the error, and the opaque value of the message), an error that is fatal
  or not, the nil event of a closed channel, and any other event. The opaque value of an asynchronous
  message is its \<open>publishCallback\<close>, named by the request.
\<close>

record kafka_message =
  m_Topic :: string
  m_Key :: "byte list"
  m_Value :: "byte list"
  m_Opaque :: "PublishRequest option"
  m_Headers :: "(string \<times> byte list) list"

datatype kafka_event =
    KMessage string "go_error option" "PublishRequest option"
  | KError go_error bool
  | KNil
  | KOther string

text \<open>
  \<open>k_await\<close> is the \<open>select\<close> on the delivery channel and the context: no event when the context is
  done first. \<open>k_report\<close> is the delivery report of a message that was produced without a channel.
\<close>

record 'b kafka_lib =
  k_SetKey :: "string \<Rightarrow> string \<Rightarrow> ConfigMap \<Rightarrow> ConfigMap"
  k_NewProducer :: "ConfigMap \<Rightarrow> 'b \<Rightarrow> (go_error + nat) \<times> 'b"
  k_CloseProducer :: "nat \<Rightarrow> 'b \<Rightarrow> 'b"
  k_Flush :: "nat \<Rightarrow> int \<Rightarrow> 'b \<Rightarrow> int \<times> 'b"
  k_Produce :: "nat \<Rightarrow> kafka_message \<Rightarrow> bool \<Rightarrow> 'b \<Rightarrow> go_error option \<times> 'b"
  k_await :: "Context \<Rightarrow> 'b \<Rightarrow> kafka_event option \<times> 'b"
  k_report :: "kafka_message \<Rightarrow> 'b \<Rightarrow> (string \<times> go_error option) \<times> 'b"

section \<open>Producers (kafka.go)\<close>

definition has_prefix :: "string \<Rightarrow> string \<Rightarrow> bool" where
  "has_prefix s p \<longleftrightarrow> take (length p) s = p"

definition trim_prefix :: "string \<Rightarrow> string \<Rightarrow> string" where
  "trim_prefix s p = (if has_prefix s p then drop (length p) s else s)"

definition propertiesWithPrefix :: "'b kafka_lib \<Rightarrow> ConfigMap \<Rightarrow> string \<Rightarrow> bool \<Rightarrow> ConfigMap" where
  "propertiesWithPrefix lib config prefix strip =
     fold (\<lambda>(k, v) result.
         if has_prefix k prefix then
           (if strip then k_SetKey lib (trim_prefix k prefix) v result else k_SetKey lib k v result)
         else result)
       config []"

definition set_all :: "'b kafka_lib \<Rightarrow> ConfigMap \<Rightarrow> ConfigMap \<Rightarrow> ConfigMap" where
  "set_all lib kvs configMap = fold (\<lambda>(k, v) configMap. k_SetKey lib k v configMap) kvs configMap"

definition qos_prefix :: "nat \<Rightarrow> string" where
  "qos_prefix qos = ''{qos-'' @ decimal qos @ ''}.producer.''"

definition producerProperties :: "'b kafka_lib \<Rightarrow> byte \<Rightarrow> kafka_options \<Rightarrow> ConfigMap" where
  "producerProperties lib qos o' =
     (let configMap = k_SetKey lib ''bootstrap.servers'' (k_bootstrapServers o') [];
          configMap = set_all lib (propertiesWithPrefix lib (k_configMap o') ''producer.'' True) configMap
      in set_all lib (propertiesWithPrefix lib (k_configMap o') (qos_prefix (unat qos)) True) configMap)"

text \<open>A producer is known by its number; \<open>closeOnce\<close> is whether it was closed.\<close>

record kafkaProducer =
  kp_handle :: nat
  kp_closed :: bool

definition kafkaProducer_Close :: "'b kafka_lib \<Rightarrow> kafkaProducer \<Rightarrow> 'b \<Rightarrow> kafkaProducer \<times> 'b" where
  "kafkaProducer_Close lib k b =
     (if kp_closed k then (k, b) else (k\<lparr>kp_closed := True\<rparr>, k_CloseProducer lib (kp_handle k) b))"

text \<open>The map of the producers, closed in some order.\<close>

type_synonym producers = "(byte \<times> kafkaProducer) list"

fun closeProducers :: "'b kafka_lib \<Rightarrow> producers \<Rightarrow> 'b \<Rightarrow> producers \<times> 'b" where
  "closeProducers lib [] b = ([], b)"
| "closeProducers lib ((q, p) # ps) b =
     (case kafkaProducer_Close lib p b of (p, b) \<Rightarrow>
        (case closeProducers lib ps b of (ps, b) \<Rightarrow> ((q, p) # ps, b)))"

definition atMostOnceProps :: "'b kafka_lib \<Rightarrow> kafka_options \<Rightarrow> ConfigMap" where
  "atMostOnceProps lib o' = k_SetKey lib ''acks'' ''0'' (producerProperties lib AT_MOST_ONCE o')"

definition atLeastOnceProps :: "'b kafka_lib \<Rightarrow> kafka_options \<Rightarrow> ConfigMap" where
  "atLeastOnceProps lib o' = k_SetKey lib ''acks'' ''all'' (producerProperties lib AT_LEAST_ONCE o')"

definition exactlyOnceProps :: "'b kafka_lib \<Rightarrow> kafka_options \<Rightarrow> ConfigMap" where
  "exactlyOnceProps lib o' =
     k_SetKey lib ''enable.idempotence'' ''true''
       (k_SetKey lib ''acks'' ''all'' (producerProperties lib EXACTLY_ONCE o'))"

definition new_producer :: "nat \<Rightarrow> kafkaProducer" where
  "new_producer n = \<lparr>kp_handle = n, kp_closed = False\<rparr>"

definition newProducers :: "'b kafka_lib \<Rightarrow> kafka_options \<Rightarrow> 'b \<Rightarrow> (go_error + producers) \<times> 'b" where
  "newProducers lib o' b =
     (case k_NewProducer lib (atMostOnceProps lib o') b of
        (Inl err, b) \<Rightarrow> (Inl err, b)
      | (Inr p0, b) \<Rightarrow>
          (let ps = [(AT_MOST_ONCE, new_producer p0)] in
           case k_NewProducer lib (atLeastOnceProps lib o') b of
             (Inl err, b) \<Rightarrow> (Inl err, snd (closeProducers lib ps b))
           | (Inr p1, b) \<Rightarrow>
               (let ps = ps @ [(AT_LEAST_ONCE, new_producer p1)] in
                case k_NewProducer lib (exactlyOnceProps lib o') b of
                  (Inl err, b) \<Rightarrow> (Inl err, snd (closeProducers lib ps b))
                | (Inr p2, b) \<Rightarrow> (Inr (ps @ [(EXACTLY_ONCE, new_producer p2)]), b))))"

section \<open>The publisher's state\<close>

text \<open>
  \<open>k_delivered\<close> is a ghost component: the messages whose delivery report had no error.
\<close>

record 'b kafka_state =
  k_broker :: 'b
  k_producers :: producers
  k_inShutdown :: bool
  k_workersDone :: DoneChannel
  k_delivered :: "kafka_message list"

definition New_kafka ::
  "'b kafka_lib \<Rightarrow> kafka_option list \<Rightarrow> 'b \<Rightarrow> (go_error + kafka_options \<times> 'b kafka_state) \<times> 'b" where
  "New_kafka lib os b =
     (let o' = fold (\<lambda>f o'. f o') os
                 \<lparr>k_bootstrapServers = [], k_gracePeriod = 0, k_workers = 1, k_configMap = [],
                  k_defaultTopic = [], k_topicMappings = [], k_messageFormat = []\<rparr>
      in case k_validate o' of
           Some err \<Rightarrow> (Inl err, b)
         | None \<Rightarrow>
             (case newProducers lib o' b of
                (Inl err, b) \<Rightarrow> (Inl err, b)
              | (Inr ps, b) \<Rightarrow>
                  (Inr (o', \<lparr>k_broker = b, k_producers = ps, k_inShutdown = False,
                             k_workersDone = NewDoneChannel, k_delivered = []\<rparr>), b)))"

section \<open>Publishing\<close>

definition getKafkaTopic :: "kafka_options \<Rightarrow> string \<Rightarrow> go_error + string" where
  "getKafkaTopic o' mqttTopic =
     (case first_mapping (k_topicMappings o') mqttTopic of
        Some topic \<Rightarrow> Inr topic
      | None \<Rightarrow>
          if k_defaultTopic o' \<noteq> [] then Inr (k_defaultTopic o')
          else Inl (Errorf ''kafka topic not found for MQTT topic %s'' [AStr mqttTopic]))"

definition newKafkaMessage ::
  "kafka_options \<Rightarrow> PublishRequest \<Rightarrow> PublishRequest option \<Rightarrow> go_error + kafka_message" where
  "newKafkaMessage o' req opaque =
     (case getKafkaTopic o' (req_TopicName req) of
        Inl err \<Rightarrow> Inl err
      | Inr kafkaTopic \<Rightarrow>
          (let headers =
             [(''mqtt.qos'', bytes_of_string (decimal (unat (req_Qos req)))),
              (''mqtt.dup'', bytes_of_string (FormatBool (req_Dup req))),
              (''mqtt.retain'', bytes_of_string (FormatBool (req_Retain req))),
              (''mqtt.packet.id'', bytes_of_string (decimal (unat (req_MessageID req)))),
              (''mqtt.fmt'', bytes_of_string (k_messageFormat o'))]
           in case GetMessageBody (k_messageFormat o') req of
                Inl err \<Rightarrow> Inl err
              | Inr message \<Rightarrow>
                  Inr \<lparr>m_Topic = kafkaTopic, m_Key = bytes_of_string (req_TopicName req),
                       m_Value = message, m_Opaque = opaque, m_Headers = headers\<rparr>))"

definition producer_not_found :: "PublishRequest \<Rightarrow> go_error" where
  "producer_not_found request =
     Errorf ''kafka producer for qos %d not found'' [AInt (int (unat (req_Qos request)))]"

text \<open>A response to a delivery report, and the record of the delivery if it has no error.\<close>

definition note_delivery :: "kafka_message \<Rightarrow> go_error option \<Rightarrow> 'b kafka_state \<Rightarrow> 'b kafka_state" where
  "note_delivery msg err s = (if err = None then s\<lparr>k_delivered := k_delivered s @ [msg]\<rparr> else s)"

definition kafka_Publish ::
  "'b kafka_lib \<Rightarrow> kafka_options \<Rightarrow> Context \<Rightarrow> PublishRequest \<Rightarrow> 'b kafka_state \<Rightarrow>
   sync_result \<times> 'b kafka_state" where
  "kafka_Publish lib o' ctx request s =
     (case map_of (k_producers s) (req_Qos request) of
        None \<Rightarrow> (SyncErr (producer_not_found request), s)
      | Some producer \<Rightarrow>
          (case newKafkaMessage o' request None of
             Inl err \<Rightarrow> (SyncErr err, s)
           | Inr msg \<Rightarrow>
               (case k_Produce lib (kp_handle producer) msg True (k_broker s) of
                  (Some err, b) \<Rightarrow> (SyncErr err, s\<lparr>k_broker := b\<rparr>)
                | (None, b) \<Rightarrow>
                    (case k_await lib ctx b of
                       (Some (KMessage tp err _), b) \<Rightarrow>
                         (SyncOk \<lparr>resp_ID = StrID tp, resp_Error = err\<rparr>,
                          note_delivery msg err (s\<lparr>k_broker := b\<rparr>))
                     | (Some e, b) \<Rightarrow> (SyncErr (Errorf ''unexpected event type: %v: %v'' []), s\<lparr>k_broker := b\<rparr>)
                     | (None, b) \<Rightarrow> (SyncErr (Errorf ''context done'' []), s\<lparr>k_broker := b\<rparr>)))))"

definition kafka_PublishAsync ::
  "'b kafka_lib \<Rightarrow> kafka_options \<Rightarrow> PublishRequest \<Rightarrow> 'b kafka_state \<Rightarrow> async_result \<times> 'b kafka_state" where
  "kafka_PublishAsync lib o' request s =
     (case map_of (k_producers s) (req_Qos request) of
        None \<Rightarrow> (AsyncErr (producer_not_found request), s)
      | Some producer \<Rightarrow>
          (case newKafkaMessage o' request (Some request) of
             Inl err \<Rightarrow> (AsyncErr err, s)
           | Inr msg \<Rightarrow>
               (case k_Produce lib (kp_handle producer) msg False (k_broker s) of
                  (Some err, b) \<Rightarrow> (AsyncErr err, s\<lparr>k_broker := b\<rparr>)
                | (None, b) \<Rightarrow> (AsyncQueued, s\<lparr>k_broker := b\<rparr>))))"

section \<open>Delivery reports\<close>

text \<open>
  The loop of a worker: what one event makes it do, and the callbacks it runs for the events of its
  channel. No event stands for the done channel being chosen.
\<close>

datatype loop_outcome = RunCallback PublishRequest PublishResponse | NextEvent | ExitLoop

definition handle_event :: "kafka_event \<Rightarrow> loop_outcome" where
  "handle_event e =
     (case e of
        KMessage tp err opaque \<Rightarrow>
          (case opaque of
             Some request \<Rightarrow> RunCallback request \<lparr>resp_ID = StrID tp, resp_Error = err\<rparr>
           | None \<Rightarrow> NextEvent)
      | KError ke fatal \<Rightarrow> if fatal then ExitLoop else NextEvent
      | KNil \<Rightarrow> ExitLoop
      | KOther _ \<Rightarrow> NextEvent)"

fun deliveryReportEventLoop :: "kafka_event option list \<Rightarrow> (PublishRequest \<times> PublishResponse) list" where
  "deliveryReportEventLoop [] = []"
| "deliveryReportEventLoop (None # es) = []"
| "deliveryReportEventLoop (Some e # es) =
     (case handle_event e of
        RunCallback request response \<Rightarrow> (request, response) # deliveryReportEventLoop es
      | NextEvent \<Rightarrow> deliveryReportEventLoop es
      | ExitLoop \<Rightarrow> [])"

text \<open>
  A worker with the events of its channel so far closes \<open>workersDone\<close> when its loop returns. \<open>Serve\<close> starts
  the workers of each producer and waits for \<open>workersDone\<close>.
\<close>

fun loop_returns :: "kafka_event option list \<Rightarrow> bool" where
  "loop_returns [] = False"
| "loop_returns (None # es) = True"
| "loop_returns (Some e # es) = (if handle_event e = ExitLoop then True else loop_returns es)"

definition kafka_worker :: "kafka_event option list \<Rightarrow> 'b kafka_state \<Rightarrow> 'b kafka_state" where
  "kafka_worker es s =
     (if loop_returns es then s\<lparr>k_workersDone := DoneChannel_Close (k_workersDone s)\<rparr> else s)"

definition kafka_Serve ::
  "kafka_options \<Rightarrow> (byte \<times> nat \<Rightarrow> kafka_event option list) \<Rightarrow> 'b kafka_state \<Rightarrow>
   go_error option option \<times> 'b kafka_state" where
  "kafka_Serve o' events s =
     (let workers = (if k_workers o' < 1 then 1 else k_workers o');
          started = concat (map (\<lambda>(q, p). map (Pair q) [0..<nat workers]) (k_producers s));
          s = fold (\<lambda>worker. kafka_worker (events worker)) started s
      in case wait_done (k_workersDone s) of
           None \<Rightarrow> (None, s)
         | Some res \<Rightarrow> (Some res, s\<lparr>k_workersDone := DoneChannel_Close (k_workersDone s)\<rparr>))"

text \<open>
  The completion of a request that was queued: the report of its message reaches a worker, which runs
  the callback. A request without a message was never queued.
\<close>

definition kafka_Complete ::
  "'b kafka_lib \<Rightarrow> kafka_options \<Rightarrow> PublishRequest \<Rightarrow> 'b kafka_state \<Rightarrow> PublishResponse \<times> 'b kafka_state" where
  "kafka_Complete lib o' request s =
     (case newKafkaMessage o' request (Some request) of
        Inl err \<Rightarrow> (\<lparr>resp_ID = NoID, resp_Error = Some err\<rparr>, s)
      | Inr msg \<Rightarrow>
          (case k_report lib msg (k_broker s) of
             ((tp, err), b) \<Rightarrow>
               (case handle_event (KMessage tp err (m_Opaque msg)) of
                  RunCallback _ response \<Rightarrow>
                    (response, note_delivery msg err (s\<lparr>k_broker := b\<rparr>))
                | _ \<Rightarrow> (\<lparr>resp_ID = NoID, resp_Error = Some (Errorf ''unexpected opaque type'' [])\<rparr>,
                        s\<lparr>k_broker := b\<rparr>))))"

section \<open>Shutting down\<close>

text \<open>
  \<open>flush\<close>: every producer is flushed, in some order; the numbers of the messages that remain are added
  as \<open>int32\<close>.
\<close>

fun flush_all :: "'b kafka_lib \<Rightarrow> int \<Rightarrow> producers \<Rightarrow> u32 \<Rightarrow> 'b \<Rightarrow> u32 \<times> 'b" where
  "flush_all lib timeoutMs [] remaining b = (remaining, b)"
| "flush_all lib timeoutMs ((_, p) # ps) remaining b =
     (case k_Flush lib (kp_handle p) timeoutMs b of (remain, b) \<Rightarrow>
        flush_all lib timeoutMs ps (remaining + word_of_int remain) b)"

definition kafka_flush :: "'b kafka_lib \<Rightarrow> int \<Rightarrow> 'b kafka_state \<Rightarrow> int \<times> 'b kafka_state" where
  "kafka_flush lib timeoutMs s =
     (case flush_all lib timeoutMs (k_producers s) 0 (k_broker s) of
        (remaining, b) \<Rightarrow> (sint remaining, s\<lparr>k_broker := b\<rparr>))"

definition kafka_Close :: "'b kafka_lib \<Rightarrow> 'b kafka_state \<Rightarrow> 'b kafka_state" where
  "kafka_Close lib s =
     (let s = s\<lparr>k_inShutdown := True, k_workersDone := DoneChannel_Close (k_workersDone s)\<rparr>
      in case closeProducers lib (k_producers s) (k_broker s) of
           (ps, b) \<Rightarrow> s\<lparr>k_producers := ps, k_broker := b\<rparr>)"

text \<open>
  The polling loop of \<open>shutdown\<close>: \<open>ticks\<close> is how often the ticker fires before the context is done,
  whose error is \<open>ctxErr\<close>.
\<close>

definition shutdownPollMilliseconds :: int where
  "shutdownPollMilliseconds = 500"

fun kafka_shutdown_loop ::
  "'b kafka_lib \<Rightarrow> go_error \<Rightarrow> nat \<Rightarrow> 'b kafka_state \<Rightarrow> go_error option \<times> 'b kafka_state" where
  "kafka_shutdown_loop lib ctxErr ticks s =
     (case kafka_flush lib shutdownPollMilliseconds s of (remain, s) \<Rightarrow>
        if remain = 0 then (None, s)
        else (case ticks of
                0 \<Rightarrow> (Some ctxErr, s)
              | Suc n \<Rightarrow> kafka_shutdown_loop lib ctxErr n s))"

declare kafka_shutdown_loop.simps [simp del]

definition kafka_shutdown ::
  "'b kafka_lib \<Rightarrow> go_error \<Rightarrow> nat \<Rightarrow> 'b kafka_state \<Rightarrow> go_error option \<times> 'b kafka_state" where
  "kafka_shutdown lib ctxErr ticks s =
     (if k_inShutdown s then (None, s)
      else
        (case kafka_shutdown_loop lib ctxErr ticks (s\<lparr>k_inShutdown := True\<rparr>) of
           (err, s) \<Rightarrow> (err, kafka_Close lib s)))"

definition kafka_Shutdown ::
  "'b kafka_lib \<Rightarrow> kafka_options \<Rightarrow> go_error \<Rightarrow> nat \<Rightarrow> 'b kafka_state \<Rightarrow> 'b kafka_state" where
  "kafka_Shutdown lib o' ctxErr ticks s =
     (if k_gracePeriod o' = 0 then kafka_Close lib s else snd (kafka_shutdown lib ctxErr ticks s))"

section \<open>The publisher and what it promises\<close>

definition kafka_publisher :: "'b kafka_lib \<Rightarrow> kafka_options \<Rightarrow> 'b kafka_state Publisher" where
  "kafka_publisher lib o' =
     \<lparr>pub_Name = ''kafka'',
      pub_Publish = kafka_Publish lib o',
      pub_PublishAsync = (\<lambda>_. kafka_PublishAsync lib o'),
      pub_Complete = kafka_Complete lib o'\<rparr>"

text \<open>A request was taken when a message with its content was delivered.\<close>

definition kafka_taken :: "kafka_options \<Rightarrow> 'b kafka_state \<Rightarrow> PublishRequest \<Rightarrow> bool" where
  "kafka_taken o' s r \<longleftrightarrow> (\<exists>msg\<in>set (k_delivered s). newKafkaMessage o' r (m_Opaque msg) = Inr msg)"

lemma kafka_taken_broker [simp]: "kafka_taken o' (s\<lparr>k_broker := b\<rparr>) r = kafka_taken o' s r"
  by (simp add: kafka_taken_def)

lemma kafka_taken_note_delivery:
  "kafka_taken o' s r \<Longrightarrow> kafka_taken o' (note_delivery msg err s) r"
  by (auto simp: kafka_taken_def note_delivery_def)

lemma kafka_taken_delivered:
  "newKafkaMessage o' r opq = Inr msg \<Longrightarrow> kafka_taken o' (note_delivery msg None s) r"
  by (auto simp: kafka_taken_def note_delivery_def newKafkaMessage_def Let_def split: sum.splits)

lemma newKafkaMessage_opaque: "newKafkaMessage o' r opq = Inr msg \<Longrightarrow> m_Opaque msg = opq"
  by (auto simp: newKafkaMessage_def Let_def split: sum.splits)

lemma kafka_taken_same: "k_delivered s' = k_delivered s \<Longrightarrow> kafka_taken o' s' r = kafka_taken o' s r"
  by (simp add: kafka_taken_def)

lemma kafka_Publish_cases:
  assumes "kafka_Publish lib o' ctx r s = (res, s')"
  obtains (err) e where "res = SyncErr e" "k_delivered s' = k_delivered s"
  | (event) msg tp err b where "newKafkaMessage o' r None = Inr msg"
      "res = SyncOk \<lparr>resp_ID = StrID tp, resp_Error = err\<rparr>" "s' = note_delivery msg err (s\<lparr>k_broker := b\<rparr>)"
  using assms unfolding kafka_Publish_def
  by (auto split: option.splits sum.splits prod.splits kafka_event.splits intro: err event)

lemma kafka_PublishAsync_cases:
  assumes "kafka_PublishAsync lib o' r s = (res, s')"
  shows "k_delivered s' = k_delivered s" and "res \<noteq> AsyncCalled resp"
  using assms unfolding kafka_PublishAsync_def by (auto split: option.splits sum.splits prod.splits)

lemma kafka_Complete_eq:
  "kafka_Complete lib o' r s =
     (case newKafkaMessage o' r (Some r) of
        Inl err \<Rightarrow> (\<lparr>resp_ID = NoID, resp_Error = Some err\<rparr>, s)
      | Inr msg \<Rightarrow>
          (case k_report lib msg (k_broker s) of
             ((tp, err), b) \<Rightarrow>
               (\<lparr>resp_ID = StrID tp, resp_Error = err\<rparr>, note_delivery msg err (s\<lparr>k_broker := b\<rparr>))))"
  by (auto simp: kafka_Complete_def handle_event_def newKafkaMessage_opaque split: sum.split prod.split)

interpretation kafka: publisher "kafka_publisher lib o'" "kafka_taken o'" for lib :: "'b kafka_lib" and o'
proof unfold_locales
  fix ctx r q and s s' :: "'b kafka_state" and res ares resp
  let ?pub = "kafka_publisher lib o'"
  show "kafka_taken o' s' r"
    if "pub_Publish ?pub ctx r s = (SyncOk resp, s')" and "resp_Error resp = None"
    using that by (auto simp: kafka_publisher_def elim!: kafka_Publish_cases intro: kafka_taken_delivered)
  show "kafka_taken o' s' q" if "pub_Publish ?pub ctx r s = (res, s')" and "kafka_taken o' s q"
    using that by (auto simp: kafka_publisher_def elim!: kafka_Publish_cases
        intro: kafka_taken_note_delivery kafka_taken_same [THEN iffD2])
  show "kafka_taken o' s' r" if "pub_PublishAsync ?pub ctx r s = (AsyncCalled resp, s')"
    using that by (auto simp: kafka_publisher_def dest: kafka_PublishAsync_cases(2))
  show "kafka_taken o' s' q" if "pub_PublishAsync ?pub ctx r s = (ares, s')" and "kafka_taken o' s q"
    using that by (auto simp: kafka_publisher_def dest!: kafka_PublishAsync_cases(1) intro: kafka_taken_same [THEN iffD2])
  show "kafka_taken o' s' r" if "pub_Complete ?pub r s = (resp, s')" and "resp_Error resp = None"
    using that by (auto simp: kafka_publisher_def kafka_Complete_eq split: sum.splits prod.splits
        intro: kafka_taken_delivered)
  show "kafka_taken o' s' q" if "pub_Complete ?pub r s = (resp, s')" and "kafka_taken o' s q"
    using that by (auto simp: kafka_publisher_def kafka_Complete_eq split: sum.splits prod.splits
        intro: kafka_taken_note_delivery)
qed

section \<open>Facts\<close>

text \<open>There is a producer for each of the three QoS, and no other.\<close>

lemma newProducers_dom:
  "newProducers lib o' b = (Inr ps, b') \<Longrightarrow> map fst ps = [AT_MOST_ONCE, AT_LEAST_ONCE, EXACTLY_ONCE]"
  by (auto simp: newProducers_def Let_def split: prod.splits sum.splits)

text \<open>What the properties say of acknowledgements, for a \<open>SetKey\<close> that sets the key.\<close>

definition SetKey_law :: "'b kafka_lib \<Rightarrow> bool" where
  "SetKey_law lib \<longleftrightarrow> (\<forall>k v m. map_of (k_SetKey lib k v m) = (map_of m)(k \<mapsto> v))"

lemma kafka_props_acks:
  assumes "SetKey_law lib"
  shows "map_of (atMostOnceProps lib o') ''acks'' = Some ''0''"
    and "map_of (atLeastOnceProps lib o') ''acks'' = Some ''all''"
    and "map_of (exactlyOnceProps lib o') ''acks'' = Some ''all''"
    and "map_of (exactlyOnceProps lib o') ''enable.idempotence'' = Some ''true''"
  using assms by (simp_all add: SetKey_law_def atMostOnceProps_def atLeastOnceProps_def exactlyOnceProps_def)

lemma closeProducers_closed:
  "closeProducers lib ps b = (ps', b') \<Longrightarrow> map fst ps' = map fst ps \<and> (\<forall>p\<in>set ps'. kp_closed (snd p))"
  by (induction ps arbitrary: b ps' b') (fastforce simp: kafkaProducer_Close_def split: prod.splits if_splits)+

lemma closeProducers_again:
  "\<forall>p\<in>set ps. kp_closed (snd p) \<Longrightarrow> closeProducers lib ps b = (ps, b)"
  by (induction ps) (auto simp: kafkaProducer_Close_def)

end
