(* ===== verification/Example_Run.thy ===== *)
theory Example_Run
  imports Serve_Safety Noop_Publisher Kafka
begin

text \<open>
  A concrete connection, at which the properties about reachable states are applied: a client connects
  with MQTT 3.1.1 and publishes one message with QoS 1 to the noop publisher. The bytes are those of
  the wire.
\<close>

definition demo_input :: "byte list" where
  "demo_input =
     [0x10, 14, 0, 4, 77, 81, 84, 84, 4, 2, 0, 60, 0, 2, 99, 49,
      0x32, 6, 0, 1, 116, 0, 7, 120]"

definition demo_handler :: "noop_state MQTTHandler" where
  "demo_handler = New noop_publisher []"

definition demo_start :: "noop_state serve_state" where
  "demo_start = init_state 0 (Reader demo_input EOF) New_noop"

definition demo_actions :: "action list" where
  "demo_actions = [Read 0 1, Serve, Next True 0 1, Read 0 2, Serve]"

definition demo_state :: "noop_state serve_state" where
  "demo_state = the (run demo_handler demo_actions demo_start)"

definition demo_puback :: ControlPacket where
  "demo_puback = P311 (Puback311 ((new_Puback311 (zero_header PUBACK))\<lparr>Puback_MessageID311 := 7\<rparr>))"

definition demo_request :: PublishRequest where
  "demo_request =
     \<lparr>req_Dup = False, req_Qos = 1, req_Retain = False, req_TopicName = ''t'', req_MessageID = 7,
      req_Message = [120], req_ClientID = ''c1''\<rparr>"

lemma demo_run: "run demo_handler demo_actions demo_start = Some demo_state"
proof -
  have "run demo_handler demo_actions demo_start \<noteq> None"
    by code_simp
  then show ?thesis
    by (auto simp: demo_state_def)
qed

lemma demo_reachable:
  "reachable demo_handler (init_state 0 (Reader demo_input EOF) New_noop) demo_state"
  using reachable_run [OF demo_run] by (simp only: demo_start_def)

lemma demo_trace:
  "trace (world demo_state) = butlast (trace (world demo_state)) @ Sent demo_puback # []"
  by code_simp

lemma demo_called: "trace (world demo_state) = take 4 (trace (world demo_state)) @ PublishCalled demo_request #
    drop 5 (trace (world demo_state))"
  by code_simp

lemma demo_facts:
  "phase demo_state = Handled" "allowUnauthenticated (opts demo_handler) = []" "kind_of demo_puback = Some (RPuback 7)"
  "rwc_open (w_conn (world demo_state))" "bufw_err (w_conn (world demo_state)) = None"
  by code_simp+

lemma demo_publisher: "h_publisher demo_handler = noop_publisher"
  by (simp add: demo_handler_def New_def Let_def)

text \<open>
  The same client with the Kafka publisher, over a library that accepts every message and reports its
  delivery.
\<close>

definition demo_kafka_lib :: "unit kafka_lib" where
  "demo_kafka_lib =
     \<lparr>k_SetKey = (\<lambda>k v m. (k, v) # filter (\<lambda>e. fst e \<noteq> k) m),
      k_NewProducer = (\<lambda>_ b. (Inr 0, b)), k_CloseProducer = (\<lambda>_ b. b), k_Flush = (\<lambda>_ _ b. (0, b)),
      k_Produce = (\<lambda>_ _ _ b. (None, b)), k_await = (\<lambda>_ b. (Some (KMessage ''t[0]@0'' None None), b)),
      k_report = (\<lambda>_ b. ((''t[0]@0'', None), b))\<rparr>"

definition demo_kafka_options :: kafka_options where
  "demo_kafka_options =
     \<lparr>k_bootstrapServers = ''localhost:9092'', k_gracePeriod = 0, k_workers = 1, k_configMap = [],
      k_defaultTopic = ''events'', k_topicMappings = [], k_messageFormat = ''plain''\<rparr>"

definition demo_kafka_handler :: "unit kafka_state instrumented MQTTHandler" where
  "demo_kafka_handler = New (instrument_publisher (kafka_publisher demo_kafka_lib demo_kafka_options)) []"

definition demo_kafka_publisher_state :: "unit kafka_state instrumented" where
  "demo_kafka_publisher_state =
     (\<lparr>k_broker = (), k_producers = [(AT_MOST_ONCE, new_producer 0), (AT_LEAST_ONCE, new_producer 0),
         (EXACTLY_ONCE, new_producer 0)],
       k_inShutdown = False, k_workersDone = NewDoneChannel, k_delivered = []\<rparr>, [])"

definition demo_kafka_start :: "unit kafka_state instrumented serve_state" where
  "demo_kafka_start = init_state 0 (Reader demo_input EOF) demo_kafka_publisher_state"

definition demo_kafka_state :: "unit kafka_state instrumented serve_state" where
  "demo_kafka_state = the (run demo_kafka_handler demo_actions demo_kafka_start)"

lemma demo_kafka_run: "run demo_kafka_handler demo_actions demo_kafka_start = Some demo_kafka_state"
proof -
  have "run demo_kafka_handler demo_actions demo_kafka_start \<noteq> None"
    by code_simp
  then show ?thesis
    by (auto simp: demo_kafka_state_def)
qed

lemma demo_kafka_reachable:
  "reachable demo_kafka_handler (init_state 0 (Reader demo_input EOF) demo_kafka_publisher_state) demo_kafka_state"
  using reachable_run [OF demo_kafka_run] by (simp only: demo_kafka_start_def)

lemma demo_kafka_trace:
  "trace (world demo_kafka_state) = butlast (trace (world demo_kafka_state)) @ Sent demo_puback # []"
  by code_simp

lemma demo_kafka_publisher:
  "h_publisher demo_kafka_handler = instrument_publisher (kafka_publisher demo_kafka_lib demo_kafka_options)"
  by (simp add: demo_kafka_handler_def New_def Let_def)

end
