(* ===== verification/Session.thy ===== *)
theory Session
  imports Serve_Safety "HOL-Library.Multiset"
begin

text \<open>
  An abstract session: what a broker promises its client, as a ledger. Every event of a connection adds
  to the ledger or takes from it, and none may take what is not there. The connection of the model is
  shown to implement it.
\<close>

section \<open>The specification\<close>

text \<open>
  \<open>s_version\<close> is 0 before the first packet. The ledger has the user name and password of a CONNECT
  packet whose login is not decided, the messages that were received and not given to the publisher, the messages given to it
  that it did not confirm, and the responses that are owed.
\<close>

record session =
  s_version :: byte
  s_logged :: bool
  s_connect :: "(string \<times> string) option"
  s_requests :: "PublishRequest multiset"
  s_called :: "PublishRequest multiset"
  s_owed :: "response_kind multiset"

definition init_session :: session where
  "init_session = \<lparr>s_version = 0, s_logged = False, s_connect = None, s_requests = {#}, s_called = {#}, s_owed = {#}\<rparr>"

fun packet_login :: "ControlPacket \<Rightarrow> (string \<times> string) option" where
  "packet_login (P311 (Connect311 p)) = Some (Username311 p, string_of_bytes (Password311 p))"
| "packet_login (P5 (Connect5 p)) = Some (Username5 p, string_of_bytes (Password5 p))"
| "packet_login _ = None"

text \<open>A message without the name of its client, which the packet does not have.\<close>

definition content :: "PublishRequest \<Rightarrow> PublishRequest" where
  "content r = r\<lparr>req_ClientID := []\<rparr>"

fun packet_content :: "ControlPacket \<Rightarrow> PublishRequest option" where
  "packet_content (P311 (Publish311 p)) =
     Some \<lparr>req_Dup = Dup p, req_Qos = Qos p, req_Retain = Retain p, req_TopicName = TopicName311 p,
           req_MessageID = Publish_MessageID311 p, req_Message = Message311 p, req_ClientID = []\<rparr>"
| "packet_content (P5 (Publish5 p)) =
     Some \<lparr>req_Dup = Dup p, req_Qos = Qos p, req_Retain = Retain p, req_TopicName = TopicName5 p,
           req_MessageID = Publish_MessageID5 p, req_Message = Message5 p, req_ClientID = []\<rparr>"
| "packet_content _ = None"

definition mset_option :: "'a option \<Rightarrow> 'a multiset" where
  "mset_option x = (case x of None \<Rightarrow> {#} | Some a \<Rightarrow> {#a#})"

text \<open>The response that a packet is owed at once, and the one that a confirmed message is.\<close>

fun owed_at_once :: "ControlPacket \<Rightarrow> response_kind option" where
  "owed_at_once (P311 (Pubrel311 p)) = Some (RPubcomp (Pubrel_MessageID311 p))"
| "owed_at_once (P5 (Pubrel5 p)) = Some (RPubcomp (Pubrel_MessageID5 p))"
| "owed_at_once (P311 (Pingreq311 p)) = Some RPingresp"
| "owed_at_once (P5 (Pingreq5 p)) = Some RPingresp"
| "owed_at_once _ = None"

definition acknowledgement :: "PublishRequest \<Rightarrow> response_kind option" where
  "acknowledgement r =
     (if req_Qos r = AT_LEAST_ONCE then Some (RPuback (req_MessageID r))
      else if req_Qos r = EXACTLY_ONCE then Some (RPubrec (req_MessageID r))
      else None)"

text \<open>
  \<open>allow\<close> is whether messages are accepted from clients that are not logged in, and \<open>login\<close> decides on a user
  name and a password.
\<close>

type_synonym login = "string \<Rightarrow> string \<Rightarrow> go_error + byte"

fun session_step :: "bool \<Rightarrow> login \<Rightarrow> event \<Rightarrow> session \<Rightarrow> session option" where
  "session_step allow login (Received p) s =
     (if s_version s = Version p \<or> s_version s = 0 \<and> packet_login p \<noteq> None
      then Some (s\<lparr>s_version := Version p,
                   s_connect := packet_login p,
                   s_requests := s_requests s + mset_option (packet_content p),
                   s_owed := s_owed s + mset_option (owed_at_once p)\<rparr>)
      else None)"
| "session_step allow login (LoggedIn rc) s =
     (case s_connect s of
        None \<Rightarrow> None
      | Some (username, password) \<Rightarrow>
          if login username password = Inr rc
          then Some (s\<lparr>s_logged := (rc = Accepted), s_connect := None,
                       s_owed := s_owed s + {#RConnack (wire_return_code (s_version s) rc)#}\<rparr>)
          else None)"
| "session_step allow login (PublishCalled r) s =
     (if (s_logged s \<or> allow) \<and> content r \<in># s_requests s
      then Some (s\<lparr>s_requests := s_requests s - {#content r#}, s_called := s_called s + {#r#}\<rparr>)
      else None)"
| "session_step allow login (Confirmed r) s =
     (if r \<in># s_called s
      then Some (s\<lparr>s_called := s_called s - {#r#}, s_owed := s_owed s + mset_option (acknowledgement r)\<rparr>)
      else None)"
| "session_step allow login (Sent p) s =
     (case kind_of p of
        None \<Rightarrow> None
      | Some k \<Rightarrow>
          if k \<in># s_owed s \<and> Version p = s_version s
          then Some (s\<lparr>s_owed := s_owed s - {#k#}\<rparr>) else None)"
| "session_step allow login (Refused p) s = Some s"
| "session_step allow login Closed s = Some s"

fun session_run :: "bool \<Rightarrow> login \<Rightarrow> event list \<Rightarrow> session \<Rightarrow> session option" where
  "session_run allow login [] s = Some s"
| "session_run allow login (e # es) s =
     (case session_step allow login e s of None \<Rightarrow> None | Some s \<Rightarrow> session_run allow login es s)"

lemma session_run_append:
  "session_run allow login (xs @ ys) s =
     (case session_run allow login xs s of None \<Rightarrow> None | Some s \<Rightarrow> session_run allow login ys s)"
  by (induction xs arbitrary: s) (auto split: option.split)

lemma session_run_snoc:
  "session_run allow login es s = Some s' \<Longrightarrow> session_run allow login (es @ [e]) s = session_step allow login e s'"
  by (simp add: session_run_append split: option.split)

text \<open>Before the first packet the ledger is empty.\<close>

lemma Version_nonzero: "Version p \<noteq> 0"
  by (cases p) (simp_all add: Version311_def Version5_def MQTT_3_1_1_def MQTT_5_def)

lemma session_step_fresh:
  assumes "session_step allow login e s = Some s'" and "s_version s = 0 \<longrightarrow> s_requests s = {#} \<and> s_called s = {#}"
  shows "s_version s' = 0 \<longrightarrow> s_requests s' = {#} \<and> s_called s' = {#}"
  using assms by (cases e) (auto simp: Version_nonzero split: if_splits option.splits)

lemma session_run_fresh:
  assumes "session_run allow login es s = Some s'" and "s_version s = 0 \<longrightarrow> s_requests s = {#} \<and> s_called s = {#}"
  shows "s_version s' = 0 \<longrightarrow> s_requests s' = {#} \<and> s_called s' = {#}"
  using assms
proof (induction es arbitrary: s)
  case (Cons e es)
  then obtain t where "session_step allow login e s = Some t" "session_run allow login es t = Some s'"
    by (auto split: option.splits)
  with Cons.IH [of t] Cons.prems(2) session_step_fresh [of allow login e s t] show ?case
    by simp
qed simp

section \<open>The simulation\<close>

text \<open>
  A callback that waits belongs to a message that was given to the publisher, and sends the
  acknowledgement that it is owed.
\<close>

definition callback_fits :: "byte \<Rightarrow> PublishRequest \<Rightarrow> publish_callback \<Rightarrow> bool" where
  "callback_fits v r cb \<longleftrightarrow>
     (case cb of
        NoResponse \<Rightarrow> True
      | PubackCallback p \<Rightarrow> req_Qos r = AT_LEAST_ONCE \<and> is_publish p \<and> Version p = v
      | PubrecCallback p \<Rightarrow> req_Qos r = EXACTLY_ONCE \<and> is_publish p \<and> Version p = v)"

text \<open>\<open>extra\<close> is the messages whose callbacks are about to run.\<close>

definition sim :: "bool \<Rightarrow> login \<Rightarrow> PublishRequest multiset \<Rightarrow> session \<Rightarrow> 's world \<Rightarrow> bool" where
  "sim allow login extra \<sigma> w \<longleftrightarrow>
     session_run allow login (trace w) init_session = Some \<sigma> \<and>
     s_version \<sigma> = ProtocolVersion (props (w_conn w)) \<and>
     s_logged \<sigma> = authenticated (props (w_conn w)) \<and>
     mset (map fst (pending w)) + extra \<subseteq># s_called \<sigma> \<and>
     (\<forall>(r, cb) \<in> set (pending w). callback_fits (ProtocolVersion (props (w_conn w))) r cb)"

text \<open>What the ledger must have for a packet that is being handled.\<close>

definition ticket :: "ControlPacket \<Rightarrow> session \<Rightarrow> bool" where
  "ticket p \<sigma> \<longleftrightarrow>
     Version p = s_version \<sigma> \<and> s_connect \<sigma> = packet_login p \<and>
     mset_option (packet_content p) \<subseteq># s_requests \<sigma> \<and> mset_option (owed_at_once p) \<subseteq># s_owed \<sigma>"

text \<open>A later ledger that kept the tickets of an earlier one.\<close>

definition keeps :: "session \<Rightarrow> session \<Rightarrow> bool" where
  "keeps \<sigma> \<sigma>' \<longleftrightarrow>
     s_version \<sigma>' = s_version \<sigma> \<and> s_logged \<sigma>' = s_logged \<sigma> \<and> s_connect \<sigma>' = s_connect \<sigma> \<and>
     s_requests \<sigma>' = s_requests \<sigma> \<and> s_owed \<sigma> \<subseteq># s_owed \<sigma>'"

lemma keeps_refl [simp]: "keeps \<sigma> \<sigma>"
  by (simp add: keeps_def)

lemma ticket_keeps: "ticket p \<sigma> \<Longrightarrow> keeps \<sigma> \<sigma>' \<Longrightarrow> ticket p \<sigma>'"
  by (auto simp: ticket_def keeps_def intro: subset_mset.order_trans)

lemma sim_same:
  assumes "sim allow login extra \<sigma> w" and "trace w' = trace w" and "pending w' = pending w"
    and "ProtocolVersion (props (w_conn w')) = ProtocolVersion (props (w_conn w))"
    and "authenticated (props (w_conn w')) = authenticated (props (w_conn w))"
  shows "sim allow login extra \<sigma> w'"
  using assms by (simp add: sim_def)

lemma sim_event:
  assumes "sim allow login extra \<sigma> w" and "session_step allow login e \<sigma> = Some \<sigma>'"
    and "s_version \<sigma>' = s_version \<sigma>" and "s_logged \<sigma>' = s_logged \<sigma>"
    and "mset (map fst (pending w)) + extra' \<subseteq># s_called \<sigma>'"
  shows "sim allow login extra' \<sigma>' (note_event e w)"
  using assms by (simp add: sim_def session_run_snoc)

lemma sim_Close: "sim allow login extra \<sigma> w \<Longrightarrow> sim allow login extra \<sigma> (conn_Close w)"
  unfolding conn_Close_def
  by (rule sim_event) (auto simp: sim_def response_Close_def)

lemma response_Write_props: "response_Write b c = (err, c') \<Longrightarrow> props c' = props c"
  by (cases err) (auto dest: response_Write_None response_Write_Some)

lemma sim_packet_Write:
  assumes s: "sim allow login extra \<sigma> w" and res: "is_response p k res" "Version p = s_version \<sigma>" and k: "k \<in># s_owed \<sigma>"
  obtains \<sigma>' where "sim allow login extra \<sigma>' (snd (packet_Write res w))"
    and "\<sigma>' = \<sigma> \<or> \<sigma>' = \<sigma>\<lparr>s_owed := s_owed \<sigma> - {#k#}\<rparr>"
proof (cases "response_Write (snd (Write res)) (w_conn w)")
  case (Pair err c)
  note c = response_Write_props [OF Pair]
  have same: "sim allow login extra \<sigma> (w\<lparr>w_conn := c\<rparr>)"
    using s by (rule sim_same) (simp_all add: c)
  show thesis
  proof (cases err)
    case None
    from res k have "session_step allow login (Sent res) \<sigma> = Some (\<sigma>\<lparr>s_owed := s_owed \<sigma> - {#k#}\<rparr>)"
      by (simp add: is_response_def)
    with same have "sim allow login extra (\<sigma>\<lparr>s_owed := s_owed \<sigma> - {#k#}\<rparr>) (note_event (Sent res) (w\<lparr>w_conn := c\<rparr>))"
      by (rule sim_event) (use same in \<open>simp_all add: sim_def\<close>)
    with None Pair show thesis
      by (intro that [of "\<sigma>\<lparr>s_owed := s_owed \<sigma> - {#k#}\<rparr>"]) (simp_all add: packet_Write_def)
  next
    case (Some e)
    with same Pair show thesis
      by (intro that [of \<sigma>]) (simp_all add: packet_Write_def)
  qed
qed

lemma sim_respond:
  assumes "sim allow login extra \<sigma> w" and "is_response p k res" and "Version p = s_version \<sigma>" and "k \<in># s_owed \<sigma>"
  obtains \<sigma>' where "sim allow login extra \<sigma>' (respond res w)" and "\<sigma>' = \<sigma> \<or> \<sigma>' = \<sigma>\<lparr>s_owed := s_owed \<sigma> - {#k#}\<rparr>"
proof -
  obtain \<sigma>' where *: "sim allow login extra \<sigma>' (snd (packet_Write res w))" "\<sigma>' = \<sigma> \<or> \<sigma>' = \<sigma>\<lparr>s_owed := s_owed \<sigma> - {#k#}\<rparr>"
    using assms by (rule sim_packet_Write)
  have "sim allow login extra \<sigma>' (respond res w)"
    by (rule sim_same [OF *(1)]) (auto simp: respond_def split: prod.split option.split)
  then show thesis
    using *(2) by (rule that)
qed

section \<open>The handlers implement the session\<close>

text \<open>
  The acknowledgement of a confirmed message is owed from then on, and sent at once unless the write fails.
\<close>

lemma sim_acknowledge:
  assumes s: "sim allow login (extra + {#r#}) \<sigma> w" and k: "acknowledgement r = Some k"
    and p: "Version p = s_version \<sigma>" "is_response p k res"
  obtains \<sigma>' where "sim allow login extra \<sigma>' (respond res (note_event (Confirmed r) w))" and "keeps \<sigma> \<sigma>'"
proof -
  let ?\<sigma> = "\<sigma>\<lparr>s_called := s_called \<sigma> - {#r#}, s_owed := s_owed \<sigma> + {#k#}\<rparr>"
  from s have sub: "mset (map fst (pending w)) + extra + {#r#} \<subseteq># s_called \<sigma>"
    by (simp add: sim_def ac_simps)
  then have "mset (map fst (pending w)) + extra \<subseteq># s_called \<sigma> - {#r#}" and r: "r \<in># s_called \<sigma>"
    by (simp_all add: insert_subset_eq_iff)
  moreover from r k have "session_step allow login (Confirmed r) \<sigma> = Some ?\<sigma>"
    by (simp add: mset_option_def)
  ultimately have confirmed: "sim allow login extra ?\<sigma> (note_event (Confirmed r) w)"
    by (intro sim_event [OF s]) simp_all
  have owed: "Version p = s_version ?\<sigma>" "k \<in># s_owed ?\<sigma>"
    using p(1) by simp_all
  obtain \<sigma>' where "sim allow login extra \<sigma>' (respond res (note_event (Confirmed r) w))"
      "\<sigma>' = ?\<sigma> \<or> \<sigma>' = ?\<sigma>\<lparr>s_owed := s_owed ?\<sigma> - {#k#}\<rparr>"
    by (rule sim_respond [OF confirmed p(2) owed])
  then show thesis
    by (intro that [of \<sigma>']) (auto simp: keeps_def)
qed

lemma sim_drop: "sim allow login (extra + {#r#}) \<sigma> w \<Longrightarrow> sim allow login extra \<sigma> w"
  by (auto simp: sim_def dest: mset_subset_eq_insertD subset_mset.less_imp_le)

lemma sim_run_callback:
  assumes s: "sim allow login (extra + {#r#}) \<sigma> w" and cb: "callback_fits (s_version \<sigma>) r cb"
  obtains \<sigma>' where "sim allow login extra \<sigma>' (run_callback cb r resp w)" and "keeps \<sigma> \<sigma>'"
proof (cases "cb = NoResponse \<or> resp_Error resp \<noteq> None")
  case True
  then have "run_callback cb r resp w = w"
    by (auto simp: run_callback_def split: publish_callback.split)
  with sim_drop [OF s] show thesis
    by (intro that [of \<sigma>]) simp_all
next
  case False
  with cb consider
      (ack) p where "cb = PubackCallback p" "req_Qos r = AT_LEAST_ONCE" "is_publish p" "Version p = s_version \<sigma>"
    | (rec) p where "cb = PubrecCallback p" "req_Qos r = EXACTLY_ONCE" "is_publish p" "Version p = s_version \<sigma>"
    by (cases cb) (auto simp: callback_fits_def)
  then show thesis
  proof cases
    case ack
    obtain res where res: "getPublishAck p (req_MessageID r) = Inr res" "is_response p (RPuback (req_MessageID r)) res"
      by (rule getPublishAck_response [OF ack(3)])
    obtain \<sigma>' where "sim allow login extra \<sigma>' (respond res (note_event (Confirmed r) w))" "keeps \<sigma> \<sigma>'"
      by (rule sim_acknowledge [OF s _ ack(4) res(2)]) (simp add: acknowledgement_def ack(2))
    with ack(1) False res(1) show thesis
      by (intro that [of \<sigma>']) (simp_all add: run_callback_def)
  next
    case rec
    obtain res where res: "getPublishRec p (req_MessageID r) = Inr res" "is_response p (RPubrec (req_MessageID r)) res"
      by (rule getPublishRec_response [OF rec(3)])
    obtain \<sigma>' where "sim allow login extra \<sigma>' (respond res (note_event (Confirmed r) w))" "keeps \<sigma> \<sigma>'"
      by (rule sim_acknowledge [OF s _ rec(4) res(2)]) (simp add: acknowledgement_def rec(2) AT_LEAST_ONCE_def EXACTLY_ONCE_def)
    with rec(1) False res(1) show thesis
      by (intro that [of \<sigma>']) (simp_all add: run_callback_def)
  qed
qed

lemma getPublishRequest_content:
  "getPublishRequest w packet = Inr r \<Longrightarrow> packet_content packet = Some (content r)"
  by (cases packet rule: is_publish.cases) (auto simp: getPublishRequest_def content_def)

lemma sim_doPublish:
  assumes s: "sim allow login {#} \<sigma> w" and call: "s_logged \<sigma> \<or> allow" "content r \<in># s_requests \<sigma>"
    and cb: "callback_fits (s_version \<sigma>) r cb"
  obtains \<sigma>' where "sim allow login {#} \<sigma>' (snd (doPublish h ctx r cb w))"
proof -
  let ?\<sigma> = "\<sigma>\<lparr>s_requests := s_requests \<sigma> - {#content r#}, s_called := s_called \<sigma> + {#r#}\<rparr>"
  let ?w = "note_event (PublishCalled r) w"
  have "session_step allow login (PublishCalled r) \<sigma> = Some ?\<sigma>"
    using call by simp
  then have w: "sim allow login ({#} + {#r#}) ?\<sigma> ?w"
    using s by (intro sim_event [OF s]) (simp_all add: sim_def)
  have p: "sim allow login ({#} + {#r#}) ?\<sigma> (?w\<lparr>w_pub := x\<rparr>)" for x
    by (rule sim_same [OF w]) simp_all
  have failed: "sim allow login {#} ?\<sigma> (?w\<lparr>w_pub := x\<rparr>)" for x
    by (rule sim_drop [OF p])
  have panic: "sim allow login {#} ?\<sigma> (?w\<lparr>w_pub := x, panicked := True\<rparr>)" for x
    by (rule sim_same [OF failed]) simp_all
  have queued: "sim allow login {#} ?\<sigma> (?w\<lparr>w_pub := x, pending := pending w @ [(r, cb)]\<rparr>)" for x
    using w cb s by (simp add: sim_def)
  have called: "\<exists>\<sigma>'. sim allow login {#} \<sigma>' (run_callback cb r resp (?w\<lparr>w_pub := x\<rparr>))" for resp x
    by (rule sim_run_callback [OF p [of x], of cb resp]) (use cb in auto)
  have "\<exists>\<sigma>'. sim allow login {#} \<sigma>' (snd (doPublish h ctx r cb w))"
    using failed panic queued called
    by (auto simp: doPublish_def Let_def split: prod.split sync_result.split async_result.split)
  then show thesis
    using that by blast
qed

lemma sim_disconnectUnauthenticated:
  "sim allow login extra \<sigma> w \<Longrightarrow> sim allow login extra \<sigma> (snd (disconnectUnauthenticated h nm w))"
  by (simp add: disconnectUnauthenticated_def sim_Close)

lemma sim_handlePublish:
  assumes s: "sim allow login {#} \<sigma> w" and t: "ticket packet \<sigma>"
    and allow: "''PUBLISH'' \<in> set (allowUnauthenticated (opts h)) \<longrightarrow> allow"
  obtains \<sigma>' where "sim allow login {#} \<sigma>' (handlePublish h packet w)"
proof (cases "getPublishRequest w packet")
  case (Inl e)
  with sim_Close [OF s] show thesis
    by (intro that [of \<sigma>]) (simp add: handlePublish_def)
next
  case (Inr r)
  note p = getPublishRequest_Inr [OF Inr] getPublishRequest_content [OF Inr]
  obtain b w' where d: "disconnectUnauthenticated h (Name packet) w = (b, w')"
    by (cases "disconnectUnauthenticated h (Name packet) w")
  show thesis
  proof (cases b)
    case True
    with Inr d sim_disconnectUnauthenticated [OF s, of h "Name packet"] show thesis
      by (intro that [of \<sigma>]) (simp add: handlePublish_def)
  next
    case False
    with d allow s have w': "w' = w" and l: "s_logged \<sigma> \<or> allow"
      by (auto dest!: disconnectUnauthenticated_False simp: Name_publish [OF p(1)] sim_def)
    have c: "content r \<in># s_requests \<sigma>"
      using t p(2) by (simp add: ticket_def mset_option_def)
    have "\<exists>\<sigma>'. sim allow login {#} \<sigma>' (case doPublish h (publish_context h) r cb w of
        (None, w) \<Rightarrow> w | (Some _, w) \<Rightarrow> if q then w else conn_Close w)"
      if fits: "callback_fits (s_version \<sigma>) r cb" for cb q
    proof -
      obtain \<sigma>' where "sim allow login {#} \<sigma>' (snd (doPublish h (publish_context h) r cb w))"
        by (rule sim_doPublish [OF s l c fits])
      then show ?thesis
        by (intro exI [of _ \<sigma>']) (auto simp: sim_Close split: prod.split option.split)
    qed
    moreover have "Version packet = s_version \<sigma>"
      using t by (simp add: ticket_def)
    ultimately have "\<exists>\<sigma>'. sim allow login {#} \<sigma>' (handlePublish h packet w)"
      using s p(1) Inr d False w' by (auto simp: handlePublish_def callback_fits_def)
    then show thesis
      using that by blast
  qed
qed

lemma sim_handleConnect:
  assumes s: "sim allow (loginUser h) {#} \<sigma> w" and t: "ticket packet \<sigma>"
  obtains \<sigma>' where "sim allow (loginUser h) {#} \<sigma>' (handleConnect h packet w)"
proof (cases "getConnectData packet")
  case (Inl e)
  with sim_Close [OF s] show thesis
    by (intro that [of \<sigma>]) (simp add: handleConnect_def)
next
  case (Inr d)
  obtain u pw cid ka where d: "d = (u, pw, cid, ka)"
    by (cases d) auto
  from Inr have c: "is_connect packet"
    by (cases packet rule: getConnectData.cases) simp_all
  show thesis
  proof (cases "loginUser h u pw")
    case (Inl e)
    with Inr d sim_Close [OF s] show thesis
      by (intro that [of \<sigma>]) (simp add: handleConnect_def)
  next
    case (Inr rc)
    let ?k = "RConnack (wire_return_code (s_version \<sigma>) rc)"
    let ?\<sigma> = "\<sigma>\<lparr>s_logged := (rc = Accepted), s_connect := None, s_owed := s_owed \<sigma> + {#?k#}\<rparr>"
    define w1 where "w1 = note_event (LoggedIn rc) w"
    define w2 where "w2 = (if ka > 0 then update_props (SetIdleTimeout (keepAliveTimeout ka)) w1 else w1)"
    define w3 where "w3 = update_props (SetClientIdentifier cid) (update_props (SetAuthenticated (rc = Accepted)) w2)"
    have w3_simps: "trace w3 = trace w @ [LoggedIn rc]" "pending w3 = pending w"
        "ProtocolVersion (props (w_conn w3)) = ProtocolVersion (props (w_conn w))"
        "authenticated (props (w_conn w3)) = (rc = Accepted)"
      by (simp_all add: w3_def w2_def w1_def)
    have "packet_login packet = Some (u, pw)"
      using \<open>getConnectData packet = Inr d\<close> d by (cases packet rule: getConnectData.cases) auto
    then have "session_step allow (loginUser h) (LoggedIn rc) \<sigma> = Some ?\<sigma>"
      using t Inr by (simp add: ticket_def)
    with s have w3: "sim allow (loginUser h) {#} ?\<sigma> w3"
      by (simp add: sim_def w3_simps session_run_snoc)
    have version: "Version packet = s_version ?\<sigma>" and owed: "?k \<in># s_owed ?\<sigma>"
      using t by (simp_all add: ticket_def)
    obtain res where res: "getConnectAck packet rc = Inr res" "is_response packet ?k res"
      using getConnectAck_response [OF c, of rc] version by auto
    obtain \<sigma>' where "sim allow (loginUser h) {#} \<sigma>' (respond res w3)"
      by (rule sim_respond [OF w3 res(2) version owed])
    moreover have "handleConnect h packet w =
        (if rc \<noteq> Accepted then conn_Close (respond res w3) else respond res w3)"
      using \<open>getConnectData packet = Inr d\<close> d Inr res(1)
      by (simp add: handleConnect_def Let_def w3_def w2_def w1_def)
    ultimately show thesis
      using that [of \<sigma>'] by (simp add: sim_Close)
  qed
qed

lemma sim_reply:
  assumes s: "sim allow login {#} \<sigma> w" and t: "ticket packet \<sigma>"
    and res: "is_response packet k res" "owed_at_once packet = Some k"
  obtains \<sigma>' where "sim allow login {#} \<sigma>' (snd (packet_Write res w))"
proof -
  have "Version packet = s_version \<sigma>" and "k \<in># s_owed \<sigma>"
    using t res(2) by (simp_all add: ticket_def mset_option_def)
  then obtain \<sigma>' where "sim allow login {#} \<sigma>' (snd (packet_Write res w))"
    by (rule sim_packet_Write [OF s res(1)])
  then show thesis
    by (rule that)
qed

lemma owed_at_once_PUBREL: "request_message_id packet = Some m \<Longrightarrow> owed_at_once packet = Some (RPubcomp m)"
  by (cases packet rule: request_message_id.cases) simp_all

lemma owed_at_once_PINGREQ: "getPingResp packet = Some res \<Longrightarrow> owed_at_once packet = Some RPingresp"
  by (auto simp: getPingResp_def split: ControlPacket.splits ControlPacket311.splits ControlPacket5.splits)

lemma sim_ServeMQTT:
  assumes s: "sim allow (loginUser h) {#} \<sigma> w" and t: "ticket packet \<sigma>"
    and allow: "''PUBLISH'' \<in> set (allowUnauthenticated (opts h)) \<longrightarrow> allow"
  obtains \<sigma>' where "sim allow (loginUser h) {#} \<sigma>' (ServeMQTT h packet w)"
proof -
  let ?w = "w\<lparr>requestsTotal := inc (packet_labels packet) (requestsTotal w)\<rparr>"
  have w: "sim allow (loginUser h) {#} \<sigma> ?w"
    by (rule sim_same [OF s]) simp_all
  note closed = sim_Close [OF w]
  have "\<exists>\<sigma>'. sim allow (loginUser h) {#} \<sigma>' (run_handler h hid packet ?w)" for hid
  proof (cases hid)
    case HConnect
    obtain \<sigma>' where "sim allow (loginUser h) {#} \<sigma>' (handleConnect h packet ?w)"
      by (rule sim_handleConnect [OF w t])
    with HConnect show ?thesis by auto
  next
    case HPublish
    obtain \<sigma>' where "sim allow (loginUser h) {#} \<sigma>' (handlePublish h packet ?w)"
      by (rule sim_handlePublish [OF w t allow])
    with HPublish show ?thesis by auto
  next
    case HPublishRelease
    have "\<exists>\<sigma>'. sim allow (loginUser h) {#} \<sigma>' (snd (packet_Write res ?w))" if comp: "getPublishComp packet = Inr res" for res
    proof -
      obtain m where "request_message_id packet = Some m" "is_response packet (RPubcomp m) res"
        using getPublishComp_Inr [OF comp] by blast
      then show ?thesis
        using sim_reply [OF w t] owed_at_once_PUBREL by blast
    qed
    with HPublishRelease w closed show ?thesis
      by (auto simp: handlePublishRelease_def disconnectUnauthenticated_def split: sum.split)
  next
    case HPing
    have "\<exists>\<sigma>'. sim allow (loginUser h) {#} \<sigma>' (snd (packet_Write res ?w))" if ping: "getPingResp packet = Some res" for res
      using sim_reply [OF w t getPingResp_response [OF ping] owed_at_once_PINGREQ [OF ping]] by blast
    with HPing w closed show ?thesis
      by (auto simp: handlePing_def disconnectUnauthenticated_def split: option.split)
  qed (use w closed in \<open>auto simp: handleDisconnect_def\<close>)
  then have "\<exists>\<sigma>'. sim allow (loginUser h) {#} \<sigma>' (ServeMQTT h packet w)"
    using closed by (auto simp: ServeMQTT_def mux_ServeMQTT_def split: option.split)
  then show thesis
    using that by blast
qed

section \<open>Every step of the connection\<close>

definition session_ok :: "bool \<Rightarrow> login \<Rightarrow> 's serve_state \<Rightarrow> bool" where
  "session_ok allow login s \<longleftrightarrow>
     (\<exists>\<sigma>. sim allow login {#} \<sigma> (world s) \<and> (\<forall>p. phase s = Handling p \<longrightarrow> ticket p \<sigma>))"

lemma session_okI:
  assumes "sim allow login {#} \<sigma> (world s)" and "\<And>p. phase s = Handling p \<Longrightarrow> ticket p \<sigma>"
  shows "session_ok allow login s"
  using assms unfolding session_ok_def by blast

lemma session_okE:
  assumes "session_ok allow login s"
  obtains \<sigma> where "sim allow login {#} \<sigma> (world s)" and "\<And>p. phase s = Handling p \<Longrightarrow> ticket p \<sigma>"
  using assms unfolding session_ok_def by blast

lemma sim_set_state: "sim allow login extra \<sigma> w \<Longrightarrow> sim allow login extra \<sigma> (set_state now st w)"
  by (erule sim_same) simp_all

lemma sim_finish: "sim allow login extra \<sigma> w \<Longrightarrow> sim allow login extra \<sigma> (finish now w)"
  by (simp add: finish_def sim_set_state sim_Close)

lemma sim_refuse:
  assumes "sim allow login extra \<sigma> w"
  shows "sim allow login extra \<sigma> (refuse e w)"
proof (cases "error_response e")
  case None
  with sim_Close [OF assms] show ?thesis
    by (simp add: refuse_def)
next
  case (Some res)
  let ?w = "w\<lparr>w_conn := snd (rwc_Write (snd (Write res)) (w_conn w))\<rparr>"
  have "sim allow login extra \<sigma> ?w"
    using assms by (rule sim_same) (auto simp: rwc_Write_def split: option.split)
  then have "sim allow login extra \<sigma> (note_event (Refused res) ?w)"
    by (rule sim_event) (use assms in \<open>auto simp: sim_def\<close>)
  with Some sim_Close show ?thesis
    by (simp add: refuse_def)
qed

lemma connect_level_login: "connect_level p = Some v \<Longrightarrow> packet_login p \<noteq> None"
  by (cases p rule: is_connect.cases) auto

lemma session_ok_received:
  assumes s: "sim allow login {#} \<sigma> w" and r: "readRequest k (w_conn w) = Inr (req, c)"
  obtains \<sigma>' where "sim allow login {#} \<sigma>' (note_event (Received req) (set_state now st (w\<lparr>w_conn := c\<rparr>)))"
    and "ticket req \<sigma>'"
proof -
  note r = readRequest_Inr [OF r]
  let ?\<sigma> = "\<sigma>\<lparr>s_version := Version req, s_connect := packet_login req,
      s_requests := s_requests \<sigma> + mset_option (packet_content req),
      s_owed := s_owed \<sigma> + mset_option (owed_at_once req)\<rparr>"
  have v: "s_version \<sigma> = ProtocolVersion (props (w_conn w))"
    using s by (simp add: sim_def)
  have "s_version \<sigma> = Version req \<or> s_version \<sigma> = 0 \<and> packet_login req \<noteq> None"
    using r(8,9) by (cases "ProtocolVersion (props (w_conn w)) = 0") (auto simp: v dest: connect_level_login)
  then have step: "session_step allow login (Received req) \<sigma> = Some ?\<sigma>"
    by simp
  have "pending w = []" if "s_version \<sigma> = 0"
    using session_run_fresh [of allow login "trace w" init_session \<sigma>] s that by (simp add: sim_def init_session_def)
  with s v \<open>s_version \<sigma> = Version req \<or> s_version \<sigma> = 0 \<and> packet_login req \<noteq> None\<close>
  have "\<forall>(r, cb)\<in>set (pending w). callback_fits (Version req) r cb"
    by (auto simp: sim_def)
  with s step have "sim allow login {#} ?\<sigma> (note_event (Received req) (set_state now st (w\<lparr>w_conn := c\<rparr>)))"
    by (simp add: sim_def session_run_snoc r(1,2) set_state_def)
  then show thesis
    by (rule that) (simp add: ticket_def)
qed

lemma sim_deliver:
  assumes s: "sim allow login {#} \<sigma> w" and i: "i < length (pending w)"
  obtains \<sigma>' where "sim allow login {#} \<sigma>' (deliver h i w)" and "keeps \<sigma> \<sigma>'"
proof -
  obtain r cb where p: "pending w ! i = (r, cb)"
    by (cases "pending w ! i")
  obtain resp ps where c: "pub_Complete (h_publisher h) r (w_pub w) = (resp, ps)"
    by (cases "pub_Complete (h_publisher h) r (w_pub w)")
  let ?rest = "take i (pending w) @ drop (i + 1) (pending w)"
  let ?w = "w\<lparr>w_pub := ps, pending := ?rest\<rparr>"
  have split: "pending w = take i (pending w) @ (r, cb) # drop (i + 1) (pending w)"
    using i p by (simp add: id_take_nth_drop [symmetric] flip: p)
  have "mset (map fst (pending w)) = mset (map fst (take i (pending w) @ (r, cb) # drop (i + 1) (pending w)))"
    using split by (rule arg_cong)
  also have "\<dots> = mset (map fst ?rest) + {#r#}"
    by simp
  finally have "mset (map fst (pending w)) = mset (map fst ?rest) + {#r#}" .
  moreover have "set ?rest \<subseteq> set (pending w)"
    using set_take_subset set_drop_subset by fastforce
  ultimately have "sim allow login ({#} + {#r#}) \<sigma> ?w"
    using s by (auto simp: sim_def)
  moreover have "callback_fits (s_version \<sigma>) r cb"
    using s i p nth_mem [OF i] by (auto simp: sim_def)
  ultimately obtain \<sigma>' where "sim allow login {#} \<sigma>' (run_callback cb r resp ?w)" "keeps \<sigma> \<sigma>'"
    by (rule sim_run_callback)
  then show thesis
    by (intro that [of \<sigma>']) (simp_all add: deliver_def p c)
qed

lemma session_ok_step:
  assumes "session_ok allow (loginUser h) s" and step: "step h a s = Some s'"
    and allow: "''PUBLISH'' \<in> set (allowUnauthenticated (opts h)) \<longrightarrow> allow"
  shows "session_ok allow (loginUser h) s'"
proof -
  from assms(1) obtain \<sigma> where s: "sim allow (loginUser h) {#} \<sigma> (world s)" and t: "\<And>p. phase s = Handling p \<Longrightarrow> ticket p \<sigma>"
    by (rule session_okE) blast
  show ?thesis
  proof (cases a)
    case (Read k now)
    have w: "sim allow (loginUser h) {#} \<sigma> (set_state now StateActive (world s))"
      using s by (rule sim_set_state)
    show ?thesis
    proof (cases "readRequest k (w_conn (world s))")
      case (Inl e)
      with step Read sim_finish [OF sim_refuse [OF w]] show ?thesis
        by (auto split: if_splits intro!: session_okI)
    next
      case (Inr x)
      obtain req c where x: "x = (req, c)"
        by (cases x)
      obtain \<sigma>' where "ticket req \<sigma>'"
          "sim allow (loginUser h) {#} \<sigma>' (note_event (Received req) (set_state now StateActive ((world s)\<lparr>w_conn := c\<rparr>)))"
        by (rule session_ok_received [OF s Inr [unfolded x]])
      with step Read Inr x show ?thesis
        by (auto split: if_splits intro!: session_okI [of allow "loginUser h" \<sigma>'])
    qed
  next
    case Serve
    with step obtain req where req: "phase s = Handling req"
      by (auto split: phase.splits)
    obtain \<sigma>' where "sim allow (loginUser h) {#} \<sigma>' (ServeMQTT h req (world s))"
      by (rule sim_ServeMQTT [OF s t [OF req] allow])
    with step Serve req sim_finish show ?thesis
      by (auto simp: Let_def split: if_splits intro!: session_okI [of allow "loginUser h" \<sigma>'])
  next
    case (Next p k now)
    have w: "sim allow (loginUser h) {#} \<sigma> (set_state now StateIdle (world s))"
      using s by (rule sim_set_state)
    have b: "sim allow (loginUser h) {#} \<sigma> ((set_state now StateIdle (world s))\<lparr>w_conn := (w_conn (set_state now StateIdle (world s)))\<lparr>buffered := n\<rparr>\<rparr>)" for n
      by (rule sim_same [OF w]) simp_all
    from step Next w b sim_finish [OF w] show ?thesis
      by (auto simp: Let_def split: if_splits intro!: session_okI [of allow "loginUser h" \<sigma>])
  next
    case (Deliver i)
    with step have i: "i < length (pending (world s))" and s': "s' = s\<lparr>world := deliver h i (world s)\<rparr>"
      by (auto split: if_splits)
    obtain \<sigma>' where "sim allow (loginUser h) {#} \<sigma>' (deliver h i (world s))" and keeps: "keeps \<sigma> \<sigma>'"
      by (rule sim_deliver [OF s i])
    then show ?thesis
      by (intro session_okI [of allow "loginUser h" \<sigma>']) (auto simp: s' dest: t intro: ticket_keeps [OF _ keeps])
  next
    case (Cut k e)
    have "sim allow (loginUser h) {#} \<sigma> ((world s)\<lparr>w_conn := (w_conn (world s))\<lparr>bufr := r\<rparr>\<rparr>)" for r
      by (rule sim_same [OF s]) simp_all
    with step Cut t show ?thesis
      by (auto simp: Let_def split: if_splits intro!: session_okI [of allow "loginUser h" \<sigma>])
  next
    case (Stall n)
    have "sim allow (loginUser h) {#} \<sigma> ((world s)\<lparr>w_conn := (w_conn (world s))\<lparr>rwc_budget := b\<rparr>\<rparr>)" for b
      by (rule sim_same [OF s]) simp_all
    with step Stall t show ?thesis
      by (auto intro!: session_okI [of allow "loginUser h" \<sigma>])
  next
    case Stop
    with step s t show ?thesis
      by (auto intro!: session_okI [of allow "loginUser h" \<sigma>])
  next
    case CloseConn
    with step sim_Close [OF s] t show ?thesis
      by (auto intro!: session_okI [of allow "loginUser h" \<sigma>])
  qed
qed

lemma session_ok_reachable:
  assumes "reachable h (init_state idle input ps) s" and "''PUBLISH'' \<in> set (allowUnauthenticated (opts h)) \<longrightarrow> allow"
  shows "session_ok allow (loginUser h) s"
  using assms(1)
proof (induction rule: reachable.induct)
  case start
  show ?case
    by (rule session_okI [of _ _ init_session])
      (simp_all add: sim_def init_state_def init_session_def new_properties_def ProtocolVersion_def SetIdleTimeout_def)
next
  case (more s a s')
  then show ?case
    by (blast intro: session_ok_step [OF _ _ assms(2)])
qed

section \<open>What the ledger counts\<close>

text \<open>How often a history has a response, a message given to the publisher or confirmed, and a packet received.\<close>

definition count_sent :: "response_kind \<Rightarrow> event list \<Rightarrow> nat" where
  "count_sent k es = length (filter (\<lambda>e. case e of Sent p \<Rightarrow> kind_of p = Some k | _ \<Rightarrow> False) es)"

definition count_called :: "(PublishRequest \<Rightarrow> bool) \<Rightarrow> event list \<Rightarrow> nat" where
  "count_called P es = length (filter (\<lambda>e. case e of PublishCalled r \<Rightarrow> P r | _ \<Rightarrow> False) es)"

definition count_confirmed :: "(PublishRequest \<Rightarrow> bool) \<Rightarrow> event list \<Rightarrow> nat" where
  "count_confirmed P es = length (filter (\<lambda>e. case e of Confirmed r \<Rightarrow> P r | _ \<Rightarrow> False) es)"

definition count_received :: "(ControlPacket \<Rightarrow> bool) \<Rightarrow> event list \<Rightarrow> nat" where
  "count_received P es = length (filter (\<lambda>e. case e of Received p \<Rightarrow> P p | _ \<Rightarrow> False) es)"

lemmas count_defs = count_sent_def count_called_def count_confirmed_def count_received_def mset_option_def

definition carries :: "(PublishRequest \<Rightarrow> bool) \<Rightarrow> ControlPacket \<Rightarrow> bool" where
  "carries P p = (case packet_content p of None \<Rightarrow> False | Some r \<Rightarrow> P r)"

text \<open>A balance that every step keeps is kept by every history.\<close>

lemma session_balance:
  fixes out inn :: "event list \<Rightarrow> nat" and held :: "session \<Rightarrow> nat"
  assumes "session_run allow login es s = Some s'"
    and "\<And>e s s'. session_step allow login e s = Some s' \<Longrightarrow> out [e] + held s' = inn [e] + held s"
    and "\<And>e es. out (e # es) = out [e] + out es" "\<And>e es. inn (e # es) = inn [e] + inn es" "out [] = 0" "inn [] = 0"
  shows "out es + held s' = inn es + held s"
  using assms(1)
proof (induction es arbitrary: s)
  case Nil
  with assms(5,6) show ?case
    by simp
next
  case (Cons e es)
  then obtain t where t: "session_step allow login e s = Some t" "session_run allow login es t = Some s'"
    by (auto split: option.splits)
  with Cons.IH [OF t(2)] assms(2) [OF t(1)] assms(3,4) [of e es] show ?case
    by linarith
qed

lemma filter_mset_remove:
  "r \<in># A \<Longrightarrow> size (filter_mset P (A - {#r#})) + (if P r then 1 else 0) = size (filter_mset P A)"
  by (auto dest!: multi_member_split)

lemma owed_at_once_kinds [simp]:
  "owed_at_once p \<noteq> Some (RPuback m)" "owed_at_once p \<noteq> Some (RPubrec m)" "owed_at_once p \<noteq> Some (RConnack c)"
  by (cases p rule: owed_at_once.cases; simp)+

lemma called_balance:
  assumes "session_run allow login es s = Some s'" and "\<And>r. P (content r) = P r"
  shows "count_called P es + size (filter_mset P (s_requests s')) = count_received (carries P) es + size (filter_mset P (s_requests s))"
  using assms(1)
proof (rule session_balance)
  show "count_called P [e] + size (filter_mset P (s_requests t')) =
      count_received (carries P) [e] + size (filter_mset P (s_requests t))" if "session_step allow login e t = Some t'" for e t t'
  proof (cases e)
    case (Received p)
    with that show ?thesis
      by (auto simp: count_defs carries_def split: if_splits option.splits)
  next
    case (PublishCalled r)
    with that filter_mset_remove [of "content r" "s_requests t" P] assms(2) [of r] show ?thesis
      by (auto simp: count_defs simp del: filter_diff_mset split: if_splits)
  qed (use that in \<open>auto simp: count_defs split: if_splits option.splits\<close>)
qed (simp_all add: count_defs)

lemma confirmed_balance:
  assumes "session_run allow login es s = Some s'"
  shows "count_confirmed P es + size (filter_mset P (s_called s')) = count_called P es + size (filter_mset P (s_called s))"
  using assms
proof (rule session_balance)
  show "count_confirmed P [e] + size (filter_mset P (s_called t')) =
      count_called P [e] + size (filter_mset P (s_called t))" if "session_step allow login e t = Some t'" for e t t'
  proof (cases e)
    case (Confirmed r)
    with that filter_mset_remove [of r "s_called t" P] show ?thesis
      by (auto simp: count_defs simp del: filter_diff_mset split: if_splits)
  qed (use that in \<open>auto simp: count_defs split: if_splits option.splits\<close>)
qed (simp_all add: count_defs)

lemma acknowledged_balance:
  assumes "session_run allow login es s = Some s'" and "k = RPuback m \<or> k = RPubrec m"
  shows "count_sent k es + count (s_owed s') k = count_confirmed (\<lambda>r. acknowledgement r = Some k) es + count (s_owed s) k"
  using assms(1)
proof (rule session_balance)
  show "count_sent k [e] + count (s_owed t') k =
      count_confirmed (\<lambda>r. acknowledgement r = Some k) [e] + count (s_owed t) k" if "session_step allow login e t = Some t'" for e t t'
    using that assms(2)
    by (cases e) (auto simp: count_defs split: if_splits option.splits)
qed (simp_all add: count_defs)

lemma replied_balance:
  assumes "session_run allow login es s = Some s'" and "k = RPubcomp m \<or> k = RPingresp"
  shows "count_sent k es + count (s_owed s') k = count_received (\<lambda>p. owed_at_once p = Some k) es + count (s_owed s) k"
  using assms(1)
proof (rule session_balance)
  show "count_sent k [e] + count (s_owed t') k =
      count_received (\<lambda>p. owed_at_once p = Some k) [e] + count (s_owed t) k" if "session_step allow login e t = Some t'" for e t t'
    using that assms(2)
    by (cases e) (auto simp: count_defs acknowledgement_def split: if_splits option.splits)
qed (simp_all add: count_defs)

text \<open>Behind a response that was sent there is one that was owed.\<close>

lemma session_run_Sent:
  assumes "session_run allow login (xs @ Sent p # ys) \<rho> = Some \<sigma>"
  obtains \<tau> k where "session_run allow login xs \<rho> = Some \<tau>" and "kind_of p = Some k" and "k \<in># s_owed \<tau>"
  using assms by (auto simp: session_run_append split: option.splits if_splits)

lemma owed_conditions:
  "acknowledgement r = Some (RPuback m) \<longleftrightarrow> req_Qos r = AT_LEAST_ONCE \<and> req_MessageID r = m"
  "acknowledgement r = Some (RPubrec m) \<longleftrightarrow> req_Qos r = EXACTLY_ONCE \<and> req_MessageID r = m"
  "owed_at_once q = Some (RPubcomp m) \<longleftrightarrow> request_message_id q = Some m"
  "owed_at_once q = Some RPingresp \<longleftrightarrow> getPingResp q \<noteq> None"
proof -
  show "acknowledgement r = Some (RPuback m) \<longleftrightarrow> req_Qos r = AT_LEAST_ONCE \<and> req_MessageID r = m"
    "acknowledgement r = Some (RPubrec m) \<longleftrightarrow> req_Qos r = EXACTLY_ONCE \<and> req_MessageID r = m"
    by (auto simp: acknowledgement_def AT_LEAST_ONCE_def EXACTLY_ONCE_def)
  show "owed_at_once q = Some (RPubcomp m) \<longleftrightarrow> request_message_id q = Some m"
    "owed_at_once q = Some RPingresp \<longleftrightarrow> getPingResp q \<noteq> None"
    by (cases q rule: owed_at_once.cases; simp add: getPingResp_def)+
qed

section \<open>Why a message may be published\<close>

text \<open>The CONNECT packet behind a login, and the PUBLISH packets behind the ledger's messages.\<close>

definition justified :: "login \<Rightarrow> event list \<Rightarrow> session \<Rightarrow> bool" where
  "justified login es s \<longleftrightarrow>
     (\<forall>c. s_connect s = Some c \<longrightarrow> (\<exists>q. Received q \<in> set es \<and> packet_login q = Some c)) \<and>
     (s_logged s \<longrightarrow> (\<exists>q u pw. Received q \<in> set es \<and> packet_login q = Some (u, pw) \<and> login u pw = Inr Accepted)) \<and>
     (\<forall>c. c \<in># s_requests s \<longrightarrow> (\<exists>q. Received q \<in> set es \<and> packet_content q = Some c))"

lemma justified_later:
  assumes "justified login es s" and "s_connect s' = s_connect s" and "s_logged s' = s_logged s"
    and "s_requests s' = s_requests s"
  shows "justified login (es @ [e]) s'"
  using assms(1) unfolding justified_def assms(2-4) by (simp add: ex_disj_distrib conj_disj_distribR)

lemma justified_step:
  assumes j: "justified login es s" and step: "session_step allow login e s = Some s'"
  shows "justified login (es @ [e]) s'"
proof (cases e)
  case (LoggedIn rc)
  with step obtain u pw where c: "s_connect s = Some (u, pw)" "login u pw = Inr rc"
      and s': "s_connect s' = None" "s_logged s' = (rc = Accepted)" "s_requests s' = s_requests s"
    by (auto split: option.splits if_splits)
  from j c(1) obtain q where "Received q \<in> set es" "packet_login q = Some (u, pw)"
    unfolding justified_def by blast
  with j c(2) show ?thesis
    unfolding justified_def s' by auto
next
  case (PublishCalled r)
  with step have s': "s_connect s' = s_connect s" "s_logged s' = s_logged s"
      "s_requests s' = s_requests s - {#content r#}"
    by (auto split: if_splits)
  have "c \<in># s_requests s" if "c \<in># s_requests s'" for c
    using that unfolding s' by (rule in_diffD)
  with j show ?thesis
    unfolding justified_def s'(1,2) by (simp add: PublishCalled)
next
  case (Received p)
  with step have s': "s_connect s' = packet_login p" "s_logged s' = s_logged s"
      "s_requests s' = s_requests s + mset_option (packet_content p)"
    by (auto split: if_splits)
  from j show ?thesis
    unfolding justified_def s' Received by (auto simp: mset_option_def split: option.splits)
qed (use step in \<open>auto intro!: justified_later [OF j] split: if_splits option.splits\<close>)

lemma justified_run:
  "session_run allow login es init_session = Some s \<Longrightarrow> justified login es s"
proof (induction es arbitrary: s rule: rev_induct)
  case Nil
  then show ?case
    by (auto simp: justified_def init_session_def)
next
  case (snoc e es)
  then obtain t where "session_run allow login es init_session = Some t" "session_step allow login e t = Some s"
    by (auto simp: session_run_append split: option.splits)
  with snoc.IH [of t] justified_step show ?case
    by blast
qed

lemma publish_justified:
  assumes "session_run allow login (xs @ PublishCalled r # ys) init_session = Some s" and "\<not> allow"
  obtains q u pw p where "Received q \<in> set xs" and "packet_login q = Some (u, pw)" and "login u pw = Inr Accepted"
    and "Received p \<in> set xs" and "packet_content p = Some (content r)"
proof -
  from assms(1) obtain t where t: "session_run allow login xs init_session = Some t"
      "session_step allow login (PublishCalled r) t \<noteq> None"
    by (auto simp: session_run_append split: option.splits)
  with assms(2) have "s_logged t" "content r \<in># s_requests t"
    by (auto split: if_splits)
  with justified_run [OF t(1)] that show thesis
    unfolding justified_def by blast
qed

end
