(* ===== verification/Codec_Properties.thy ===== *)
theory Codec_Properties
  imports Codec
begin

text \<open>
  What the codec promises: round trips of the primitive encodings, the header and whole packets,
  bounds of what was read, framing, and how the version of a connection is found.
\<close>

section \<open>Primitive encodings\<close>

text \<open>C12: The variable byte integers of the protocol round trip in any context, take one to four bytes, and
  \<open>WriteUvarint\<close> reports the number of bytes it wrote.\<close>

theorem uvarint_round_trip:
  assumes "0 \<le> v" and "v \<le> maxRemainingLength"
  shows "DecodeUvarint (Reader (fst (WriteUvarint [] (word_of_int v)) @ rest) e) = Inr (v, Reader rest e) \<and>
    snd (WriteUvarint [] (word_of_int v)) = length (fst (WriteUvarint [] (word_of_int v))) \<and>
    1 \<le> snd (WriteUvarint [] (word_of_int v)) \<and> snd (WriteUvarint [] (word_of_int v)) \<le> 4"
proof -
  have v: "0 \<le> v \<and> v < 2 ^ 28"
    using assms by (simp add: maxRemainingLength_def)
  note dec = uvarint.dec_enc [OF v]
  have len: "snd (WriteUvarint [] x) = length (fst (WriteUvarint [] x))" for x
    by (simp add: WriteUvarint_eq)
  from dec [of "[]" EOF] obtain c where "fst (WriteUvarint [] (word_of_int v)) = c" "c \<noteq> []" "length c \<le> 4"
    by (auto elim: DecodeUvarint_eq_InrE)
  with dec len show ?thesis
    by (cases c) auto
qed

theorem uvarint_round_trip_witness:
  "DecodeUvarint (Reader (fst (WriteUvarint [] (word_of_int 321)) @ [7]) EOF) = Inr (321, Reader [7] EOF) \<and>
    snd (WriteUvarint [] (word_of_int 321)) = length (fst (WriteUvarint [] (word_of_int 321))) \<and>
    1 \<le> snd (WriteUvarint [] (word_of_int 321)) \<and> snd (WriteUvarint [] (word_of_int 321)) \<le> 4"
  by (rule uvarint_round_trip) (simp_all add: maxRemainingLength_def)

text \<open>A variable byte integer that was read took one to four bytes and lies in the range those bytes can
  express, so it never exceeds the largest remaining length.\<close>

lemma uvarint_bounds:
  assumes "DecodeUvarint r = Inr (v, r')"
  shows "0 \<le> v \<and> v \<le> maxRemainingLength \<and>
    (\<exists>c. rd_data r = c @ rd_data r' \<and> 1 \<le> length c \<and> length c \<le> 4 \<and> v < 2 ^ (7 * length c))"
  using assms
proof (rule DecodeUvarint_eq_InrE)
  fix c
  assume c: "rd_data r = c @ rd_data r'" "c \<noteq> []" "length c \<le> 4" "0 \<le> v" "v < 2 ^ (7 * length c)"
  then have "(2::int) ^ (7 * length c) \<le> 2 ^ 28"
    by (intro power_increasing) auto
  with c have "v \<le> maxRemainingLength"
    by (simp add: maxRemainingLength_def)
  moreover have "1 \<le> length c"
    using c(2) by (simp add: Suc_le_eq)
  ultimately show ?thesis
    using c by blast
qed

text \<open>C13: Whatever a string's length, its encoding decodes to the prefix whose length fits the two bytes of the
  length field, and the rest stays in the stream: exactly the string up to 65535 bytes, and a shorter
  string, with the tail left over as if it were the next field, beyond.\<close>

theorem string_round_trip:
  "DecodeString (Reader (EncodeString s @ rest) e) =
     Inr (take (length s mod 65536) s, Reader (bytes_of_string (drop (length s mod 65536) s) @ rest) e)"
proof -
  let ?n = "length s mod 65536"
  let ?t = "take ?n s"
  have t: "length ?t = ?n"
    by (simp add: min_absorb2)
  then have "length ?t < 65536"
    by simp
  have "(word_of_nat (length s) :: u16) = word_of_nat (length ?t)"
    by (simp add: t word_of_nat_eq_iff take_bit_eq_mod)
  then have "EncodeString s @ rest = EncodeString ?t @ bytes_of_string (drop ?n s) @ rest"
    by (simp add: EncodeString_def EncodeBytes_def bytes_of_string_def flip: map_append)
  with \<open>length ?t < 65536\<close> show ?thesis
    by (simp add: str.dec_enc)
qed

section \<open>The fixed header\<close>

text \<open>A header the code can send reads back from what \<open>Pack\<close> writes, in any context; and a header that was
  read passes \<open>Validate\<close> and packs to a first byte equal to the one that was read.\<close>

lemma header_round_trip:
  fixes fh :: FixedHeader
  shows "(header_ok fh \<longrightarrow> decode (Reader (Pack fh @ rest) e) = Inr (fh, Reader rest e)) \<and>
    (decode r = Inr (fh, r') \<longrightarrow>
      header_ok fh \<and> Validate fh = None \<and> rd_data r \<noteq> [] \<and> getFixedHeaderByte1 fh = hd (rd_data r))"
proof (intro conjI impI)
  show "decode (Reader (Pack fh @ rest) e) = Inr (fh, Reader rest e)" if "header_ok fh"
    using that by (rule header.dec_enc)
  assume "decode r = Inr (fh, r')"
  then obtain b1 ra where b1: "length b1 = 1" "rd_data r = b1 @ rd_data ra" and fh: "Unpack (b1 ! 0) ra = Inr (fh, r')"
    by (auto simp: decode_def bindd_eq_Inr read_full_eq_Inr)
  from fh show "header_ok fh"
    by (auto elim: Unpack_eq_InrE)
  from fh show "Validate fh = None"
    by (rule Unpack_Validate)
  from b1 have data: "rd_data r = (b1 ! 0) # rd_data ra"
    by (cases b1) auto
  then show "rd_data r \<noteq> []"
    by simp
  from fh data show "getFixedHeaderByte1 fh = hd (rd_data r)"
    by (auto elim: Unpack_eq_InrE)
qed

section \<open>Packets\<close>

text \<open>A packet with another remaining length in its header, and all else the same.\<close>

fun with_length311 :: "int \<Rightarrow> ControlPacket311 \<Rightarrow> ControlPacket311" where
  "with_length311 n (Connect311 p) = Connect311 (p\<lparr>RemainingLength := n\<rparr>)"
| "with_length311 n (Connack311 p) = Connack311 (p\<lparr>RemainingLength := n\<rparr>)"
| "with_length311 n (Publish311 p) = Publish311 (p\<lparr>RemainingLength := n\<rparr>)"
| "with_length311 n (Puback311 p) = Puback311 (p\<lparr>RemainingLength := n\<rparr>)"
| "with_length311 n (Pubrec311 p) = Pubrec311 (p\<lparr>RemainingLength := n\<rparr>)"
| "with_length311 n (Pubrel311 p) = Pubrel311 (p\<lparr>RemainingLength := n\<rparr>)"
| "with_length311 n (Pubcomp311 p) = Pubcomp311 (p\<lparr>RemainingLength := n\<rparr>)"
| "with_length311 n (Subscribe311 p) = Subscribe311 (p\<lparr>RemainingLength := n\<rparr>)"
| "with_length311 n (Suback311 p) = Suback311 (p\<lparr>RemainingLength := n\<rparr>)"
| "with_length311 n (Unsubscribe311 p) = Unsubscribe311 (p\<lparr>RemainingLength := n\<rparr>)"
| "with_length311 n (Unsuback311 p) = Unsuback311 (p\<lparr>RemainingLength := n\<rparr>)"
| "with_length311 n (Pingreq311 p) = Pingreq311 (p\<lparr>RemainingLength := n\<rparr>)"
| "with_length311 n (Pingresp311 p) = Pingresp311 (p\<lparr>RemainingLength := n\<rparr>)"
| "with_length311 n (Disconnect311 p) = Disconnect311 (p\<lparr>RemainingLength := n\<rparr>)"

fun with_length5 :: "int \<Rightarrow> ControlPacket5 \<Rightarrow> ControlPacket5" where
  "with_length5 n (Connect5 p) = Connect5 (p\<lparr>RemainingLength := n\<rparr>)"
| "with_length5 n (Connack5 p) = Connack5 (p\<lparr>RemainingLength := n\<rparr>)"
| "with_length5 n (Publish5 p) = Publish5 (p\<lparr>RemainingLength := n\<rparr>)"
| "with_length5 n (Puback5 p) = Puback5 (p\<lparr>RemainingLength := n\<rparr>)"
| "with_length5 n (Pubrec5 p) = Pubrec5 (p\<lparr>RemainingLength := n\<rparr>)"
| "with_length5 n (Pubrel5 p) = Pubrel5 (p\<lparr>RemainingLength := n\<rparr>)"
| "with_length5 n (Pubcomp5 p) = Pubcomp5 (p\<lparr>RemainingLength := n\<rparr>)"
| "with_length5 n (Pingreq5 p) = Pingreq5 (p\<lparr>RemainingLength := n\<rparr>)"
| "with_length5 n (Pingresp5 p) = Pingresp5 (p\<lparr>RemainingLength := n\<rparr>)"
| "with_length5 n (Disconnect5 p) = Disconnect5 (p\<lparr>RemainingLength := n\<rparr>)"

fun with_length :: "int \<Rightarrow> ControlPacket \<Rightarrow> ControlPacket" where
  "with_length n (P311 p) = P311 (with_length311 n p)"
| "with_length n (P5 p) = P5 (with_length5 n p)"

text \<open>\<open>Write\<close> changes nothing in a packet but its remaining length.\<close>

lemma Write311_with_length: "fst (Write311 p) = with_length311 (RemainingLength (header311 (fst (Write311 p)))) p"
  by (cases p) (simp_all add: Write_Connect311_def Write_Connack311_def Write_Publish311_def Write_Puback311_def Write_Pubrec311_def Write_Pubrel311_def Write_Pubcomp311_def Write_Subscribe311_def Write_Suback311_def Write_Unsubscribe311_def Write_Unsuback311_def Write_Pingreq311_def Write_Pingresp311_def Write_Disconnect311_def Let_def FixedHeader.truncate_def)

lemma Write5_with_length: "fst (Write5 p) = with_length5 (RemainingLength (header5 (fst (Write5 p)))) p"
  by (cases p) (simp_all add: Write_Connect5_def Write_Connack5_def Write_Publish5_def Write_Puback5_def Write_Pubrec5_def Write_Pubrel5_def Write_Pubcomp5_def Write_Pingreq5_def Write_Pingresp5_def Write_Disconnect5_def Let_def FixedHeader.truncate_def)

lemma Write_with_length: "fst (Write p) = with_length (RemainingLength (packet_header (fst (Write p)))) p"
  by (cases p) (simp_all add: Write311_with_length [symmetric] Write5_with_length [symmetric])

text \<open>C14: A packet whose fields fit what the protocol has for them reads back when it was written, with the length that
  \<open>Write\<close> stored in its header and no other change, as a packet of its version, and leaves the stream exactly after
  it; all packet types of both versions. To fit means: the type and the QoS are in their bits, strings and payloads
  with a length field are shorter than 65536 bytes and properties than \<open>2 ^ 28\<close>, the body is not longer than the
  largest remaining length, the reserved flag of a CONNECT packet is clear and the fields that its flags leave
  out are empty, as is the identifier of a PUBLISH with QoS 0, and packets that are written without a body
  have the remaining length 0.\<close>

theorem packet_round_trip:
  assumes "ok_packet p"
  shows "ReadPacket (Version p) (Reader (snd (Write p) @ rest) e) = Inr (fst (Write p), Reader rest e) \<and>
    fst (Write p) = with_length (RemainingLength (packet_header (fst (Write p)))) p"
proof -
  have "Version p \<noteq> 0"
    by (cases p) (simp_all add: Version311_def Version5_def versions_distinct)
  with ReadVersionPacket_Write [OF assms] Write_with_length [of p] show ?thesis
    by (simp add: ReadPacket_known)
qed

theorem packet_round_trip_witness:
  "ReadPacket 4 (Reader (snd (Write (P311 (Puback311 ((new_Puback311 (zero_header PUBACK))\<lparr>Puback_MessageID311 := 7\<rparr>)))) @ [1]) EOF) =
    Inr (P311 (Puback311 ((new_Puback311 (zero_header PUBACK))\<lparr>Puback_MessageID311 := 7, RemainingLength := 2\<rparr>)), Reader [1] EOF)"
  using packet_round_trip [of "P311 (Puback311 ((new_Puback311 (zero_header PUBACK))\<lparr>Puback_MessageID311 := 7\<rparr>))" "[1]" EOF]
  by (simp add: Version311_def MQTT_3_1_1_def ok_Puback311_def new_Puback311_def zero_header_def FixedHeader.defs
      PubackPacket311.defs PUBACK_def Write_Puback311_def body_Puback311_def Let_def EncodeUint16_def)

text \<open>No two sequences of bytes that begin with a packet agree unless the packets do: what follows a packet
  cannot change how it is read.\<close>

lemma packets_prefix_free:
  assumes "ok_packet p" and "ok_packet q" and "Version p = Version q"
    and "snd (Write p) @ s = snd (Write q) @ t"
  shows "fst (Write p) = fst (Write q) \<and> s = t"
  using ReadVersionPacket_Write [OF assms(1), of s EOF] ReadVersionPacket_Write [OF assms(2), of t EOF] assms(3,4)
  by simp

text \<open>C15: What a successful read takes from the stream is the header's first byte, a length field of one to four
  bytes and a body of exactly the remaining length the header announces; the rest and the stream's error
  are untouched.\<close>

theorem packet_framing:
  assumes "ReadVersionPacket v r = Inr (p, r')"
  shows "\<exists>len body. rd_data r = getFixedHeaderByte1 (packet_header p) # len @ body @ rd_data r' \<and>
    1 \<le> length len \<and> length len \<le> 4 \<and> RemainingLength (packet_header p) = int (length body) \<and>
    rd_err r' = rd_err r \<and> Version p = v"
  using assms
proof (cases rule: ReadVersionPacket_eq_InrE)
  case (mqtt311 q)
  from mqtt311(3) show ?thesis
    by (rule v311.read_packet_eq_InrE) (use mqtt311 Unpack311_ok in \<open>auto simp: Version311_def\<close>)
next
  case (mqtt5 q)
  from mqtt5(3) show ?thesis
    by (rule v5.read_packet_eq_InrE) (use mqtt5 Unpack5_ok in \<open>auto simp: Version5_def\<close>)
qed

theorem packet_framing_witness:
  "\<exists>len body. rd_data (Reader [0x40, 2, 0, 7, 1] EOF) =
      getFixedHeaderByte1 (packet_header (fst (Write (P311 (Puback311 ((new_Puback311 (zero_header PUBACK))\<lparr>Puback_MessageID311 := 7\<rparr>)))))) #
        len @ body @ rd_data (Reader [1] EOF) \<and>
    1 \<le> length len \<and> length len \<le> 4 \<and>
    RemainingLength (packet_header (fst (Write (P311 (Puback311 ((new_Puback311 (zero_header PUBACK))\<lparr>Puback_MessageID311 := 7\<rparr>)))))) =
      int (length body) \<and>
    rd_err (Reader [1] EOF) = rd_err (Reader [0x40, 2, 0, 7, 1] EOF) \<and>
    Version (fst (Write (P311 (Puback311 ((new_Puback311 (zero_header PUBACK))\<lparr>Puback_MessageID311 := 7\<rparr>))))) = 4"
  by (rule packet_framing) code_simp

text \<open>What is written of a packet that was read but is not clean, and how it is read then.\<close>

lemma Pack_truncate: "Pack (FixedHeader.truncate fh) = Pack fh"
  by (simp add: Pack_def getFixedHeaderByte1_def FixedHeader.truncate_def)

lemma RemainingLength_truncate: "RemainingLength (FixedHeader.truncate fh) = RemainingLength fh"
  by (simp add: FixedHeader.truncate_def)

lemma unclean311_header:
  assumes "\<not> clean311 p" and "\<not> is_Connect311 p"
  shows "Write311 p = (p, Pack (header311 p)) \<and> RemainingLength (header311 p) \<noteq> 0"
  using assms by (cases p) (simp_all add: RemainingLength_truncate Pack_truncate Write_Pingreq311_def Write_Pingresp311_def Write_Disconnect311_def)

lemma unclean5_header:
  assumes "\<not> clean5 p" and "\<not> is_Connect5 p"
  shows "Write5 p = (p, Pack (header5 p)) \<and> RemainingLength (header5 p) \<noteq> 0"
  using assms by (cases p) (simp_all add: RemainingLength_truncate Pack_truncate Write_Pingreq5_def Write_Pingresp5_def Write_Disconnect5_def clean_Disconnect5_def)

lemma unclean311:
  assumes read: "ReadPacket311 r = Inr (p, r')" and "\<not> clean311 p"
  shows "ReadPacket311 (Reader (snd (Write311 p)) e) \<noteq> Inr (fst (Write311 p), Reader [] e)"
proof (cases p)
  case (Connect311 q)
  with assms(2) have reserved: "ReservedBit311 q"
    by simp
  let ?q = "q\<lparr>ReservedBit311 := False\<rparr>"
  have "snd (Write_Connect311 ?q) = snd (Write_Connect311 q)" and "ReservedBit311 (fst (Write_Connect311 q))"
    "\<not> ReservedBit311 (fst (Write_Connect311 ?q))"
    using reserved by (simp_all add: Write_Connect311_def Let_def Pack_def getFixedHeaderByte1_def)
  moreover from ReadPacket311_wr [OF ReadPacket311_cleared [OF read [unfolded Connect311]], of "[]" e]
  have "ReadPacket311 (Reader (snd (Write_Connect311 ?q)) e) = Inr (Connect311 (fst (Write_Connect311 ?q)), Reader [] e)"
    by simp
  ultimately show ?thesis
    by (auto simp: Connect311)
qed (use conjunct1 [OF unclean311_header [OF assms(2)]] conjunct2 [OF unclean311_header [OF assms(2)]] ReadPacket311_ok(1) [OF read] v311.read_packet_header [of "header311 p" "[]" e]
  in \<open>auto simp: header_ok_def\<close>)

lemma unclean5:
  assumes read: "ReadPacket5 r = Inr (p, r')" and "\<not> clean5 p"
  shows "ReadPacket5 (Reader (snd (Write5 p)) e) \<noteq> Inr (fst (Write5 p), Reader [] e)"
proof (cases p)
  case (Connect5 q)
  with assms(2) have reserved: "ReservedBit5 q"
    by simp
  let ?q = "q\<lparr>ReservedBit5 := False\<rparr>"
  have "snd (Write_Connect5 ?q) = snd (Write_Connect5 q)" and "ReservedBit5 (fst (Write_Connect5 q))"
    "\<not> ReservedBit5 (fst (Write_Connect5 ?q))"
    using reserved by (simp_all add: Write_Connect5_def Let_def Pack_def getFixedHeaderByte1_def)
  moreover from ReadPacket5_wr [OF ReadPacket5_cleared [OF read [unfolded Connect5]], of "[]" e]
  have "ReadPacket5 (Reader (snd (Write_Connect5 ?q)) e) = Inr (Connect5 (fst (Write_Connect5 ?q)), Reader [] e)"
    by simp
  ultimately show ?thesis
    by (auto simp: Connect5)
qed (use conjunct1 [OF unclean5_header [OF assms(2)]] conjunct2 [OF unclean5_header [OF assms(2)]] ReadPacket5_ok(1) [OF read] v5.read_packet_header [of "header5 p" "[]" e]
  in \<open>auto simp: header_ok_def\<close>)

lemma unclean_packet:
  assumes "ReadVersionPacket v r = Inr (p, r')" and "\<not> clean_packet p"
  shows "ReadVersionPacket v (Reader (snd (Write p)) e) \<noteq> Inr (fst (Write p), Reader [] e)"
  using assms(1)
proof (cases rule: ReadVersionPacket_eq_InrE)
  case (mqtt311 q)
  with assms(2) unclean311 [of r q r' e] show ?thesis
    by (auto simp: ReadVersionPacket_def unpack_as_eq split: sum.splits)
next
  case (mqtt5 q)
  with assms(2) unclean5 [of r q r' e] show ?thesis
    by (auto simp: ReadVersionPacket_def unpack_as_eq versions_distinct split: sum.splits)
qed

text \<open>C16: When a packet that was read is written, nothing changes in it but the remaining length, and reading what was
  written gives it back, whatever follows, exactly if it is clean: the reserved flag of a CONNECT packet is
  clear, PINGREQ, PINGRESP and DISCONNECT of 3.1.1 came without a body, and a DISCONNECT of 5 with reason code 0
  and without properties came in the short form. All other packets that are read are clean.\<close>

theorem read_write_read:
  assumes "ReadVersionPacket v r = Inr (p, r')"
  shows "fst (Write p) = with_length (RemainingLength (packet_header (fst (Write p)))) p \<and>
    (clean_packet p \<longleftrightarrow>
      (\<forall>rest e. ReadVersionPacket v (Reader (snd (Write p) @ rest) e) = Inr (fst (Write p), Reader rest e)))"
proof -
  have "ReadVersionPacket v (Reader (snd (Write p) @ rest) e) = Inr (fst (Write p), Reader rest e)"
    if "clean_packet p" for rest e
    using ReadVersionPacket_Write [of p rest e] ReadVersionPacket_typed [OF assms] ReadVersionPacket_Version [OF assms] that
    by simp
  moreover have "clean_packet p"
    if "\<forall>rest e. ReadVersionPacket v (Reader (snd (Write p) @ rest) e) = Inr (fst (Write p), Reader rest e)"
    using unclean_packet [OF assms, of EOF] that [THEN spec, THEN spec, of "[]" EOF] by auto
  ultimately show ?thesis
    using Write_with_length by blast
qed

theorem read_write_read_witness:
  "clean_packet (P311 (Pingreq311 (zero_header PINGREQ))) = True \<and>
   ReadVersionPacket 4 (Reader (snd (Write (P311 (Pingreq311 (zero_header PINGREQ)))) @ [3]) EOF) =
     Inr (fst (Write (P311 (Pingreq311 (zero_header PINGREQ)))), Reader [3] EOF) \<and>
   \<not> (\<forall>rest e. ReadVersionPacket 4 (Reader (snd (Write (P311 (Pingreq311 ((zero_header PINGREQ)\<lparr>RemainingLength := 1\<rparr>)))) @ rest) e) =
     Inr (fst (Write (P311 (Pingreq311 ((zero_header PINGREQ)\<lparr>RemainingLength := 1\<rparr>)))), Reader rest e))"
proof -
  have short: "ReadVersionPacket 4 (Reader [0xC0, 0, 9] EOF) = Inr (P311 (Pingreq311 (zero_header PINGREQ)), Reader [9] EOF)"
    and long: "ReadVersionPacket 4 (Reader [0xC0, 1, 9] EOF) =
      Inr (P311 (Pingreq311 ((zero_header PINGREQ)\<lparr>RemainingLength := 1\<rparr>)), Reader [] EOF)"
    by code_simp+
  have "clean_packet (P311 (Pingreq311 (zero_header PINGREQ)))"
    "\<not> clean_packet (P311 (Pingreq311 ((zero_header PINGREQ)\<lparr>RemainingLength := 1\<rparr>)))"
    by code_simp+
  with read_write_read [OF short] read_write_read [OF long] show ?thesis
    by blast
qed

section \<open>The first packet\<close>

text \<open>The first packet of a connection, for which the version is not known yet, is read exactly when reading
  with the version it names succeeds and it is a CONNECT packet naming that version; reading the version
  ahead loses and repeats no byte.\<close>

lemma first_packet_names_version:
  "ReadPacket 0 r = Inr (p, r') \<longleftrightarrow>
     ReadVersionPacket (Version p) r = Inr (p, r') \<and> connect_level p = Some (Version p)"
  by (rule ReadPacket_first)

text \<open>A first packet that names a protocol level other than 3.1.1 and 5 is refused with the error that carries
  the CONNACK return code for an unacceptable version.\<close>

lemma unsupported_version_refused:
  assumes "readConnectVersion r = Inr (v, r')" and "v \<noteq> MQTT_3_1_1" and "v \<noteq> MQTT_5"
  shows "ReadPacket 0 r =
    Inl (ConnectAckError RefusedUnacceptableProtocolVersion ''unsupported protocol version %v'' [AInt (int (unat v))])"
  using assms by (simp add: ReadPacket_0 ReadVersionPacket_def faild_def NewConnAckError_def)

lemma unsupported_version_refused_witness:
  "ReadPacket 0 (Reader [0x10, 14, 0, 4, 77, 81, 84, 84, 3, 2, 0, 60, 0, 2, 99, 49] EOF) =
    Inl (ConnectAckError RefusedUnacceptableProtocolVersion ''unsupported protocol version %v'' [AInt (int (unat (3 :: byte)))])"
  by (rule unsupported_version_refused [of _ _ "Reader [2, 0, 60, 0, 2, 99, 49] EOF"]) code_simp+

section \<open>Divergences from the protocol\<close>

text \<open>C17: A DISCONNECT packet of MQTT 5 that was read in its long form with reason code 0 and no properties is
  written in the short form, a header only, but with the remaining length of the long form: whoever reads it fails, or
  loses as many bytes of what follows as the header announces.\<close>

theorem disconnect5_stale_length:
  assumes "ReadPacket 5 r = Inr (P5 (Disconnect5 p), r')"
    and "Disconnect_ReasonCode5 p = 0" and "RawData (DisconnectProperties5 p) = []" and "RemainingLength p \<noteq> 0"
  shows "0 < RemainingLength p \<and> snd (Write (P5 (Disconnect5 p))) = Pack p \<and>
    (case ReadPacket 5 (Reader (snd (Write (P5 (Disconnect5 p))) @ rest) e) of
       Inl _ \<Rightarrow> True
     | Inr (_, r2) \<Rightarrow>
         nat (RemainingLength p) \<le> length rest \<and> r2 = Reader (drop (nat (RemainingLength p)) rest) e) \<and>
    isl (ReadPacket 5 (Reader (snd (Write (P5 (Disconnect5 p)))) e))"
proof -
  have v: "(5 :: byte) = MQTT_5"
    by (simp add: MQTT_5_def)
  from assms(1) have "ReadPacket5 r = Inr (Disconnect5 p, r')"
    by (auto simp: v ReadPacket_known ReadVersionPacket_def versions_distinct unpack_as_eq split: sum.splits)
  then have "header_ok (FixedHeader.truncate p)"
    using ReadPacket5_ok(1) by fastforce
  then have ok: "header_ok p" and pos: "0 < RemainingLength p"
    using assms(4) by (simp_all add: header_ok_def FixedHeader.truncate_def)
  have w: "snd (Write (P5 (Disconnect5 p))) = Pack p"
    using assms(2,3) by (simp add: Write_Disconnect5_def)
  have read: "case ReadPacket 5 (Reader (Pack p @ s) e) of
      Inl _ \<Rightarrow> True
    | Inr (_, r2) \<Rightarrow> nat (RemainingLength p) \<le> length s \<and> r2 = Reader (drop (nat (RemainingLength p)) s) e" for s
    using v5.read_packet_header [OF ok, of s e]
    by (auto simp: v ReadPacket_known ReadVersionPacket_def versions_distinct unpack_as_eq split: sum.splits)
  from read [of "[]"] pos have "isl (ReadPacket 5 (Reader (Pack p) e))"
    by (auto split: sum.splits)
  with w pos read [of rest] show ?thesis
    by simp
qed

theorem disconnect5_stale_length_witness:
  "isl (ReadPacket 5 (Reader (snd (Write (P5 (Disconnect5
     (new_Disconnect5 \<lparr>MessageType = 14, Dup = False, Qos = 0, Retain = False, RemainingLength = 2\<rparr>))))) EOF))"
proof -
  let ?p = "new_Disconnect5 \<lparr>MessageType = 14, Dup = False, Qos = 0, Retain = False, RemainingLength = 2\<rparr>"
  have "ReadPacket 5 (Reader [0xE0, 2, 0, 0] EOF) = Inr (P5 (Disconnect5 ?p), Reader [] EOF)"
    "Disconnect_ReasonCode5 ?p = 0" "RawData (DisconnectProperties5 ?p) = []" "RemainingLength ?p \<noteq> 0"
    by code_simp+
  from disconnect5_stale_length [OF this, of "[]" EOF] show ?thesis
    by blast
qed

text \<open>A body of an identifier and a reason code: what reads properties after them fails.\<close>

lemma DecodeUint16_two: "DecodeUint16 (Reader (i # j # s) e) = Inr (ucast j OR push_bit 8 (ucast i), Reader s e)"
  by (simp add: DecodeUint16_def bindd_def retd_def read_full_def)

lemma DecodeByte_one: "DecodeByte (Reader (i # s) e) = Inr (i, Reader s e)"
  by (simp add: DecodeByte_def bindd_def retd_def read_one_def)

lemma Unpack_Properties_empty: "Unpack_Properties (Reader [] EOF) = Inl EOF"
  by code_simp

text \<open>C18: A PUBACK, PUBREC, PUBREL or PUBCOMP packet of MQTT 5 with a reason code and no properties, which the
  protocol allows with a remaining length of 3, is not accepted, whatever its identifier and reason code and
  whatever follows: the properties' length is read in any case, and the body ends before it.\<close>

theorem short_acks5_rejected:
  assumes "b \<in> {0x40, 0x50, 0x62, 0x70}"
  shows "ReadPacket 5 (Reader ([b, 3, i, j, code] @ rest) e) = Inl EOF"
proof -
  have read: "ReadPacket 5 r = (case ReadPacket5 r of Inl e \<Rightarrow> Inl e | Inr (p, r) \<Rightarrow> Inr (P5 p, r))" for r
  proof -
    have v: "(5 :: byte) = MQTT_5"
      by (simp add: MQTT_5_def)
    show ?thesis
      unfolding v by (simp add: ReadPacket_known ReadVersionPacket_def versions_distinct unpack_as_eq)
  qed
  have short: "ReadPacket5 (Reader ([b, 3, i, j, code] @ rest) e) = Inl EOF"
    if "header_ok fh" "Pack fh = [b, 3]" "RemainingLength fh = 3" "NewControlPacketWithHeader5 fh = Inr cp"
      "Unpack5 cp (Reader [i, j, code] EOF) = Inl EOF" for fh :: FixedHeader and b cp
  proof -
    have "FixedHeader.truncate fh = fh"
      by (cases fh) (simp add: FixedHeader.truncate_def)
    with that(4) have "NewControlPacketWithHeader5 (FixedHeader.truncate fh) = Inr cp"
      by simp
    from v5.read_packet_frame [OF that(1) this, of "[i, j, code]" rest e] that(2,3,5) show ?thesis
      by simp
  qed
  let ?fh = "\<lambda>t q. \<lparr>MessageType = t, Dup = False, Qos = q, Retain = False, RemainingLength = 3\<rparr>"
  have ok: "header_ok (?fh PUBACK 0)" "header_ok (?fh PUBREC 0)" "header_ok (?fh PUBREL 1)" "header_ok (?fh PUBCOMP 0)"
    "Pack (?fh PUBACK 0) = [0x40, 3]" "Pack (?fh PUBREC 0) = [0x50, 3]" "Pack (?fh PUBREL 1) = [0x62, 3]"
    "Pack (?fh PUBCOMP 0) = [0x70, 3]"
    by code_simp+
  note unpack = unpack_as_eq DecodeUint16_two DecodeByte_one Unpack_Properties_empty Let_def bindd_def FixedHeader.defs
  have "ReadPacket5 (Reader ([0x40, 3, i, j, code] @ rest) e) = Inl EOF"
    by (rule short [OF ok(1,5), of "Puback5 (new_Puback5 (?fh PUBACK 0))"])
      (simp_all add: NewControlPacketWithHeader5_def message_types Unpack_Puback5_def new_Puback5_def PubackPacket5.defs unpack)
  moreover have "ReadPacket5 (Reader ([0x50, 3, i, j, code] @ rest) e) = Inl EOF"
    by (rule short [OF ok(2,6), of "Pubrec5 (new_Pubrec5 (?fh PUBREC 0))"])
      (simp_all add: NewControlPacketWithHeader5_def message_types Unpack_Pubrec5_def new_Pubrec5_def PubrecPacket5.defs unpack)
  moreover have "ReadPacket5 (Reader ([0x62, 3, i, j, code] @ rest) e) = Inl EOF"
    by (rule short [OF ok(3,7), of "Pubrel5 (new_Pubrel5 (?fh PUBREL 1))"])
      (simp_all add: NewControlPacketWithHeader5_def message_types Unpack_Pubrel5_def new_Pubrel5_def PubrelPacket5.defs unpack)
  moreover have "ReadPacket5 (Reader ([0x70, 3, i, j, code] @ rest) e) = Inl EOF"
    by (rule short [OF ok(4,8), of "Pubcomp5 (new_Pubcomp5 (?fh PUBCOMP 0))"])
      (simp_all add: NewControlPacketWithHeader5_def message_types Unpack_Pubcomp5_def new_Pubcomp5_def PubcompPacket5.defs unpack)
  ultimately show ?thesis
    using assms unfolding read by auto
qed

theorem short_acks5_rejected_witness: "ReadPacket 5 (Reader ([0x62, 3, 1, 2, 0x92] @ [7]) EOF) = Inl EOF"
  by (rule short_acks5_rejected) simp

end
