(* ===== verification/Handler_Properties.thy ===== *)
theory Handler_Properties
  imports Serve_Safety Example_Run
begin

text \<open>
  What the handlers do with a single packet: the login, failed and ignored publishes, dispatch, and the
  refusal of an unsupported version on the wire.
\<close>

section \<open>CONNECT\<close>

lemma getConnectData_connect: "getConnectData packet = Inr d \<Longrightarrow> is_connect packet"
  by (cases packet rule: getConnectData.cases) simp_all

text \<open>A write to the connection changes neither the properties nor whether it is open.\<close>

lemma respond_props [simp]: "props (w_conn (respond res w)) = props (w_conn w)"
proof (cases "response_Write (snd (Write res)) (w_conn w)")
  case (Pair err c)
  then have "props c = props (w_conn w)"
    using response_Write_keeps(1) [of "snd (Write res)" "w_conn w"] by simp
  with Pair show ?thesis
    by (cases err) (simp_all add: respond_def packet_Write_def)
qed

text \<open>C19: With the instrumented plain authenticator, the connection is authenticated after a CONNECT packet
  exactly when the table of credentials has the packet's user name with its password and the password is
  not empty; otherwise the connection is closed. The client identifier is stored either way, and a keep
  alive of \<open>k > 0\<close> seconds sets the idle timeout to one and a half times that, in whole seconds.\<close>

theorem connect_authenticates:
  assumes "authenticator_opt (opts h) = Some (instrument_authenticator (plain_authenticator po))"
    and "getConnectData packet = Inr (u, pw, cid, ka)"
  shows "let w' = handleConnect h packet w; p = props (w_conn w') in
    (authenticated p \<longleftrightarrow> credentials po u = Some pw \<and> pw \<noteq> []) \<and>
    (\<not> authenticated p \<longrightarrow> \<not> rwc_open (w_conn w')) \<and>
    (authenticated p \<longrightarrow> rwc_open (w_conn w') = rwc_open (w_conn w)) \<and>
    clientIdentifier p = cid \<and>
    idleTimeout p = (if ka = 0 then idleTimeout (props (w_conn w)) else keepAliveTimeout ka)"
proof -
  let ?valid = "valid_login (credentials po) u pw"
  define rc where "rc = (if ?valid then AuthAccepted else AuthUnauthorized)"
  obtain res where res: "getConnectAck packet rc = Inr res"
    by (rule getConnectAck_response [OF getConnectData_connect [OF assms(2)]])
  have login: "loginUser h u pw = Inr rc"
    using assms(1) by (simp add: loginUser_def instrumented_plain.login rc_def)
  have code: "rc = Accepted \<longleftrightarrow> ?valid"
    by (simp add: rc_def AuthAccepted_def AuthUnauthorized_def Accepted_def RefusedBadUserNameOrPassword_def)
  show ?thesis
    using code
    by (simp add: handleConnect_def assms(2) login res Let_def respond_open SetIdleTimeout_def SetAuthenticated_def
        SetClientIdentifier_def word_gt_0 flip: valid_login_def)
qed

theorem connect_authenticates_witness:
  "let h = New noop_publisher [WithAuthenticator (instrument_authenticator (plain_authenticator \<lparr>credentials = [''bob'' \<mapsto> ''pw'']\<rparr>))];
       packet = P311 (Connect311 ((new_Connect311 (zero_header CONNECT))
         \<lparr>Username311 := ''bob'', Password311 := bytes_of_string ''pw'', ClientIdentifier311 := ''c1'', KeepAliveSeconds311 := 3\<rparr>));
       w = world demo_start; w' = handleConnect h packet w; p = props (w_conn w') in
    (authenticated p \<longleftrightarrow> credentials \<lparr>credentials = [''bob'' \<mapsto> ''pw'']\<rparr> ''bob'' = Some ''pw'' \<and> ''pw'' \<noteq> []) \<and>
    (\<not> authenticated p \<longrightarrow> \<not> rwc_open (w_conn w')) \<and>
    (authenticated p \<longrightarrow> rwc_open (w_conn w') = rwc_open (w_conn w)) \<and>
    clientIdentifier p = ''c1'' \<and>
    idleTimeout p = (if (3 :: u16) = 0 then idleTimeout (props (w_conn w)) else keepAliveTimeout 3)"
  unfolding Let_def
  by (rule connect_authenticates [unfolded Let_def])
    (simp_all add: New_def Let_def WithAuthenticator_def no_options_def)

text \<open>The idle timeout that a keep alive of \<open>k\<close> seconds gives is a whole number of seconds, at least \<open>k\<close> and at
  most one and a half times \<open>k\<close>, less than a second short of it: for odd \<open>k\<close> the half second is lost. It does
  not overflow a \<open>time.Duration\<close>.\<close>

lemma keepalive_bounds:
  fixes k :: u16
  shows "uint k * second \<le> keepAliveTimeout k \<and> 2 * keepAliveTimeout k \<le> 3 * (uint k * second) \<and>
    3 * (uint k * second) - 2 * keepAliveTimeout k = (if odd (uint k) then second else 0) \<and>
    keepAliveTimeout k mod second = 0 \<and> keepAliveTimeout k < 2 ^ 63"
proof -
  have "uint k < 2 ^ LENGTH(16)" "0 \<le> uint k"
    by (rule uint_lt2p, simp)
  then have k: "0 \<le> uint k" "uint k < 65536"
    by simp_all
  define n where "n = uint k"
  have half: "n \<le> n * 3 div 2" "3 * n - 2 * (n * 3 div 2) = (if odd n then 1 else 0)" "n * 3 div 2 < 100000"
    using k unfolding n_def [symmetric] by presburger+
  then show ?thesis
    unfolding keepAliveTimeout_def second_def n_def [symmetric] by (auto split: if_splits)
qed

section \<open>PUBLISH\<close>

text \<open>C20: A PUBLISH packet that may be published, because the client is logged in or need not be, and whose publish the
  publisher refuses with an error, synchronously or asynchronously, leaves the connection open if its QoS is 0,
  and closes it if its QoS is 1 or 2; no response is sent in either case. A publish that was accepted and fails
  later, with an error in its response, changes nothing for the connection and is not answered, whatever its QoS.\<close>

theorem failed_publish:
  assumes "authenticated (props (w_conn w)) \<or> Name packet \<in> set (allowUnauthenticated (opts h))"
    and "getPublishRequest w packet = Inr r"
    and "req_Qos r \<in> {AT_MOST_ONCE, AT_LEAST_ONCE, EXACTLY_ONCE}"
    and "if isPublishAsync h (req_Qos r)
         then pub_PublishAsync (h_publisher h) (publish_context h) r (w_pub w) = (AsyncErr e, s)
         else pub_Publish (h_publisher h) (publish_context h) r (w_pub w) = (SyncErr e, s)"
    and "resp_Error resp = Some e'"
  shows "let w' = handlePublish h packet w in
    w_pub w' = s \<and> pending w' = pending w \<and>
    sents (trace w') = sents (trace w) \<and> rwc_out (w_conn w') = rwc_out (w_conn w) \<and>
    rwc_open (w_conn w') = (if req_Qos r = AT_MOST_ONCE then rwc_open (w_conn w) else False) \<and>
    run_callback cb r' resp w2 = w2"
proof -
  have q: "AT_LEAST_ONCE \<noteq> AT_MOST_ONCE" "EXACTLY_ONCE \<noteq> AT_MOST_ONCE" "EXACTLY_ONCE \<noteq> AT_LEAST_ONCE"
    by (simp_all add: AT_MOST_ONCE_def AT_LEAST_ONCE_def EXACTLY_ONCE_def)
  have late: "run_callback cb r' resp w2 = w2"
    using assms(5) by (simp add: run_callback_def split: publish_callback.split)
  have checked: "disconnectUnauthenticated h (Name packet) w = (False, w)"
    using assms(1) by (auto simp: disconnectUnauthenticated_def)
  have published: "doPublish h (publish_context h) r cb w =
      (Some (Wrapf (if isPublishAsync h (req_Qos r) then ''async publish failed: %w'' else ''sync publish failed: %w'') [] e),
       (note_event (PublishCalled r) w)\<lparr>w_pub := s\<rparr>)" for cb
    using assms(4) by (simp add: doPublish_def Let_def split: if_splits)
  from assms(3) consider "req_Qos r = AT_MOST_ONCE" | "req_Qos r = AT_LEAST_ONCE" | "req_Qos r = EXACTLY_ONCE"
    by blast
  then show ?thesis
    using assms(2) q
    by cases (simp_all add: handlePublish_def checked published late conn_Close_def Let_def)
qed

text \<open>A PUBLISH packet with the QoS 3, which does not exist, is ignored: nothing is published, sent or
  closed.\<close>

lemma invalid_qos_ignored:
  assumes "getPublishRequest w packet = Inr r"
    and "req_Qos r \<notin> {AT_MOST_ONCE, AT_LEAST_ONCE, EXACTLY_ONCE}"
    and "authenticated (props (w_conn w)) \<or> Name packet \<in> set (allowUnauthenticated (opts h))"
  shows "handlePublish h packet w = w"
  using assms by (auto simp: handlePublish_def disconnectUnauthenticated_def)

definition demo_publish :: "byte \<Rightarrow> ControlPacket" where
  "demo_publish q =
     P311 (Publish311 ((new_Publish311 \<lparr>MessageType = PUBLISH, Dup = False, Qos = q, Retain = False, RemainingLength = 5\<rparr>)
       \<lparr>TopicName311 := ''t'', Publish_MessageID311 := 7\<rparr>))"

lemma demo_publish_request:
  "getPublishRequest w (demo_publish q) =
     Inr \<lparr>req_Dup = False, req_Qos = q, req_Retain = False, req_TopicName = ''t'', req_MessageID = 7,
       req_Message = [], req_ClientID = clientIdentifier (props (w_conn w))\<rparr>"
  by (simp add: getPublishRequest_def demo_publish_def new_Publish311_def FixedHeader.defs PublishPacket311.defs)

lemma demo_authenticated: "authenticated (props (w_conn (world demo_state)))"
  by code_simp

text \<open>A publisher that refuses everything, as one whose broker is gone.\<close>

definition refusing_publisher :: "unit Publisher" where
  "refusing_publisher =
     \<lparr>pub_Name = ''refusing'', pub_Publish = (\<lambda>_ _ s. (SyncErr (Errorf ''gone'' []), s)),
      pub_PublishAsync = (\<lambda>_ _ s. (AsyncErr (Errorf ''gone'' []), s)),
      pub_Complete = (\<lambda>_ s. (\<lparr>resp_ID = NoID, resp_Error = Some (Errorf ''gone'' [])\<rparr>, s))\<rparr>"

definition logged_in_world :: "unit world" where
  "logged_in_world = update_props (SetAuthenticated True) (world (init_state 0 (Reader [] EOF) ()))"

theorem failed_publish_witness:
  "let w' = handlePublish (New refusing_publisher [WithPublishAsyncAtLeastOnce True]) (demo_publish 1) logged_in_world in
    sents (trace w') = sents (trace logged_in_world) \<and> rwc_out (w_conn w') = rwc_out (w_conn logged_in_world) \<and>
    rwc_open (w_conn w') = False \<and>
    run_callback (PubackCallback (demo_publish 1)) demo_request \<lparr>resp_ID = NoID, resp_Error = Some EOF\<rparr> logged_in_world =
      logged_in_world"
proof -
  let ?h = "New refusing_publisher [WithPublishAsyncAtLeastOnce True]"
  let ?r = "\<lparr>req_Dup = False, req_Qos = 1, req_Retain = False, req_TopicName = ''t'', req_MessageID = 7,
      req_Message = [], req_ClientID = clientIdentifier (props (w_conn logged_in_world))\<rparr>"
  have "authenticated (props (w_conn logged_in_world)) \<or> Name (demo_publish 1) \<in> set (allowUnauthenticated (opts ?h))"
    by (simp add: logged_in_world_def)
  moreover have "req_Qos ?r \<in> {AT_MOST_ONCE, AT_LEAST_ONCE, EXACTLY_ONCE}"
    by (simp add: AT_LEAST_ONCE_def)
  moreover have "if isPublishAsync ?h (req_Qos ?r)
     then pub_PublishAsync (h_publisher ?h) (publish_context ?h) ?r (w_pub logged_in_world) = (AsyncErr (Errorf ''gone'' []), ())
     else pub_Publish (h_publisher ?h) (publish_context ?h) ?r (w_pub logged_in_world) = (SyncErr (Errorf ''gone'' []), ())"
    by (simp add: New_def Let_def refusing_publisher_def)
  moreover have "resp_Error \<lparr>resp_ID = NoID, resp_Error = Some EOF\<rparr> = Some EOF"
    by simp
  moreover have "req_Qos ?r \<noteq> AT_MOST_ONCE"
    by (simp add: AT_MOST_ONCE_def)
  ultimately show ?thesis
    using failed_publish [OF _ demo_publish_request [of logged_in_world 1], of ?h "Errorf ''gone'' []" "()"
        "\<lparr>resp_ID = NoID, resp_Error = Some EOF\<rparr>" EOF "PubackCallback (demo_publish 1)" demo_request logged_in_world]
    unfolding Let_def by simp
qed

section \<open>Dispatch\<close>

text \<open>The table before anything is ignored.\<close>

definition base_mux :: ServeMux where
  "base_mux = [CONNECT \<mapsto> HConnect, PUBLISH \<mapsto> HPublish, DISCONNECT \<mapsto> HDisconnect,
     PUBREL \<mapsto> HPublishRelease, PINGREQ \<mapsto> HPing]"

lemma fold_ignore:
  "fold (\<lambda>(t, n) m. if n = name then Handle t HIgnore m else m) tbl m t =
     (if \<exists>n. (t, n) \<in> set tbl \<and> n = name then Some HIgnore else m t)"
proof (induction tbl arbitrary: m)
  case (Cons x tbl)
  obtain a b where x: "x = (a, b)"
    by (cases x)
  have "(if b = name then Handle a HIgnore m else m) t = (if a = t \<and> b = name then Some HIgnore else m t)"
    by (simp add: Handle_def)
  then show ?case
    using Cons.IH [of "if b = name then Handle a HIgnore m else m"] by (auto simp: x)
qed simp

lemma ignore_name_apply:
  "ignore_name name m t = (if (t, name) \<in> set MqttMessageTypeNames then Some HIgnore else m t)"
  by (simp add: ignore_name_def fold_ignore)

lemma fold_ignore_name:
  "fold ignore_name names m t =
     (if \<exists>name\<in>set names. (t, name) \<in> set MqttMessageTypeNames then Some HIgnore else m t)"
  by (induction names arbitrary: m) (auto simp: ignore_name_apply)

text \<open>The handler that \<open>New\<close> builds ignores exactly the message types whose names are listed to be ignored,
  and otherwise handles CONNECT, PUBLISH, DISCONNECT, PUBREL and PINGREQ and nothing else.\<close>

lemma New_dispatch:
  "mux (New pub os) t =
     (if \<exists>name \<in> set (ignoreUnsupported (fold (\<lambda>f o'. f o') os no_options)). (t, name) \<in> set MqttMessageTypeNames
      then Some HIgnore else base_mux t)"
  by (simp add: New_def Let_def fold_ignore_name Handle_def NewServeMux_def base_mux_def)

text \<open>A packet of a type without a handler closes the connection without an answer; an ignored packet changes
  nothing but the request counter.\<close>

lemma unhandled_or_ignored:
  "let w' = ServeMQTT h p w in
    (mux h (Type p) = None \<longrightarrow>
       \<not> rwc_open (w_conn w') \<and> rwc_out (w_conn w') = rwc_out (w_conn w) \<and> w_pub w' = w_pub w) \<and>
    (mux h (Type p) = Some HIgnore \<longrightarrow>
       w' = w\<lparr>requestsTotal := (requestsTotal w)(packet_labels p := requestsTotal w (packet_labels p) + 1)\<rparr>)"
  by (simp add: ServeMQTT_def mux_ServeMQTT_def conn_Close_def note_event_def inc_def)

lemma unhandled_or_ignored_witness:
  "let w' = ServeMQTT demo_handler (P311 (Subscribe311 (new_Subscribe311 (zero_header SUBSCRIBE)))) (world demo_state) in
    (mux demo_handler (Type (P311 (Subscribe311 (new_Subscribe311 (zero_header SUBSCRIBE))))) = None \<longrightarrow>
       \<not> rwc_open (w_conn w') \<and> rwc_out (w_conn w') = rwc_out (w_conn (world demo_state)) \<and>
       w_pub w' = w_pub (world demo_state)) \<and>
    (mux demo_handler (Type (P311 (Subscribe311 (new_Subscribe311 (zero_header SUBSCRIBE))))) = Some HIgnore \<longrightarrow>
       w' = (world demo_state)\<lparr>requestsTotal := (requestsTotal (world demo_state))
         (packet_labels (P311 (Subscribe311 (new_Subscribe311 (zero_header SUBSCRIBE)))) :=
            requestsTotal (world demo_state) (packet_labels (P311 (Subscribe311 (new_Subscribe311 (zero_header SUBSCRIBE))))) + 1)\<rparr>)"
  by (rule unhandled_or_ignored)

section \<open>Refusing a version\<close>

text \<open>C21: When the first packet of an open connection names an unsupported protocol level, the loop writes a
  CONNACK with return code 1 past the buffered writer, closes the connection and ends.\<close>

theorem unsupported_version_answered:
  assumes "phase s = Reading" and "ProtocolVersion (props (w_conn (world s))) = 0"
    and "readConnectVersion (bufr (w_conn (world s))) = Inr (v, r)" and "v \<noteq> MQTT_3_1_1" and "v \<noteq> MQTT_5"
    and "rwc_open (w_conn (world s))" and "rwc_budget (w_conn (world s)) = None"
  shows "\<exists>s'. step h (Read k now) s = Some s' \<and> phase s' = Finished \<and> \<not> rwc_open (w_conn (world s')) \<and>
    rwc_out (w_conn (world s')) = rwc_out (w_conn (world s)) @ [0x20, 2, 0, 1]"
proof -
  let ?e = "ConnectAckError RefusedUnacceptableProtocolVersion ''unsupported protocol version %v'' [AInt (int (unat v))]"
  have "readRequest k (w_conn (world s)) = Inl ?e"
    using assms(2-5) by (simp add: readRequest_def ReadPacket_0 ReadVersionPacket_def faild_def NewConnAckError_def)
  moreover have "error_response ?e = Some (P311 (Connack311 ((new_Connack311 (zero_header CONNACK))\<lparr>ReturnCode311 := 1\<rparr>)))"
    by (simp add: error_response_def ConnAckResponse_def RefusedUnacceptableProtocolVersion_def)
  moreover have "snd (Write (P311 (Connack311 ((new_Connack311 (zero_header CONNACK))\<lparr>ReturnCode311 := 1\<rparr>)))) = [0x20, 2, 0, 1]"
    by code_simp
  ultimately show ?thesis
    using assms(1,6,7)
    by (simp add: refuse_def finish_def set_state_def rwc_Write_def conn_Close_def note_event_def response_Close_def)
qed

theorem unsupported_version_answered_witness:
  "\<exists>s'. step demo_handler (Read 0 0)
      (init_state 0 (Reader [0x10, 14, 0, 4, 77, 81, 84, 84, 3, 2, 0, 60, 0, 2, 99, 49] EOF) New_noop) = Some s' \<and>
    phase s' = Finished \<and> \<not> rwc_open (w_conn (world s')) \<and>
    rwc_out (w_conn (world s')) = rwc_out (w_conn (world
      (init_state 0 (Reader [0x10, 14, 0, 4, 77, 81, 84, 84, 3, 2, 0, 60, 0, 2, 99, 49] EOF) New_noop))) @ [0x20, 2, 0, 1]"
  by (rule unsupported_version_answered [of _ 3 "Reader [2, 0, 60, 0, 2, 99, 49] EOF"]) code_simp+

section \<open>Connection states\<close>

text \<open>The packed state of a connection gives back the state and the time it was set with, for every time of
  more than a billion years after 1970.\<close>

lemma conn_state_round_trip:
  assumes "0 \<le> now" and "now < 2 ^ 55"
  shows "getState (pack_state now st) = (state_code st, now)"
  using assms by (rule getState_pack_state)

end
