(* ===== verification/Server.thy ===== *)
theory Server
  imports Connection
begin

text \<open>
  The server (pkg/mqtt/server/server.go): the listeners and connections it tracks, the accept loop
  with its back-off, \<open>Close\<close> and the graceful \<open>Shutdown\<close>. Connections and listeners are numbered;
  the mutex makes every operation below atomic.
\<close>

section \<open>Listeners that close once\<close>

text \<open>
  \<open>onceCloseListener\<close>: the result of the only close of the wrapped listener, and how often that was
  closed. \<open>err\<close> is what closing the wrapped listener returns.
\<close>

record onceCloseListener =
  once_done :: bool
  closeErr :: "go_error option"
  inner_closes :: nat

definition onceClose :: "go_error option \<Rightarrow> onceCloseListener \<Rightarrow> go_error option \<times> onceCloseListener" where
  "onceClose err oc =
     (let oc = (if once_done oc then oc
                else oc\<lparr>once_done := True, closeErr := err, inner_closes := inner_closes oc + 1\<rparr>)
      in (closeErr oc, oc))"

section \<open>The server's state\<close>

text \<open>
  A channel is open or closed; closing a closed channel panics. A Go map used as a set is the list
  of its keys. \<open>conn_open\<close> and \<open>conn_state\<close> are the network connection and the packed state of each
  connection. \<open>totalConn\<close> is an \<open>int64\<close> in the code: no run accepts the 2^63 connections it would take to wrap.
\<close>

datatype chan = ChanOpen | ChanClosed

record server =
  inShutdown :: bool
  listeners :: "nat list"
  activeConn :: "nat list"
  doneChan :: "chan option"
  totalConn :: int
  conn_open :: "nat \<Rightarrow> bool"
  conn_state :: "nat \<Rightarrow> u64"
  listener :: "nat \<Rightarrow> onceCloseListener"
  chan_panic :: bool

definition new_server :: server where
  "new_server =
     \<lparr>inShutdown = False, listeners = [], activeConn = [], doneChan = None, totalConn = 0,
      conn_open = (\<lambda>_. False), conn_state = (\<lambda>_. 0),
      listener = (\<lambda>_. \<lparr>once_done = False, closeErr = None, inner_closes = 0\<rparr>), chan_panic = False\<rparr>"

definition map_insert :: "'a \<Rightarrow> 'a list \<Rightarrow> 'a list" where
  "map_insert x xs = (if x \<in> set xs then xs else xs @ [x])"

definition map_delete :: "'a \<Rightarrow> 'a list \<Rightarrow> 'a list" where
  "map_delete x xs = filter (\<lambda>y. y \<noteq> x) xs"

definition shuttingDown :: "server \<Rightarrow> bool" where
  "shuttingDown srv = inShutdown srv"

definition trackListener :: "nat \<Rightarrow> bool \<Rightarrow> server \<Rightarrow> bool \<times> server" where
  "trackListener ln add srv =
     (if add then
        (if shuttingDown srv then (False, srv)
         else (True, srv\<lparr>listeners := map_insert ln (listeners srv)\<rparr>))
      else (True, srv\<lparr>listeners := map_delete ln (listeners srv)\<rparr>))"

definition trackConn :: "nat \<Rightarrow> bool \<Rightarrow> server \<Rightarrow> server" where
  "trackConn c add srv =
     (if add
      then srv\<lparr>totalConn := totalConn srv + 1, activeConn := map_insert c (activeConn srv)\<rparr>
      else srv\<lparr>activeConn := map_delete c (activeConn srv)\<rparr>)"

definition doKeepAlives :: "server \<Rightarrow> bool" where
  "doKeepAlives srv \<longleftrightarrow> \<not> shuttingDown srv"

definition numListeners :: "server \<Rightarrow> nat" where
  "numListeners srv = length (listeners srv)"

definition NumActiveConn :: "server \<Rightarrow> nat" where
  "NumActiveConn srv = length (activeConn srv)"

definition NumTotalConn :: "server \<Rightarrow> int" where
  "NumTotalConn srv = totalConn srv"

text \<open>\<open>c.setState(state)\<close> (conn.go) tracks the connection and stores the packed state.\<close>

definition setState :: "int \<Rightarrow> nat \<Rightarrow> ConnState \<Rightarrow> server \<Rightarrow> server" where
  "setState now c state srv =
     (let srv = (case state of
                   StateNew \<Rightarrow> trackConn c True srv
                 | StateClosed \<Rightarrow> trackConn c False srv
                 | _ \<Rightarrow> srv)
      in srv\<lparr>conn_state := (conn_state srv)(c := pack_state now state)\<rparr>)"

definition rwc_Close :: "nat \<Rightarrow> server \<Rightarrow> server" where
  "rwc_Close c srv = srv\<lparr>conn_open := (conn_open srv)(c := False)\<rparr>"

section \<open>The done channel\<close>

definition getDoneChanLocked :: "server \<Rightarrow> chan \<times> server" where
  "getDoneChanLocked srv =
     (case doneChan srv of
        Some ch \<Rightarrow> (ch, srv)
      | None \<Rightarrow> (ChanOpen, srv\<lparr>doneChan := Some ChanOpen\<rparr>))"

definition close_chan :: "server \<Rightarrow> server" where
  "close_chan srv =
     (if doneChan srv = Some ChanClosed then srv\<lparr>chan_panic := True\<rparr>
      else srv\<lparr>doneChan := Some ChanClosed\<rparr>)"

definition closeDoneChanLocked :: "server \<Rightarrow> server" where
  "closeDoneChanLocked srv =
     (case getDoneChanLocked srv of
        (ChanClosed, srv) \<Rightarrow> srv
      | (ChanOpen, srv) \<Rightarrow> close_chan srv)"

section \<open>Closing\<close>

text \<open>\<open>lnerr ln\<close> is the error of closing the network listener \<open>ln\<close>; the first error is returned.\<close>

definition closeListener :: "(nat \<Rightarrow> go_error option) \<Rightarrow> nat \<Rightarrow> go_error option \<times> server \<Rightarrow> go_error option \<times> server" where
  "closeListener lnerr ln es =
     (case es of (err, srv) \<Rightarrow>
        (case onceClose (lnerr ln) (listener srv ln) of (cerr, oc) \<Rightarrow>
           (if cerr \<noteq> None \<and> err = None then cerr else err,
            srv\<lparr>listener := (listener srv)(ln := oc)\<rparr>)))"

definition closeListenersLocked :: "(nat \<Rightarrow> go_error option) \<Rightarrow> server \<Rightarrow> go_error option \<times> server" where
  "closeListenersLocked lnerr srv = fold (closeListener lnerr) (listeners srv) (None, srv)"

definition Close_conn :: "nat \<Rightarrow> server \<Rightarrow> server" where
  "Close_conn c srv =
     (let srv = rwc_Close c srv in srv\<lparr>activeConn := map_delete c (activeConn srv)\<rparr>)"

definition Server_Close :: "(nat \<Rightarrow> go_error option) \<Rightarrow> server \<Rightarrow> go_error option \<times> server" where
  "Server_Close lnerr srv =
     (let srv = srv\<lparr>inShutdown := True\<rparr>;
          srv = closeDoneChanLocked srv
      in case closeListenersLocked lnerr srv of
           (err, srv) \<Rightarrow> (err, fold Close_conn (activeConn srv) srv))"

text \<open>
  The body of the loop of \<open>closeIdleConns\<close>: a new connection counts as idle when it has been new for
  more than five seconds; a time of zero means that no state was set yet.
\<close>

definition treated_idle :: "int \<Rightarrow> u64 \<Rightarrow> bool" where
  "treated_idle now packedState =
     (case getState packedState of (st, unixSec) \<Rightarrow>
        (let st = (if st = state_code StateNew \<and> unixSec < now - 5 then state_code StateIdle else st)
         in \<not> (st \<noteq> state_code StateIdle \<or> unixSec = 0)))"

definition closeIdle_conn :: "int \<Rightarrow> nat \<Rightarrow> bool \<times> server \<Rightarrow> bool \<times> server" where
  "closeIdle_conn now c qs =
     (case qs of (quiescent, srv) \<Rightarrow>
        if treated_idle now (conn_state srv c) then (quiescent, Close_conn c srv)
        else (False, srv))"

definition closeIdleConns :: "int \<Rightarrow> server \<Rightarrow> bool \<times> server" where
  "closeIdleConns now srv = fold (closeIdle_conn now) (activeConn srv) (True, srv)"

definition Shutdown_begin :: "(nat \<Rightarrow> go_error option) \<Rightarrow> server \<Rightarrow> go_error option \<times> server" where
  "Shutdown_begin lnerr srv =
     (case closeListenersLocked lnerr (srv\<lparr>inShutdown := True\<rparr>) of
        (err, srv) \<Rightarrow> (err, closeDoneChanLocked srv))"

text \<open>
  The polling loop, for the times at which it polls and what the rest of the program did to the
  server before each poll; when the polls are used up, the context is done.
\<close>

fun Shutdown_loop ::
  "go_error option \<Rightarrow> go_error \<Rightarrow> (int \<times> (server \<Rightarrow> server)) list \<Rightarrow> server \<Rightarrow> go_error option \<times> server" where
  "Shutdown_loop err ctxErr [] srv = (Some ctxErr, srv)"
| "Shutdown_loop err ctxErr ((now, env) # polls) srv =
     (case closeIdleConns now (env srv) of (quiescent, srv) \<Rightarrow>
        if quiescent \<and> numListeners srv = 0 then (err, srv)
        else Shutdown_loop err ctxErr polls srv)"

definition Shutdown ::
  "(nat \<Rightarrow> go_error option) \<Rightarrow> go_error \<Rightarrow> (int \<times> (server \<Rightarrow> server)) list \<Rightarrow> server \<Rightarrow> go_error option \<times> server" where
  "Shutdown lnerr ctxErr polls srv =
     (case Shutdown_begin lnerr srv of (err, srv) \<Rightarrow> Shutdown_loop err ctxErr polls srv)"

section \<open>The accept loop\<close>

definition ErrServerClosed :: go_error where
  "ErrServerClosed = Errorf ''mqtt: Server closed'' []"

definition millisecond :: int where
  "millisecond = 1000000"

text \<open>The delay before the next attempt, from the delay before the last one.\<close>

definition next_delay :: "int \<Rightarrow> int" where
  "next_delay tempDelay =
     (let d = (if tempDelay = 0 then 5 * millisecond else tempDelay * 2)
      in if d > 1000 * millisecond then 1000 * millisecond else d)"

text \<open>
  What \<open>Accept\<close> returns: a connection (with its number), a temporary error or another error. One
  turn of the loop ends it with an error, or goes on with a delay.
\<close>

datatype accept_result = Accepted_conn nat | TemporaryError go_error | PermanentError go_error

datatype accept_next = Return go_error | Continue int

definition newConn :: "nat \<Rightarrow> server \<Rightarrow> server" where
  "newConn c srv = srv\<lparr>conn_open := (conn_open srv)(c := True)\<rparr>"

definition Serve_accept :: "int \<Rightarrow> accept_result \<Rightarrow> int \<Rightarrow> server \<Rightarrow> accept_next \<times> server" where
  "Serve_accept now res tempDelay srv =
     (case res of
        Accepted_conn c \<Rightarrow> (Continue 0, setState now c StateNew (newConn c srv))
      | TemporaryError e \<Rightarrow>
          (case getDoneChanLocked srv of
             (ChanClosed, srv) \<Rightarrow> (Return ErrServerClosed, srv)
           | (ChanOpen, srv) \<Rightarrow> (Continue (next_delay tempDelay), srv))
      | PermanentError e \<Rightarrow>
          (case getDoneChanLocked srv of
             (ChanClosed, srv) \<Rightarrow> (Return ErrServerClosed, srv)
           | (ChanOpen, srv) \<Rightarrow> (Return e, srv)))"

text \<open>
  \<open>Serve\<close> on listener \<open>ln\<close> for the results that \<open>Accept\<close> gives, with the time of each; between two
  turns the rest of the program acts on the server. The listener is closed and no longer tracked
  when the loop returns.
\<close>

fun accept_loop ::
  "(int \<times> accept_result \<times> (server \<Rightarrow> server)) list \<Rightarrow> int \<Rightarrow> server \<Rightarrow> go_error option \<times> server" where
  "accept_loop [] tempDelay srv = (None, srv)"
| "accept_loop ((now, res, env) # turns) tempDelay srv =
     (case Serve_accept now res tempDelay (env srv) of
        (Return e, srv) \<Rightarrow> (Some e, srv)
      | (Continue d, srv) \<Rightarrow> accept_loop turns d srv)"

definition Serve_listener ::
  "(nat \<Rightarrow> go_error option) \<Rightarrow> nat \<Rightarrow> (int \<times> accept_result \<times> (server \<Rightarrow> server)) list \<Rightarrow> server \<Rightarrow>
   go_error option \<times> server" where
  "Serve_listener lnerr ln turns srv =
     (case trackListener ln True srv of
        (False, srv) \<Rightarrow> (Some ErrServerClosed, snd (closeListener lnerr ln (None, srv)))
      | (True, srv) \<Rightarrow>
          (case accept_loop turns 0 srv of
             (None, srv) \<Rightarrow> (None, srv)
           | (Some e, srv) \<Rightarrow>
               (Some e, snd (closeListener lnerr ln (None, snd (trackListener ln False srv))))))"

text \<open>
  \<open>ListenAndServe\<close> and \<open>ListenAndServeTLS\<close>: the defaults for empty fields, and the listener that
  \<open>net.Listen\<close> gives. The deferred close of the outer listener comes after the one in \<open>Serve\<close>. A TLS
  listener accepts what the listener under it accepts.
\<close>

definition serve_and_close ::
  "(nat \<Rightarrow> go_error option) \<Rightarrow> nat \<Rightarrow> (int \<times> accept_result \<times> (server \<Rightarrow> server)) list \<Rightarrow> server \<Rightarrow>
   go_error option \<times> server" where
  "serve_and_close lnerr l turns srv =
     (case Serve_listener lnerr l turns srv of
        (None, srv) \<Rightarrow> (None, srv)
      | (Some e, srv) \<Rightarrow> (Some e, snd (closeListener lnerr l (None, srv))))"

definition ListenAndServe ::
  "string \<Rightarrow> string \<Rightarrow> (string \<Rightarrow> string \<Rightarrow> go_error + nat) \<Rightarrow> (nat \<Rightarrow> go_error option) \<Rightarrow>
   (int \<times> accept_result \<times> (server \<Rightarrow> server)) list \<Rightarrow> server \<Rightarrow> go_error option \<times> server" where
  "ListenAndServe Network Addr net_Listen lnerr turns srv =
     (if inShutdown srv then (Some ErrServerClosed, srv)
      else
        (let network = (if length Network = 0 then ''tcp'' else Network);
             addr = (if length Addr = 0 then '':1883'' else Addr)
         in case net_Listen network addr of
              Inl e \<Rightarrow> (Some e, srv)
            | Inr l \<Rightarrow> serve_and_close lnerr l turns srv))"

definition ListenAndServeTLS ::
  "string \<Rightarrow> string \<Rightarrow> (string \<Rightarrow> string \<Rightarrow> go_error + nat) \<Rightarrow> (nat \<Rightarrow> go_error option) \<Rightarrow>
   (int \<times> accept_result \<times> (server \<Rightarrow> server)) list \<Rightarrow> server \<Rightarrow> go_error option \<times> server" where
  "ListenAndServeTLS Network Addr net_Listen lnerr turns srv =
     (if inShutdown srv then (Some ErrServerClosed, srv)
      else
        (let network = (if length Network = 0 then ''tcp'' else Network);
             addr = (if length Addr = 0 then '':8883'' else Addr)
         in case net_Listen network addr of
              Inl e \<Rightarrow> (Some e, srv)
            | Inr l \<Rightarrow> serve_and_close lnerr l turns srv))"

section \<open>Closing connections\<close>

lemma Close_conn_simps [simp]:
  "activeConn (Close_conn c srv) = map_delete c (activeConn srv)"
  "conn_open (Close_conn c srv) = (conn_open srv)(c := False)"
  "conn_state (Close_conn c srv) = conn_state srv"
  "listeners (Close_conn c srv) = listeners srv" "inShutdown (Close_conn c srv) = inShutdown srv"
  "doneChan (Close_conn c srv) = doneChan srv" "totalConn (Close_conn c srv) = totalConn srv"
  "chan_panic (Close_conn c srv) = chan_panic srv"
  by (simp_all add: Close_conn_def rwc_Close_def)

lemma set_map_delete [simp]: "set (map_delete x xs) = set xs - {x}"
  by (auto simp: map_delete_def)

lemma set_map_insert [simp]: "set (map_insert x xs) = insert x (set xs)"
  by (auto simp: map_insert_def)

lemma distinct_map_delete: "distinct xs \<Longrightarrow> distinct (map_delete x xs)"
  by (simp add: map_delete_def)

lemma distinct_map_insert: "distinct xs \<Longrightarrow> distinct (map_insert x xs)"
  by (simp add: map_insert_def)

lemma length_map_delete: "length (map_delete x xs) \<le> length xs"
  by (simp add: map_delete_def)

lemma length_map_insert: "length (map_insert x xs) \<le> length xs + 1"
  by (simp add: map_insert_def)

lemma fold_Close_conn:
  "set (activeConn (fold Close_conn cs srv)) = set (activeConn srv) - set cs \<and>
   (\<forall>c. conn_open (fold Close_conn cs srv) c \<longleftrightarrow> conn_open srv c \<and> c \<notin> set cs)"
  by (induction cs arbitrary: srv) auto

lemma fold_Close_conn_keeps:
  "inShutdown (fold Close_conn cs srv) = inShutdown srv \<and> doneChan (fold Close_conn cs srv) = doneChan srv \<and>
   chan_panic (fold Close_conn cs srv) = chan_panic srv \<and> listeners (fold Close_conn cs srv) = listeners srv"
  by (induction cs arbitrary: srv) simp_all

lemma fold_closeIdle_conn:
  assumes "fold (closeIdle_conn now) cs (q, srv) = (q', srv')"
  shows "q' \<longleftrightarrow> q \<and> (\<forall>c\<in>set cs. treated_idle now (conn_state srv c))"
    and "set (activeConn srv') = {c \<in> set (activeConn srv). c \<notin> set cs \<or> \<not> treated_idle now (conn_state srv c)}"
    and "conn_open srv' c \<longleftrightarrow> conn_open srv c \<and> (c \<notin> set cs \<or> \<not> treated_idle now (conn_state srv c))"
    and "listeners srv' = listeners srv" and "conn_state srv' = conn_state srv"
proof -
  have "(q' \<longleftrightarrow> q \<and> (\<forall>c\<in>set cs. treated_idle now (conn_state srv c))) \<and>
      set (activeConn srv') = {c \<in> set (activeConn srv). c \<notin> set cs \<or> \<not> treated_idle now (conn_state srv c)} \<and>
      (\<forall>c. conn_open srv' c \<longleftrightarrow> conn_open srv c \<and> (c \<notin> set cs \<or> \<not> treated_idle now (conn_state srv c))) \<and>
      listeners srv' = listeners srv \<and> conn_state srv' = conn_state srv"
    using assms
  proof (induction cs arbitrary: q srv)
    case Nil
    then show ?case by simp
  next
    case (Cons a cs)
    show ?case
    proof (cases "treated_idle now (conn_state srv a)")
      case True
      with Cons.prems have "fold (closeIdle_conn now) cs (q, Close_conn a srv) = (q', srv')"
        by (simp add: closeIdle_conn_def [of now a])
      from Cons.IH [OF this] True show ?thesis
        by auto
    next
      case False
      with Cons.prems have "fold (closeIdle_conn now) cs (False, srv) = (q', srv')"
        by (simp add: closeIdle_conn_def [of now a])
      from Cons.IH [OF this] False show ?thesis
        by auto
    qed
  qed
  then show "q' \<longleftrightarrow> q \<and> (\<forall>c\<in>set cs. treated_idle now (conn_state srv c))"
    and "set (activeConn srv') = {c \<in> set (activeConn srv). c \<notin> set cs \<or> \<not> treated_idle now (conn_state srv c)}"
    and "conn_open srv' c \<longleftrightarrow> conn_open srv c \<and> (c \<notin> set cs \<or> \<not> treated_idle now (conn_state srv c))"
    and "listeners srv' = listeners srv" and "conn_state srv' = conn_state srv"
    by blast+
qed

lemma closeDoneChanLocked_simps [simp]:
  "doneChan (closeDoneChanLocked srv) = Some ChanClosed"
  "chan_panic (closeDoneChanLocked srv) = chan_panic srv"
  "listeners (closeDoneChanLocked srv) = listeners srv"
  "activeConn (closeDoneChanLocked srv) = activeConn srv"
  "inShutdown (closeDoneChanLocked srv) = inShutdown srv"
  "conn_open (closeDoneChanLocked srv) = conn_open srv"
  by (auto simp: closeDoneChanLocked_def getDoneChanLocked_def close_chan_def split: option.split chan.split)

lemma fold_closeListener_keeps:
  assumes "fold (closeListener lnerr) ls (err, srv) = (err', srv')"
  shows "activeConn srv' = activeConn srv \<and> doneChan srv' = doneChan srv \<and> chan_panic srv' = chan_panic srv \<and>
    listeners srv' = listeners srv \<and> inShutdown srv' = inShutdown srv \<and> conn_open srv' = conn_open srv"
  using assms
proof (induction ls arbitrary: err srv)
  case (Cons l ls)
  obtain e s where "closeListener lnerr l (err, srv) = (e, s)"
    by (cases "closeListener lnerr l (err, srv)")
  moreover from this have "activeConn s = activeConn srv" "doneChan s = doneChan srv" "chan_panic s = chan_panic srv"
      "listeners s = listeners srv" "inShutdown s = inShutdown srv" "conn_open s = conn_open srv"
    by (auto simp: closeListener_def split: prod.splits)
  ultimately show ?case
    using Cons.IH [of e s] Cons.prems by simp
qed simp

lemma treated_idle_pack_state:
  assumes "0 < t" and "t < 2 ^ 55"
  shows "treated_idle now (pack_state t st) \<longleftrightarrow> st = StateIdle \<or> st = StateNew \<and> t < now - 5"
  using assms by (cases st) (simp_all add: treated_idle_def getState_pack_state)

end
