(* ===== verification/Server_Properties.thy ===== *)
theory Server_Properties
  imports Server
begin

text \<open>
  The server over time: an invariant of all its operations, and what closing, shutting down and
  accepting guarantee.
\<close>

section \<open>The server's operations and their invariant\<close>

text \<open>
  The operations that other goroutines may interleave, each atomic under the mutex: a new connection, the
  state changes of a connection's loop, tracking a listener, closing, and the first part of a shutdown
  with its polls.
\<close>

datatype server_op =
    OpAccept int nat
  | OpState int nat ConnState
  | OpTrackListener nat bool
  | OpCloseListener nat
  | OpGetDone
  | OpClose
  | OpShutdown
  | OpCloseIdle int

fun server_step :: "(nat \<Rightarrow> go_error option) \<Rightarrow> server_op \<Rightarrow> server \<Rightarrow> server" where
  "server_step lnerr (OpAccept now c) srv = setState now c StateNew (newConn c srv)"
| "server_step lnerr (OpState now c st) srv = (if st = StateNew then srv else setState now c st srv)"
| "server_step lnerr (OpTrackListener ln add) srv = snd (trackListener ln add srv)"
| "server_step lnerr (OpCloseListener ln) srv = snd (closeListener lnerr ln (None, srv))"
| "server_step lnerr OpGetDone srv = snd (getDoneChanLocked srv)"
| "server_step lnerr OpClose srv = snd (Server_Close lnerr srv)"
| "server_step lnerr OpShutdown srv = snd (Shutdown_begin lnerr srv)"
| "server_step lnerr (OpCloseIdle now) srv = snd (closeIdleConns now srv)"

text \<open>
  Connections are tracked once, no more than were ever accepted; no channel is closed twice; and a
  listener's own close runs at most once, when the wrapper says so.
\<close>

definition once_ok :: "onceCloseListener \<Rightarrow> bool" where
  "once_ok oc \<longleftrightarrow> inner_closes oc = (if once_done oc then 1 else 0)"

definition server_ok :: "server \<Rightarrow> bool" where
  "server_ok srv \<longleftrightarrow>
     distinct (activeConn srv) \<and> distinct (listeners srv) \<and>
     int (NumActiveConn srv) \<le> NumTotalConn srv \<and> \<not> chan_panic srv \<and> (\<forall>ln. once_ok (listener srv ln))"

named_theorems server_defs

declare server_ok_def [server_defs] setState_def [server_defs] trackConn_def [server_defs] newConn_def [server_defs]
  trackListener_def [server_defs] NumActiveConn_def [server_defs] NumTotalConn_def [server_defs]

lemma once_ok_onceClose: "once_ok oc \<Longrightarrow> once_ok (snd (onceClose err oc))"
  by (auto simp: once_ok_def onceClose_def Let_def)

lemma server_ok_new: "server_ok new_server"
  by (simp add: server_defs new_server_def once_ok_def)

lemma server_ok_accept: "server_ok srv \<Longrightarrow> server_ok (setState now c StateNew (newConn c srv))"
  using length_map_insert [of c "activeConn srv"]
  by (simp add: server_defs Let_def distinct_map_insert)

lemma server_ok_setState: "server_ok srv \<Longrightarrow> st \<noteq> StateNew \<Longrightarrow> server_ok (setState now c st srv)"
  using length_map_delete [of c "activeConn srv"]
  by (cases st) (simp_all add: server_defs Let_def distinct_map_delete)

lemma server_ok_trackListener: "server_ok srv \<Longrightarrow> server_ok (snd (trackListener ln add srv))"
  by (simp add: server_defs distinct_map_insert distinct_map_delete)

lemma server_ok_closeListener: "server_ok srv \<Longrightarrow> server_ok (snd (closeListener lnerr ln (err, srv)))"
  using once_ok_onceClose [of "listener srv ln" "lnerr ln"]
  by (cases "onceClose (lnerr ln) (listener srv ln)") (auto simp: server_defs closeListener_def)

lemma server_ok_closeListeners:
  "server_ok srv \<Longrightarrow> server_ok (snd (fold (closeListener lnerr) ls (err, srv)))"
proof (induction ls arbitrary: err srv)
  case (Cons l ls)
  obtain e s where es: "closeListener lnerr l (err, srv) = (e, s)"
    by (cases "closeListener lnerr l (err, srv)")
  with server_ok_closeListener [OF Cons.prems, of lnerr l err] have "server_ok s"
    by simp
  from Cons.IH [OF this, of e] es show ?case
    by simp
qed simp

lemma closeDoneChanLocked_other [simp]:
  "totalConn (closeDoneChanLocked srv) = totalConn srv" "listener (closeDoneChanLocked srv) = listener srv"
  by (auto simp: closeDoneChanLocked_def getDoneChanLocked_def close_chan_def split: option.split chan.split)

lemma server_ok_closeDone: "server_ok srv \<Longrightarrow> server_ok (closeDoneChanLocked srv)"
  by (simp add: server_defs)

lemma server_ok_flag: "server_ok srv \<Longrightarrow> server_ok (srv\<lparr>inShutdown := b\<rparr>)"
  by (simp add: server_defs)

lemma server_ok_Close_conn: "server_ok srv \<Longrightarrow> server_ok (Close_conn c srv)"
  using length_map_delete [of c "activeConn srv"]
  by (simp add: server_defs distinct_map_delete) (simp add: Close_conn_def rwc_Close_def)

lemma server_ok_fold_Close_conn: "server_ok srv \<Longrightarrow> server_ok (fold Close_conn cs srv)"
  by (induction cs arbitrary: srv) (simp_all add: server_ok_Close_conn)

lemma server_ok_Close: "server_ok srv \<Longrightarrow> server_ok (snd (Server_Close lnerr srv))"
  using server_ok_closeListeners [OF server_ok_closeDone [OF server_ok_flag [of srv True]], of lnerr "listeners srv" None]
  by (auto simp: Server_Close_def Let_def closeListenersLocked_def split: prod.split
      intro!: server_ok_fold_Close_conn)

lemma server_ok_Shutdown_begin: "server_ok srv \<Longrightarrow> server_ok (snd (Shutdown_begin lnerr srv))"
  using server_ok_closeListeners [OF server_ok_flag [of srv True], of lnerr "listeners srv" None]
  by (auto simp: Shutdown_begin_def closeListenersLocked_def split: prod.split intro!: server_ok_closeDone)

lemma server_ok_closeIdle: "server_ok srv \<Longrightarrow> server_ok (snd (fold (closeIdle_conn now) cs (q, srv)))"
proof (induction cs arbitrary: q srv)
  case (Cons c cs)
  then show ?case
    by (cases "treated_idle now (conn_state srv c)")
      (simp_all add: closeIdle_conn_def [of now c] server_ok_Close_conn)
qed simp

lemma server_ok_step: "server_ok srv \<Longrightarrow> server_ok (server_step lnerr a srv)"
  by (cases a) (auto simp: server_ok_accept server_ok_setState server_ok_trackListener server_ok_closeListener
      server_ok_Close server_ok_Shutdown_begin closeIdleConns_def server_ok_closeIdle getDoneChanLocked_def
      split: option.split, simp add: server_defs)

text \<open>C22: However the server's operations interleave, no connection is tracked twice, no more connections are
  active than were accepted, the done channel is never closed twice and no listener's own close runs more
  than once.\<close>

theorem server_invariant:
  "server_ok (fold (server_step lnerr) as new_server)"
proof -
  have "server_ok (fold (server_step lnerr) as srv)" if "server_ok srv" for srv
    using that by (induction as arbitrary: srv) (simp_all add: server_ok_step)
  then show ?thesis
    using server_ok_new .
qed

section \<open>Closing\<close>

text \<open>C23: \<open>Close\<close> ends with every tracked connection closed and forgotten, no other connection touched, the done
  channel closed without a panic, and the server refusing new listeners.\<close>

theorem Close_closes_everything:
  "case Server_Close lnerr srv of (err, srv') \<Rightarrow>
     inShutdown srv' \<and> doneChan srv' = Some ChanClosed \<and> chan_panic srv' = chan_panic srv \<and>
     activeConn srv' = [] \<and> (\<forall>c. conn_open srv' c \<longleftrightarrow> conn_open srv c \<and> c \<notin> set (activeConn srv)) \<and>
     fst (trackListener ln True srv') = False"
proof -
  define s0 where "s0 = closeDoneChanLocked (srv\<lparr>inShutdown := True\<rparr>)"
  obtain err s1 where s1: "fold (closeListener lnerr) (listeners srv) (None, s0) = (err, s1)"
    by (cases "fold (closeListener lnerr) (listeners srv) (None, s0)")
  have eq: "Server_Close lnerr srv = (err, fold Close_conn (activeConn s1) s1)"
    by (simp add: Server_Close_def Let_def closeListenersLocked_def s1 flip: s0_def)
  have "activeConn (fold Close_conn (activeConn s1) s1) = []"
    using fold_Close_conn [of "activeConn s1" s1] by auto
  with fold_closeListener_keeps [OF s1] fold_Close_conn [of "activeConn s1" s1]
    fold_Close_conn_keeps [of "activeConn s1" s1] show ?thesis
    by (auto simp: eq s0_def trackListener_def shuttingDown_def)
qed

theorem Close_closes_everything_witness:
  "case Server_Close (\<lambda>_. None) (setState 1 7 StateNew (newConn 7 new_server)) of (err, srv') \<Rightarrow>
     inShutdown srv' \<and> doneChan srv' = Some ChanClosed \<and>
     chan_panic srv' = chan_panic (setState 1 7 StateNew (newConn 7 new_server)) \<and>
     activeConn srv' = [] \<and>
     (\<forall>c. conn_open srv' c \<longleftrightarrow> conn_open (setState 1 7 StateNew (newConn 7 new_server)) c \<and>
        c \<notin> set (activeConn (setState 1 7 StateNew (newConn 7 new_server)))) \<and>
     fst (trackListener 0 True srv') = False"
  by (rule Close_closes_everything)

text \<open>C24: A poll of a shutdown closes exactly the connections that are idle, or new for more than five seconds,
  keeps the others, and reports quiescence exactly when no other was left.\<close>

theorem closeIdleConns_exact:
  assumes "\<And>c. conn_state srv c = pack_state (t c) (st c)" and "\<And>c. 0 < t c \<and> t c < 2 ^ 55"
  shows "case closeIdleConns now srv of (quiescent, srv') \<Rightarrow>
    set (activeConn srv') = {c \<in> set (activeConn srv). \<not> (st c = StateIdle \<or> st c = StateNew \<and> t c < now - 5)} \<and>
    (\<forall>c. conn_open srv' c \<longleftrightarrow> conn_open srv c \<and>
       \<not> (c \<in> set (activeConn srv) \<and> (st c = StateIdle \<or> st c = StateNew \<and> t c < now - 5))) \<and>
    (quiescent \<longleftrightarrow> activeConn srv' = [])"
proof -
  obtain q srv' where q: "fold (closeIdle_conn now) (activeConn srv) (True, srv) = (q, srv')"
    by (cases "fold (closeIdle_conn now) (activeConn srv) (True, srv)")
  have idle: "treated_idle now (conn_state srv c) \<longleftrightarrow> st c = StateIdle \<or> st c = StateNew \<and> t c < now - 5" for c
    using assms(2) [of c] by (simp add: assms(1) treated_idle_pack_state)
  have "activeConn srv' = [] \<longleftrightarrow> set (activeConn srv') = {}"
    by simp
  then show ?thesis
    using fold_closeIdle_conn(1-3) [OF q] by (auto simp: closeIdleConns_def q idle)
qed

theorem closeIdleConns_exact_witness:
  "case closeIdleConns 100 (new_server\<lparr>activeConn := [1], conn_state := \<lambda>_. pack_state 90 StateIdle\<rparr>) of (quiescent, srv') \<Rightarrow>
    set (activeConn srv') =
      {c \<in> set (activeConn (new_server\<lparr>activeConn := [1], conn_state := \<lambda>_. pack_state 90 StateIdle\<rparr>)).
         \<not> (StateIdle = StateIdle \<or> StateIdle = StateNew \<and> (90::int) < 100 - 5)} \<and>
    (\<forall>c. conn_open srv' c \<longleftrightarrow>
       conn_open (new_server\<lparr>activeConn := [1], conn_state := \<lambda>_. pack_state 90 StateIdle\<rparr>) c \<and>
       \<not> (c \<in> set (activeConn (new_server\<lparr>activeConn := [1], conn_state := \<lambda>_. pack_state 90 StateIdle\<rparr>)) \<and>
          (StateIdle = StateIdle \<or> StateIdle = StateNew \<and> (90::int) < 100 - 5))) \<and>
    (quiescent \<longleftrightarrow> activeConn srv' = [])"
  by (rule closeIdleConns_exact [where t = "\<lambda>_. 90" and st = "\<lambda>_. StateIdle"]) simp_all




section \<open>Accepting\<close>

text \<open>The delay after \<open>n\<close> temporary errors in a row is 5 milliseconds doubled with each error, at most one
  second.\<close>

lemma accept_backoff:
  "(next_delay ^^ Suc n) 0 = min (5 * 2 ^ n * millisecond) (1000 * millisecond)"
proof (induction n)
  case 0
  show ?case
    by (simp add: next_delay_def millisecond_def)
next
  case (Suc n)
  have "0 < (2::int) ^ n"
    by simp
  then show ?case
    using Suc by (simp add: next_delay_def millisecond_def Let_def min_def)
qed

text \<open>Once the server is closed or shutting down, serving a listener ends with \<open>ErrServerClosed\<close> at once,
  listening does so without opening one, and a failing \<open>Accept\<close> of a running loop is reported as
  \<open>ErrServerClosed\<close> too.\<close>

lemma closed_server_serves_nothing:
  assumes "inShutdown srv" and "doneChan srv = Some ChanClosed"
  shows "fst (Serve_listener lnerr ln turns srv) = Some ErrServerClosed \<and>
    listeners (snd (Serve_listener lnerr ln turns srv)) = listeners srv \<and>
    ListenAndServe network addr net_Listen lnerr turns srv = (Some ErrServerClosed, srv) \<and>
    ListenAndServeTLS network addr net_Listen lnerr turns srv = (Some ErrServerClosed, srv) \<and>
    Serve_accept now (TemporaryError e) d srv = (Return ErrServerClosed, srv) \<and>
    Serve_accept now (PermanentError e) d srv = (Return ErrServerClosed, srv)"
  using assms
  by (simp add: Serve_listener_def trackListener_def shuttingDown_def closeListener_def ListenAndServe_def
      ListenAndServeTLS_def Serve_accept_def getDoneChanLocked_def split: prod.split)

lemma closed_server_serves_nothing_witness:
  "fst (Serve_listener (\<lambda>_. None) 0 [] (new_server\<lparr>inShutdown := True, doneChan := Some ChanClosed\<rparr>)) = Some ErrServerClosed \<and>
   listeners (snd (Serve_listener (\<lambda>_. None) 0 [] (new_server\<lparr>inShutdown := True, doneChan := Some ChanClosed\<rparr>))) =
     listeners (new_server\<lparr>inShutdown := True, doneChan := Some ChanClosed\<rparr>) \<and>
   ListenAndServe [] [] (\<lambda>_ _. Inr 0) (\<lambda>_. None) [] (new_server\<lparr>inShutdown := True, doneChan := Some ChanClosed\<rparr>) =
     (Some ErrServerClosed, new_server\<lparr>inShutdown := True, doneChan := Some ChanClosed\<rparr>) \<and>
   ListenAndServeTLS [] [] (\<lambda>_ _. Inr 0) (\<lambda>_. None) [] (new_server\<lparr>inShutdown := True, doneChan := Some ChanClosed\<rparr>) =
     (Some ErrServerClosed, new_server\<lparr>inShutdown := True, doneChan := Some ChanClosed\<rparr>) \<and>
   Serve_accept 1 (TemporaryError EOF) 0 (new_server\<lparr>inShutdown := True, doneChan := Some ChanClosed\<rparr>) =
     (Return ErrServerClosed, new_server\<lparr>inShutdown := True, doneChan := Some ChanClosed\<rparr>) \<and>
   Serve_accept 1 (PermanentError EOF) 0 (new_server\<lparr>inShutdown := True, doneChan := Some ChanClosed\<rparr>) =
     (Return ErrServerClosed, new_server\<lparr>inShutdown := True, doneChan := Some ChanClosed\<rparr>)"
  by (rule closed_server_serves_nothing) simp_all

end
