(* ===== verification/Sqs.thy ===== *)
theory Sqs
  imports Config
begin

text \<open>
  The SQS publisher (pkg/publisher/sqs): a request is one \<open>SendMessage\<close> to the queue its topic is
  mapped to; the URLs of the queues are cached. The client of the AWS library is a record of its two
  operations; nothing is assumed about it.
\<close>

section \<open>Options (option.go)\<close>

record sqs_options =
  sqs_region :: string
  sqs_profile :: string
  sqs_defaultQueue :: string
  sqs_queueMappings :: "TopicMapping list"
  sqs_messageFormat :: string

definition sqs_validate :: "sqs_options \<Rightarrow> go_error option" where
  "sqs_validate o' =
     (if sqs_defaultQueue o' = [] \<and> length (sqs_queueMappings o') = 0
      then Some (Errorf ''sqs default queue or queue mappings must be provided'' [])
      else if sqs_messageFormat o' = [] then Some (Errorf ''publisher message format must not be empty'' [])
      else None)"

type_synonym sqs_option = "sqs_options \<Rightarrow> sqs_options"

definition sqs_WithAWSRegion :: "string \<Rightarrow> sqs_option" where
  "sqs_WithAWSRegion s o' = o'\<lparr>sqs_region := s\<rparr>"

definition sqs_WithAWSProfile :: "string \<Rightarrow> sqs_option" where
  "sqs_WithAWSProfile s o' = o'\<lparr>sqs_profile := s\<rparr>"

definition sqs_WithQueueMappings :: "TopicMapping list \<Rightarrow> sqs_option" where
  "sqs_WithQueueMappings m o' = o'\<lparr>sqs_queueMappings := m\<rparr>"

definition sqs_WithDefaultQueue :: "string \<Rightarrow> sqs_option" where
  "sqs_WithDefaultQueue s o' = o'\<lparr>sqs_defaultQueue := s\<rparr>"

definition sqs_WithMessageFormat :: "string \<Rightarrow> sqs_option" where
  "sqs_WithMessageFormat s o' = o'\<lparr>sqs_messageFormat := s\<rparr>"

section \<open>The client of the library and the publisher's state\<close>

text \<open>
  Strings behind pointers are options, as the library may leave them nil. An attribute is a pair of
  its data type and its value.
\<close>

record SendMessageInput =
  smi_MessageAttributes :: "(string \<times> string \<times> string) list"
  smi_MessageBody :: string
  smi_QueueUrl :: string
  smi_MessageGroupId :: "string option"
  smi_MessageDeduplicationId :: "string option"

record 'b sqs_client =
  sqs_GetQueueUrl :: "Context \<Rightarrow> string \<Rightarrow> 'b \<Rightarrow> (go_error + string option) \<times> 'b"
  sqs_SendMessage :: "Context \<Rightarrow> SendMessageInput \<Rightarrow> 'b \<Rightarrow> (go_error + string option) \<times> 'b"

text \<open>\<open>sqs_sent\<close> is a ghost component: the messages the service accepted.\<close>

record 'b sqs_state =
  sqs_broker :: 'b
  sqs_queueUrls :: "string \<rightharpoonup> string option"
  sqs_done :: DoneChannel
  sqs_sent :: "SendMessageInput list"

text \<open>\<open>newClient\<close> loads the AWS configuration and checks the caller's identity.\<close>

definition sqs_newClient ::
  "(string \<Rightarrow> string \<Rightarrow> go_error + 'cfg) \<Rightarrow> ('cfg \<Rightarrow> go_error option) \<Rightarrow> ('cfg \<Rightarrow> 'client) \<Rightarrow>
   sqs_options \<Rightarrow> go_error + 'client" where
  "sqs_newClient LoadDefaultConfig GetCallerIdentity NewFromConfig o' =
     (case LoadDefaultConfig (sqs_region o') (sqs_profile o') of
        Inl err \<Rightarrow> Inl err
      | Inr cfg \<Rightarrow>
          (case GetCallerIdentity cfg of
             Some err \<Rightarrow> Inl (Wrapf ''failed to get caller identity for SQS client %w'' [] err)
           | None \<Rightarrow> Inr (NewFromConfig cfg)))"

definition New_sqs ::
  "(sqs_options \<Rightarrow> go_error + 'b sqs_client) \<Rightarrow> sqs_option list \<Rightarrow> 'b \<Rightarrow>
   go_error + sqs_options \<times> 'b sqs_client \<times> 'b sqs_state" where
  "New_sqs newClient os b =
     (let o' = fold (\<lambda>f o'. f o') os
                 \<lparr>sqs_region = [], sqs_profile = [], sqs_defaultQueue = [], sqs_queueMappings = [],
                  sqs_messageFormat = []\<rparr>
      in case sqs_validate o' of
           Some err \<Rightarrow> Inl err
         | None \<Rightarrow>
             (case newClient o' of
                Inl err \<Rightarrow> Inl err
              | Inr client \<Rightarrow>
                  Inr (o', client,
                       \<lparr>sqs_broker = b, sqs_queueUrls = Map.empty, sqs_done = NewDoneChannel, sqs_sent = []\<rparr>)))"

section \<open>Sending a message (sqs.go)\<close>

definition sqs_findQueueName :: "sqs_options \<Rightarrow> string \<Rightarrow> go_error + string" where
  "sqs_findQueueName o' mqttTopic =
     (case first_mapping (sqs_queueMappings o') mqttTopic of
        Some queue \<Rightarrow> Inr queue
      | None \<Rightarrow>
          if sqs_defaultQueue o' \<noteq> [] then Inr (sqs_defaultQueue o')
          else Inl (Errorf ''sqs queue not found for MQTT topic %s'' [AStr mqttTopic]))"

definition getGetQueueURL ::
  "'b sqs_client \<Rightarrow> sqs_options \<Rightarrow> Context \<Rightarrow> string \<Rightarrow> 'b sqs_state \<Rightarrow>
   (go_error + string option) \<times> 'b sqs_state" where
  "getGetQueueURL client o' ctx mqttTopic p =
     (case sqs_findQueueName o' mqttTopic of
        Inl err \<Rightarrow> (Inl err, p)
      | Inr queueName \<Rightarrow>
          (case sqs_queueUrls p queueName of
             Some value \<Rightarrow> (Inr value, p)
           | None \<Rightarrow>
               (case sqs_GetQueueUrl client ctx queueName (sqs_broker p) of
                  (Inl err, b) \<Rightarrow>
                    (Inl (Wrapf (''GetQueueUrl '' @ quoted ''%s'' @ '' failed: %w'') [AStr queueName] err),
                     p\<lparr>sqs_broker := b\<rparr>)
                | (Inr queueUrl, b) \<Rightarrow>
                    (Inr queueUrl,
                     p\<lparr>sqs_broker := b, sqs_queueUrls := (sqs_queueUrls p)(queueName \<mapsto> queueUrl)\<rparr>))))"

definition sqs_GetMessageGroupId :: "PublishRequest \<Rightarrow> string" where
  "sqs_GetMessageGroupId request = (if req_ClientID request = [] then ''mqtt-proxy'' else req_ClientID request)"

definition has_suffix :: "string \<Rightarrow> string \<Rightarrow> bool" where
  "has_suffix s suffix \<longleftrightarrow> length suffix \<le> length s \<and> drop (length s - length suffix) s = suffix"

text \<open>The input for a queue and a body.\<close>

definition sqs_input :: "sqs_options \<Rightarrow> PublishRequest \<Rightarrow> byte list \<Rightarrow> string \<Rightarrow> SendMessageInput" where
  "sqs_input o' request messageBody queueURL =
     (let messageID = decimal (unat (req_MessageID request));
          fifo = has_suffix queueURL ''.fifo''
      in \<lparr>smi_MessageAttributes =
            [(''mqtt.dup'', ''String.bool'', FormatBool (req_Dup request)),
             (''mqtt.qos'', ''Number'', decimal (unat (req_Qos request))),
             (''mqtt.retain'', ''String.bool'', FormatBool (req_Retain request)),
             (''mqtt.packet.id'', ''Number'', messageID),
             (''mqtt.fmt'', ''String'', sqs_messageFormat o')],
          smi_MessageBody = string_of_bytes messageBody,
          smi_QueueUrl = queueURL,
          smi_MessageGroupId = (if fifo then Some (sqs_GetMessageGroupId request) else None),
          smi_MessageDeduplicationId = (if fifo then Some messageID else None)\<rparr>)"

text \<open>
  \<open>sendMessage\<close>: an error, a response, or the panic of reading a nil queue URL. A nil message
  identifier of the service is the empty string.
\<close>

datatype sqs_result = SqsErr go_error | SqsResponse PublishResponse | SqsPanic string

definition nil_dereference :: string where
  "nil_dereference = ''invalid memory address or nil pointer dereference''"

definition sqs_sendMessage ::
  "'b sqs_client \<Rightarrow> sqs_options \<Rightarrow> Context \<Rightarrow> PublishRequest option \<Rightarrow> 'b sqs_state \<Rightarrow>
   sqs_result \<times> 'b sqs_state" where
  "sqs_sendMessage client o' ctx request p =
     (case request of
        None \<Rightarrow> (SqsErr (Errorf ''empty request'' []), p)
      | Some request \<Rightarrow>
          (case getGetQueueURL client o' ctx (req_TopicName request) p of
             (Inl err, p) \<Rightarrow> (SqsErr err, p)
           | (Inr queueURL, p) \<Rightarrow>
               (case GetMessageBody (sqs_messageFormat o') request of
                  Inl err \<Rightarrow> (SqsErr err, p)
                | Inr messageBody \<Rightarrow>
                    (case queueURL of
                       None \<Rightarrow> (SqsPanic nil_dereference, p)
                     | Some queueURL \<Rightarrow>
                         (let input = sqs_input o' request messageBody queueURL in
                          case sqs_SendMessage client ctx input (sqs_broker p) of
                            (Inl err, b) \<Rightarrow>
                              (SqsResponse \<lparr>resp_ID = NoID, resp_Error = Some err\<rparr>, p\<lparr>sqs_broker := b\<rparr>)
                          | (Inr messageId, b) \<Rightarrow>
                              (SqsResponse
                                 \<lparr>resp_ID = StrID (case messageId of None \<Rightarrow> [] | Some i \<Rightarrow> i), resp_Error = None\<rparr>,
                               p\<lparr>sqs_broker := b, sqs_sent := sqs_sent p @ [input]\<rparr>))))))"

definition sqs_Publish ::
  "'b sqs_client \<Rightarrow> sqs_options \<Rightarrow> Context \<Rightarrow> PublishRequest option \<Rightarrow> 'b sqs_state \<Rightarrow>
   sync_result \<times> 'b sqs_state" where
  "sqs_Publish client o' ctx request p =
     (case sqs_sendMessage client o' ctx request p of
        (SqsErr err, p) \<Rightarrow> (SyncErr err, p)
      | (SqsPanic e, p) \<Rightarrow> (SyncPanic e, p)
      | (SqsResponse response, p) \<Rightarrow>
          (case resp_Error response of
             Some err \<Rightarrow> (SyncErr err, p)
           | None \<Rightarrow> (SyncOk response, p)))"

definition sqs_PublishAsync ::
  "'b sqs_client \<Rightarrow> sqs_options \<Rightarrow> Context \<Rightarrow> PublishRequest option \<Rightarrow> bool \<Rightarrow> 'b sqs_state \<Rightarrow>
   async_result \<times> 'b sqs_state" where
  "sqs_PublishAsync client o' ctx request nil_callback p =
     (if request = None \<or> nil_callback then (AsyncErr (Errorf ''empty request/callback'' []), p)
      else
        (case sqs_sendMessage client o' ctx request p of
           (SqsErr err, p) \<Rightarrow> (AsyncErr err, p)
         | (SqsPanic e, p) \<Rightarrow> (AsyncPanic e, p)
         | (SqsResponse response, p) \<Rightarrow> (AsyncCalled response, p)))"

definition sqs_Close :: "'b sqs_state \<Rightarrow> 'b sqs_state" where
  "sqs_Close p = p\<lparr>sqs_done := DoneChannel_Close (sqs_done p)\<rparr>"

definition sqs_Serve :: "'b sqs_state \<Rightarrow> go_error option option" where
  "sqs_Serve p = wait_done (sqs_done p)"

definition sqs_Shutdown :: "'b sqs_state \<Rightarrow> 'b sqs_state" where
  "sqs_Shutdown p = sqs_Close (p\<lparr>sqs_done := DoneChannel_Close (sqs_done p)\<rparr>)"

section \<open>The publisher and what it promises\<close>

text \<open>The callback is called before \<open>PublishAsync\<close> returns, so no request waits for a completion.\<close>

definition sqs_publisher :: "'b sqs_client \<Rightarrow> sqs_options \<Rightarrow> 'b sqs_state Publisher" where
  "sqs_publisher client o' =
     \<lparr>pub_Name = ''sqs'',
      pub_Publish = (\<lambda>ctx request. sqs_Publish client o' ctx (Some request)),
      pub_PublishAsync = (\<lambda>ctx request. sqs_PublishAsync client o' ctx (Some request) False),
      pub_Complete = (\<lambda>request p. (\<lparr>resp_ID = NoID, resp_Error = Some (Errorf ''not queued'' [])\<rparr>, p))\<rparr>"

text \<open>
  A request was taken when the service accepted a message with its content for the URL of the queue that the
  options give for its topic. The URLs of queues are kept once they are known.
\<close>

definition sqs_taken :: "sqs_options \<Rightarrow> 'b sqs_state \<Rightarrow> PublishRequest \<Rightarrow> bool" where
  "sqs_taken o' p r \<longleftrightarrow>
     (\<exists>queue url body. sqs_findQueueName o' (req_TopicName r) = Inr queue \<and> sqs_queueUrls p queue = Some (Some url) \<and>
        GetMessageBody (sqs_messageFormat o') r = Inr body \<and> sqs_input o' r body url \<in> set (sqs_sent p))"

lemma smi_QueueUrl_sqs_input [simp]: "smi_QueueUrl (sqs_input o' r body url) = url"
  by (simp add: sqs_input_def Let_def)

lemma getGetQueueURL_keeps: "getGetQueueURL client o' ctx t p = (res, p') \<Longrightarrow> sqs_sent p' = sqs_sent p"
  by (auto simp: getGetQueueURL_def split: sum.splits option.splits prod.splits)

lemma getGetQueueURL_urls:
  assumes "getGetQueueURL client o' ctx t p = (res, p')"
  shows "sqs_queueUrls p q = Some v \<Longrightarrow> sqs_queueUrls p' q = Some v"
    and "res = Inr url \<Longrightarrow> \<exists>queue. sqs_findQueueName o' t = Inr queue \<and> sqs_queueUrls p' queue = Some url"
  using assms by (auto simp: getGetQueueURL_def split: sum.splits option.splits prod.splits)

lemma sqs_sendMessage_cases:
  assumes "sqs_sendMessage client o' ctx (Some r) p = (res, p')"
  obtains (sent) resp body queue url where "res = SqsResponse resp" "resp_Error resp = None"
      "GetMessageBody (sqs_messageFormat o') r = Inr body" "sqs_sent p' = sqs_sent p @ [sqs_input o' r body url]"
      "sqs_findQueueName o' (req_TopicName r) = Inr queue" "sqs_queueUrls p' queue = Some (Some url)"
  | (not_sent) "sqs_sent p' = sqs_sent p" "\<And>resp. res = SqsResponse resp \<Longrightarrow> resp_Error resp \<noteq> None"
proof -
  obtain url p1 where u: "getGetQueueURL client o' ctx (req_TopicName r) p = (url, p1)"
    by (cases "getGetQueueURL client o' ctx (req_TopicName r) p")
  note keep = getGetQueueURL_keeps [OF u] getGetQueueURL_urls(2) [OF u]
  show thesis
    using assms u keep sent not_sent
    by (auto simp: sqs_sendMessage_def Let_def split: sum.splits option.splits prod.splits)
qed

lemma sqs_sendMessage_urls:
  assumes "sqs_sendMessage client o' ctx (Some r) p = (res, p')" and "sqs_queueUrls p q = Some v"
  shows "sqs_queueUrls p' q = Some v"
proof -
  obtain url p1 where u: "getGetQueueURL client o' ctx (req_TopicName r) p = (url, p1)"
    by (cases "getGetQueueURL client o' ctx (req_TopicName r) p")
  from getGetQueueURL_urls(1) [OF u assms(2)] assms(1) u show ?thesis
    by (auto simp: sqs_sendMessage_def Let_def split: sum.splits option.splits prod.splits)
qed

lemma sqs_sendMessage_taken:
  assumes "sqs_sendMessage client o' ctx (Some r) p = (res, p')"
  shows "sqs_taken o' p q \<Longrightarrow> sqs_taken o' p' q"
    and "res = SqsResponse resp \<Longrightarrow> resp_Error resp = None \<Longrightarrow> sqs_taken o' p' r"
proof -
  assume "sqs_taken o' p q"
  then obtain queue url body where q: "sqs_findQueueName o' (req_TopicName q) = Inr queue" "sqs_queueUrls p queue = Some (Some url)"
    "GetMessageBody (sqs_messageFormat o') q = Inr body" "sqs_input o' q body url \<in> set (sqs_sent p)"
    by (auto simp: sqs_taken_def)
  have "sqs_input o' q body url \<in> set (sqs_sent p')"
    using assms by (rule sqs_sendMessage_cases) (simp_all add: q(4))
  with q(1,3) sqs_sendMessage_urls [OF assms q(2)] show "sqs_taken o' p' q"
    unfolding sqs_taken_def by blast
next
  assume "res = SqsResponse resp" "resp_Error resp = None"
  with assms show "sqs_taken o' p' r"
    by (cases rule: sqs_sendMessage_cases) (auto simp: sqs_taken_def)
qed

interpretation sqs: publisher "sqs_publisher client o'" "sqs_taken o'" for client :: "'b sqs_client" and o'
  by unfold_locales
    (auto simp: sqs_publisher_def sqs_Publish_def sqs_PublishAsync_def
      split: prod.splits sqs_result.splits option.splits dest: sqs_sendMessage_taken)

section \<open>Facts\<close>

text \<open>A queue whose URL is known is not looked up again, and the cache only grows.\<close>

lemma getGetQueueURL_cached:
  assumes "getGetQueueURL client o' ctx t p = (Inr url, p')"
  shows "getGetQueueURL client' o' ctx' t p' = (Inr url, p')"
  using assms by (auto simp: getGetQueueURL_def split: sum.splits option.splits prod.splits)

end
