(* ===== verification/Sns.thy ===== *)
theory Sns
  imports Sqs
begin

text \<open>
  The SNS publisher (pkg/publisher/sns): a request is one \<open>Publish\<close> to the ARN its topic is mapped
  to. The client of the AWS library is a record of its operation; nothing is assumed about it.
\<close>

section \<open>Options (option.go)\<close>

record sns_options =
  sns_region :: string
  sns_profile :: string
  sns_defaultTopicARN :: string
  sns_topicARNMappings :: "TopicMapping list"
  sns_messageFormat :: string

definition sns_validate :: "sns_options \<Rightarrow> go_error option" where
  "sns_validate o' =
     (if sns_defaultTopicARN o' = [] \<and> length (sns_topicARNMappings o') = 0
      then Some (Errorf ''sns default topic arn or topic arn mappings must be provided'' [])
      else if sns_messageFormat o' = [] then Some (Errorf ''publisher message format must not be empty'' [])
      else None)"

type_synonym sns_option = "sns_options \<Rightarrow> sns_options"

definition sns_WithAWSRegion :: "string \<Rightarrow> sns_option" where
  "sns_WithAWSRegion s o' = o'\<lparr>sns_region := s\<rparr>"

definition sns_WithAWSProfile :: "string \<Rightarrow> sns_option" where
  "sns_WithAWSProfile s o' = o'\<lparr>sns_profile := s\<rparr>"

definition sns_WithTopicARNMappings :: "TopicMapping list \<Rightarrow> sns_option" where
  "sns_WithTopicARNMappings m o' = o'\<lparr>sns_topicARNMappings := m\<rparr>"

definition sns_WithDefaultTopicARN :: "string \<Rightarrow> sns_option" where
  "sns_WithDefaultTopicARN s o' = o'\<lparr>sns_defaultTopicARN := s\<rparr>"

definition sns_WithMessageFormat :: "string \<Rightarrow> sns_option" where
  "sns_WithMessageFormat s o' = o'\<lparr>sns_messageFormat := s\<rparr>"

section \<open>The client of the library and the publisher's state\<close>

text \<open>
  The identifier of a message is an option, as the library may leave it nil. An attribute is a pair
  of its data type and its value.
\<close>

record SnsPublishInput =
  spi_MessageAttributes :: "(string \<times> string \<times> string) list"
  spi_Message :: string
  spi_TopicArn :: string
  spi_MessageGroupId :: "string option"
  spi_MessageDeduplicationId :: "string option"

record 'b sns_client =
  sns_client_Publish :: "Context \<Rightarrow> SnsPublishInput \<Rightarrow> 'b \<Rightarrow> (go_error + string option) \<times> 'b"

text \<open>\<open>sns_sent\<close> is a ghost component: the messages the service accepted.\<close>

record 'b sns_state =
  sns_broker :: 'b
  sns_done :: DoneChannel
  sns_sent :: "SnsPublishInput list"

text \<open>\<open>newClient\<close> loads the AWS configuration and checks the caller's identity.\<close>

definition sns_newClient ::
  "(string \<Rightarrow> string \<Rightarrow> go_error + 'cfg) \<Rightarrow> ('cfg \<Rightarrow> go_error option) \<Rightarrow> ('cfg \<Rightarrow> 'client) \<Rightarrow>
   sns_options \<Rightarrow> go_error + 'client" where
  "sns_newClient LoadDefaultConfig GetCallerIdentity NewFromConfig o' =
     (case LoadDefaultConfig (sns_region o') (sns_profile o') of
        Inl err \<Rightarrow> Inl err
      | Inr cfg \<Rightarrow>
          (case GetCallerIdentity cfg of
             Some err \<Rightarrow> Inl (Wrapf ''failed to get caller identity for SNS client %w'' [] err)
           | None \<Rightarrow> Inr (NewFromConfig cfg)))"

definition New_sns ::
  "(sns_options \<Rightarrow> go_error + 'b sns_client) \<Rightarrow> sns_option list \<Rightarrow> 'b \<Rightarrow>
   go_error + sns_options \<times> 'b sns_client \<times> 'b sns_state" where
  "New_sns newClient os b =
     (let o' = fold (\<lambda>f o'. f o') os
                 \<lparr>sns_region = [], sns_profile = [], sns_defaultTopicARN = [], sns_topicARNMappings = [],
                  sns_messageFormat = []\<rparr>
      in case sns_validate o' of
           Some err \<Rightarrow> Inl err
         | None \<Rightarrow>
             (case newClient o' of
                Inl err \<Rightarrow> Inl err
              | Inr client \<Rightarrow>
                  Inr (o', client,
                       \<lparr>sns_broker = b, sns_done = NewDoneChannel, sns_sent = []\<rparr>)))"

section \<open>Sending a message (sns.go)\<close>

definition sns_findTopicARN :: "sns_options \<Rightarrow> string \<Rightarrow> go_error + string" where
  "sns_findTopicARN o' mqttTopic =
     (case first_mapping (sns_topicARNMappings o') mqttTopic of
        Some arn \<Rightarrow> Inr arn
      | None \<Rightarrow>
          if sns_defaultTopicARN o' \<noteq> [] then Inr (sns_defaultTopicARN o')
          else Inl (Errorf ''sns topic ARN not found for MQTT topic %s'' [AStr mqttTopic]))"

definition sns_GetMessageGroupId :: "PublishRequest \<Rightarrow> string" where
  "sns_GetMessageGroupId request = (if req_ClientID request = [] then ''mqtt-proxy'' else req_ClientID request)"

text \<open>The input for a topic and a body.\<close>

definition sns_input :: "sns_options \<Rightarrow> PublishRequest \<Rightarrow> byte list \<Rightarrow> string \<Rightarrow> SnsPublishInput" where
  "sns_input o' request messageBody topicARN =
     (let messageID = decimal (unat (req_MessageID request));
          fifo = has_suffix topicARN ''.fifo''
      in \<lparr>spi_MessageAttributes =
            [(''mqtt.dup'', ''String.bool'', FormatBool (req_Dup request)),
             (''mqtt.qos'', ''Number'', decimal (unat (req_Qos request))),
             (''mqtt.retain'', ''String.bool'', FormatBool (req_Retain request)),
             (''mqtt.packet.id'', ''Number'', messageID),
             (''mqtt.fmt'', ''String'', sns_messageFormat o')],
          spi_Message = string_of_bytes messageBody,
          spi_TopicArn = topicARN,
          spi_MessageGroupId = (if fifo then Some (sns_GetMessageGroupId request) else None),
          spi_MessageDeduplicationId = (if fifo then Some messageID else None)\<rparr>)"

text \<open>\<open>sendMessage\<close>: an error or a response. A nil message identifier is the empty string.\<close>

definition sns_sendMessage ::
  "'b sns_client \<Rightarrow> sns_options \<Rightarrow> Context \<Rightarrow> PublishRequest option \<Rightarrow> 'b sns_state \<Rightarrow>
   (go_error + PublishResponse) \<times> 'b sns_state" where
  "sns_sendMessage client o' ctx request p =
     (case request of
        None \<Rightarrow> (Inl (Errorf ''empty request'' []), p)
      | Some request \<Rightarrow>
          (case sns_findTopicARN o' (req_TopicName request) of
             Inl err \<Rightarrow> (Inl err, p)
           | Inr topicARN \<Rightarrow>
               (case GetMessageBody (sns_messageFormat o') request of
                  Inl err \<Rightarrow> (Inl err, p)
                | Inr messageBody \<Rightarrow>
                    (let input = sns_input o' request messageBody topicARN in
                     case sns_client_Publish client ctx input (sns_broker p) of
                       (Inl err, b) \<Rightarrow>
                         (Inr \<lparr>resp_ID = NoID, resp_Error = Some err\<rparr>, p\<lparr>sns_broker := b\<rparr>)
                     | (Inr messageId, b) \<Rightarrow>
                         (Inr \<lparr>resp_ID = StrID (case messageId of None \<Rightarrow> [] | Some i \<Rightarrow> i), resp_Error = None\<rparr>,
                          p\<lparr>sns_broker := b, sns_sent := sns_sent p @ [input]\<rparr>)))))"

definition sns_Publish ::
  "'b sns_client \<Rightarrow> sns_options \<Rightarrow> Context \<Rightarrow> PublishRequest option \<Rightarrow> 'b sns_state \<Rightarrow>
   sync_result \<times> 'b sns_state" where
  "sns_Publish client o' ctx request p =
     (case sns_sendMessage client o' ctx request p of
        (Inl err, p) \<Rightarrow> (SyncErr err, p)
      | (Inr response, p) \<Rightarrow>
          (case resp_Error response of
             Some err \<Rightarrow> (SyncErr err, p)
           | None \<Rightarrow> (SyncOk response, p)))"

definition sns_PublishAsync ::
  "'b sns_client \<Rightarrow> sns_options \<Rightarrow> Context \<Rightarrow> PublishRequest option \<Rightarrow> bool \<Rightarrow> 'b sns_state \<Rightarrow>
   async_result \<times> 'b sns_state" where
  "sns_PublishAsync client o' ctx request nil_callback p =
     (if request = None \<or> nil_callback then (AsyncErr (Errorf ''empty request/callback'' []), p)
      else
        (case sns_sendMessage client o' ctx request p of
           (Inl err, p) \<Rightarrow> (AsyncErr err, p)
         | (Inr response, p) \<Rightarrow> (AsyncCalled response, p)))"

definition sns_Close :: "'b sns_state \<Rightarrow> 'b sns_state" where
  "sns_Close p = p\<lparr>sns_done := DoneChannel_Close (sns_done p)\<rparr>"

definition sns_Serve :: "'b sns_state \<Rightarrow> go_error option option" where
  "sns_Serve p = wait_done (sns_done p)"

definition sns_Shutdown :: "'b sns_state \<Rightarrow> 'b sns_state" where
  "sns_Shutdown p = sns_Close (p\<lparr>sns_done := DoneChannel_Close (sns_done p)\<rparr>)"

section \<open>The publisher and what it promises\<close>

text \<open>The callback is called before \<open>PublishAsync\<close> returns, so no request waits for a completion.\<close>

definition sns_publisher :: "'b sns_client \<Rightarrow> sns_options \<Rightarrow> 'b sns_state Publisher" where
  "sns_publisher client o' =
     \<lparr>pub_Name = ''sns'',
      pub_Publish = (\<lambda>ctx request. sns_Publish client o' ctx (Some request)),
      pub_PublishAsync = (\<lambda>ctx request. sns_PublishAsync client o' ctx (Some request) False),
      pub_Complete = (\<lambda>request p. (\<lparr>resp_ID = NoID, resp_Error = Some (Errorf ''not queued'' [])\<rparr>, p))\<rparr>"

text \<open>
  A request was taken when the service accepted a message with its content for the ARN that the options give
  for its topic.
\<close>

definition sns_taken :: "sns_options \<Rightarrow> 'b sns_state \<Rightarrow> PublishRequest \<Rightarrow> bool" where
  "sns_taken o' p r \<longleftrightarrow>
     (\<exists>arn body. sns_findTopicARN o' (req_TopicName r) = Inr arn \<and>
        GetMessageBody (sns_messageFormat o') r = Inr body \<and> sns_input o' r body arn \<in> set (sns_sent p))"

lemma spi_TopicArn_sns_input [simp]: "spi_TopicArn (sns_input o' r body url) = url"
  by (simp add: sns_input_def Let_def)

lemma sns_sendMessage_cases:
  assumes "sns_sendMessage client o' ctx (Some r) p = (res, p')"
  obtains (sent) resp body arn where "res = Inr resp" "resp_Error resp = None"
      "GetMessageBody (sns_messageFormat o') r = Inr body" "sns_sent p' = sns_sent p @ [sns_input o' r body arn]"
      "sns_findTopicARN o' (req_TopicName r) = Inr arn"
  | (not_sent) "sns_sent p' = sns_sent p" "\<And>resp. res = Inr resp \<Longrightarrow> resp_Error resp \<noteq> None"
  using assms sent not_sent
  by (auto simp: sns_sendMessage_def Let_def split: sum.splits option.splits prod.splits)

lemma sns_sendMessage_taken:
  assumes "sns_sendMessage client o' ctx (Some r) p = (res, p')"
  shows "sns_taken o' p q \<Longrightarrow> sns_taken o' p' q"
    and "res = Inr resp \<Longrightarrow> resp_Error resp = None \<Longrightarrow> sns_taken o' p' r"
proof -
  assume "sns_taken o' p q"
  then show "sns_taken o' p' q"
    using assms by (auto simp: sns_taken_def elim!: sns_sendMessage_cases)
next
  assume "res = Inr resp" "resp_Error resp = None"
  with assms show "sns_taken o' p' r"
    by (cases rule: sns_sendMessage_cases) (auto simp: sns_taken_def)
qed

interpretation sns: publisher "sns_publisher client o'" "sns_taken o'" for client :: "'b sns_client" and o'
  by unfold_locales
    (auto simp: sns_publisher_def sns_Publish_def sns_PublishAsync_def
      split: prod.splits sum.splits option.splits dest: sns_sendMessage_taken)

end
