(* ===== verification/Rabbitmq.thy ===== *)
theory Rabbitmq
  imports Config
begin

text \<open>
  The RabbitMQ publisher (pkg/publisher/rabbitmq): options, the channel over the AMQP library, the
  provider that keeps one channel per client, the client with its retry, and the publisher with one
  client per QoS. The AMQP library is a record of its operations on its own state; nothing is assumed
  about it where a fact does not say so.
\<close>

section \<open>Options (option.go)\<close>

record rabbit_options =
  r_scheme :: string
  r_host :: string
  r_port :: int
  r_username :: string
  r_password :: string
  r_vhost :: string
  r_connectionTimeout :: int
  r_requestTimeout :: int
  r_exchange :: string
  r_defaultQueue :: string
  r_queueMappings :: "TopicMapping list"
  r_messageFormat :: string
  r_confirmsAtMostOnce :: bool
  r_confirmsAtLeastOnce :: bool
  r_confirmsExactlyOnce :: bool

definition r_validate :: "rabbit_options \<Rightarrow> go_error option" where
  "r_validate o' =
     (if r_scheme o' = [] then Some (Errorf ''parameter rabbitmq.scheme is required'' [])
      else if r_host o' = [] then Some (Errorf ''parameter rabbitmq.host is required'' [])
      else if r_port o' \<le> 0 then Some (Errorf ''parameter rabbitmq.port is required'' [])
      else if r_vhost o' = [] then Some (Errorf ''parameter rabbitmq.vhost is required'' [])
      else if r_username o' \<noteq> [] \<and> r_password o' = [] \<or> r_username o' = [] \<and> r_password o' \<noteq> []
      then Some (Errorf ''both parameter rabbitmq.username and rabbitmq.password are required'' [])
      else if r_defaultQueue o' = [] \<and> length (r_queueMappings o') = 0
      then Some (Errorf ''rabbitmq default queue or queue mappings must be provided'' [])
      else if r_messageFormat o' = [] then Some (Errorf ''publisher message format must not be empty'' [])
      else None)"

definition no_rabbit_options :: rabbit_options where
  "no_rabbit_options =
     \<lparr>r_scheme = [], r_host = [], r_port = 0, r_username = [], r_password = [], r_vhost = [],
      r_connectionTimeout = 0, r_requestTimeout = 0, r_exchange = [], r_defaultQueue = [],
      r_queueMappings = [], r_messageFormat = [], r_confirmsAtMostOnce = False,
      r_confirmsAtLeastOnce = False, r_confirmsExactlyOnce = False\<rparr>"

type_synonym rabbit_option = "rabbit_options \<Rightarrow> rabbit_options"

definition r_WithScheme :: "string \<Rightarrow> rabbit_option" where
  "r_WithScheme scheme o' = o'\<lparr>r_scheme := scheme\<rparr>"

definition r_WithHost :: "string \<Rightarrow> rabbit_option" where
  "r_WithHost host o' = o'\<lparr>r_host := host\<rparr>"

definition r_WithPort :: "int \<Rightarrow> rabbit_option" where
  "r_WithPort port o' = o'\<lparr>r_port := port\<rparr>"

definition r_WithUsername :: "string \<Rightarrow> rabbit_option" where
  "r_WithUsername username o' = o'\<lparr>r_username := username\<rparr>"

definition r_WithPassword :: "string \<Rightarrow> rabbit_option" where
  "r_WithPassword password o' = o'\<lparr>r_password := password\<rparr>"

definition r_WithVHost :: "string \<Rightarrow> rabbit_option" where
  "r_WithVHost vhost o' = o'\<lparr>r_vhost := vhost\<rparr>"

definition r_WithConnectionTimeout :: "int \<Rightarrow> rabbit_option" where
  "r_WithConnectionTimeout t o' = o'\<lparr>r_connectionTimeout := t\<rparr>"

definition r_WithRequestTimeout :: "int \<Rightarrow> rabbit_option" where
  "r_WithRequestTimeout t o' = o'\<lparr>r_requestTimeout := t\<rparr>"

definition r_WithExchange :: "string \<Rightarrow> rabbit_option" where
  "r_WithExchange exchange o' = o'\<lparr>r_exchange := exchange\<rparr>"

definition r_WithQueueMappings :: "TopicMapping list \<Rightarrow> rabbit_option" where
  "r_WithQueueMappings m o' = o'\<lparr>r_queueMappings := m\<rparr>"

definition r_WithDefaultQueue :: "string \<Rightarrow> rabbit_option" where
  "r_WithDefaultQueue s o' = o'\<lparr>r_defaultQueue := s\<rparr>"

definition r_WithMessageFormat :: "string \<Rightarrow> rabbit_option" where
  "r_WithMessageFormat s o' = o'\<lparr>r_messageFormat := s\<rparr>"

definition r_WithPublisherConfirmsAtMostOnce :: "bool \<Rightarrow> rabbit_option" where
  "r_WithPublisherConfirmsAtMostOnce b o' = o'\<lparr>r_confirmsAtMostOnce := b\<rparr>"

definition r_WithPublisherConfirmsAtLeastOnce :: "bool \<Rightarrow> rabbit_option" where
  "r_WithPublisherConfirmsAtLeastOnce b o' = o'\<lparr>r_confirmsAtLeastOnce := b\<rparr>"

definition r_WithPublisherConfirmsExactlyOnce :: "bool \<Rightarrow> rabbit_option" where
  "r_WithPublisherConfirmsExactlyOnce b o' = o'\<lparr>r_confirmsExactlyOnce := b\<rparr>"

section \<open>The AMQP library\<close>

record Payload =
  pl_Body :: "byte list"
  pl_ContentType :: string
  pl_ContentEncoding :: string

record Publishing =
  msg_Headers :: "string \<rightharpoonup> string"
  msg_ContentType :: string
  msg_ContentEncoding :: string
  msg_Body :: "byte list"
  msg_DeliveryMode :: nat

text \<open>
  Connections, channels and deferred confirmations are numbered by the library. \<open>amqp_code\<close> is the code of
  an error that is an AMQP error and \<open>is_net_error\<close> whether it is one of package net.
\<close>

record 'b amqp =
  Dial :: "string \<Rightarrow> 'b \<Rightarrow> (go_error + nat) \<times> 'b"
  conn_Channel :: "nat \<Rightarrow> 'b \<Rightarrow> (go_error + nat) \<times> 'b"
  amqp_conn_Close :: "nat \<Rightarrow> 'b \<Rightarrow> go_error option \<times> 'b"
  amqp_ch_Close :: "nat \<Rightarrow> 'b \<Rightarrow> go_error option \<times> 'b"
  Confirm :: "nat \<Rightarrow> 'b \<Rightarrow> go_error option \<times> 'b"
  PublishWithContext :: "nat \<Rightarrow> Context \<Rightarrow> string \<Rightarrow> string \<Rightarrow> Publishing \<Rightarrow> 'b \<Rightarrow> go_error option \<times> 'b"
  PublishWithDeferredConfirm ::
    "nat \<Rightarrow> Context \<Rightarrow> string \<Rightarrow> string \<Rightarrow> Publishing \<Rightarrow> 'b \<Rightarrow> (go_error + u64) \<times> 'b"
  WaitContext :: "u64 \<Rightarrow> Context \<Rightarrow> 'b \<Rightarrow> (go_error + bool) \<times> 'b"
  amqp_code :: "go_error \<Rightarrow> nat option"
  is_net_error :: "go_error \<Rightarrow> bool"

definition amqp_ChannelError :: nat where "amqp_ChannelError = 504"

definition amqp_FrameError :: nat where "amqp_FrameError = 501"

section \<open>Channels (channel.go)\<close>

text \<open>
  The channel objects are in a store, by their address, as the provider and the client share them.
  \<open>ch_once\<close> is whether \<open>closeOnce\<close> ran. A result is an error, a value or a panic.
\<close>

record channel =
  ch_once :: bool
  ch_conn :: nat
  ch_ch :: nat
  ch_confirms :: bool

text \<open>
  The state of the publisher: the library's, the channels, and the channel each client's provider
  holds. \<open>rb_accepted\<close> is a ghost component: the messages whose publish did not fail, and that were
  acknowledged where confirms are on.
\<close>

record 'b rabbit_state =
  rb_broker :: 'b
  rb_channels :: "channel list"
  rb_channelPtr :: "byte \<rightharpoonup> nat"
  rb_done :: DoneChannel
  rb_accepted :: "(string \<times> string \<times> Publishing) list"

definition toTable :: "(string \<rightharpoonup> string) \<Rightarrow> string \<rightharpoonup> string" where
  "toTable vs = vs"

definition toMessage :: "Payload \<Rightarrow> (string \<rightharpoonup> string) \<Rightarrow> Publishing" where
  "toMessage payload headers =
     \<lparr>msg_Headers = toTable headers, msg_ContentType = pl_ContentType payload,
      msg_ContentEncoding = pl_ContentEncoding payload, msg_Body = pl_Body payload, msg_DeliveryMode = 2\<rparr>"

text \<open>The error of \<open>closer.Close()\<close>, nil when nothing failed.\<close>

definition collected :: "go_error list \<Rightarrow> go_error option" where
  "collected es = (if es = [] then None else Some (MultiError es))"

definition channel_close_inner :: "'b amqp \<Rightarrow> channel \<Rightarrow> 'b \<Rightarrow> go_error option \<times> 'b" where
  "channel_close_inner lib c b =
     (let closer = MultiCloser_Add (Some (amqp_ch_Close lib (ch_ch c))) [];
          closer = MultiCloser_Add (Some (amqp_conn_Close lib (ch_conn c))) closer
      in case MultiCloser_Close closer b of (es, b) \<Rightarrow> (collected es, b))"

definition channel_Close :: "'b amqp \<Rightarrow> nat \<Rightarrow> 'b rabbit_state \<Rightarrow> go_error option \<times> 'b rabbit_state" where
  "channel_Close lib a s =
     (let c = rb_channels s ! a in
      if ch_once c then (None, s)
      else
        (case channel_close_inner lib c (rb_broker s) of
           (err, b) \<Rightarrow> (err, s\<lparr>rb_broker := b, rb_channels := (rb_channels s)[a := c\<lparr>ch_once := True\<rparr>]\<rparr>)))"

definition channel_confirm :: "'b amqp \<Rightarrow> channel \<Rightarrow> 'b \<Rightarrow> go_error option \<times> 'b" where
  "channel_confirm lib c b =
     (case Confirm lib (ch_ch c) b of
        (Some err, b) \<Rightarrow> (Some (Wrapf ''cannot put channel into confirm mode %w'' [] err), b)
      | (None, b) \<Rightarrow> (None, b))"

definition NewChannel :: "'b amqp \<Rightarrow> string \<Rightarrow> bool \<Rightarrow> 'b \<Rightarrow> (go_error + channel) \<times> 'b" where
  "NewChannel lib url publisherConfirms b =
     (case Dial lib url b of
        (Inl err, b) \<Rightarrow>
          (Inl (Wrapf (''cannot connect producer to '' @ quoted ''%s'' @ '': %w'') [AStr url] err), b)
      | (Inr conn, b) \<Rightarrow>
          (case conn_Channel lib conn b of
             (Inl err, b) \<Rightarrow>
               (Inl (Wrapf ''cannot create producer channel %w'' [] err), snd (amqp_conn_Close lib conn b))
           | (Inr ch, b) \<Rightarrow>
               (let result = \<lparr>ch_once = False, ch_conn = conn, ch_ch = ch, ch_confirms = publisherConfirms\<rparr>
                in if publisherConfirms then
                     (case channel_confirm lib result b of
                        (Some err, b) \<Rightarrow>
                          (case channel_close_inner lib result b of
                             (Some err', b) \<Rightarrow> (Inl (MultiError [err, err']), b)
                           | (None, b) \<Rightarrow> (Inl (MultiError [err]), b))
                      | (None, b) \<Rightarrow> (Inr result, b))
                   else (Inr result, b))))"

definition channel_publish ::
  "'b amqp \<Rightarrow> channel \<Rightarrow> Context \<Rightarrow> string \<Rightarrow> string \<Rightarrow> Publishing \<Rightarrow> 'b \<Rightarrow> (go_error + u64) \<times> 'b" where
  "channel_publish lib c ctx exchange routingKey msg b =
     (case PublishWithContext lib (ch_ch c) ctx exchange routingKey msg b of
        (Some err, b) \<Rightarrow> (Inl (Wrapf ''publish failed: %w'' [] err), b)
      | (None, b) \<Rightarrow> (Inr 0, b))"

definition publishWithDeferredConfirm ::
  "'b amqp \<Rightarrow> channel \<Rightarrow> Context \<Rightarrow> string \<Rightarrow> string \<Rightarrow> Publishing \<Rightarrow> 'b \<Rightarrow> (go_error + u64) \<times> 'b" where
  "publishWithDeferredConfirm lib c ctx exchange routingKey msg b =
     (case PublishWithDeferredConfirm lib (ch_ch c) ctx exchange routingKey msg b of
        (Inl err, b) \<Rightarrow> (Inl (Wrapf ''publish confirm failed: %w'' [] err), b)
      | (Inr d, b) \<Rightarrow> (Inr d, b))"

definition publishAndConfirm ::
  "'b amqp \<Rightarrow> channel \<Rightarrow> Context \<Rightarrow> string \<Rightarrow> string \<Rightarrow> Publishing \<Rightarrow> 'b \<Rightarrow> (go_error + u64) \<times> 'b" where
  "publishAndConfirm lib c ctx exchange routingKey msg b =
     (case publishWithDeferredConfirm lib c ctx exchange routingKey msg b of
        (Inl err, b) \<Rightarrow> (Inl err, b)
      | (Inr d, b) \<Rightarrow>
          (case WaitContext lib d ctx b of
             (Inl err, b) \<Rightarrow> (Inl (Wrapf ''publisher confirmation failed: %w'' [] err), b)
           | (Inr ack, b) \<Rightarrow>
               if \<not> ack then (Inl (Errorf ''message nacked  %v'' [AInt (uint d)]), b) else (Inr d, b)))"

definition channel_Publish ::
  "'b amqp \<Rightarrow> channel \<Rightarrow> Context \<Rightarrow> string \<Rightarrow> string \<Rightarrow> Payload \<Rightarrow> (string \<rightharpoonup> string) \<Rightarrow> 'b \<Rightarrow>
   (go_error + u64) \<times> 'b" where
  "channel_Publish lib c ctx exchange routingKey payload headers b =
     (let msg = toMessage payload headers in
      if ch_confirms c then publishAndConfirm lib c ctx exchange routingKey msg b
      else channel_publish lib c ctx exchange routingKey msg b)"

text \<open>\<open>errors.Unwrap\<close> gives the error under a \<open>%w\<close>.\<close>

definition errors_Unwrap :: "go_error \<Rightarrow> go_error option" where
  "errors_Unwrap err = (case err of Wrapf _ _ cause \<Rightarrow> Some cause | _ \<Rightarrow> None)"

definition shouldRetry :: "'b amqp \<Rightarrow> go_error \<Rightarrow> bool" where
  "shouldRetry lib err =
     (let err = (case errors_Unwrap err of Some cause \<Rightarrow> cause | None \<Rightarrow> err)
      in case amqp_code lib err of
           Some code \<Rightarrow> code = amqp_ChannelError \<or> code = amqp_FrameError
         | None \<Rightarrow> is_net_error lib err)"

section \<open>The provider (channel_provider.go)\<close>

definition GetChannel ::
  "'b amqp \<Rightarrow> string \<Rightarrow> bool \<Rightarrow> byte \<Rightarrow> 'b rabbit_state \<Rightarrow> (go_error + nat) \<times> 'b rabbit_state" where
  "GetChannel lib url confirms q s =
     (case rb_channelPtr s q of
        Some ch \<Rightarrow> (Inr ch, s)
      | None \<Rightarrow>
          (case NewChannel lib url confirms (rb_broker s) of
             (Inl err, b) \<Rightarrow> (Inl err, s\<lparr>rb_broker := b\<rparr>)
           | (Inr channel, b) \<Rightarrow>
               (let a = length (rb_channels s)
                in (Inr a, s\<lparr>rb_broker := b, rb_channels := rb_channels s @ [channel],
                             rb_channelPtr := (rb_channelPtr s)(q \<mapsto> a)\<rparr>))))"

definition provider_Close :: "'b amqp \<Rightarrow> byte \<Rightarrow> 'b rabbit_state \<Rightarrow> go_error option \<times> 'b rabbit_state" where
  "provider_Close lib q s =
     (case rb_channelPtr s q of
        Some ch \<Rightarrow> channel_Close lib ch s
      | None \<Rightarrow> (None, s))"

text \<open>
  \<open>CloseChannel\<close>: after the close, \<open>CompareAndSwap(channel, nil)\<close> on an \<open>atomic.Value\<close>, which panics
  whenever the new value is nil.
\<close>

definition atomic_CompareAndSwap :: "nat option \<Rightarrow> nat option \<Rightarrow> nat option \<Rightarrow> (string + bool) \<times> nat option" where
  "atomic_CompareAndSwap old new v =
     (case new of
        None \<Rightarrow> (Inl ''sync/atomic: compare and swap of nil value into Value'', v)
      | Some _ \<Rightarrow> if v = old then (Inr True, new) else (Inr False, v))"

definition CloseChannel :: "'b amqp \<Rightarrow> byte \<Rightarrow> nat \<Rightarrow> 'b rabbit_state \<Rightarrow> string option \<times> 'b rabbit_state" where
  "CloseChannel lib q channel s =
     (let s = snd (channel_Close lib channel s)
      in case atomic_CompareAndSwap (Some channel) None (rb_channelPtr s q) of
           (Inl panic, _) \<Rightarrow> (Some panic, s)
         | (Inr _, v) \<Rightarrow> (None, s\<lparr>rb_channelPtr := (rb_channelPtr s)(q := v)\<rparr>))"

section \<open>The client (client.go)\<close>

datatype client_result = ClientErr go_error | ClientOk u64 | ClientPanic string

definition amqpURI :: "rabbit_options \<Rightarrow> string" where
  "amqpURI o' =
     (if r_username o' \<noteq> []
      then r_scheme o' @ ''://'' @ r_username o' @ '':'' @ r_password o' @ ''@'' @ r_host o' @ '':'' @
           decimal (nat (r_port o')) @ ''/'' @ r_vhost o'
      else r_scheme o' @ ''://'' @ r_host o' @ '':'' @ decimal (nat (r_port o')) @ ''/'' @ r_vhost o')"

text \<open>A context with a timeout ends at the earlier of the two deadlines.\<close>

definition with_timeout :: "int \<Rightarrow> Context \<Rightarrow> Context" where
  "with_timeout t ctx = Some (case ctx of None \<Rightarrow> t | Some d \<Rightarrow> min d t)"

definition confirms :: "rabbit_options \<Rightarrow> byte \<Rightarrow> bool" where
  "confirms o' q =
     (if q = AT_MOST_ONCE then r_confirmsAtMostOnce o'
      else if q = AT_LEAST_ONCE then r_confirmsAtLeastOnce o'
      else r_confirmsExactlyOnce o')"

definition client_doPublish ::
  "'b amqp \<Rightarrow> rabbit_options \<Rightarrow> byte \<Rightarrow> Context \<Rightarrow> string \<Rightarrow> string \<Rightarrow> Payload \<Rightarrow> (string \<rightharpoonup> string) \<Rightarrow>
   'b rabbit_state \<Rightarrow> client_result \<times> 'b rabbit_state" where
  "client_doPublish lib o' q ctx exchange routingKey payload headers s =
     (let ctx = (if r_requestTimeout o' > 0 then with_timeout (r_requestTimeout o') ctx else ctx) in
      case GetChannel lib (amqpURI o') (confirms o' q) q s of
        (Inl err, s) \<Rightarrow> (ClientErr err, s)
      | (Inr ch, s) \<Rightarrow>
          (case channel_Publish lib (rb_channels s ! ch) ctx exchange routingKey payload headers (rb_broker s) of
             (Inl err, b) \<Rightarrow>
               (case CloseChannel lib q ch (s\<lparr>rb_broker := b\<rparr>) of
                  (Some panic, s) \<Rightarrow> (ClientPanic panic, s)
                | (None, s) \<Rightarrow> (ClientErr err, s))
           | (Inr deliveryTag, b) \<Rightarrow>
               (ClientOk deliveryTag,
                s\<lparr>rb_broker := b,
                  rb_accepted := rb_accepted s @ [(exchange, routingKey, toMessage payload headers)]\<rparr>)))"

definition client_Publish ::
  "'b amqp \<Rightarrow> rabbit_options \<Rightarrow> byte \<Rightarrow> Context \<Rightarrow> string \<Rightarrow> string \<Rightarrow> Payload \<Rightarrow> (string \<rightharpoonup> string) \<Rightarrow>
   'b rabbit_state \<Rightarrow> client_result \<times> 'b rabbit_state" where
  "client_Publish lib o' q ctx exchange routingKey payload headers s =
     (case client_doPublish lib o' q ctx exchange routingKey payload headers s of
        (ClientErr err, s) \<Rightarrow>
          if shouldRetry lib err
          then client_doPublish lib o' q ctx exchange routingKey payload headers s
          else (ClientErr err, s)
      | (res, s) \<Rightarrow> (res, s))"

section \<open>The publisher (rabbitmq.go)\<close>

definition rabbit_findQueueName :: "rabbit_options \<Rightarrow> string \<Rightarrow> go_error + string" where
  "rabbit_findQueueName o' mqttTopic =
     (case first_mapping (r_queueMappings o') mqttTopic of
        Some queue \<Rightarrow> Inr queue
      | None \<Rightarrow>
          if r_defaultQueue o' \<noteq> [] then Inr (r_defaultQueue o')
          else Inl (Errorf ''rabbitmq queue not found for MQTT topic %s'' [AStr mqttTopic]))"

definition getHeaders :: "rabbit_options \<Rightarrow> PublishRequest \<Rightarrow> string \<rightharpoonup> string" where
  "getHeaders o' request =
     [''mqtt.qos'' \<mapsto> decimal (unat (req_Qos request)),
      ''mqtt.dup'' \<mapsto> FormatBool (req_Dup request),
      ''mqtt.retain'' \<mapsto> FormatBool (req_Retain request),
      ''mqtt.packet.id'' \<mapsto> decimal (unat (req_MessageID request)),
      ''mqtt.fmt'' \<mapsto> r_messageFormat o']"

definition getPayload :: "rabbit_options \<Rightarrow> PublishRequest \<Rightarrow> go_error + Payload" where
  "getPayload o' request =
     (case GetMessageBody (r_messageFormat o') request of
        Inl err \<Rightarrow> Inl err
      | Inr messageBody \<Rightarrow>
          (let payload = \<lparr>pl_Body = messageBody, pl_ContentType = [], pl_ContentEncoding = []\<rparr>
           in Inr
                (if r_messageFormat o' = MessageFormatPlain then payload\<lparr>pl_ContentType := ''text/plain''\<rparr>
                 else if r_messageFormat o' = MessageFormatBase64
                 then payload\<lparr>pl_ContentType := ''text/plain'', pl_ContentEncoding := ''base64''\<rparr>
                 else if r_messageFormat o' = MessageFormatJson
                 then payload\<lparr>pl_ContentType := ''application/json''\<rparr>
                 else payload)))"

text \<open>\<open>newClients\<close> makes a client for each of the three QoS; making one never fails.\<close>

definition rabbit_clients :: "byte list" where
  "rabbit_clients = [AT_MOST_ONCE, AT_LEAST_ONCE, EXACTLY_ONCE]"

datatype rabbit_result = RabbitErr go_error | RabbitResponse PublishResponse | RabbitPanic string

definition rabbit_sendMessage ::
  "'b amqp \<Rightarrow> rabbit_options \<Rightarrow> Context \<Rightarrow> PublishRequest \<Rightarrow> 'b rabbit_state \<Rightarrow>
   rabbit_result \<times> 'b rabbit_state" where
  "rabbit_sendMessage lib o' ctx request s =
     (if req_Qos request \<notin> set rabbit_clients
      then (RabbitErr (Errorf ''rabbitmq client for qos %d not found'' [AInt (int (unat (req_Qos request)))]), s)
      else
        (case rabbit_findQueueName o' (req_TopicName request) of
           Inl err \<Rightarrow> (RabbitErr err, s)
         | Inr routingKey \<Rightarrow>
             (case getPayload o' request of
                Inl err \<Rightarrow> (RabbitErr err, s)
              | Inr payload \<Rightarrow>
                  (case client_Publish lib o' (req_Qos request) ctx (r_exchange o') routingKey payload
                          (getHeaders o' request) s of
                     (ClientErr err, s) \<Rightarrow> (RabbitErr err, s)
                   | (ClientPanic e, s) \<Rightarrow> (RabbitPanic e, s)
                   | (ClientOk deliveryTag, s) \<Rightarrow>
                       (RabbitResponse \<lparr>resp_ID = IntID (uint deliveryTag), resp_Error = None\<rparr>, s)))))"

definition rabbit_Publish ::
  "'b amqp \<Rightarrow> rabbit_options \<Rightarrow> Context \<Rightarrow> PublishRequest \<Rightarrow> 'b rabbit_state \<Rightarrow>
   sync_result \<times> 'b rabbit_state" where
  "rabbit_Publish lib o' ctx request s =
     (case rabbit_sendMessage lib o' ctx request s of
        (RabbitErr err, s) \<Rightarrow> (SyncErr err, s)
      | (RabbitPanic e, s) \<Rightarrow> (SyncPanic e, s)
      | (RabbitResponse response, s) \<Rightarrow>
          (case resp_Error response of
             Some err \<Rightarrow> (SyncErr err, s)
           | None \<Rightarrow> (SyncOk response, s)))"

definition rabbit_PublishAsync ::
  "'b amqp \<Rightarrow> rabbit_options \<Rightarrow> Context \<Rightarrow> PublishRequest option \<Rightarrow> bool \<Rightarrow> 'b rabbit_state \<Rightarrow>
   async_result \<times> 'b rabbit_state" where
  "rabbit_PublishAsync lib o' ctx request nil_callback s =
     (case request of
        None \<Rightarrow> (AsyncErr (Errorf ''empty request/callback'' []), s)
      | Some request \<Rightarrow>
          if nil_callback then (AsyncErr (Errorf ''empty request/callback'' []), s)
          else
            (case rabbit_sendMessage lib o' ctx request s of
               (RabbitErr err, s) \<Rightarrow> (AsyncErr err, s)
             | (RabbitPanic e, s) \<Rightarrow> (AsyncPanic e, s)
             | (RabbitResponse response, s) \<Rightarrow> (AsyncCalled response, s)))"

text \<open>The clients are closed in some order, and the errors collected.\<close>

fun close_clients :: "'b amqp \<Rightarrow> byte list \<Rightarrow> 'b rabbit_state \<Rightarrow> go_error list \<times> 'b rabbit_state" where
  "close_clients lib [] s = ([], s)"
| "close_clients lib (q # qs) s =
     (case provider_Close lib q s of
        (err, s) \<Rightarrow>
          (case close_clients lib qs s of
             (es, s) \<Rightarrow> (case err of None \<Rightarrow> (es, s) | Some e \<Rightarrow> (e # es, s))))"

definition rabbit_Close :: "'b amqp \<Rightarrow> 'b rabbit_state \<Rightarrow> go_error option \<times> 'b rabbit_state" where
  "rabbit_Close lib s =
     (let s = s\<lparr>rb_done := DoneChannel_Close (rb_done s)\<rparr>
      in case close_clients lib rabbit_clients s of (es, s) \<Rightarrow> (collected es, s))"

definition rabbit_Serve :: "'b rabbit_state \<Rightarrow> go_error option option" where
  "rabbit_Serve p = wait_done (rb_done p)"

definition rabbit_Shutdown :: "'b amqp \<Rightarrow> 'b rabbit_state \<Rightarrow> 'b rabbit_state" where
  "rabbit_Shutdown lib s = snd (rabbit_Close lib (s\<lparr>rb_done := DoneChannel_Close (rb_done s)\<rparr>))"

definition New_rabbit :: "rabbit_option list \<Rightarrow> 'b \<Rightarrow> go_error + rabbit_options \<times> 'b rabbit_state" where
  "New_rabbit os b =
     (let o' = fold (\<lambda>f o'. f o') os no_rabbit_options
      in case r_validate o' of
           Some err \<Rightarrow> Inl err
         | None \<Rightarrow>
             Inr (o', \<lparr>rb_broker = b, rb_channels = [], rb_channelPtr = Map.empty, rb_done = NewDoneChannel,
                       rb_accepted = []\<rparr>))"

definition rabbit_publisher :: "'b amqp \<Rightarrow> rabbit_options \<Rightarrow> 'b rabbit_state Publisher" where
  "rabbit_publisher lib o' =
     \<lparr>pub_Name = ''rabbitmq'',
      pub_Publish = rabbit_Publish lib o',
      pub_PublishAsync = (\<lambda>ctx request. rabbit_PublishAsync lib o' ctx (Some request) False),
      pub_Complete = (\<lambda>request s. (\<lparr>resp_ID = NoID, resp_Error = Some (Errorf ''not queued'' [])\<rparr>, s))\<rparr>"

section \<open>What the publisher promises\<close>

text \<open>A request was taken when a message with its content was accepted for the queue of its topic.\<close>

definition rabbit_taken :: "rabbit_options \<Rightarrow> 'b rabbit_state \<Rightarrow> PublishRequest \<Rightarrow> bool" where
  "rabbit_taken o' s r \<longleftrightarrow>
     (\<exists>key payload. rabbit_findQueueName o' (req_TopicName r) = Inr key \<and> getPayload o' r = Inr payload \<and>
        (r_exchange o', key, toMessage payload (getHeaders o' r)) \<in> set (rb_accepted s))"

lemma channel_Close_accepted [simp]: "rb_accepted (snd (channel_Close lib a s)) = rb_accepted s"
  by (simp add: channel_Close_def Let_def split: prod.split)

lemma CloseChannel_accepted: "CloseChannel lib q ch s = (p, s') \<Longrightarrow> rb_accepted s' = rb_accepted s"
  by (auto simp: CloseChannel_def atomic_CompareAndSwap_def Let_def)

lemma GetChannel_accepted: "GetChannel lib url cf q s = (res, s') \<Longrightarrow> rb_accepted s' = rb_accepted s"
  by (auto simp: GetChannel_def Let_def split: option.splits sum.splits prod.splits)

lemma client_doPublish_accepted:
  assumes "client_doPublish lib o' q ctx ex key payload headers s = (res, s')"
  shows "rb_accepted s' = rb_accepted s @
           (case res of ClientOk _ \<Rightarrow> [(ex, key, toMessage payload headers)] | _ \<Rightarrow> [])"
proof -
  obtain g s1 where g: "GetChannel lib (amqpURI o') (confirms o' q) q s = (g, s1)"
    by (cases "GetChannel lib (amqpURI o') (confirms o' q) q s")
  show ?thesis
    using assms GetChannel_accepted [OF g]
    by (auto simp: client_doPublish_def Let_def g split: sum.splits prod.splits option.splits
        dest!: CloseChannel_accepted)
qed

lemma client_Publish_accepted:
  assumes "client_Publish lib o' q ctx ex key payload headers s = (res, s')"
  shows "rb_accepted s' = rb_accepted s @
           (case res of ClientOk _ \<Rightarrow> [(ex, key, toMessage payload headers)] | _ \<Rightarrow> [])"
proof -
  obtain r1 s1 where 1: "client_doPublish lib o' q ctx ex key payload headers s = (r1, s1)"
    by (cases "client_doPublish lib o' q ctx ex key payload headers s")
  show ?thesis
    using assms client_doPublish_accepted [OF 1]
    by (auto simp: client_Publish_def 1 split: client_result.splits if_splits dest!: client_doPublish_accepted)
qed

lemma rabbit_sendMessage_taken:
  assumes "rabbit_sendMessage lib o' ctx r s = (res, s')"
  shows "rabbit_taken o' s q \<Longrightarrow> rabbit_taken o' s' q"
    and "res = RabbitResponse resp \<Longrightarrow> rabbit_taken o' s' r"
  using assms unfolding rabbit_sendMessage_def rabbit_taken_def
  by (auto split: if_splits sum.splits prod.splits client_result.splits dest!: client_Publish_accepted)

interpretation rabbit: publisher "rabbit_publisher lib o'" "rabbit_taken o'" for lib :: "'b amqp" and o'
  by unfold_locales
    (auto simp: rabbit_publisher_def rabbit_Publish_def rabbit_PublishAsync_def
      split: prod.splits rabbit_result.splits option.splits dest: rabbit_sendMessage_taken)

section \<open>After a failed publish\<close>

text \<open>A failed publish always ends in the panic of \<open>CloseChannel\<close>, and the provider keeps its channel.\<close>

lemma CloseChannel_panics:
  "CloseChannel lib q ch s =
     (Some ''sync/atomic: compare and swap of nil value into Value'', snd (channel_Close lib ch s))"
  by (simp add: CloseChannel_def atomic_CompareAndSwap_def Let_def)

lemma channel_Close_keeps:
  "rb_channelPtr (snd (channel_Close lib a s)) = rb_channelPtr s"
  "length (rb_channels (snd (channel_Close lib a s))) = length (rb_channels s)"
  by (simp_all add: channel_Close_def Let_def split: prod.split)

text \<open>
  \<open>closed\<close> is the library's notion of a channel that was closed: closing the channel makes it so, the
  close of the connection and a publish do not undo it, and a publish on it fails (\<open>ErrClosed\<close>).
\<close>

definition closed_law :: "'b amqp \<Rightarrow> ('b \<Rightarrow> nat \<Rightarrow> bool) \<Rightarrow> bool" where
  "closed_law lib closed \<longleftrightarrow>
     (\<forall>b n. closed (snd (amqp_ch_Close lib n b)) n) \<and>
     (\<forall>b n m. closed b n \<longrightarrow> closed (snd (amqp_conn_Close lib m b)) n) \<and>
     (\<forall>b n ctx ex key msg. closed b n \<longrightarrow>
        (\<exists>e b'. PublishWithContext lib n ctx ex key msg b = (Some e, b') \<and> closed b' n)) \<and>
     (\<forall>b n ctx ex key msg. closed b n \<longrightarrow>
        (\<exists>e b'. PublishWithDeferredConfirm lib n ctx ex key msg b = (Inl e, b') \<and> closed b' n))"

text \<open>A client is stuck when its provider holds a channel that was closed.\<close>

definition stuck :: "('b \<Rightarrow> nat \<Rightarrow> bool) \<Rightarrow> byte \<Rightarrow> 'b rabbit_state \<Rightarrow> bool" where
  "stuck closed q s \<longleftrightarrow>
     (\<exists>a<length (rb_channels s). rb_channelPtr s q = Some a \<and> ch_once (rb_channels s ! a) \<and>
        closed (rb_broker s) (ch_ch (rb_channels s ! a)))"

definition live :: "byte \<Rightarrow> 'b rabbit_state \<Rightarrow> bool" where
  "live q s \<longleftrightarrow>
     (\<exists>a<length (rb_channels s). rb_channelPtr s q = Some a \<and> \<not> ch_once (rb_channels s ! a))"

lemma channel_close_inner_closed:
  assumes "closed_law lib closed" and "channel_close_inner lib c b = (err, b')"
  shows "closed b' (ch_ch c)"
proof -
  obtain e1 b1 where 1: "amqp_ch_Close lib (ch_ch c) b = (e1, b1)"
    by (cases "amqp_ch_Close lib (ch_ch c) b")
  obtain e2 b2 where 2: "amqp_conn_Close lib (ch_conn c) b = (e2, b2)"
    by (cases "amqp_conn_Close lib (ch_conn c) b")
  obtain e3 b3 where 3: "amqp_ch_Close lib (ch_ch c) b2 = (e3, b3)"
    by (cases "amqp_ch_Close lib (ch_ch c) b2")
  from assms(1) have "closed b3 (ch_ch c)"
    unfolding closed_law_def using 3 by (metis snd_conv)
  with assms(2) 2 3 show ?thesis
    by (auto simp: channel_close_inner_def MultiCloser_Add_def MultiCloser_Close_eq split: option.splits)
qed

lemma channel_Publish_closed:
  assumes "closed_law lib closed" and "closed b (ch_ch c)"
  obtains e b' where "channel_Publish lib c ctx ex key payload headers b = (Inl e, b')" and "closed b' (ch_ch c)"
proof -
  let ?msg = "toMessage payload headers"
  obtain e b1 where "PublishWithContext lib (ch_ch c) ctx ex key ?msg b = (Some e, b1)" "closed b1 (ch_ch c)"
    using assms unfolding closed_law_def by metis
  moreover obtain e' b2 where "PublishWithDeferredConfirm lib (ch_ch c) ctx ex key ?msg b = (Inl e', b2)"
      "closed b2 (ch_ch c)"
    using assms unfolding closed_law_def by metis
  ultimately show ?thesis
    by (cases "ch_confirms c")
      (auto simp: channel_Publish_def Let_def channel_publish_def publishAndConfirm_def
        publishWithDeferredConfirm_def intro: that)
qed

lemma client_Publish_stuck:
  assumes "closed_law lib closed" and "stuck closed q s"
  obtains s' where "client_Publish lib o' q ctx ex key payload headers s =
      (ClientPanic ''sync/atomic: compare and swap of nil value into Value'', s')" and "stuck closed q s'"
proof -
  from assms(2) obtain a where a: "a < length (rb_channels s)" "rb_channelPtr s q = Some a"
      "ch_once (rb_channels s ! a)" "closed (rb_broker s) (ch_ch (rb_channels s ! a))"
    unfolding stuck_def by blast
  let ?ctx = "if r_requestTimeout o' > 0 then with_timeout (r_requestTimeout o') ctx else ctx"
  obtain e b where b: "channel_Publish lib (rb_channels s ! a) ?ctx ex key payload headers (rb_broker s) = (Inl e, b)"
      "closed b (ch_ch (rb_channels s ! a))"
    using assms(1) a(4) by (rule channel_Publish_closed)
  show ?thesis
    by (rule that [of "s\<lparr>rb_broker := b\<rparr>"])
      (use a b in \<open>auto simp: client_Publish_def client_doPublish_def GetChannel_def CloseChannel_panics Let_def
        channel_Close_def stuck_def\<close>)
qed

text \<open>The first publish that fails on a live channel leaves its client stuck.\<close>

lemma client_Publish_live_panics:
  assumes "closed_law lib closed" and "live q s"
    and "client_Publish lib o' q ctx ex key payload headers s = (res, s')" and "\<nexists>tag. res = ClientOk tag"
  shows "stuck closed q s'" and "res = ClientPanic ''sync/atomic: compare and swap of nil value into Value''"
proof -
  from assms(2) obtain a where a: "a < length (rb_channels s)" "rb_channelPtr s q = Some a"
      "\<not> ch_once (rb_channels s ! a)"
    unfolding live_def by blast
  let ?ctx = "if r_requestTimeout o' > 0 then with_timeout (r_requestTimeout o') ctx else ctx"
  obtain r b where p: "channel_Publish lib (rb_channels s ! a) ?ctx ex key payload headers (rb_broker s) = (r, b)"
    by (cases "channel_Publish lib (rb_channels s ! a) ?ctx ex key payload headers (rb_broker s)")
  have do: "client_doPublish lib o' q ctx ex key payload headers s = (res, s')" and "\<exists>e. r = Inl e"
    using assms(3,4) a p
    by (auto simp: client_Publish_def client_doPublish_def GetChannel_def Let_def CloseChannel_panics
        split: sum.splits)
  then obtain e where r: "r = Inl e"
    by blast
  obtain err b' where c: "channel_close_inner lib (rb_channels s ! a) b = (err, b')"
    by (cases "channel_close_inner lib (rb_channels s ! a) b")
  have closed: "closed b' (ch_ch (rb_channels s ! a))"
    using assms(1) c by (rule channel_close_inner_closed)
  show "stuck closed q s'" and "res = ClientPanic ''sync/atomic: compare and swap of nil value into Value''"
    using do a p r c closed
    by (auto simp: client_doPublish_def GetChannel_def Let_def CloseChannel_panics channel_Close_def stuck_def
        nth_list_update)
qed

end
