(* ===== verification/Publisher_Properties.thy ===== *)
theory Publisher_Properties
  imports Kafka Sns Rabbitmq
begin

text \<open>
  The publishers: where a message goes, what of it arrives, which resources of the client libraries are
  given back, and what a failed publish leaves behind.
\<close>

section \<open>RabbitMQ: after a failed publish\<close>

type_synonym amqp_message = "Context \<times> string \<times> string \<times> Payload \<times> (string \<rightharpoonup> string)"

text \<open>The results of a sequence of publishes of one client.\<close>

fun client_Publishes ::
  "'b amqp \<Rightarrow> rabbit_options \<Rightarrow> byte \<Rightarrow> amqp_message list \<Rightarrow> 'b rabbit_state \<Rightarrow> client_result list" where
  "client_Publishes lib o' q [] s = []"
| "client_Publishes lib o' q ((ctx, ex, key, payload, headers) # ms) s =
     (case client_Publish lib o' q ctx ex key payload headers s of
        (res, s) \<Rightarrow> res # client_Publishes lib o' q ms s)"

abbreviation swap_panic :: client_result where
  "swap_panic \<equiv> ClientPanic ''sync/atomic: compare and swap of nil value into Value''"

lemma client_Publishes_stuck:
  assumes "closed_law lib closed" and "stuck closed q s"
  shows "client_Publishes lib o' q ms s = replicate (length ms) swap_panic"
  using assms(2)
proof (induction ms arbitrary: s)
  case (Cons m ms)
  obtain ctx ex key payload headers where m: "m = (ctx, ex, key, payload, headers)"
    by (cases m)
  obtain s' where "client_Publish lib o' q ctx ex key payload headers s = (swap_panic, s')" "stuck closed q s'"
    using assms(1) Cons.prems by (rule client_Publish_stuck)
  with Cons.IH m show ?case
    by simp
qed simp

text \<open>C26: The first publish that fails on an open channel panics, because \<open>CompareAndSwap(channel, nil)\<close> of an
  \<open>atomic.Value\<close> always does, and from then on so does every publish of that client: the closed channel
  stays in the provider and is never replaced.\<close>

theorem failed_publish_sticks:
  assumes "closed_law lib closed" and "live q s"
    and "client_Publish lib o' q ctx ex key payload headers s = (res, s')" and "\<And>tag. res \<noteq> ClientOk tag"
  shows "res = swap_panic \<and> client_Publishes lib o' q ms s' = replicate (length ms) swap_panic"
  using client_Publish_live_panics [OF assms(1,2,3)] client_Publishes_stuck [OF assms(1)] assms(4) by blast

text \<open>A library whose state is the list of the closed channels, and that fails to publish an empty body.\<close>

definition demo_amqp :: "nat list amqp" where
  "demo_amqp =
     \<lparr>Dial = (\<lambda>_ b. (Inr 0, b)), conn_Channel = (\<lambda>_ b. (Inr 1, b)),
      amqp_conn_Close = (\<lambda>_ b. (None, b)), amqp_ch_Close = (\<lambda>n b. (None, n # b)),
      Confirm = (\<lambda>_ b. (None, b)),
      PublishWithContext = (\<lambda>n _ _ _ m b. (if n \<in> set b \<or> msg_Body m = [] then Some EOF else None, b)),
      PublishWithDeferredConfirm = (\<lambda>n _ _ _ m b. (if n \<in> set b \<or> msg_Body m = [] then Inl EOF else Inr 1, b)),
      WaitContext = (\<lambda>_ _ b. (Inr True, b)), amqp_code = (\<lambda>_. None), is_net_error = (\<lambda>_. False)\<rparr>"

definition demo_rabbit :: "nat list rabbit_state" where
  "demo_rabbit =
     \<lparr>rb_broker = [], rb_channels = [\<lparr>ch_once = False, ch_conn = 0, ch_ch = 1, ch_confirms = False\<rparr>],
      rb_channelPtr = [AT_LEAST_ONCE \<mapsto> 0], rb_done = NewDoneChannel, rb_accepted = []\<rparr>"

definition demo_payload :: "byte list \<Rightarrow> Payload" where
  "demo_payload body = \<lparr>pl_Body = body, pl_ContentType = [], pl_ContentEncoding = []\<rparr>"

lemma demo_amqp_closed: "closed_law demo_amqp (\<lambda>b n. n \<in> set b)"
  by (simp add: closed_law_def demo_amqp_def)

lemma demo_rabbit_live: "live AT_LEAST_ONCE demo_rabbit"
  by (simp add: live_def demo_rabbit_def)

theorem failed_publish_sticks_witness:
  "swap_panic = swap_panic \<and>
   client_Publishes demo_amqp no_rabbit_options AT_LEAST_ONCE [(None, [], ''q'', demo_payload [1], Map.empty)]
     (snd (client_Publish demo_amqp no_rabbit_options AT_LEAST_ONCE None [] ''q'' (demo_payload []) Map.empty demo_rabbit)) =
   replicate (length [(None :: Context, [] :: string, ''q'', demo_payload [1], Map.empty :: string \<rightharpoonup> string)]) swap_panic"
  by (rule failed_publish_sticks [OF demo_amqp_closed demo_rabbit_live, of no_rabbit_options None "[]" "''q''"
        "demo_payload []" Map.empty])
    (simp_all add: demo_amqp_def demo_rabbit_def demo_payload_def no_rabbit_options_def client_Publish_def
      client_doPublish_def GetChannel_def channel_Publish_def channel_publish_def toMessage_def toTable_def
      CloseChannel_panics Let_def)

section \<open>Resources\<close>

text \<open>
  \<open>open'\<close> is the set of the open producers of the library: making one opens a new one or none, closing
  one closes it.
\<close>

definition producer_law :: "'b kafka_lib \<Rightarrow> ('b \<Rightarrow> nat set) \<Rightarrow> bool" where
  "producer_law lib open' \<longleftrightarrow>
     (\<forall>m b. case k_NewProducer lib m b of
        (Inl _, b') \<Rightarrow> open' b' = open' b
      | (Inr n, b') \<Rightarrow> n \<notin> open' b \<and> open' b' = insert n (open' b)) \<and>
     (\<forall>n b. open' (k_CloseProducer lib n b) = open' b - {n})"

lemma NewProducer_open:
  assumes "producer_law lib open'" and "k_NewProducer lib m b = (res, b')"
  shows "res = Inl e \<Longrightarrow> open' b' = open' b"
    and "res = Inr n \<Longrightarrow> n \<notin> open' b \<and> open' b' = insert n (open' b)"
  using assms unfolding producer_law_def by (fastforce dest: spec [of _ m] split: prod.splits)+

lemma closeProducers_open:
  assumes "producer_law lib open'"
  shows "open' (snd (closeProducers lib ps b)) = open' b - set (map kp_handle (filter (\<lambda>p. \<not> kp_closed p) (map snd ps)))"
proof (induction ps arbitrary: b)
  case (Cons p ps)
  obtain q k where p: "p = (q, k)"
    by (cases p)
  have "open' (k_CloseProducer lib n b) = open' b - {n}" for n
    using assms by (simp add: producer_law_def)
  then show ?case
    by (simp add: p kafkaProducer_Close_def case_prod_beta Cons.IH flip: Diff_insert2)
qed simp

text \<open>C27: Making the Kafka producers either makes one for each of the three QoS, which closing them gives back, or
  fails and leaves none of them open.\<close>

theorem producers_given_back:
  assumes "producer_law lib open'"
  shows "case newProducers lib o' b of
      (Inl e, b') \<Rightarrow> open' b' = open' b
    | (Inr ps, b') \<Rightarrow>
        map fst ps = [AT_MOST_ONCE, AT_LEAST_ONCE, EXACTLY_ONCE] \<and>
        card (open' b' - open' b) = 3 \<and> open' (snd (closeProducers lib ps b')) = open' b"
proof -
  obtain r0 b0 where 0: "k_NewProducer lib (atMostOnceProps lib o') b = (r0, b0)"
    by fastforce
  obtain r1 b1 where 1: "k_NewProducer lib (atLeastOnceProps lib o') b0 = (r1, b1)"
    by fastforce
  obtain r2 b2 where 2: "k_NewProducer lib (exactlyOnceProps lib o') b1 = (r2, b2)"
    by fastforce
  note open_simps = NewProducer_open [OF assms 0] NewProducer_open [OF assms 1] NewProducer_open [OF assms 2]
  show ?thesis
  proof (cases r0; cases r1; cases r2)
    fix n0 n1 n2
    assume r: "r0 = Inr n0" "r1 = Inr n1" "r2 = Inr n2"
    with open_simps have "n0 \<notin> open' b" "n1 \<notin> insert n0 (open' b)" "n2 \<notin> insert n1 (insert n0 (open' b))"
        and b2: "open' b2 = insert n2 (insert n1 (insert n0 (open' b)))"
      by auto
    then have "open' b2 - open' b = {n0, n1, n2}" "card {n0, n1, n2} = 3"
      by auto
    then show ?thesis
      using r open_simps b2 \<open>n0 \<notin> open' b\<close> \<open>n1 \<notin> insert n0 (open' b)\<close> \<open>n2 \<notin> insert n1 (insert n0 (open' b))\<close>
      by (auto simp: newProducers_def 0 1 2 new_producer_def closeProducers_open [OF assms] simp del: closeProducers.simps)
  qed (use open_simps in \<open>auto simp: newProducers_def 0 1 2 new_producer_def closeProducers_open [OF assms] simp del: closeProducers.simps\<close>)
qed

text \<open>A library whose state is the list of the open producers, and that makes at most \<open>n\<close>.\<close>

definition demo_producers :: "nat \<Rightarrow> nat list kafka_lib" where
  "demo_producers n =
     \<lparr>k_SetKey = (\<lambda>k v m. (k, v) # m),
      k_NewProducer = (\<lambda>_ b. let i = Suc (Max (set (0 # b))) in if i \<le> n then (Inr i, i # b) else (Inl EOF, b)),
      k_CloseProducer = removeAll, k_Flush = (\<lambda>_ _ b. (0, b)), k_Produce = (\<lambda>_ _ _ b. (None, b)),
      k_await = (\<lambda>_ b. (None, b)), k_report = (\<lambda>_ b. (([], None), b))\<rparr>"

lemma demo_producers_law: "producer_law (demo_producers n) set"
proof -
  have "Suc (Max (insert 0 (set b))) \<notin> set b" for b
  proof
    assume "Suc (Max (insert 0 (set b))) \<in> set b"
    then have "Suc (Max (insert 0 (set b))) \<le> Max (insert 0 (set b))"
      by (intro Max_ge) simp_all
    then show False
      by simp
  qed
  then show ?thesis
    by (simp add: producer_law_def demo_producers_def Let_def)
qed

theorem producers_given_back_witness:
  "case newProducers (demo_producers 2) \<lparr>k_bootstrapServers = ''b:9092'', k_gracePeriod = 0, k_workers = 1,
      k_configMap = [], k_defaultTopic = ''t'', k_topicMappings = [], k_messageFormat = ''plain''\<rparr> [] of
      (Inl e, b') \<Rightarrow> set b' = set []
    | (Inr ps, b') \<Rightarrow>
        map fst ps = [AT_MOST_ONCE, AT_LEAST_ONCE, EXACTLY_ONCE] \<and>
        card (set b' - set []) = 3 \<and> set (snd (closeProducers (demo_producers 2) ps b')) = set []"
  by (rule producers_given_back [OF demo_producers_law])

section \<open>Destinations and contents\<close>







definition added :: "('m \<Rightarrow> bool) \<Rightarrow> 'm list \<Rightarrow> 'm list \<Rightarrow> bool" where
  "added P old new \<longleftrightarrow> take (length old) new = old \<and> list_all P (drop (length old) new)"

lemma added_refl [simp]: "added P xs xs"
  by (simp add: added_def)

lemma added_snoc [simp]: "added P xs (xs @ [x]) \<longleftrightarrow> P x"
  by (simp add: added_def)















definition demo_ko :: kafka_options where
  "demo_ko = \<lparr>k_bootstrapServers = ''b:9092'', k_gracePeriod = 0, k_workers = 1, k_configMap = [],
     k_defaultTopic = ''t'', k_topicMappings = [], k_messageFormat = MessageFormatBase64\<rparr>"

definition demo_ro :: rabbit_options where
  "demo_ro = no_rabbit_options\<lparr>r_defaultQueue := ''q'', r_messageFormat := MessageFormatBase64\<rparr>"






definition demo_publish_request :: PublishRequest where
  "demo_publish_request = \<lparr>req_Dup = False, req_Qos = 1, req_Retain = False, req_TopicName = ''dev/2'', req_MessageID = 7,
     req_Message = [104, 105], req_ClientID = ''c''\<rparr>"


lemma kafka_message_body:
  "newKafkaMessage o' r opq = Inr msg \<Longrightarrow>
   GetMessageBody (k_messageFormat o') r = Inr (m_Value msg) \<and> m_Key msg = bytes_of_string (req_TopicName r)"
  by (auto simp: newKafkaMessage_def Let_def split: sum.splits)

lemma rabbit_message_body:
  "getPayload o' r = Inr payload \<Longrightarrow> GetMessageBody (r_messageFormat o') r = Inr (pl_Body payload)"
  by (auto simp: getPayload_def Let_def split: sum.splits)

text \<open>What a consumer reads back from a body, by its format.\<close>

definition consumed :: "string \<Rightarrow> byte list \<Rightarrow> byte list" where
  "consumed messageFormat body =
     (if messageFormat = MessageFormatBase64 then map word_of_nat (base64_decode_nat (string_of_bytes body)) else body)"

lemma consumed_body:
  assumes "GetMessageBody fmt r = Inr body" and "fmt \<noteq> MessageFormatJson"
  shows "consumed fmt body = req_Message r"
  using assms base64_decode_encode [of "req_Message r"]
  by (auto simp: GetMessageBody_def consumed_def MessageFormatPlain_def MessageFormatBase64_def split: if_splits)

text \<open>C29: What a consumer reads from the body of a Kafka or RabbitMQ message in the plain or base64 format is the payload
  of the PUBLISH packet, byte for byte. The topic it was published to is the key of the Kafka message; a RabbitMQ
  message in these formats does not have it: neither its payload nor its headers depend on it.\<close>

theorem payload_preserved:
  assumes "k_messageFormat ko \<noteq> MessageFormatJson" and "newKafkaMessage ko r opq = Inr msg"
    and "r_messageFormat ro \<noteq> MessageFormatJson" and "getPayload ro r = Inr payload"
  shows "consumed (k_messageFormat ko) (m_Value msg) = req_Message r \<and>
    m_Key msg = bytes_of_string (req_TopicName r) \<and>
    consumed (r_messageFormat ro) (pl_Body payload) = req_Message r \<and>
    getPayload ro (r\<lparr>req_TopicName := t\<rparr>) = Inr payload \<and>
    getHeaders ro (r\<lparr>req_TopicName := t\<rparr>) = getHeaders ro r"
proof -
  have "GetMessageBody (r_messageFormat ro) (r\<lparr>req_TopicName := t\<rparr>) = GetMessageBody (r_messageFormat ro) r"
    using assms(3) by (simp add: GetMessageBody_def)
  then have "getPayload ro (r\<lparr>req_TopicName := t\<rparr>) = Inr payload"
    using assms(4) by (simp add: getPayload_def)
  moreover have "getHeaders ro (r\<lparr>req_TopicName := t\<rparr>) = getHeaders ro r"
    by (simp add: getHeaders_def)
  ultimately show ?thesis
    using assms kafka_message_body [OF assms(2)] rabbit_message_body [OF assms(4)]
    by (simp add: consumed_body)
qed

theorem payload_preserved_witness:
  "\<exists>(msg :: kafka_message) (payload :: Payload). consumed (k_messageFormat demo_ko) (m_Value msg) = req_Message demo_publish_request \<and>
    m_Key msg = bytes_of_string (req_TopicName demo_publish_request) \<and>
    consumed (r_messageFormat demo_ro) (pl_Body payload) = req_Message demo_publish_request \<and>
    getPayload demo_ro (demo_publish_request\<lparr>req_TopicName := ''other''\<rparr>) = Inr payload \<and>
    getHeaders demo_ro (demo_publish_request\<lparr>req_TopicName := ''other''\<rparr>) = getHeaders demo_ro demo_publish_request"
proof -
  note format_defs = MessageFormatBase64_def MessageFormatJson_def MessageFormatPlain_def
  obtain msg where msg: "newKafkaMessage demo_ko demo_publish_request None = Inr msg"
    by (simp add: newKafkaMessage_def getKafkaTopic_def GetMessageBody_def demo_ko_def format_defs Let_def)
  obtain payload where payload: "getPayload demo_ro demo_publish_request = Inr payload"
    by (simp add: getPayload_def GetMessageBody_def demo_ro_def format_defs Let_def)
  have fmt: "k_messageFormat demo_ko \<noteq> MessageFormatJson" "r_messageFormat demo_ro \<noteq> MessageFormatJson"
    by (simp_all add: demo_ko_def demo_ro_def format_defs)
  show ?thesis
    by (intro exI [of _ msg] exI [of _ payload]) (rule payload_preserved [OF fmt(1) msg fmt(2) payload])
qed

section \<open>Closing in reverse\<close>

text \<open>Closing a \<open>MultiCloser\<close> runs every closer that was added, the nil ones left out, in the reverse of the
  order they were added in, also when some of them fail, and returns all their errors.\<close>

lemma closers_in_reverse:
  "MultiCloser_Close (fold MultiCloser_Add fs []) s = close_all (rev (map the (filter (\<lambda>f. f \<noteq> None) fs))) s"
proof -
  have "fold MultiCloser_Add fs c = c @ map the (filter (\<lambda>f. f \<noteq> None) fs)" for c
    by (induction fs arbitrary: c) (auto simp: MultiCloser_Add_def)
  then show ?thesis
    by (simp add: MultiCloser_Close_eq)
qed

end
