(* ===== verification/Tls.thy ===== *)
theory Tls
  imports Util
begin

text \<open>
  Certificates (pkg/tls): parsing the files, checking the revocation lists, watching the files for changes,
  the store of the current certificates, and the configuration of each TLS handshake. Parsing and
  signatures are those of Go's crypto packages, an argument of the definitions.
\<close>

section \<open>The crypto packages\<close>

text \<open>
  \<open>pem_Decode\<close> finds the cur block and gives what follows it as the number of bytes to skip after the
  first (what \<open>pem.Decode\<close> leaves is a proper suffix), \<open>AppendCertsFromPEM\<close> gives the pool of the
  certificates if there is one, \<open>leaf\<close> the first certificate of a chain in its encoded form.
\<close>

record pem_block =
  pem_Type :: string
  pem_Headers :: "(string \<times> string) list"
  pem_Bytes :: "byte list"

record ('cert, 'pool, 'x509, 'crl) crypto =
  X509KeyPair :: "byte list \<Rightarrow> byte list \<Rightarrow> go_error + 'cert"
  leaf :: "'cert \<Rightarrow> byte list"
  AppendCertsFromPEM :: "byte list \<Rightarrow> 'pool option"
  pem_Decode :: "byte list \<Rightarrow> (pem_block \<times> nat) option"
  ParseCertificate :: "byte list \<Rightarrow> go_error + 'x509"
  CommonName :: "'x509 \<Rightarrow> string"
  DNSNames :: "'x509 \<Rightarrow> string list"
  SerialNumber :: "'x509 \<Rightarrow> int"
  IsCA :: "'x509 \<Rightarrow> bool"
  ParseRevocationList :: "byte list \<Rightarrow> go_error + 'crl"
  CheckSignatureFrom :: "'crl \<Rightarrow> 'x509 \<Rightarrow> go_error option"
  RevokedCertificates :: "'crl \<Rightarrow> int list"
  sha256 :: "byte list \<Rightarrow> byte list"

text \<open>\<open>Bytes()\<close> of a \<open>big.Int\<close>: the absolute value, big-endian, without leading zeros.\<close>

fun big_endian :: "nat \<Rightarrow> byte list" where
  "big_endian n = (if n = 0 then [] else big_endian (n div 256) @ [word_of_nat (n mod 256)])"

declare big_endian.simps [simp del]

definition big_Bytes :: "int \<Rightarrow> byte list" where
  "big_Bytes i = big_endian (nat \<bar>i\<bar>)"

definition big_endian_value :: "byte list \<Rightarrow> nat" where
  "big_endian_value bs = fold (\<lambda>b v. 256 * v + unat b) bs 0"

lemma big_endian_value_snoc: "big_endian_value (bs @ [b]) = 256 * big_endian_value bs + unat b"
  by (simp add: big_endian_value_def)

lemma unat_byte_of_nat: "unat (word_of_nat (n mod 256) :: byte) = n mod 256"
  by (simp add: unat_of_nat)

lemma big_endian_value_big_endian: "big_endian_value (big_endian n) = n"
proof (induction n rule: big_endian.induct)
  case (1 n)
  show ?case
  proof (cases "n = 0")
    case True
    then show ?thesis
      by (simp add: big_endian.simps [of 0] big_endian_value_def)
  next
    case False
    then have "big_endian_value (big_endian n) = 256 * (n div 256) + n mod 256"
      using 1 by (simp add: big_endian.simps [of n] big_endian_value_snoc unat_byte_of_nat)
    then show ?thesis
      by simp
  qed
qed

lemma big_Bytes_eq_iff: "big_Bytes i = big_Bytes j \<longleftrightarrow> \<bar>i\<bar> = \<bar>j\<bar>"
proof
  assume "big_Bytes i = big_Bytes j"
  then have "big_endian_value (big_Bytes i) = big_endian_value (big_Bytes j)"
    by simp
  then show "\<bar>i\<bar> = \<bar>j\<bar>"
    by (simp add: big_Bytes_def big_endian_value_big_endian)
qed (simp add: big_Bytes_def)

section \<open>Parsing (cert/certutil/helper.go)\<close>

definition X509CRLBlockType :: string where
  "X509CRLBlockType = ''X509 CRL''"

definition CertificateBlockType :: string where
  "CertificateBlockType = ''CERTIFICATE''"

function parse_crls ::
  "('cert, 'pool, 'x509, 'crl) crypto \<Rightarrow> byte list \<Rightarrow> bool \<Rightarrow> 'crl list \<Rightarrow> go_error + 'crl list" where
  "parse_crls lib pemCrls ok crls =
     (case (if length pemCrls > 0 then pem_Decode lib pemCrls else None) of
        None \<Rightarrow> if \<not> ok then Inl (Errorf ''data does not contain any valid CRL'' []) else Inr crls
      | Some (block, n) \<Rightarrow>
          if pem_Type block \<noteq> X509CRLBlockType then parse_crls lib (drop (Suc n) pemCrls) ok crls
          else
            (case ParseRevocationList lib (pem_Bytes block) of
               Inl err \<Rightarrow> Inl err
             | Inr crl \<Rightarrow> parse_crls lib (drop (Suc n) pemCrls) True (crls @ [crl])))"
  by pat_completeness auto
termination
  by (relation "measure (\<lambda>(lib, pemCrls, ok, crls). length pemCrls)") (auto split: if_splits)

declare parse_crls.simps [simp del]

definition ParseCRLsPEM :: "('cert, 'pool, 'x509, 'crl) crypto \<Rightarrow> byte list \<Rightarrow> go_error + 'crl list" where
  "ParseCRLsPEM lib pemCrls = parse_crls lib pemCrls False []"

function parse_certs ::
  "('cert, 'pool, 'x509, 'crl) crypto \<Rightarrow> byte list \<Rightarrow> bool \<Rightarrow> 'x509 list \<Rightarrow> go_error + 'x509 list" where
  "parse_certs lib pemCerts ok certs =
     (case (if length pemCerts > 0 then pem_Decode lib pemCerts else None) of
        None \<Rightarrow>
          if \<not> ok then Inl (Errorf ''data does not contain any valid RSA or ECDSA certificates'' []) else Inr certs
      | Some (block, n) \<Rightarrow>
          if pem_Type block \<noteq> CertificateBlockType \<or> length (pem_Headers block) \<noteq> 0
          then parse_certs lib (drop (Suc n) pemCerts) ok certs
          else
            (case ParseCertificate lib (pem_Bytes block) of
               Inl err \<Rightarrow> Inl err
             | Inr cert \<Rightarrow> parse_certs lib (drop (Suc n) pemCerts) True (certs @ [cert])))"
  by pat_completeness auto
termination
  by (relation "measure (\<lambda>(lib, pemCerts, ok, certs). length pemCerts)") (auto split: if_splits)

declare parse_certs.simps [simp del]

definition ParseCertsPEM :: "('cert, 'pool, 'x509, 'crl) crypto \<Rightarrow> byte list \<Rightarrow> go_error + 'x509 list" where
  "ParseCertsPEM lib pemCerts = parse_certs lib pemCerts False []"

text \<open>\<open>%02x\<close> of each byte; the separator is not put before the first.\<close>

definition hex_byte :: "byte \<Rightarrow> string" where
  "hex_byte b = [hex_digit (unat b div 16), hex_digit (unat b mod 16)]"

fun hex_loop :: "byte list \<Rightarrow> string \<Rightarrow> string \<Rightarrow> string" where
  "hex_loop [] sep ret = ret"
| "hex_loop (cur # buf) sep ret =
     hex_loop buf sep ((if length ret > 0 then ret @ sep else ret) @ hex_byte cur)"

definition GetHexFormatted :: "byte list \<Rightarrow> string \<Rightarrow> string" where
  "GetHexFormatted buf sep = hex_loop buf sep []"

section \<open>The files of a server (cert/source/pems.go)\<close>

record ServerPEMs =
  CertPEMBlock :: "byte list"
  KeyPEMBlock :: "byte list"
  ClientAuthPEMBlock :: "byte list"
  CRLPEMBlock :: "byte list"

text \<open>\<open>hash.Sum(b)\<close> appends the hash of what was written before to \<open>b\<close>.\<close>

definition PEMs_Checksum :: "('cert, 'pool, 'x509, 'crl) crypto \<Rightarrow> ServerPEMs \<Rightarrow> byte list" where
  "PEMs_Checksum lib s = CRLPEMBlock s @ sha256 lib (CertPEMBlock s @ KeyPEMBlock s @ ClientAuthPEMBlock s)"

definition PEMs_Certificates :: "('cert, 'pool, 'x509, 'crl) crypto \<Rightarrow> ServerPEMs \<Rightarrow> go_error + 'cert list" where
  "PEMs_Certificates lib s =
     (case X509KeyPair lib (CertPEMBlock s) (KeyPEMBlock s) of Inl err \<Rightarrow> Inl err | Inr cert \<Rightarrow> Inr [cert])"

definition PEMs_ClientCAs :: "('cert, 'pool, 'x509, 'crl) crypto \<Rightarrow> ServerPEMs \<Rightarrow> go_error + 'pool option" where
  "PEMs_ClientCAs lib s =
     (if length (ClientAuthPEMBlock s) = 0 then Inr None
      else
        (case AppendCertsFromPEM lib (ClientAuthPEMBlock s) of
           None \<Rightarrow> Inl (Errorf ''server PEMs: building client CAs failed'' [])
         | Some certPool \<Rightarrow> Inr (Some certPool)))"

definition PEMs_ClientCRLs :: "('cert, 'pool, 'x509, 'crl) crypto \<Rightarrow> ServerPEMs \<Rightarrow> go_error + 'crl list" where
  "PEMs_ClientCRLs lib s =
     (if length (CRLPEMBlock s) = 0 then Inr [] else ParseCRLsPEM lib (CRLPEMBlock s))"

definition signed_by :: "('cert, 'pool, 'x509, 'crl) crypto \<Rightarrow> 'x509 list \<Rightarrow> 'crl \<Rightarrow> bool" where
  "signed_by lib certs clientCRL \<longleftrightarrow> (\<exists>cert\<in>set certs. CheckSignatureFrom lib clientCRL cert = None)"

definition ValidateCRLs :: "('cert, 'pool, 'x509, 'crl) crypto \<Rightarrow> ServerPEMs \<Rightarrow> go_error option" where
  "ValidateCRLs lib s =
     (if length (ClientAuthPEMBlock s) = 0 then None
      else
        (case PEMs_ClientCRLs lib s of
           Inl err \<Rightarrow> Some err
         | Inr clientCRLs \<Rightarrow>
             if length clientCRLs = 0 then None
             else
               (case ParseCertsPEM lib (ClientAuthPEMBlock s) of
                  Inl err \<Rightarrow> Some err
                | Inr certs \<Rightarrow>
                    if list_all (signed_by lib certs) clientCRLs then None
                    else Some (Errorf ''server PEMs: CLR validation failure'' []))))"

section \<open>The store (cert/source/server.go, store.go)\<close>

record ('cert, 'pool, 'crl) ServerCerts =
  Certificates :: "'cert list"
  ClientCAs :: "'pool option"
  ClientCRLs :: "'crl list"
  Checksum :: "byte list"

record ('cert, 'pool, 'crl) CertStore =
  cs_Certificates :: "'cert list"
  cs_ClientCAs :: "'pool option"
  cs_ClientCRLs :: "'crl list"

text \<open>
  The set of the revoked serial numbers is built on the first call; \<open>CertStore()\<close> hands out copies, so
  that it is that of the lists of the same copy.
\<close>

definition IsClientCertRevoked ::
  "('cert, 'pool, 'x509, 'crl) crypto \<Rightarrow> ('cert, 'pool, 'crl) CertStore \<Rightarrow> int \<Rightarrow> bool" where
  "IsClientCertRevoked lib c serialNumber \<longleftrightarrow>
     big_Bytes serialNumber \<in>
       set (concat (map (\<lambda>clientCRL. map big_Bytes (RevokedCertificates lib clientCRL)) (cs_ClientCRLs c)))"

text \<open>The store with the arguments of the lines it logged.\<close>

record ('cert, 'pool, 'crl) Store =
  st_cs :: "('cert, 'pool, 'crl) CertStore"
  st_log :: "fmt_arg list list"

definition NewStore :: "('cert, 'pool, 'crl) Store" where
  "NewStore = \<lparr>st_cs = \<lparr>cs_Certificates = [], cs_ClientCAs = None, cs_ClientCRLs = []\<rparr>, st_log = []\<rparr>"

fun strings_Join :: "string list \<Rightarrow> string \<Rightarrow> string" where
  "strings_Join [] sep = []"
| "strings_Join [s] sep = s"
| "strings_Join (s # ss) sep = s @ sep @ strings_Join ss sep"

fun cert_names :: "('cert, 'pool, 'x509, 'crl) crypto \<Rightarrow> 'cert list \<Rightarrow> string list" where
  "cert_names lib [] = []"
| "cert_names lib (c # certs) =
     (case ParseCertificate lib (leaf lib c) of
        Inl err \<Rightarrow> cert_names lib certs
      | Inr x509Cert \<Rightarrow>
          (let names = (if length (CommonName lib x509Cert) > 0 then [CommonName lib x509Cert] else []) @
             DNSNames lib x509Cert
           in (GetHexFormatted (big_Bytes (SerialNumber lib x509Cert)) '':'' @ ''='' @ strings_Join names '','') #
                cert_names lib certs))"

definition crl_names :: "('cert, 'pool, 'x509, 'crl) crypto \<Rightarrow> 'crl list \<Rightarrow> string list" where
  "crl_names lib crls =
     concat (map (\<lambda>crl. map (\<lambda>serial. GetHexFormatted (big_Bytes serial) '':'') (RevokedCertificates lib crl)) crls)"

definition SetServerCerts ::
  "('cert, 'pool, 'x509, 'crl) crypto \<Rightarrow> ('cert, 'pool, 'crl) ServerCerts \<Rightarrow> ('cert, 'pool, 'crl) Store \<Rightarrow>
   ('cert, 'pool, 'crl) Store" where
  "SetServerCerts lib certs s =
     (let cs = \<lparr>cs_Certificates = Certificates certs, cs_ClientCAs = ClientCAs certs,
        cs_ClientCRLs = ClientCRLs certs\<rparr>
      in s\<lparr>st_cs := cs,
           st_log := st_log s @
             [[AStr (strings_Join (cert_names lib (cs_Certificates cs)) ''|''), AInt (int (length (cs_ClientCRLs cs))),
               AStr (strings_Join (crl_names lib (cs_ClientCRLs cs)) ''|'')]]\<rparr>)"

section \<open>Watching (cert/source/watch.go)\<close>

datatype ('cert, 'pool, 'crl) watch_event =
    Watch_sent "('cert, 'pool, 'crl) ServerCerts"
  | Watch_changed
  | Watch_slept int

text \<open>
  The loop for what the world is at each call of \<open>loadFn\<close>, which acts on the state of its source: what
  it does, the state after it and whether it returned.
\<close>

fun Watch_loop ::
  "('w \<Rightarrow> 's \<Rightarrow> (go_error + ('cert, 'pool, 'crl) ServerCerts) \<times> 's) \<Rightarrow> bool \<Rightarrow> int \<Rightarrow> bool \<Rightarrow> bool \<Rightarrow>
   ('cert, 'pool, 'crl) ServerCerts option \<Rightarrow> 's \<Rightarrow> 'w list \<Rightarrow>
   ('cert, 'pool, 'crl) watch_event list \<times> 's \<times> bool" where
  "Watch_loop loadFn once refresh changed init prev s [] = ([], s, False)"
| "Watch_loop loadFn once refresh changed init prev s (w # ws) =
     (case loadFn w s of
        (Inl err, s) \<Rightarrow>
          (case Watch_loop loadFn once refresh changed init prev s ws of
             (es, s, returned) \<Rightarrow> (Watch_slept refresh # es, s, returned))
      | (Inr cur, s) \<Rightarrow>
          if (case prev of None \<Rightarrow> False | Some l \<Rightarrow> Checksum cur = Checksum l) then
            (if once \<and> init then ([], s, True)
             else
               (case Watch_loop loadFn once refresh changed init prev s ws of
                  (es, s, returned) \<Rightarrow> (Watch_slept refresh # es, s, returned)))
          else
            (let sent = Watch_sent cur # (if changed then [Watch_changed] else [])
             in if once then (sent, s, True)
                else
                  (case Watch_loop loadFn once refresh changed init (Some cur) s ws of
                     (es, s, returned) \<Rightarrow> (sent @ Watch_slept refresh # es, s, returned))))"

definition Watch ::
  "int \<Rightarrow> ('cert, 'pool, 'crl) ServerCerts option \<Rightarrow>
   ('w \<Rightarrow> 's \<Rightarrow> (go_error + ('cert, 'pool, 'crl) ServerCerts) \<times> 's) \<Rightarrow> bool \<Rightarrow> 's \<Rightarrow> 'w list \<Rightarrow>
   ('cert, 'pool, 'crl) watch_event list \<times> 's \<times> bool" where
  "Watch refresh init loadFn changed s ws =
     (let once = (refresh \<le> 0); refresh = (if refresh < second then second else refresh)
      in Watch_loop loadFn once refresh changed (init \<noteq> None) init s ws)"

section \<open>The file source (cert/filesource)\<close>

text \<open>
  A load reads up to four files, one after the other: \<open>disk k name\<close> is what the read number \<open>k\<close> of a
  load gets for the file of that name.
\<close>

type_synonym disk = "nat \<Rightarrow> string \<Rightarrow> go_error + byte list"

record ('cert, 'pool, 'crl) fileSource =
  certFile :: string
  keyFile :: string
  clientAuthFile :: string
  clientCRLFile :: string
  refresh :: int
  notifyFunc :: bool
  lastServerCerts :: "('cert, 'pool, 'crl) ServerCerts option"

type_synonym ('cert, 'pool, 'crl) file_option =
  "('cert, 'pool, 'crl) fileSource \<Rightarrow> ('cert, 'pool, 'crl) fileSource"

definition WithX509KeyPair :: "string \<Rightarrow> string \<Rightarrow> ('cert, 'pool, 'crl) file_option" where
  "WithX509KeyPair cert key c = c\<lparr>certFile := cert, keyFile := key\<rparr>"

definition WithClientAuthFile :: "string \<Rightarrow> ('cert, 'pool, 'crl) file_option" where
  "WithClientAuthFile f c = c\<lparr>clientAuthFile := f\<rparr>"

definition WithClientCRLFile :: "string \<Rightarrow> ('cert, 'pool, 'crl) file_option" where
  "WithClientCRLFile f c = c\<lparr>clientCRLFile := f\<rparr>"

definition WithRefresh :: "int \<Rightarrow> ('cert, 'pool, 'crl) file_option" where
  "WithRefresh r c = c\<lparr>refresh := r\<rparr>"

definition WithNotifyFunc :: "bool \<Rightarrow> ('cert, 'pool, 'crl) file_option" where
  "WithNotifyFunc notify c = c\<lparr>notifyFunc := notify\<rparr>"

definition readFile :: "disk \<Rightarrow> nat \<Rightarrow> string \<Rightarrow> go_error + byte list" where
  "readFile disk k name = (if name = [] then Inr [] else disk k name)"

definition Load_files :: "disk \<Rightarrow> ('cert, 'pool, 'crl) fileSource \<Rightarrow> go_error + ServerPEMs" where
  "Load_files disk s =
     (if certFile s = [] then Inl (Errorf ''cert file source: certFile is required'' [])
      else if keyFile s = [] then Inl (Errorf ''cert file source: keyFile is required'' [])
      else if clientAuthFile s = [] \<and> clientCRLFile s \<noteq> []
      then Inl (Errorf ''cert file source: clientAuthFile is required when clientCRLFile is provided'' [])
      else
        (case readFile disk 0 (certFile s) of
           Inl err \<Rightarrow> Inl err
         | Inr cert \<Rightarrow>
        (case readFile disk 1 (keyFile s) of
           Inl err \<Rightarrow> Inl err
         | Inr key \<Rightarrow>
        (case readFile disk 2 (clientAuthFile s) of
           Inl err \<Rightarrow> Inl err
         | Inr clientAuth \<Rightarrow>
        (case readFile disk 3 (clientCRLFile s) of
           Inl err \<Rightarrow> Inl err
         | Inr crl \<Rightarrow>
             Inr \<lparr>CertPEMBlock = cert, KeyPEMBlock = key, ClientAuthPEMBlock = clientAuth, CRLPEMBlock = crl\<rparr>)))))"

definition getServerCerts ::
  "('cert, 'pool, 'x509, 'crl) crypto \<Rightarrow> disk \<Rightarrow> ('cert, 'pool, 'crl) fileSource \<Rightarrow>
   go_error + ('cert, 'pool, 'crl) ServerCerts" where
  "getServerCerts lib disk s =
     (case Load_files disk s of
        Inl err \<Rightarrow> Inl err
      | Inr pemBlocks \<Rightarrow>
     (case PEMs_Certificates lib pemBlocks of
        Inl err \<Rightarrow> Inl err
      | Inr certificates \<Rightarrow>
     (case PEMs_ClientCAs lib pemBlocks of
        Inl err \<Rightarrow> Inl err
      | Inr clientCAs \<Rightarrow>
     (case PEMs_ClientCRLs lib pemBlocks of
        Inl err \<Rightarrow> Inl err
      | Inr clientCRLs \<Rightarrow>
     (case ValidateCRLs lib pemBlocks of
        Some err \<Rightarrow> Inl err
      | None \<Rightarrow>
          Inr \<lparr>Certificates = certificates, ClientCAs = clientCAs, ClientCRLs = clientCRLs,
            Checksum = PEMs_Checksum lib pemBlocks\<rparr>)))))"

definition refreshServerCerts ::
  "('cert, 'pool, 'x509, 'crl) crypto \<Rightarrow> disk \<Rightarrow> ('cert, 'pool, 'crl) fileSource \<Rightarrow>
   (go_error + ('cert, 'pool, 'crl) ServerCerts) \<times> ('cert, 'pool, 'crl) fileSource" where
  "refreshServerCerts lib disk s =
     (case getServerCerts lib disk s of
        Inl err \<Rightarrow> (Inl err, s)
      | Inr serverCerts \<Rightarrow> (Inr serverCerts, s\<lparr>lastServerCerts := Some serverCerts\<rparr>))"

text \<open>\<open>filepath.Join\<close> of a clean directory, as \<open>os.Getwd\<close> gives it, and a file name.\<close>

definition filepath_Join :: "string \<Rightarrow> string \<Rightarrow> string" where
  "filepath_Join dir f = (if dir = [] then f else if dir = ''/'' then dir @ f else dir @ ''/'' @ f)"

definition filesource_New ::
  "('cert, 'pool, 'x509, 'crl) crypto \<Rightarrow> go_error + string \<Rightarrow> disk \<Rightarrow> ('cert, 'pool, 'crl) file_option list \<Rightarrow>
   go_error + ('cert, 'pool, 'crl) fileSource" where
  "filesource_New lib getwd disk opts =
     (let s = \<lparr>certFile = [], keyFile = [], clientAuthFile = [], clientCRLFile = [], refresh = 0,
        notifyFunc = False, lastServerCerts = None\<rparr>
      in case getwd of
           Inl err \<Rightarrow> Inl err
         | Inr dir \<Rightarrow>
             (let s = fold (\<lambda>opt. opt) opts
                (s\<lparr>certFile := filepath_Join dir ''mqtt-proxy-crt.pem'',
                   keyFile := filepath_Join dir ''mqtt-proxy-key.pem''\<rparr>)
              in case getServerCerts lib disk s of
                   Inl err \<Rightarrow> Inl err
                 | Inr certs \<Rightarrow> Inr (s\<lparr>lastServerCerts := Some certs\<rparr>)))"

text \<open>
  The channel of \<open>ServerCerts\<close> by what is sent to it, in order, for the disk at each reload: the
  certificates loaded first, and what the watch sends; the channel is closed at the end.
\<close>

fun sent_certs :: "('cert, 'pool, 'crl) watch_event list \<Rightarrow> ('cert, 'pool, 'crl) ServerCerts list" where
  "sent_certs [] = []"
| "sent_certs (Watch_sent certs # es) = certs # sent_certs es"
| "sent_certs (_ # es) = sent_certs es"

definition source_ServerCerts ::
  "('cert, 'pool, 'x509, 'crl) crypto \<Rightarrow> ('cert, 'pool, 'crl) fileSource \<Rightarrow> disk list \<Rightarrow>
   ('cert, 'pool, 'crl) ServerCerts list \<times> ('cert, 'pool, 'crl) fileSource" where
  "source_ServerCerts lib s disks =
     (let initialServerCert = lastServerCerts s;
          ch = (case initialServerCert of None \<Rightarrow> [] | Some certs \<Rightarrow> [certs])
      in if refresh s \<le> 0 then (ch, s)
         else
           (case Watch (refresh s) initialServerCert (refreshServerCerts lib) (notifyFunc s) s disks of
              (es, s, _) \<Rightarrow> (ch @ sent_certs es, s)))"

section \<open>The server configuration (server.go)\<close>

text \<open>
  \<open>NewServerConfig\<close> stores the first value of the channel (the zero value if the channel is closed
  before) or gives up after the timeout; a goroutine stores the others. The configuration it returns
  refers to the store. The channel is the values that the goroutine has received and stored so far: a handshake
  between a reload and the moment the goroutine stores its certificates is one with a shorter channel.
\<close>

definition NewServerConfig ::
  "('cert, 'pool, 'x509, 'crl) crypto \<Rightarrow> bool \<Rightarrow> ('cert, 'pool, 'crl) ServerCerts list \<Rightarrow>
   go_error + ('cert, 'pool, 'crl) Store" where
  "NewServerConfig lib in_time ch =
     (if \<not> in_time then Inl (Errorf ''get server certs timeout'' [])
      else
        (let certs = (case ch of
             [] \<Rightarrow> \<lparr>Certificates = [], ClientCAs = None, ClientCRLs = [], Checksum = []\<rparr>
           | certs # _ \<Rightarrow> certs)
         in Inr (fold (SetServerCerts lib) (tl ch) (SetServerCerts lib certs NewStore))))"

record ('cert, 'pool) tls_config =
  MinVersion :: u16
  cfg_Certificates :: "'cert list"
  cfg_ClientCAs :: "'pool option"
  RequireAndVerifyClientCert :: bool
  VerifyPeerCertificate :: bool

definition GetConfigForClient :: "('cert, 'pool, 'crl) Store \<Rightarrow> ('cert, 'pool) tls_config" where
  "GetConfigForClient store =
     (let cs = st_cs store;
          x = \<lparr>MinVersion = 0x0303, cfg_Certificates = cs_Certificates cs, cfg_ClientCAs = None,
            RequireAndVerifyClientCert = False, VerifyPeerCertificate = False\<rparr>
      in if cs_ClientCAs cs \<noteq> None
         then x\<lparr>cfg_ClientCAs := cs_ClientCAs cs, RequireAndVerifyClientCert := True,
           VerifyPeerCertificate := True\<rparr>
         else x)"

fun verify_chain ::
  "('cert, 'pool, 'x509, 'crl) crypto \<Rightarrow> ('cert, 'pool, 'crl) CertStore \<Rightarrow> 'x509 list \<Rightarrow> go_error option" where
  "verify_chain lib cs [] = None"
| "verify_chain lib cs (cert # chain) =
     (if \<not> IsCA lib cert \<and> IsClientCertRevoked lib cs (SerialNumber lib cert)
      then Some (Errorf ''client certificte %s was revoked''
        [AStr (GetHexFormatted (big_Bytes (SerialNumber lib cert)) '':'')])
      else verify_chain lib cs chain)"

fun verify_chains ::
  "('cert, 'pool, 'x509, 'crl) crypto \<Rightarrow> ('cert, 'pool, 'crl) CertStore \<Rightarrow> 'x509 list list \<Rightarrow> go_error option" where
  "verify_chains lib cs [] = None"
| "verify_chains lib cs (chain # verifiedChains) =
     (case verify_chain lib cs chain of None \<Rightarrow> verify_chains lib cs verifiedChains | Some err \<Rightarrow> Some err)"

definition verifyClientCertificate ::
  "('cert, 'pool, 'x509, 'crl) crypto \<Rightarrow> ('cert, 'pool, 'crl) Store \<Rightarrow> 'x509 list list \<Rightarrow> go_error option" where
  "verifyClientCertificate lib store verifiedChains =
     (let cs = st_cs store
      in if length (cs_ClientCRLs cs) = 0 then None else verify_chains lib cs verifiedChains)"

end
