(* ===== verification/Tls_Properties.thy ===== *)
theory Tls_Properties
  imports Tls
begin

text \<open>
  What the reload of the certificates promises: the watch sends what changed, the store holds the files
  of one load, and a client certificate is refused exactly if the latest revocation list names it.
\<close>

section \<open>The watch\<close>

text \<open>The specification: the successful loads, one after the other, without those that change nothing.\<close>

fun successes :: "(go_error + 'a) list \<Rightarrow> 'a list" where
  "successes [] = []"
| "successes (Inl err # rs) = successes rs"
| "successes (Inr x # rs) = x # successes rs"

lemma successes_append [simp]: "successes (xs @ ys) = successes xs @ successes ys"
  by (induction xs rule: successes.induct) simp_all

lemma fst_case_pair: "fst (case p of (es, x) \<Rightarrow> (f es, x)) = f (fst p)"
  by (simp split: prod.split)

lemma in_successes: "x \<in> set (successes rs) \<longleftrightarrow> Inr x \<in> set rs"
  by (induction rs rule: successes.induct) auto

lemma sent_certs_append [simp]: "sent_certs (xs @ ys) = sent_certs xs @ sent_certs ys"
  by (induction xs rule: sent_certs.induct) simp_all

text \<open>
  A source answers for the world at the call; its own state does not matter as long as it is one of
  those the source can be in.
\<close>

locale cert_source =
  fixes loadFn :: "'w \<Rightarrow> 's \<Rightarrow> (go_error + ('cert, 'pool, 'crl) ServerCerts) \<times> 's"
    and answer :: "'w \<Rightarrow> go_error + ('cert, 'pool, 'crl) ServerCerts"
    and valid :: "'s \<Rightarrow> bool"
  assumes loads: "valid s \<Longrightarrow> fst (loadFn w s) = answer w"
    and keeps_valid: "valid s \<Longrightarrow> valid (snd (loadFn w s))"
begin

lemma load_cases:
  assumes "valid s"
  obtains s' where "loadFn w s = (answer w, s')" "valid s'"
  using assms loads keeps_valid by (metis prod.collapse)

lemma watch_checksums:
  assumes "valid s"
  shows "map Checksum (c # sent_certs (fst (Watch_loop loadFn False r changed init (Some c) s ws))) =
    remdups_adj (map Checksum (c # successes (map answer ws)))"
  using assms
proof (induction ws arbitrary: c s)
  case Nil
  then show ?case
    by simp
next
  case (Cons w ws)
  obtain s' where s': "loadFn w s = (answer w, s')" "valid s'"
    using Cons.prems by (rule load_cases)
  show ?case
  proof (cases "answer w")
    case (Inl err)
    then show ?thesis
      using s' Cons.IH [of s' c] by (simp add: fst_case_pair)
  next
    case (Inr c')
    then show ?thesis
      using s' Cons.IH [of s' c] Cons.IH [of s' c']
      by (cases changed; cases "Checksum c = Checksum c'"; simp add: fst_case_pair Let_def)
  qed
qed

lemma watch_sends_loads:
  assumes "valid s"
  shows "set (sent_certs (fst (Watch_loop loadFn once r changed init prev s ws))) \<subseteq> set (successes (map answer ws))"
  using assms
proof (induction ws arbitrary: prev s)
  case Nil
  then show ?case
    by simp
next
  case (Cons w ws)
  obtain s' where s': "loadFn w s = (answer w, s')" "valid s'"
    using Cons.prems by (rule load_cases)
  show ?case
  proof (cases "answer w")
    case (Inl err)
    then show ?thesis
      using s' Cons.IH [of s' prev] by (simp add: fst_case_pair)
  next
    case (Inr c')
    have "set (sent_certs (fst (Watch_loop loadFn once r changed init p s' ws))) \<subseteq> set (successes (map answer ws))"
      for p
      using s' by (intro Cons.IH)
    with Inr s' show ?thesis
      by (cases once; cases init; simp add: fst_case_pair Let_def subset_insertI2)
  qed
qed

text \<open>After each successful load the latest certificates sent have the checksum of that load.\<close>

lemma watch_latest:
  assumes "valid s"
  shows "Checksum (last (c # sent_certs (fst (Watch_loop loadFn False r changed init (Some c) s ws)))) =
    Checksum (last (c # successes (map answer ws)))"
proof -
  let ?sent = "c # sent_certs (fst (Watch_loop loadFn False r changed init (Some c) s ws))"
  have "Checksum (last ?sent) = last (map Checksum ?sent)"
    by (subst last_map) simp_all
  also have "\<dots> = last (map Checksum (c # successes (map answer ws)))"
    by (simp only: watch_checksums [OF assms] last_remdups_adj)
  also have "\<dots> = Checksum (last (c # successes (map answer ws)))"
    by (subst last_map) simp_all
  finally show ?thesis .
qed

end

section \<open>The file source\<close>

definition same_files :: "('cert, 'pool, 'crl) fileSource \<Rightarrow> ('cert, 'pool, 'crl) fileSource \<Rightarrow> bool" where
  "same_files s s' \<longleftrightarrow> s' = s\<lparr>lastServerCerts := lastServerCerts s'\<rparr>"

lemma same_files_refl [simp]: "same_files s s"
  by (simp add: same_files_def)

lemma same_files_stored: "same_files s (s\<lparr>lastServerCerts := c\<rparr>)"
  by (simp add: same_files_def)

lemma same_files_trans: "same_files s s' \<Longrightarrow> same_files s (s'\<lparr>lastServerCerts := c\<rparr>)"
  by (cases s; cases s') (simp add: same_files_def)

lemma Load_files_same: "same_files s s' \<Longrightarrow> Load_files disk s' = Load_files disk s"
  by (cases s; cases s'; simp add: same_files_def Load_files_def cong: sum.case_cong)

lemma getServerCerts_same: "same_files s s' \<Longrightarrow> getServerCerts lib disk s' = getServerCerts lib disk s"
  by (simp add: getServerCerts_def Load_files_same)

interpretation file_source: cert_source "refreshServerCerts lib" "\<lambda>disk. getServerCerts lib disk s" "same_files s"
  for lib and s
  by unfold_locales
    (auto simp: refreshServerCerts_def getServerCerts_same same_files_trans split: sum.split)

text \<open>What a load that succeeds has read and checked.\<close>

definition loaded_from ::
  "('cert, 'pool, 'x509, 'crl) crypto \<Rightarrow> ServerPEMs \<Rightarrow> ('cert, 'pool, 'crl) ServerCerts \<Rightarrow> bool" where
  "loaded_from lib pems c \<longleftrightarrow>
     PEMs_Certificates lib pems = Inr (Certificates c) \<and> PEMs_ClientCAs lib pems = Inr (ClientCAs c) \<and>
     PEMs_ClientCRLs lib pems = Inr (ClientCRLs c) \<and> ValidateCRLs lib pems = None \<and>
     Checksum c = PEMs_Checksum lib pems"

lemma getServerCerts_Inr:
  "getServerCerts lib disk s = Inr c \<longleftrightarrow> (\<exists>pems. Load_files disk s = Inr pems \<and> loaded_from lib pems c)"
  by (cases c) (auto simp: getServerCerts_def loaded_from_def split: sum.splits option.splits)

lemma ClientCAs_None: "loaded_from lib pems c \<Longrightarrow> ClientCAs c = None \<longleftrightarrow> ClientAuthPEMBlock pems = []"
  by (cases "ClientCAs c") (auto simp: loaded_from_def PEMs_ClientCAs_def split: if_splits option.splits)

lemma loaded_CRLs_signed:
  assumes "loaded_from lib pems c" "ClientAuthPEMBlock pems \<noteq> []" "crl \<in> set (ClientCRLs c)"
  shows "\<exists>certs cert. ParseCertsPEM lib (ClientAuthPEMBlock pems) = Inr certs \<and> cert \<in> set certs \<and>
    CheckSignatureFrom lib crl cert = None"
  using assms
  by (auto simp: loaded_from_def ValidateCRLs_def signed_by_def list_all_iff split: if_splits sum.splits)

text \<open>The hash has a fixed length, so equal checksums mean equal revocation lists.\<close>

lemma Checksum_determines_CRLs:
  assumes "\<forall>bs. length (sha256 lib bs) = 32"
    and "loaded_from lib pems c" "loaded_from lib pems' c'" "Checksum c = Checksum c'"
  shows "ClientCRLs c = ClientCRLs c'"
proof -
  have "CRLPEMBlock pems = CRLPEMBlock pems'"
    using assms by (auto simp: loaded_from_def PEMs_Checksum_def append_eq_append_conv)
  then have "PEMs_ClientCRLs lib pems = PEMs_ClientCRLs lib pems'"
    by (simp add: PEMs_ClientCRLs_def)
  with assms show ?thesis
    by (simp add: loaded_from_def)
qed

section \<open>From the files to the handshake\<close>

definition stored :: "('cert, 'pool, 'crl) ServerCerts \<Rightarrow> ('cert, 'pool, 'crl) CertStore" where
  "stored c = \<lparr>cs_Certificates = Certificates c, cs_ClientCAs = ClientCAs c, cs_ClientCRLs = ClientCRLs c\<rparr>"

lemma st_cs_SetServerCerts [simp]: "st_cs (SetServerCerts lib c store) = stored c"
  by (simp add: SetServerCerts_def stored_def Let_def)

lemma st_cs_fold: "st_cs (fold (SetServerCerts lib) cs (SetServerCerts lib c store)) = stored (last (c # cs))"
  by (induction cs arbitrary: c store) simp_all

lemma NewServerConfig_stores:
  "NewServerConfig lib in_time (c # cs) = Inr store \<Longrightarrow> st_cs store = stored (last (c # cs))"
  by (auto simp: NewServerConfig_def Let_def st_cs_fold split: if_splits)

lemma filesource_New_loads:
  assumes "filesource_New lib getwd disk opts = Inr s"
  obtains c where "lastServerCerts s = Some c" "getServerCerts lib disk s = Inr c"
proof -
  obtain s0 c where "getServerCerts lib disk s0 = Inr c" "s = s0\<lparr>lastServerCerts := Some c\<rparr>"
    using assms by (auto simp: filesource_New_def Let_def split: sum.splits)
  then show thesis
    using getServerCerts_same [of s0 s lib disk] by (intro that) (simp_all add: same_files_stored)
qed

text \<open>
  The loads of a source: the first when it is made, one at each refresh; without a refresh interval the
  files are not read again.
\<close>

definition reloads :: "('cert, 'pool, 'crl) fileSource \<Rightarrow> disk list \<Rightarrow> disk list" where
  "reloads s disks = (if refresh s \<le> 0 then [] else disks)"

definition source_loads ::
  "('cert, 'pool, 'x509, 'crl) crypto \<Rightarrow> ('cert, 'pool, 'crl) fileSource \<Rightarrow> disk list \<Rightarrow>
   ('cert, 'pool, 'crl) ServerCerts list" where
  "source_loads lib s disks = successes (map (\<lambda>disk. getServerCerts lib disk s) disks)"

lemma channel_latest:
  assumes new: "filesource_New lib getwd disk opts = Inr s"
    and ch: "source_ServerCerts lib s disks = (ch, s')"
  shows "ch \<noteq> []" "set ch \<subseteq> set (source_loads lib s (disk # reloads s disks))"
    "Checksum (last ch) = Checksum (last (source_loads lib s (disk # reloads s disks)))"
proof -
  obtain c where c: "lastServerCerts s = Some c" "getServerCerts lib disk s = Inr c"
    using new by (rule filesource_New_loads)
  let ?r = "if refresh s < second then second else refresh s"
  let ?sent = "sent_certs (fst (Watch_loop (refreshServerCerts lib) False ?r (notifyFunc s) True (Some c) s (reloads s disks)))"
  have ch: "ch = c # ?sent"
    using ch c by (auto simp: source_ServerCerts_def Watch_def reloads_def Let_def split: prod.splits if_splits)
  show "ch \<noteq> []"
    by (simp add: ch)
  show "set ch \<subseteq> set (source_loads lib s (disk # reloads s disks))"
    using file_source.watch_sends_loads [of s s lib False ?r "notifyFunc s" True "Some c" "reloads s disks"] c
    by (auto simp: ch source_loads_def)
  show "Checksum (last ch) = Checksum (last (source_loads lib s (disk # reloads s disks)))"
    using file_source.watch_latest [of s s c lib ?r "notifyFunc s" True "reloads s disks"] c
    by (simp add: ch source_loads_def)
qed

lemma in_source_loads:
  "c \<in> set (source_loads lib s disks) \<longleftrightarrow>
   (\<exists>disk\<in>set disks. \<exists>pems. Load_files disk s = Inr pems \<and> loaded_from lib pems c)"
  by (auto simp: source_loads_def in_successes image_iff getServerCerts_Inr [symmetric] eq_commute [of "Inr c"])

lemma store_latest:
  assumes new: "filesource_New lib getwd disk opts = Inr s"
    and ch: "source_ServerCerts lib s disks = (ch, s')"
    and store: "NewServerConfig lib in_time ch = Inr store"
  obtains c pems d where "st_cs store = stored c" "d \<in> set (disk # reloads s disks)" "Load_files d s = Inr pems"
    "loaded_from lib pems c" "Checksum c = Checksum (last (source_loads lib s (disk # reloads s disks)))"
proof -
  note latest = channel_latest [OF new ch]
  have "st_cs store = stored (last ch)"
    using latest(1) store by (cases ch) (auto dest: NewServerConfig_stores)
  moreover have "last ch \<in> set (source_loads lib s (disk # reloads s disks))"
    using latest(1,2) last_in_set by blast
  ultimately show thesis
    using latest(3) that unfolding in_source_loads by blast
qed

section \<open>Revocation\<close>

definition revoked_by :: "('cert, 'pool, 'x509, 'crl) crypto \<Rightarrow> 'crl list \<Rightarrow> 'x509 \<Rightarrow> bool" where
  "revoked_by lib crls cert \<longleftrightarrow>
     (\<exists>crl\<in>set crls. \<exists>serial\<in>set (RevokedCertificates lib crl). \<bar>serial\<bar> = \<bar>SerialNumber lib cert\<bar>)"

lemma IsClientCertRevoked_iff:
  "IsClientCertRevoked lib cs (SerialNumber lib cert) \<longleftrightarrow> revoked_by lib (cs_ClientCRLs cs) cert"
  by (auto simp: IsClientCertRevoked_def revoked_by_def big_Bytes_eq_iff image_iff) metis+

lemma verify_chain_None:
  "verify_chain lib cs chain = None \<longleftrightarrow>
   (\<forall>cert\<in>set chain. IsCA lib cert \<or> \<not> revoked_by lib (cs_ClientCRLs cs) cert)"
  by (induction chain) (auto simp: IsClientCertRevoked_iff)

lemma verify_chains_None:
  "verify_chains lib cs chains = None \<longleftrightarrow> (\<forall>chain\<in>set chains. verify_chain lib cs chain = None)" for chains :: "'a list list"
  by (induction "chains") (auto split: option.splits)

lemma verifyClientCertificate_None:
  "verifyClientCertificate lib store verifiedChains = None \<longleftrightarrow>
   (\<forall>chain\<in>set verifiedChains. \<forall>cert\<in>set chain. IsCA lib cert \<or> \<not> revoked_by lib (cs_ClientCRLs (st_cs store)) cert)"
  by (simp add: verifyClientCertificate_def verify_chains_None verify_chain_None Let_def)
    (simp add: revoked_by_def)

lemma latest_CRLs:
  assumes sha: "\<forall>bs. length (sha256 lib bs) = 32"
    and new: "filesource_New lib getwd disk opts = Inr s"
    and ch: "source_ServerCerts lib s disks = (ch, s')"
    and store: "NewServerConfig lib in_time ch = Inr store"
  shows "cs_ClientCRLs (st_cs store) = ClientCRLs (last (source_loads lib s (disk # reloads s disks)))"
proof -
  let ?loads = "source_loads lib s (disk # reloads s disks)"
  obtain c pems d where c: "st_cs store = stored c" "loaded_from lib pems c" "Checksum c = Checksum (last ?loads)"
    using new ch store by (rule store_latest)
  have "?loads \<noteq> []"
    using channel_latest(1,2) [OF new ch] by auto
  then have "last ?loads \<in> set ?loads"
    by simp
  then obtain pems' where "loaded_from lib pems' (last ?loads)"
    unfolding in_source_loads by blast
  with c sha have "ClientCRLs c = ClientCRLs (last ?loads)"
    by (intro Checksum_determines_CRLs)
  with c(1) show ?thesis
    by (simp add: stored_def)
qed

section \<open>The theorems\<close>

text \<open>C30: The check of the verified chains of a client passes exactly if each of their certificates has the CA flag
  or is not named by the revocation lists of the last load that had no error, whatever reloads failed or changed
  nothing since. A certificate with the CA flag, be it an intermediate one or the client's own, is never looked up
  in the lists. That equal checksums mean equal lists rests on the length of the hash alone.\<close>

theorem revocations_are_current:
  assumes "\<forall>bs. length (sha256 lib bs) = 32"
    and "filesource_New lib getwd disk opts = Inr s"
    and "source_ServerCerts lib s disks = (ch, s')"
    and "NewServerConfig lib in_time ch = Inr store"
  shows "verifyClientCertificate lib store verifiedChains = None \<longleftrightarrow>
    (\<forall>chain\<in>set verifiedChains. \<forall>cert\<in>set chain. IsCA lib cert \<or>
       \<not> revoked_by lib (ClientCRLs (last (source_loads lib s (disk # reloads s disks)))) cert)"
  by (simp add: verifyClientCertificate_None latest_CRLs [OF assms])

text \<open>C31: The store holds the files of one load, never a mixture: its certificates come from one successful
  load, whose files have the checksum of the latest successful load; a client certificate is required
  exactly if the client CA file of that load was not empty, and then each revocation list in force is
  signed by a certificate of that file.\<close>

theorem certificates_in_force:
  assumes "filesource_New lib getwd disk opts = Inr s"
    and "source_ServerCerts lib s disks = (ch, s')"
    and "NewServerConfig lib in_time ch = Inr store"
  shows "\<exists>d\<in>set (disk # reloads s disks). \<exists>pems.
    Load_files d s = Inr pems \<and>
    PEMs_Checksum lib pems = Checksum (last (source_loads lib s (disk # reloads s disks))) \<and>
    PEMs_Certificates lib pems = Inr (cfg_Certificates (GetConfigForClient store)) \<and>
    PEMs_ClientCAs lib pems = Inr (cfg_ClientCAs (GetConfigForClient store)) \<and>
    (RequireAndVerifyClientCert (GetConfigForClient store) \<longleftrightarrow> ClientAuthPEMBlock pems \<noteq> []) \<and>
    (ClientAuthPEMBlock pems \<noteq> [] \<longrightarrow>
       (\<forall>crl\<in>set (cs_ClientCRLs (st_cs store)). \<exists>certs cert.
          ParseCertsPEM lib (ClientAuthPEMBlock pems) = Inr certs \<and> cert \<in> set certs \<and>
          CheckSignatureFrom lib crl cert = None))"
proof -
  obtain c pems d where c: "st_cs store = stored c" and d: "d \<in> set (disk # reloads s disks)" "Load_files d s = Inr pems"
    and frm: "loaded_from lib pems c"
    and sum: "Checksum c = Checksum (last (source_loads lib s (disk # reloads s disks)))"
    using assms by (rule store_latest)
  have config: "cfg_Certificates (GetConfigForClient store) = Certificates c"
    "cfg_ClientCAs (GetConfigForClient store) = ClientCAs c"
    "RequireAndVerifyClientCert (GetConfigForClient store) \<longleftrightarrow> ClientCAs c \<noteq> None"
    by (auto simp: GetConfigForClient_def c stored_def Let_def)
  have "cs_ClientCRLs (st_cs store) = ClientCRLs c"
    by (simp add: c stored_def)
  with frm loaded_CRLs_signed [OF frm] ClientCAs_None [OF frm] show ?thesis
    by (intro bexI [OF _ d(1)] exI [of _ pems]) (simp add: d(2) config loaded_from_def sum [symmetric])
qed

section \<open>A reload\<close>

text \<open>
  A run with certificates that are one byte each, their serial number: the second load fails, the third
  revokes the client with the number 9.
\<close>

definition demo_lib :: "(byte list, byte list, int, int list) crypto" where
  "demo_lib =
     \<lparr>X509KeyPair = (\<lambda>cert key. if cert = key then Inr cert else Inl (Errorf ''tls: private key does not match'' [])),
      leaf = id,
      AppendCertsFromPEM = (\<lambda>bs. Some bs),
      pem_Decode = (\<lambda>bs. case bs of [] \<Rightarrow> None | b # _ \<Rightarrow>
        Some (\<lparr>pem_Type = (if b < 5 then CertificateBlockType else X509CRLBlockType), pem_Headers = [],
          pem_Bytes = [b]\<rparr>, 0)),
      ParseCertificate = (\<lambda>bs. Inr (uint (hd bs))),
      CommonName = (\<lambda>_. []), DNSNames = (\<lambda>_. []), SerialNumber = id, IsCA = (\<lambda>i. i < 5),
      ParseRevocationList = (\<lambda>bs. Inr (map uint bs)),
      CheckSignatureFrom = (\<lambda>_ _. None),
      RevokedCertificates = id,
      sha256 = (\<lambda>_. replicate 32 0)\<rparr>"

definition demo_disk :: "byte list \<Rightarrow> byte list \<Rightarrow> disk" where
  "demo_disk key crl k name =
     Inr (if k = 1 then key else if name = ''crl'' then crl else [2])"

definition demo_options :: "(byte list, byte list, int list) file_option list" where
  "demo_options = [WithX509KeyPair ''crt'' ''key'', WithClientAuthFile ''ca'', WithClientCRLFile ''crl'', WithRefresh second]"

definition demo_certs :: "int list list \<Rightarrow> byte list \<Rightarrow> (byte list, byte list, int list) ServerCerts" where
  "demo_certs crls bs = \<lparr>Certificates = [[2]], ClientCAs = Some [2], ClientCRLs = crls, Checksum = bs @ replicate 32 0\<rparr>"

definition demo_source :: "(byte list, byte list, int list) fileSource" where
  "demo_source = \<lparr>certFile = ''crt'', keyFile = ''key'', clientAuthFile = ''ca'', clientCRLFile = ''crl'',
     refresh = second, notifyFunc = False, lastServerCerts = Some (demo_certs [[8]] [8])\<rparr>"

definition demo_disks :: "disk list" where
  "demo_disks = [demo_disk [3] [9], demo_disk [2] [9]]"

definition demo_channel :: "(byte list, byte list, int list) ServerCerts list" where
  "demo_channel = [demo_certs [[8]] [8], demo_certs [[9]] [9]]"

lemma demo_lib_simps:
  "X509KeyPair demo_lib cert key =
     (if cert = key then Inr cert else Inl (Errorf ''tls: private key does not match'' []))"
  "AppendCertsFromPEM demo_lib bs = Some bs"
  "pem_Decode demo_lib (b # bs) =
     Some (\<lparr>pem_Type = (if b < 5 then CertificateBlockType else X509CRLBlockType), pem_Headers = [], pem_Bytes = [b]\<rparr>, 0)"
  "ParseCertificate demo_lib bs = Inr (uint (hd bs))"
  "ParseRevocationList demo_lib bs = Inr (map uint bs)"
  "CheckSignatureFrom demo_lib crl signer = None"
  "RevokedCertificates demo_lib crl = crl" "SerialNumber demo_lib i = i" "IsCA demo_lib i \<longleftrightarrow> i < 5"
  "sha256 demo_lib bs = replicate 32 0"
  by (simp_all add: demo_lib_def)

lemma demo_CRLs: "5 \<le> b \<Longrightarrow> ParseCRLsPEM demo_lib [b] = Inr [[uint b]]"
  by (simp add: ParseCRLsPEM_def parse_crls.simps [of demo_lib] demo_lib_simps X509CRLBlockType_def not_less [symmetric])

lemma demo_certs_parsed: "ParseCertsPEM demo_lib [2] = Inr [2]"
  by (simp add: ParseCertsPEM_def parse_certs.simps [of demo_lib] demo_lib_simps)

lemma demo_load:
  assumes "5 \<le> b"
  shows "getServerCerts demo_lib (demo_disk [2] [b]) demo_source = Inr (demo_certs [[uint b]] [b])"
  using assms
  by (simp add: getServerCerts_def Load_files_def readFile_def demo_source_def demo_disk_def PEMs_Certificates_def
      PEMs_ClientCAs_def PEMs_ClientCRLs_def demo_CRLs demo_lib_simps ValidateCRLs_def demo_certs_parsed
      demo_certs_def PEMs_Checksum_def signed_by_def)

lemma demo_load_fails:
  "getServerCerts demo_lib (demo_disk [3] crl) demo_source = Inl (Errorf ''tls: private key does not match'' [])"
  by (simp add: getServerCerts_def Load_files_def readFile_def demo_source_def demo_disk_def PEMs_Certificates_def
      demo_lib_simps)

lemma demo_same: "same_files (demo_source\<lparr>lastServerCerts := None\<rparr>) demo_source"
  by (simp add: same_files_def demo_source_def)

lemma demo_New: "filesource_New demo_lib (Inr ''/'') (demo_disk [2] [8]) demo_options = Inr demo_source"
proof -
  have "getServerCerts demo_lib (demo_disk [2] [8]) (demo_source\<lparr>lastServerCerts := None\<rparr>) = Inr (demo_certs [[8]] [8])"
    using demo_load [of 8] by (simp add: getServerCerts_same [OF demo_same])
  then show ?thesis
    by (simp add: filesource_New_def demo_options_def WithX509KeyPair_def WithClientAuthFile_def WithClientCRLFile_def
        WithRefresh_def Let_def demo_source_def)
qed

lemma demo_source_ServerCerts:
  "source_ServerCerts demo_lib demo_source demo_disks =
     (demo_channel, demo_source\<lparr>lastServerCerts := Some (demo_certs [[9]] [9])\<rparr>)"
  using demo_load [of 9]
  by (simp add: source_ServerCerts_def Watch_def Let_def demo_disks_def refreshServerCerts_def demo_load_fails
      demo_channel_def)
    (simp add: demo_source_def demo_certs_def second_def)

definition demo_store :: "(byte list, byte list, int list) Store" where
  "demo_store = SetServerCerts demo_lib (demo_certs [[9]] [9]) (SetServerCerts demo_lib (demo_certs [[8]] [8]) NewStore)"

lemma demo_NewServerConfig: "NewServerConfig demo_lib True demo_channel = Inr demo_store"
  by (simp add: NewServerConfig_def demo_channel_def demo_store_def)

lemma demo_loads:
  "source_loads demo_lib demo_source (demo_disk [2] [8] # reloads demo_source demo_disks) = demo_channel"
proof -
  have "reloads demo_source demo_disks = demo_disks"
    by (simp add: reloads_def demo_source_def second_def)
  then show ?thesis
    using demo_load [of 8] demo_load [of 9]
    by (simp add: source_loads_def demo_disks_def demo_load_fails demo_channel_def)
qed

theorem revocations_are_current_witness:
  "verifyClientCertificate demo_lib demo_store [[9, 1]] \<noteq> None \<and> verifyClientCertificate demo_lib demo_store [[8, 1]] = None"
proof -
  have sha: "\<forall>bs. length (sha256 demo_lib bs) = 32"
    by (simp add: demo_lib_simps)
  note current = revocations_are_current [OF sha demo_New demo_source_ServerCerts demo_NewServerConfig, unfolded demo_loads]
  show ?thesis
    by (simp add: current) (simp add: demo_channel_def demo_certs_def revoked_by_def demo_lib_simps)
qed

theorem certificates_in_force_witness:
  "\<exists>pems. PEMs_Checksum demo_lib pems = 9 # replicate 32 0 \<and>
    PEMs_Certificates demo_lib pems = Inr (cfg_Certificates (GetConfigForClient demo_store))"
  using certificates_in_force [OF demo_New demo_source_ServerCerts demo_NewServerConfig]
  by (auto simp: demo_loads) (auto simp: demo_channel_def demo_certs_def)

end
