(* ===== verification/Services.thy ===== *)
theory Services
  imports Noop_Publisher Kafka Sns Rabbitmq
begin

text \<open>
  The other half of the interface \<open>apis.Publisher\<close>: \<open>Serve\<close>, which runs until the publisher is done, and
  \<open>Shutdown\<close>. The locale states what the command relies on, that \<open>Serve\<close> returns after \<open>Shutdown\<close> whatever was
  published in between; every publisher interprets it.
\<close>

section \<open>The interface\<close>

text \<open>
  What happens to a publisher while it runs: the events that the Kafka workers get, how often the polls of
  the graceful shutdown may tick and the error of its context at the end.
\<close>

record life =
  l_events :: "byte \<times> nat \<Rightarrow> kafka_event option list"
  l_ticks :: nat
  l_ctxErr :: go_error

record 's service =
  sv_Serve :: "life \<Rightarrow> 's \<Rightarrow> go_error option option \<times> 's"
  sv_Shutdown :: "life \<Rightarrow> 's \<Rightarrow> 's"

locale served_publisher = publisher pub taken
  for pub :: "'s Publisher" and taken :: "'s \<Rightarrow> PublishRequest \<Rightarrow> bool" +
  fixes service :: "'s service" and serving :: "'s \<Rightarrow> bool"
  assumes publish_serving: "serving s \<Longrightarrow> serving (snd (pub_Publish pub ctx r s))"
    and async_serving: "serving s \<Longrightarrow> serving (snd (pub_PublishAsync pub ctx r s))"
    and complete_serving: "serving s \<Longrightarrow> serving (snd (pub_Complete pub r s))"
    and shutdown_serving: "serving s \<Longrightarrow> serving (sv_Shutdown service l s)"
    and serve_serving: "serving s \<Longrightarrow> serving (snd (sv_Serve service l s))"
    and serve_nil: "fst (sv_Serve service l s) = None \<or> fst (sv_Serve service l s) = Some None"
    and shutdown_ends: "serving s \<Longrightarrow> fst (sv_Serve service l' (sv_Shutdown service l s)) \<noteq> None"

section \<open>The publishers\<close>

text \<open>A done channel is closed exactly if its \<open>once\<close> was used.\<close>

definition done_ok :: "DoneChannel \<Rightarrow> bool" where
  "done_ok d \<longleftrightarrow> done_once d = done_closed d"

lemma done_ok_New [simp]: "done_ok NewDoneChannel"
  by (simp add: done_ok_def NewDoneChannel_def)

lemma done_ok_Close [simp]: "done_ok d \<Longrightarrow> done_ok (DoneChannel_Close d)"
  by (simp add: done_ok_def DoneChannel_Close_def)

lemma wait_done_nil: "wait_done d = None \<or> wait_done d = Some None"
  by (simp add: wait_done_def)

lemma wait_done_Close [simp]: "done_ok d \<Longrightarrow> wait_done (DoneChannel_Close d) = Some None"
  by (simp add: done_ok_def DoneChannel_Close_def wait_done_def)

definition noop_service :: "noop_state service" where
  "noop_service = \<lparr>sv_Serve = (\<lambda>_ s. (noop_Serve s, s)), sv_Shutdown = (\<lambda>_. noop_Shutdown)\<rparr>"

definition sqs_service :: "'b sqs_state service" where
  "sqs_service = \<lparr>sv_Serve = (\<lambda>_ s. (sqs_Serve s, s)), sv_Shutdown = (\<lambda>_. sqs_Shutdown)\<rparr>"

definition sns_service :: "'b sns_state service" where
  "sns_service = \<lparr>sv_Serve = (\<lambda>_ s. (sns_Serve s, s)), sv_Shutdown = (\<lambda>_. sns_Shutdown)\<rparr>"

definition rabbit_service :: "'b amqp \<Rightarrow> 'b rabbit_state service" where
  "rabbit_service lib = \<lparr>sv_Serve = (\<lambda>_ s. (rabbit_Serve s, s)), sv_Shutdown = (\<lambda>_. rabbit_Shutdown lib)\<rparr>"

definition kafka_service :: "'b kafka_lib \<Rightarrow> kafka_options \<Rightarrow> 'b kafka_state service" where
  "kafka_service lib o' =
     \<lparr>sv_Serve = (\<lambda>l. kafka_Serve o' (l_events l)),
      sv_Shutdown = (\<lambda>l. kafka_Shutdown lib o' (l_ctxErr l) (l_ticks l))\<rparr>"

interpretation noop_served: served_publisher noop_publisher "\<lambda>_ _. True" noop_service "\<lambda>s. done_ok (noop_done s)"
  by unfold_locales
    (simp_all add: noop_publisher_def noop_service_def noop_Publish_def noop_PublishAsync_def noop_goroutine_def
      counter_Inc_def noop_Serve_def wait_done_nil noop_Shutdown_def Let_def)

lemma getGetQueueURL_done: "getGetQueueURL client o' ctx t p = (res, p') \<Longrightarrow> sqs_done p' = sqs_done p"
  by (auto simp: getGetQueueURL_def split: sum.splits option.splits prod.splits)

lemma sqs_sendMessage_done:
  assumes "sqs_sendMessage client o' ctx (Some r) p = (res, p')"
  shows "sqs_done p' = sqs_done p"
proof -
  obtain url p1 where u: "getGetQueueURL client o' ctx (req_TopicName r) p = (url, p1)"
    by (cases "getGetQueueURL client o' ctx (req_TopicName r) p")
  show ?thesis
    using assms u getGetQueueURL_done [OF u]
    by (auto simp: sqs_sendMessage_def Let_def split: sum.splits option.splits prod.splits)
qed

interpretation sqs_served: served_publisher "sqs_publisher client o'" "sqs_taken o'" sqs_service
    "\<lambda>s. done_ok (sqs_done s)" for client :: "'b sqs_client" and o'
  by unfold_locales
    (auto simp: sqs_publisher_def sqs_service_def sqs_Publish_def sqs_PublishAsync_def sqs_Serve_def wait_done_nil sqs_Shutdown_def
      sqs_Close_def split: prod.splits sqs_result.splits option.splits dest: sqs_sendMessage_done)

lemma sns_sendMessage_done: "sns_sendMessage client o' ctx (Some r) p = (res, p') \<Longrightarrow> sns_done p' = sns_done p"
  by (auto simp: sns_sendMessage_def Let_def split: sum.splits option.splits prod.splits)

interpretation sns_served: served_publisher "sns_publisher client o'" "sns_taken o'" sns_service
    "\<lambda>s. done_ok (sns_done s)" for client :: "'b sns_client" and o'
  by unfold_locales
    (auto simp: sns_publisher_def sns_service_def sns_Publish_def sns_PublishAsync_def sns_Serve_def wait_done_nil sns_Shutdown_def
      sns_Close_def split: prod.splits sum.splits option.splits dest: sns_sendMessage_done)

lemma channel_Close_done [simp]: "rb_done (snd (channel_Close lib a s)) = rb_done s"
  by (simp add: channel_Close_def Let_def split: prod.split)

lemma CloseChannel_done: "CloseChannel lib q ch s = (p, s') \<Longrightarrow> rb_done s' = rb_done s"
  by (auto simp: CloseChannel_def atomic_CompareAndSwap_def Let_def)

lemma GetChannel_done: "GetChannel lib url cf q s = (res, s') \<Longrightarrow> rb_done s' = rb_done s"
  by (auto simp: GetChannel_def Let_def split: option.splits sum.splits prod.splits)

lemma client_doPublish_done:
  assumes "client_doPublish lib o' q ctx ex key payload headers s = (res, s')"
  shows "rb_done s' = rb_done s"
proof -
  obtain g s1 where g: "GetChannel lib (amqpURI o') (confirms o' q) q s = (g, s1)"
    by (cases "GetChannel lib (amqpURI o') (confirms o' q) q s")
  show ?thesis
    using assms GetChannel_done [OF g]
    by (auto simp: client_doPublish_def Let_def g split: sum.splits prod.splits option.splits dest!: CloseChannel_done)
qed

lemma client_Publish_done:
  assumes "client_Publish lib o' q ctx ex key payload headers s = (res, s')"
  shows "rb_done s' = rb_done s"
proof -
  obtain r1 s1 where 1: "client_doPublish lib o' q ctx ex key payload headers s = (r1, s1)"
    by (cases "client_doPublish lib o' q ctx ex key payload headers s")
  show ?thesis
    using assms client_doPublish_done [OF 1]
    by (auto simp: client_Publish_def 1 split: client_result.splits if_splits dest!: client_doPublish_done)
qed

lemma rabbit_sendMessage_done: "rabbit_sendMessage lib o' ctx r s = (res, s') \<Longrightarrow> rb_done s' = rb_done s"
  unfolding rabbit_sendMessage_def
  by (auto split: if_splits sum.splits prod.splits client_result.splits dest!: client_Publish_done)

lemma close_clients_done: "rb_done (snd (close_clients lib qs s)) = rb_done s"
proof (induction qs arbitrary: s)
  case (Cons q qs)
  have "rb_done (snd (provider_Close lib q s)) = rb_done s"
    by (simp add: provider_Close_def split: option.split)
  with Cons show ?case
    by (simp split: prod.splits option.splits) (metis snd_conv)
qed simp

lemma rabbit_Shutdown_done:
  "rb_done (rabbit_Shutdown lib s) = DoneChannel_Close (DoneChannel_Close (rb_done s))"
  by (simp add: rabbit_Shutdown_def rabbit_Close_def Let_def close_clients_done split: prod.split)
    (metis close_clients_done snd_conv rabbit_state.select_convs(4) rabbit_state.surjective rabbit_state.update_convs(4))

interpretation rabbit_served: served_publisher "rabbit_publisher lib o'" "rabbit_taken o'" "rabbit_service lib"
    "\<lambda>s. done_ok (rb_done s)" for lib :: "'b amqp" and o'
  by unfold_locales
    (auto simp: rabbit_publisher_def rabbit_service_def rabbit_Publish_def rabbit_PublishAsync_def rabbit_Serve_def wait_done_nil
      rabbit_Shutdown_done split: prod.splits rabbit_result.splits option.splits dest: rabbit_sendMessage_done)

section \<open>Kafka\<close>

text \<open>A shutdown that is under way or over has closed the channel of the workers.\<close>

definition kafka_serving :: "'b kafka_state \<Rightarrow> bool" where
  "kafka_serving s \<longleftrightarrow> done_ok (k_workersDone s) \<and> (k_inShutdown s \<longrightarrow> done_closed (k_workersDone s))"

lemma kafka_serving_same:
  "k_workersDone s' = k_workersDone s \<Longrightarrow> k_inShutdown s' = k_inShutdown s \<Longrightarrow> kafka_serving s' = kafka_serving s"
  by (simp add: kafka_serving_def)

lemma note_delivery_simps [simp]:
  "k_workersDone (note_delivery msg err s) = k_workersDone s"
  "k_inShutdown (note_delivery msg err s) = k_inShutdown s"
  by (simp_all add: note_delivery_def)

lemma kafka_flush_done: "k_workersDone (snd (kafka_flush lib t s)) = k_workersDone s"
  by (simp add: kafka_flush_def split: prod.split)

lemma kafka_Publish_serving:
  assumes "kafka_Publish lib o' ctx r s = (res, s')"
  shows "kafka_serving s' = kafka_serving s"
  using assms unfolding kafka_Publish_def
  by (intro kafka_serving_same)
    (auto split: option.splits sum.splits prod.splits kafka_event.splits)

lemma kafka_PublishAsync_serving:
  assumes "kafka_PublishAsync lib o' r s = (res, s')"
  shows "kafka_serving s' = kafka_serving s"
  using assms unfolding kafka_PublishAsync_def
  by (intro kafka_serving_same) (auto split: option.splits sum.splits prod.splits)

lemma kafka_Complete_serving:
  assumes "kafka_Complete lib o' r s = (res, s')"
  shows "kafka_serving s' = kafka_serving s"
  using assms unfolding kafka_Complete_eq
  by (intro kafka_serving_same) (auto split: sum.splits prod.splits)

lemma kafka_Close_serving:
  assumes "done_ok (k_workersDone s)"
  shows "kafka_serving (kafka_Close lib s)" "done_closed (k_workersDone (kafka_Close lib s))"
  using assms
  by (auto simp: kafka_Close_def kafka_serving_def Let_def done_ok_def DoneChannel_Close_def split: prod.split)

lemma kafka_shutdown_loop_done:
  "k_workersDone (snd (kafka_shutdown_loop lib ctxErr ticks s)) = k_workersDone s"
proof (induction ticks arbitrary: s)
  case 0
  obtain remain s1 where 1: "kafka_flush lib shutdownPollMilliseconds s = (remain, s1)"
    by (cases "kafka_flush lib shutdownPollMilliseconds s")
  show ?case
    using kafka_flush_done [of lib shutdownPollMilliseconds s]
    by (subst kafka_shutdown_loop.simps) (simp add: 1)
next
  case (Suc n)
  obtain remain s1 where 1: "kafka_flush lib shutdownPollMilliseconds s = (remain, s1)"
    by (cases "kafka_flush lib shutdownPollMilliseconds s")
  show ?case
    using kafka_flush_done [of lib shutdownPollMilliseconds s]
    by (subst kafka_shutdown_loop.simps) (simp add: 1 Suc)
qed

lemma kafka_Shutdown_serving:
  assumes "kafka_serving s"
  shows "kafka_serving (kafka_Shutdown lib o' ctxErr ticks s)" (is ?serving)
    and "done_closed (k_workersDone (kafka_Shutdown lib o' ctxErr ticks s))" (is ?closed)
proof -
  obtain err s1 where loop: "kafka_shutdown_loop lib ctxErr ticks (s\<lparr>k_inShutdown := True\<rparr>) = (err, s1)"
    by (cases "kafka_shutdown_loop lib ctxErr ticks (s\<lparr>k_inShutdown := True\<rparr>)")
  then have "k_workersDone s1 = k_workersDone s"
    using kafka_shutdown_loop_done [of lib ctxErr ticks "s\<lparr>k_inShutdown := True\<rparr>"] by simp
  with assms have s1: "done_ok (k_workersDone s1)" and s: "done_ok (k_workersDone s)"
    by (simp_all add: kafka_serving_def)
  show ?serving ?closed
    using assms kafka_Close_serving [OF s1, of lib] kafka_Close_serving [OF s, of lib]
    by (auto simp: kafka_Shutdown_def kafka_shutdown_def loop) (auto simp: kafka_serving_def)
qed

lemma kafka_worker_done:
  "done_ok (k_workersDone s) \<Longrightarrow>
   done_ok (k_workersDone (kafka_worker es s)) \<and>
   done_closed (k_workersDone (kafka_worker es s)) = (done_closed (k_workersDone s) \<or> loop_returns es)"
  by (auto simp: kafka_worker_def done_ok_def DoneChannel_Close_def)

lemma fold_kafka_worker_done:
  "done_ok (k_workersDone s) \<Longrightarrow>
   done_ok (k_workersDone (fold (\<lambda>w. kafka_worker (events w)) ws s)) \<and>
   done_closed (k_workersDone (fold (\<lambda>w. kafka_worker (events w)) ws s)) =
     (done_closed (k_workersDone s) \<or> (\<exists>w\<in>set ws. loop_returns (events w)))"
  by (induction ws arbitrary: s) (auto simp: kafka_worker_done)

lemma fold_kafka_worker_inShutdown:
  "k_inShutdown (fold (\<lambda>w. kafka_worker (events w)) ws s) = k_inShutdown s"
  by (induction ws arbitrary: s) (simp_all add: kafka_worker_def)

lemma kafka_Serve_serving: "kafka_serving s \<Longrightarrow> kafka_serving (snd (kafka_Serve o' events s))"
  using fold_kafka_worker_done [of s] fold_kafka_worker_inShutdown [of events _ s]
  by (simp add: kafka_Serve_def kafka_serving_def Let_def wait_done_def)
    (auto simp: done_ok_def DoneChannel_Close_def)

text \<open>\<open>Serve\<close> returns exactly if the publisher is closed or a worker's loop returns.\<close>

lemma kafka_Serve_returns:
  assumes "done_ok (k_workersDone s)"
  shows "fst (kafka_Serve o' events s) \<noteq> None \<longleftrightarrow>
    done_closed (k_workersDone s) \<or>
    (\<exists>q\<in>fst ` set (k_producers s). \<exists>w<nat (max 1 (k_workers o')). loop_returns (events (q, w)))"
proof -
  let ?n = "nat (if k_workers o' < 1 then 1 else k_workers o')"
  let ?ws = "concat (map (\<lambda>(q, p). map (Pair q) [0..<?n]) (k_producers s))"
  let ?s = "fold (\<lambda>worker. kafka_worker (events worker)) ?ws s"
  have "fst (kafka_Serve o' events s) \<noteq> None \<longleftrightarrow> done_closed (k_workersDone ?s)"
    by (simp add: kafka_Serve_def Let_def wait_done_def)
  also have "\<dots> \<longleftrightarrow> done_closed (k_workersDone s) \<or> (\<exists>w\<in>set ?ws. loop_returns (events w))"
    using fold_kafka_worker_done [OF assms] by blast
  also have "(\<exists>w\<in>set ?ws. loop_returns (events w)) \<longleftrightarrow>
      (\<exists>q\<in>fst ` set (k_producers s). \<exists>w<?n. loop_returns (events (q, w)))"
    by (simp add: Bex_def image_iff) blast
  also have "?n = nat (max 1 (k_workers o'))"
    by simp
  finally show ?thesis .
qed

interpretation kafka_served: served_publisher "kafka_publisher lib o'" "kafka_taken o'" "kafka_service lib o'"
    kafka_serving for lib :: "'b kafka_lib" and o'
proof unfold_locales
  fix ctx r and s :: "'b kafka_state" and l l' :: life
  assume s: "kafka_serving s"
  let ?pub = "kafka_publisher lib o'" and ?serv = "kafka_service lib o'"
  show "kafka_serving (snd (pub_Publish ?pub ctx r s))"
    using s kafka_Publish_serving [of lib o' ctx r s] by (cases "kafka_Publish lib o' ctx r s") (simp add: kafka_publisher_def)
  show "kafka_serving (snd (pub_PublishAsync ?pub ctx r s))"
    using s kafka_PublishAsync_serving [of lib o' r s] by (cases "kafka_PublishAsync lib o' r s") (simp add: kafka_publisher_def)
  show "kafka_serving (snd (pub_Complete ?pub r s))"
    using s kafka_Complete_serving [of lib o' r s] by (cases "kafka_Complete lib o' r s") (simp add: kafka_publisher_def)
  show "kafka_serving (snd (sv_Serve ?serv l s))"
    using kafka_Serve_serving [OF s] by (simp add: kafka_service_def)
  show serving: "kafka_serving (sv_Shutdown ?serv l s)"
    using kafka_Shutdown_serving [OF s] by (simp add: kafka_service_def)
  then have "done_ok (k_workersDone (sv_Shutdown ?serv l s))"
    by (simp add: kafka_serving_def)
  moreover have "done_closed (k_workersDone (sv_Shutdown ?serv l s))"
    using kafka_Shutdown_serving [OF s] by (simp add: kafka_service_def)
  ultimately have "fst (kafka_Serve o' (l_events l') (sv_Shutdown ?serv l s)) \<noteq> None"
    by (simp only: kafka_Serve_returns simp_thms)
  then show "fst (sv_Serve ?serv l' (sv_Shutdown ?serv l s)) \<noteq> None"
    by (simp add: kafka_service_def)
next
  fix l :: life and s :: "'b kafka_state"
  show "fst (sv_Serve (kafka_service lib o') l s) = None \<or> fst (sv_Serve (kafka_service lib o') l s) = Some None"
    by (simp add: kafka_service_def kafka_Serve_def Let_def wait_done_def)
qed

section \<open>Wrapped publishers\<close>

definition instrument_service :: "'s service \<Rightarrow> 's instrumented service" where
  "instrument_service delegate =
     \<lparr>sv_Serve = (\<lambda>l. instrument_Serve (sv_Serve delegate l)),
      sv_Shutdown = (\<lambda>l. instrument_Shutdown (sv_Shutdown delegate l))\<rparr>"

context served_publisher
begin

lemma fst_instrument_Serve: "fst (instrument_Serve f p) = fst (f (fst p))"
  by (simp add: instrument_Serve_def split: prod.split)

lemma instrumented_served:
  "served_publisher (instrument_publisher pub) (\<lambda>p. taken (fst p)) (instrument_service service) (\<lambda>p. serving (fst p))"
proof (intro served_publisher.intro served_publisher_axioms.intro)
  show "publisher (instrument_publisher pub) (\<lambda>p. taken (fst p))"
    by (rule instrumented)
  fix s :: "'s instrumented" and ctx r l l'
  assume s: "serving (fst s)"
  show "serving (fst (snd (pub_Publish (instrument_publisher pub) ctx r s)))"
    using publish_serving [OF s, of ctx r]
    by (auto simp: instrument_publisher_def instrument_Publish_def split: prod.splits sync_result.splits)
  show "serving (fst (snd (pub_PublishAsync (instrument_publisher pub) ctx r s)))"
    using async_serving [OF s, of ctx r]
    by (auto simp: instrument_publisher_def instrument_PublishAsync_def split: prod.splits async_result.splits)
  show "serving (fst (snd (pub_Complete (instrument_publisher pub) r s)))"
    using complete_serving [OF s, of r]
    by (auto simp: instrument_publisher_def instrument_callback_def split: prod.splits)
  show "serving (fst (snd (sv_Serve (instrument_service service) l s)))"
    using serve_serving [OF s, of l] by (auto simp: instrument_service_def instrument_Serve_def split: prod.splits)
  show "serving (fst (sv_Shutdown (instrument_service service) l s))"
    using shutdown_serving [OF s, of l] by (simp add: instrument_service_def instrument_Shutdown_def)
  show "fst (sv_Serve (instrument_service service) l' (sv_Shutdown (instrument_service service) l s)) \<noteq> None"
    using shutdown_ends [OF s, of l' l]
    by (simp add: instrument_service_def instrument_Shutdown_def fst_instrument_Serve)
next
  fix l and s :: "'s instrumented"
  show "fst (sv_Serve (instrument_service service) l s) = None \<or> fst (sv_Serve (instrument_service service) l s) = Some None"
    using serve_nil [of l "fst s"] by (simp add: instrument_service_def fst_instrument_Serve)
qed

end

end
