(* ===== verification/Http_Server.thy ===== *)
theory Http_Server
  imports Util
begin

text \<open>
  The probes (pkg/prober/http.go) and the HTTP server that answers them (pkg/server/http): its options,
  its routes over the multiplexer of net/http, serving and shutting down.
\<close>

section \<open>The probes\<close>

record HTTPProbe =
  ready :: bool
  healthy :: bool

definition NewHTTP :: HTTPProbe where
  "NewHTTP = \<lparr>ready = False, healthy = False\<rparr>"

definition isReady :: "HTTPProbe \<Rightarrow> bool" where
  "isReady p = ready p"

definition isHealthy :: "HTTPProbe \<Rightarrow> bool" where
  "isHealthy p = healthy p"

definition Ready :: "HTTPProbe \<Rightarrow> HTTPProbe" where
  "Ready p = p\<lparr>ready := True\<rparr>"

definition NotReady :: "HTTPProbe \<Rightarrow> HTTPProbe" where
  "NotReady p = p\<lparr>ready := False\<rparr>"

definition Healthy :: "HTTPProbe \<Rightarrow> HTTPProbe" where
  "Healthy p = p\<lparr>healthy := True\<rparr>"

definition NotHealthy :: "HTTPProbe \<Rightarrow> HTTPProbe" where
  "NotHealthy p = p\<lparr>healthy := False\<rparr>"

text \<open>
  A response is its status and its body. \<open>http.Error\<close> ends the body with a line break; a body that is
  written without a status has the status 200.
\<close>

type_synonym http_response = "nat \<times> string"

definition StatusServiceUnavailable :: nat where
  "StatusServiceUnavailable = 503"

definition probe_handler :: "(HTTPProbe \<Rightarrow> bool) \<Rightarrow> HTTPProbe \<Rightarrow> http_response" where
  "probe_handler c p =
     (if \<not> c p then (StatusServiceUnavailable, ''NOT OK'' @ [CHR 0x0A]) else (200, ''OK''))"

definition HealthyHandler :: "HTTPProbe \<Rightarrow> http_response" where
  "HealthyHandler = probe_handler isHealthy"

definition ReadyHandler :: "HTTPProbe \<Rightarrow> http_response" where
  "ReadyHandler = probe_handler isReady"

section \<open>Routes\<close>

text \<open>What a pattern leads to; the metrics and the profiles are those of the libraries.\<close>

datatype http_route =
    Root_page
  | Metrics
  | Probe_healthy
  | Probe_ready
  | Profile string

type_synonym http_mux = "(string \<times> http_route) list"

text \<open>\<open>mux.Handle\<close> panics if the pattern is there already.\<close>

definition mux_Handle :: "string \<Rightarrow> http_route \<Rightarrow> http_mux \<Rightarrow> http_mux option" where
  "mux_Handle pattern h m = (if pattern \<in> fst ` set m then None else Some (m @ [(pattern, h)]))"

fun mux_Handle_all :: "(string \<times> http_route) list \<Rightarrow> http_mux \<Rightarrow> http_mux option" where
  "mux_Handle_all [] m = Some m"
| "mux_Handle_all ((pattern, h) # hs) m =
     (case mux_Handle pattern h m of None \<Rightarrow> None | Some m \<Rightarrow> mux_Handle_all hs m)"

definition registerRoot :: "http_mux \<Rightarrow> http_mux option" where
  "registerRoot = mux_Handle_all [(''/'', Root_page)]"

definition registerMetrics :: "bool \<Rightarrow> http_mux \<Rightarrow> http_mux option" where
  "registerMetrics has_gatherer = mux_Handle_all (if has_gatherer then [(''/metrics'', Metrics)] else [])"

definition registerProbes :: "bool \<Rightarrow> http_mux \<Rightarrow> http_mux option" where
  "registerProbes has_probe =
     mux_Handle_all (if has_probe then [(''/healthy'', Probe_healthy), (''/ready'', Probe_ready)] else [])"

definition registerProfiler :: "http_mux \<Rightarrow> http_mux option" where
  "registerProfiler =
     mux_Handle_all
       [(''/debug/pprof/'', Profile ''Index''), (''/debug/pprof/cmdline'', Profile ''Cmdline''),
        (''/debug/pprof/profile'', Profile ''Profile''), (''/debug/pprof/symbol'', Profile ''Symbol''),
        (''/debug/pprof/trace'', Profile ''Trace'')]"

text \<open>
  The multiplexer of net/http: the pattern that is the path, or the longest that ends in a slash and is a
  prefix of the path.
\<close>

fun longest_prefix :: "http_mux \<Rightarrow> string \<Rightarrow> (string \<times> http_route) option" where
  "longest_prefix [] path = None"
| "longest_prefix ((pattern, h) # m) path =
     (if pattern \<noteq> [] \<and> last pattern = CHR ''/'' \<and> take (length pattern) path = pattern then
        (case longest_prefix m path of
           None \<Rightarrow> Some (pattern, h)
         | Some (pattern', h') \<Rightarrow> Some (if length pattern < length pattern' then (pattern', h') else (pattern, h)))
      else longest_prefix m path)"

definition mux_route :: "http_mux \<Rightarrow> string \<Rightarrow> http_route option" where
  "mux_route m path =
     (case map_of m path of
        Some h \<Rightarrow> Some h
      | None \<Rightarrow> map_option snd (longest_prefix m path))"

section \<open>The server\<close>

record http_options =
  http_gracePeriod :: int
  http_listen :: string

type_synonym http_option = "http_options \<Rightarrow> http_options"

definition http_WithGracePeriod :: "int \<Rightarrow> http_option" where
  "http_WithGracePeriod t opt = opt\<lparr>http_gracePeriod := t\<rparr>"

definition http_WithListen :: "string \<Rightarrow> http_option" where
  "http_WithListen s opt = opt\<lparr>http_listen := s\<rparr>"

text \<open>
  The server of net/http by its address, its routes and whether it was shut down or closed, after which
  \<open>ListenAndServe\<close> returns \<open>http.ErrServerClosed\<close> and no connection is accepted, and whether the connections
  are closed: \<open>Close\<close> closes them, \<open>Shutdown\<close> waits until they are idle (\<open>drained\<close>) or the context is done.
\<close>

record http_server =
  http_Addr :: string
  http_mux :: http_mux
  http_opts :: http_options
  http_closed :: bool
  http_conns_closed :: bool

definition http_ErrServerClosed :: go_error where
  "http_ErrServerClosed = Errorf ''http: Server closed'' []"

definition http_New :: "bool \<Rightarrow> bool \<Rightarrow> http_option list \<Rightarrow> http_server option" where
  "http_New has_registry has_probe opts =
     (let options = fold (\<lambda>f. f) opts \<lparr>http_gracePeriod = 0, http_listen = []\<rparr>
      in case registerRoot [] of
           None \<Rightarrow> None
         | Some m \<Rightarrow>
        (case registerMetrics has_registry m of
           None \<Rightarrow> None
         | Some m \<Rightarrow>
        (case registerProbes has_probe m of
           None \<Rightarrow> None
         | Some m \<Rightarrow>
        (case registerProfiler m of
           None \<Rightarrow> None
         | Some m \<Rightarrow>
             Some \<lparr>http_Addr = http_listen options, http_mux = m, http_opts = options, http_closed = False, http_conns_closed = False\<rparr>))))"

text \<open>What \<open>ListenAndServe\<close> returns if it returns: the error of listening or serving, wrapped.\<close>

definition http_ListenAndServe :: "(string \<Rightarrow> go_error option) \<Rightarrow> http_server \<Rightarrow> go_error option" where
  "http_ListenAndServe listen_error s =
     (if http_closed s then Some (Wrapf ''serve HTTP and metrics: %w'' [] http_ErrServerClosed)
      else
        (case listen_error (http_Addr s) of
           None \<Rightarrow> None
         | Some e \<Rightarrow> Some (Wrapf ''serve HTTP and metrics: %w'' [] e)))"

definition http_Shutdown :: "bool \<Rightarrow> go_error option \<Rightarrow> http_server \<Rightarrow> http_server" where
  "http_Shutdown drained err s =
     (if err = Some http_ErrServerClosed then s
      else if http_gracePeriod (http_opts s) = 0 then s\<lparr>http_closed := True, http_conns_closed := True\<rparr>
      else s\<lparr>http_closed := True, http_conns_closed := drained\<rparr>)"

definition http_Handle :: "string \<Rightarrow> http_route \<Rightarrow> http_server \<Rightarrow> http_server option" where
  "http_Handle pattern handler s = map_option (\<lambda>m. s\<lparr>http_mux := m\<rparr>) (mux_Handle pattern handler (http_mux s))"

text \<open>The answer to a request for the probes.\<close>

definition root_page :: string where
  "root_page = ''<html>
             <head><title>MQTT Proxy</title></head>
             <body>
             <h1>MQTT Proxy</h1>
             <p><a href='' @ [CHR 0x27] @ ''/metrics'' @ [CHR 0x27] @ ''>metrics</a></p>
             </body>
             </html>''"

definition probe_response :: "http_server \<Rightarrow> HTTPProbe \<Rightarrow> string \<Rightarrow> http_response option" where
  "probe_response s p path =
     (case mux_route (http_mux s) path of
        Some Probe_healthy \<Rightarrow> Some (HealthyHandler p)
      | Some Probe_ready \<Rightarrow> Some (ReadyHandler p)
      | Some Root_page \<Rightarrow> Some (200, root_page)
      | _ \<Rightarrow> None)"

lemma http_New_eq:
  "http_New True True opts =
     (let options = fold (\<lambda>f. f) opts \<lparr>http_gracePeriod = 0, http_listen = []\<rparr>
      in Some \<lparr>http_Addr = http_listen options,
           http_mux =
             [(''/'', Root_page), (''/metrics'', Metrics), (''/healthy'', Probe_healthy), (''/ready'', Probe_ready),
              (''/debug/pprof/'', Profile ''Index''), (''/debug/pprof/cmdline'', Profile ''Cmdline''),
              (''/debug/pprof/profile'', Profile ''Profile''), (''/debug/pprof/symbol'', Profile ''Symbol''),
              (''/debug/pprof/trace'', Profile ''Trace'')],
           http_opts = options, http_closed = False, http_conns_closed = False\<rparr>)"
  by (simp add: http_New_def registerRoot_def registerMetrics_def registerProbes_def registerProfiler_def
      mux_Handle_def Let_def)

lemma probe_response_probes:
  assumes "http_New True True opts = Some s"
  shows "probe_response s p ''/ready'' = Some (if ready p then (200, ''OK'') else (503, ''NOT OK'' @ [CHR 0x0A]))"
    and "probe_response s p ''/healthy'' = Some (if healthy p then (200, ''OK'') else (503, ''NOT OK'' @ [CHR 0x0A]))"
  using assms
  by (auto simp: http_New_eq Let_def probe_response_def mux_route_def ReadyHandler_def HealthyHandler_def
      probe_handler_def isReady_def isHealthy_def StatusServiceUnavailable_def)

lemma http_Shutdown_closed: "err \<noteq> Some http_ErrServerClosed \<Longrightarrow> http_closed (http_Shutdown drained err s)"
  by (simp add: http_Shutdown_def)

text \<open>The error of the server's own \<open>ListenAndServe\<close> is wrapped, so the comparison never holds for it.\<close>

lemma http_ListenAndServe_wrapped: "http_ListenAndServe le s = Some e \<Longrightarrow> e \<noteq> http_ErrServerClosed"
  by (auto simp: http_ListenAndServe_def http_ErrServerClosed_def split: if_splits option.splits)

end
