(* ===== verification/Mqtt_Server.thy ===== *)
theory Mqtt_Server
  imports Server_Properties
begin

text \<open>
  The MQTT server of the program (pkg/server/mqtt): its options and the server of pkg/mqtt/server it makes
  of them, listening with or without TLS, and shutting down within a grace period.
\<close>

section \<open>Options (option.go)\<close>

text \<open>The handler and the TLS configuration are what the rest of the program makes of them.\<close>

record ('h, 't) mqtt_options =
  mo_gracePeriod :: int
  mo_listen :: string
  mo_network :: string
  mo_readTimeout :: int
  mo_writeTimeout :: int
  mo_idleTimeout :: int
  mo_readerBufferSize :: int
  mo_writerBufferSize :: int
  mo_tlsConfig :: "'t option"
  mo_handler :: "'h option"

type_synonym ('h, 't) mqtt_option = "('h, 't) mqtt_options \<Rightarrow> ('h, 't) mqtt_options"

definition mo_WithGracePeriod :: "int \<Rightarrow> ('h, 't) mqtt_option" where
  "mo_WithGracePeriod t opt = opt\<lparr>mo_gracePeriod := t\<rparr>"

definition mo_WithListen :: "string \<Rightarrow> ('h, 't) mqtt_option" where
  "mo_WithListen s opt = opt\<lparr>mo_listen := s\<rparr>"

definition mo_WithNetwork :: "string \<Rightarrow> ('h, 't) mqtt_option" where
  "mo_WithNetwork s opt = opt\<lparr>mo_network := s\<rparr>"

definition mo_WithTLSConfig :: "'t option \<Rightarrow> ('h, 't) mqtt_option" where
  "mo_WithTLSConfig cfg opt = opt\<lparr>mo_tlsConfig := cfg\<rparr>"

definition mo_WithHandler :: "'h \<Rightarrow> ('h, 't) mqtt_option" where
  "mo_WithHandler h opt = opt\<lparr>mo_handler := Some h\<rparr>"

definition mo_WithReadTimeout :: "int \<Rightarrow> ('h, 't) mqtt_option" where
  "mo_WithReadTimeout d opt = opt\<lparr>mo_readTimeout := d\<rparr>"

definition mo_WithWriteTimeout :: "int \<Rightarrow> ('h, 't) mqtt_option" where
  "mo_WithWriteTimeout d opt = opt\<lparr>mo_writeTimeout := d\<rparr>"

definition mo_WithIdleTimeout :: "int \<Rightarrow> ('h, 't) mqtt_option" where
  "mo_WithIdleTimeout d opt = opt\<lparr>mo_idleTimeout := d\<rparr>"

definition mo_WithReaderBufferSize :: "int \<Rightarrow> ('h, 't) mqtt_option" where
  "mo_WithReaderBufferSize i opt = opt\<lparr>mo_readerBufferSize := i\<rparr>"

definition mo_WithWriterBufferSize :: "int \<Rightarrow> ('h, 't) mqtt_option" where
  "mo_WithWriterBufferSize i opt = opt\<lparr>mo_writerBufferSize := i\<rparr>"

section \<open>The server (mqtt.go)\<close>

text \<open>The fields of \<open>mqttserver.Server\<close> that are set, with the state it then has (\<open>new_server\<close>).\<close>

record ('h, 't) server_fields =
  sf_Network :: string
  sf_Addr :: string
  sf_Handler :: "'h option"
  sf_ReadTimeout :: int
  sf_WriteTimeout :: int
  sf_IdleTimeout :: int
  sf_WriterBufferSize :: int
  sf_ReaderBufferSize :: int
  sf_TLSConfig :: "'t option"

record ('h, 't) mqtt_server =
  ms_fields :: "('h, 't) server_fields"
  ms_srv :: server
  ms_opts :: "('h, 't) mqtt_options"

definition mqtt_New :: "('h, 't) mqtt_option list \<Rightarrow> ('h, 't) mqtt_server" where
  "mqtt_New opts =
     (let options = fold (\<lambda>f. f) opts
        \<lparr>mo_gracePeriod = 0, mo_listen = [], mo_network = [], mo_readTimeout = 0, mo_writeTimeout = 0,
         mo_idleTimeout = 0, mo_readerBufferSize = 0, mo_writerBufferSize = 0, mo_tlsConfig = None,
         mo_handler = None\<rparr>
      in \<lparr>ms_fields =
            \<lparr>sf_Network = mo_network options, sf_Addr = mo_listen options, sf_Handler = mo_handler options,
             sf_ReadTimeout = mo_readTimeout options, sf_WriteTimeout = mo_writeTimeout options,
             sf_IdleTimeout = mo_idleTimeout options, sf_WriterBufferSize = mo_writerBufferSize options,
             sf_ReaderBufferSize = mo_readerBufferSize options, sf_TLSConfig = mo_tlsConfig options\<rparr>,
          ms_srv = new_server, ms_opts = options\<rparr>)"

definition ActiveConnections :: "('h, 't) mqtt_server \<Rightarrow> nat" where
  "ActiveConnections s = NumActiveConn (ms_srv s)"

definition TotalConnections :: "('h, 't) mqtt_server \<Rightarrow> int" where
  "TotalConnections s = NumTotalConn (ms_srv s)"

text \<open>No result means that the server goes on serving.\<close>

definition mqtt_ListenAndServe ::
  "(string \<Rightarrow> string \<Rightarrow> go_error + nat) \<Rightarrow> (nat \<Rightarrow> go_error option) \<Rightarrow>
   (int \<times> accept_result \<times> (server \<Rightarrow> server)) list \<Rightarrow> ('h, 't) mqtt_server \<Rightarrow>
   go_error option \<times> ('h, 't) mqtt_server" where
  "mqtt_ListenAndServe net_Listen lnerr turns s =
     (if mo_tlsConfig (ms_opts s) = None then
        (case ListenAndServe (sf_Network (ms_fields s)) (sf_Addr (ms_fields s)) net_Listen lnerr turns (ms_srv s) of
           (res, srv) \<Rightarrow> (map_option (Wrapf ''serve MQTT: %w'' []) res, s\<lparr>ms_srv := srv\<rparr>))
      else
        (case ListenAndServeTLS (sf_Network (ms_fields s)) (sf_Addr (ms_fields s)) net_Listen lnerr turns (ms_srv s) of
           (res, srv) \<Rightarrow> (map_option (Wrapf ''serve TLS MQTT: %w '' []) res, s\<lparr>ms_srv := srv\<rparr>)))"

text \<open>
  \<open>Shutdown\<close> runs \<open>srv.Shutdown(ctx)\<close> in a goroutine until the grace period ends the context: \<open>polls\<close> are the
  polls it makes before that. If the context is done when the polls are used up, the \<open>select\<close> may choose
  it, or the end of the goroutine if that comes first (\<open>stopped_first\<close>).
\<close>

definition mqtt_Shutdown ::
  "(nat \<Rightarrow> go_error option) \<Rightarrow> go_error \<Rightarrow> (int \<times> (server \<Rightarrow> server)) list \<Rightarrow> bool \<Rightarrow> ('h, 't) mqtt_server \<Rightarrow>
   ('h, 't) mqtt_server" where
  "mqtt_Shutdown lnerr ctxErr polls stopped_first s =
     (if mo_gracePeriod (ms_opts s) = 0 then s\<lparr>ms_srv := snd (Server_Close lnerr (ms_srv s))\<rparr>
      else
        (case Shutdown lnerr ctxErr polls (ms_srv s) of
           (err, srv) \<Rightarrow>
             if err = Some ctxErr \<and> \<not> stopped_first then s\<lparr>ms_srv := snd (Server_Close lnerr srv)\<rparr>
             else s\<lparr>ms_srv := srv\<rparr>))"

section \<open>After a shutdown\<close>

lemma Server_Close_facts:
  "activeConn (snd (Server_Close lnerr srv)) = []" "inShutdown (snd (Server_Close lnerr srv))"
  "doneChan (snd (Server_Close lnerr srv)) = Some ChanClosed"
proof -
  obtain err s where s: "closeListenersLocked lnerr (closeDoneChanLocked (srv\<lparr>inShutdown := True\<rparr>)) = (err, s)"
    by (cases "closeListenersLocked lnerr (closeDoneChanLocked (srv\<lparr>inShutdown := True\<rparr>))")
  have keeps: "inShutdown s" "doneChan s = Some ChanClosed"
    using fold_closeListener_keeps [OF s [unfolded closeListenersLocked_def]] by simp_all
  have closed: "snd (Server_Close lnerr srv) = fold Close_conn (activeConn s) s"
    by (simp add: Server_Close_def s Let_def)
  show "activeConn (snd (Server_Close lnerr srv)) = []"
    using fold_Close_conn [of "activeConn s" s] by (simp add: closed)
  show "inShutdown (snd (Server_Close lnerr srv))" "doneChan (snd (Server_Close lnerr srv)) = Some ChanClosed"
    using fold_Close_conn_keeps [of "activeConn s" s] keeps by (simp_all add: closed)
qed

text \<open>
  A server that was shut down: the flag is set, the done channel and all tracked listeners are closed. No
  operation takes that back.
\<close>

definition shut :: "server \<Rightarrow> bool" where
  "shut srv \<longleftrightarrow>
     inShutdown srv \<and> doneChan srv = Some ChanClosed \<and> (\<forall>ln\<in>set (listeners srv). once_done (listener srv ln))"

lemma shutI:
  assumes "inShutdown srv'" "doneChan srv' = Some ChanClosed" "set (listeners srv') \<subseteq> set (listeners srv)"
    and "\<And>ln. ln \<in> set (listeners srv) \<Longrightarrow> once_done (listener srv' ln)"
  shows "shut srv'"
  using assms by (auto simp: shut_def)

lemma closeListener_once_done:
  assumes "closeListener lnerr ln (err, srv) = (err', srv')"
  shows "once_done (listener srv' ln)" and "once_done (listener srv k) \<Longrightarrow> once_done (listener srv' k)"
  using assms by (auto simp: closeListener_def onceClose_def Let_def split: prod.splits if_splits)

lemma closeListeners_once_done:
  "fold (closeListener lnerr) ls (err, srv) = (err', srv') \<Longrightarrow>
   (\<forall>ln\<in>set ls. once_done (listener srv' ln)) \<and> (\<forall>ln. once_done (listener srv ln) \<longrightarrow> once_done (listener srv' ln))"
proof (induction ls arbitrary: err srv)
  case (Cons l ls)
  obtain e s where "closeListener lnerr l (err, srv) = (e, s)"
    by (cases "closeListener lnerr l (err, srv)")
  with Cons.IH [of e s] Cons.prems closeListener_once_done [of lnerr l err srv e s] show ?case
    by auto
qed simp

lemma listener_Close_conn [simp]: "listener (Close_conn c srv) = listener srv"
  by (simp add: Close_conn_def rwc_Close_def)

lemma listener_fold_Close_conn [simp]: "listener (fold Close_conn cs srv) = listener srv"
  by (induction cs arbitrary: srv) simp_all

lemma shut_fold_Close_conn: "shut srv \<Longrightarrow> shut (fold Close_conn cs srv)"
  using fold_Close_conn_keeps [of cs srv] by (simp add: shut_def)

lemma shut_closeIdle: "shut srv \<Longrightarrow> shut (snd (closeIdleConns now srv))"
proof -
  have "shut srv \<Longrightarrow> shut (snd (fold (closeIdle_conn now) cs (q, srv)))" for cs q srv
  proof (induction cs arbitrary: q srv)
    case (Cons c cs)
    from Cons.prems have "shut (Close_conn c srv)"
      by (simp add: shut_def)
    with Cons show ?case
      by (simp add: closeIdle_conn_def [of now c])
  qed simp
  then show "shut srv \<Longrightarrow> shut (snd (closeIdleConns now srv))"
    by (simp add: closeIdleConns_def)
qed

lemma shut_closeListeners:
  assumes "closeListenersLocked lnerr srv = (err, srv')" and "inShutdown srv" and "doneChan srv' = Some ChanClosed"
  shows "shut srv'"
  using assms fold_closeListener_keeps [of lnerr "listeners srv" None srv err srv']
    closeListeners_once_done [of lnerr "listeners srv" None srv err srv']
  by (simp add: closeListenersLocked_def shut_def)

lemma shut_Server_Close: "shut (snd (Server_Close lnerr srv))"
proof -
  obtain err s where s: "closeListenersLocked lnerr (closeDoneChanLocked (srv\<lparr>inShutdown := True\<rparr>)) = (err, s)"
    by (cases "closeListenersLocked lnerr (closeDoneChanLocked (srv\<lparr>inShutdown := True\<rparr>))")
  from fold_closeListener_keeps [OF s [unfolded closeListenersLocked_def]] have "shut s"
    by (intro shut_closeListeners [OF s]) simp_all
  then show ?thesis
    by (simp add: Server_Close_def s Let_def shut_fold_Close_conn)
qed

lemma shut_Shutdown_begin: "shut (snd (Shutdown_begin lnerr srv))"
proof -
  obtain err s where s: "closeListenersLocked lnerr (srv\<lparr>inShutdown := True\<rparr>) = (err, s)"
    by (cases "closeListenersLocked lnerr (srv\<lparr>inShutdown := True\<rparr>)")
  have "inShutdown s" "listeners s = listeners srv" "\<forall>ln\<in>set (listeners s). once_done (listener s ln)"
    using fold_closeListener_keeps [OF s [unfolded closeListenersLocked_def]]
      closeListeners_once_done [OF s [unfolded closeListenersLocked_def]] by simp_all
  then show ?thesis
    by (simp add: Shutdown_begin_def s shut_def)
qed

lemma shut_server_step:
  assumes "shut srv"
  shows "shut (server_step lnerr a srv)"
proof (cases a)
  case (OpState now c st)
  with assms show ?thesis
    by (cases st) (simp_all add: shut_def setState_def trackConn_def)
next
  case (OpCloseListener ln)
  obtain e s where s: "closeListener lnerr ln (None, srv) = (e, s)"
    by (cases "closeListener lnerr ln (None, srv)")
  with OpCloseListener closeListener_once_done [OF s] fold_closeListener_keeps [of lnerr "[ln]" None srv e s] assms
  show ?thesis
    by (simp add: shut_def)
next
  case (OpCloseIdle now)
  with assms show ?thesis
    by (simp add: shut_closeIdle)
next
  case OpClose
  then show ?thesis
    by (simp add: shut_Server_Close)
next
  case OpShutdown
  then show ?thesis
    by (simp add: shut_Shutdown_begin)
qed (use assms in \<open>auto simp: shut_def setState_def trackConn_def newConn_def trackListener_def shuttingDown_def getDoneChanLocked_def\<close>)

lemma shut_server_steps: "shut srv \<Longrightarrow> shut (fold (server_step lnerr) ops srv)"
  by (induction ops arbitrary: srv) (simp_all add: shut_server_step)

text \<open>The polls of a shutdown, with the operations of the other goroutines before each.\<close>

definition polls_of :: "(nat \<Rightarrow> go_error option) \<Rightarrow> (int \<times> server_op list) list \<Rightarrow> (int \<times> (server \<Rightarrow> server)) list" where
  "polls_of lnerr polls = map (\<lambda>(now, ops). (now, fold (server_step lnerr) ops)) polls"

lemma shut_Shutdown_loop: "shut srv \<Longrightarrow> shut (snd (Shutdown_loop err ctxErr (polls_of lnerr polls) srv))"
proof (induction polls arbitrary: srv)
  case Nil
  then show ?case
    by (simp add: polls_of_def)
next
  case (Cons p polls)
  obtain now ops where p: "p = (now, ops)"
    by (cases p)
  obtain q srv' where q: "closeIdleConns now (fold (server_step lnerr) ops srv) = (q, srv')"
    by (cases "closeIdleConns now (fold (server_step lnerr) ops srv)")
  from shut_closeIdle [OF shut_server_steps [OF Cons.prems], of now lnerr ops] q have "shut srv'"
    by simp
  with Cons.IH show ?case
    by (simp add: p q polls_of_def)
qed

lemma shut_mqtt_Shutdown: "shut (ms_srv (mqtt_Shutdown lnerr ctxErr (polls_of lnerr' polls) stopped_first s))"
proof -
  obtain err srv where b: "Shutdown_begin lnerr (ms_srv s) = (err, srv)"
    by (cases "Shutdown_begin lnerr (ms_srv s)")
  from shut_Shutdown_begin [of lnerr "ms_srv s"] b have "shut srv"
    by simp
  from shut_Shutdown_loop [OF this, of err ctxErr lnerr' polls] show ?thesis
    by (auto simp: mqtt_Shutdown_def Shutdown_def b shut_Server_Close split: prod.split)
qed

text \<open>Such a server accepts nothing: a loop that waits for connections ends, and no other begins.\<close>

lemma shut_accepts_nothing:
  assumes "shut srv"
  shows "fst (Serve_accept now (PermanentError e) delay srv) = Return ErrServerClosed"
    and "fst (trackListener ln True srv) = False"
    and "fst (ListenAndServe Network Addr net_Listen lnerr turns srv) = Some ErrServerClosed"
    and "fst (ListenAndServeTLS Network Addr net_Listen lnerr turns srv) = Some ErrServerClosed"
  using assms
  by (simp_all add: shut_def Serve_accept_def getDoneChanLocked_def trackListener_def shuttingDown_def
      ListenAndServe_def ListenAndServeTLS_def)

lemma shut_mqtt_ListenAndServe:
  assumes "shut (ms_srv s)"
  shows "fst (mqtt_ListenAndServe net_Listen lnerr turns s) \<noteq> None"
  using shut_accepts_nothing(3,4) [OF assms, of _ _ net_Listen lnerr turns]
  by (auto simp: mqtt_ListenAndServe_def split_beta)

end
