(* ===== verification/Server_Config.thy ===== *)
theory Server_Config
  imports Config
begin

text \<open>
  The configuration of the server (type \<open>Server\<close> of pkg/config/config.go): its fields, the defaults that
  its tags declare, and its validation by the validator library.
\<close>

section \<open>The fields\<close>

record HTTP_config =
  hc_ListenAddress :: string
  hc_GracePeriod :: int

record TLSSrv_config =
  tc_Enable :: bool
  tc_CertSource :: string
  tc_Refresh :: int
  tc_File_Cert :: string
  tc_File_Key :: string
  tc_File_ClientCA :: string
  tc_File_ClientCLR :: string

record Handler_config =
  nc_IgnoreUnsupported :: "string list"
  nc_AllowUnauthenticated :: "string list"
  nc_Publish_Timeout :: int
  nc_Async_AtMostOnce :: bool
  nc_Async_AtLeastOnce :: bool
  nc_Async_ExactlyOnce :: bool
  nc_Authenticator_Name :: string
  nc_Plain_Credentials :: "(string \<rightharpoonup> string) option"
  nc_Plain_CredentialsFile :: string

record Kafka_config =
  kc_BootstrapServers :: string
  kc_GracePeriod :: int
  kc_ConfArgs :: "ConfigMap option"
  kc_DefaultTopic :: string
  kc_TopicMappings :: "TopicMapping list"
  kc_Workers :: int

record SQS_config =
  qc_AWSProfile :: string
  qc_AWSRegion :: string
  qc_DefaultQueue :: string
  qc_QueueMappings :: "TopicMapping list"

record SNS_config =
  sc_AWSProfile :: string
  sc_AWSRegion :: string
  sc_DefaultTopicARN :: string
  sc_TopicARNMappings :: "TopicMapping list"

record RabbitMQ_config =
  rc_Scheme :: string
  rc_Host :: string
  rc_Port :: int
  rc_Username :: string
  rc_Password :: string
  rc_VHost :: string
  rc_ConnectionTimeout :: int
  rc_RequestTimeout :: int
  rc_Exchange :: string
  rc_DefaultQueue :: string
  rc_QueueMappings :: "TopicMapping list"
  rc_Confirms_AtMostOnce :: bool
  rc_Confirms_AtLeastOnce :: bool
  rc_Confirms_ExactlyOnce :: bool

record Publisher_config =
  pc_Name :: string
  pc_MessageFormat :: string
  pc_Kafka :: Kafka_config
  pc_SQS :: SQS_config
  pc_SNS :: SNS_config
  pc_RabbitMQ :: RabbitMQ_config

record MQTT_config =
  mc_ListenAddress :: string
  mc_GracePeriod :: int
  mc_ReadTimeout :: int
  mc_WriteTimeout :: int
  mc_IdleTimeout :: int
  mc_ReaderBufferSize :: int
  mc_WriterBufferSize :: int
  mc_TLSSrv :: TLSSrv_config
  mc_Handler :: Handler_config
  mc_Publisher :: Publisher_config

record Server_config =
  cfg_HTTP :: HTTP_config
  cfg_MQTT :: MQTT_config

section \<open>The defaults\<close>

text \<open>The values of the \<open>default\<close> tags, with the variables of \<open>ServerVars\<close> in place of their names.\<close>

definition var :: "(string \<Rightarrow> string) \<Rightarrow> string \<Rightarrow> string" where
  "var Getenv name = (case ServerVars Getenv name of None \<Rightarrow> [] | Some v \<Rightarrow> v)"

definition default_HTTP :: HTTP_config where
  "default_HTTP = \<lparr>hc_ListenAddress = ''0.0.0.0:9090'', hc_GracePeriod = 10 * second\<rparr>"

definition default_TLSSrv :: "(string \<Rightarrow> string) \<Rightarrow> TLSSrv_config" where
  "default_TLSSrv Getenv =
     \<lparr>tc_Enable = False, tc_CertSource = var Getenv ''CertSourceDefault'', tc_Refresh = 0, tc_File_Cert = [],
      tc_File_Key = [], tc_File_ClientCA = [], tc_File_ClientCLR = []\<rparr>"

definition default_Handler :: "(string \<Rightarrow> string) \<Rightarrow> Handler_config" where
  "default_Handler Getenv =
     \<lparr>nc_IgnoreUnsupported = [], nc_AllowUnauthenticated = [], nc_Publish_Timeout = 0,
      nc_Async_AtMostOnce = False, nc_Async_AtLeastOnce = False, nc_Async_ExactlyOnce = False,
      nc_Authenticator_Name = var Getenv ''AuthDefault'', nc_Plain_Credentials = None,
      nc_Plain_CredentialsFile = []\<rparr>"

definition default_Kafka :: Kafka_config where
  "default_Kafka =
     \<lparr>kc_BootstrapServers = ''localhost:9092'', kc_GracePeriod = 10 * second, kc_ConfArgs = None,
      kc_DefaultTopic = [], kc_TopicMappings = [], kc_Workers = 1\<rparr>"

definition default_SQS :: SQS_config where
  "default_SQS = \<lparr>qc_AWSProfile = [], qc_AWSRegion = [], qc_DefaultQueue = [], qc_QueueMappings = []\<rparr>"

definition default_SNS :: SNS_config where
  "default_SNS = \<lparr>sc_AWSProfile = [], sc_AWSRegion = [], sc_DefaultTopicARN = [], sc_TopicARNMappings = []\<rparr>"

definition default_RabbitMQ :: "(string \<Rightarrow> string) \<Rightarrow> RabbitMQ_config" where
  "default_RabbitMQ Getenv =
     \<lparr>rc_Scheme = var Getenv ''RabbitMQSchemeDefault'', rc_Host = ''localhost'', rc_Port = 5672, rc_Username = [],
      rc_Password = var Getenv ''RabbitMQPassword'', rc_VHost = ''/'', rc_ConnectionTimeout = 10 * second,
      rc_RequestTimeout = 3 * second, rc_Exchange = [], rc_DefaultQueue = [], rc_QueueMappings = [],
      rc_Confirms_AtMostOnce = False, rc_Confirms_AtLeastOnce = False, rc_Confirms_ExactlyOnce = False\<rparr>"

definition default_Publisher :: "(string \<Rightarrow> string) \<Rightarrow> Publisher_config" where
  "default_Publisher Getenv =
     \<lparr>pc_Name = var Getenv ''PublisherDefault'', pc_MessageFormat = var Getenv ''MessageFormatDefault'',
      pc_Kafka = default_Kafka, pc_SQS = default_SQS, pc_SNS = default_SNS, pc_RabbitMQ = default_RabbitMQ Getenv\<rparr>"

definition default_MQTT :: "(string \<Rightarrow> string) \<Rightarrow> MQTT_config" where
  "default_MQTT Getenv =
     \<lparr>mc_ListenAddress = ''0.0.0.0:1883'', mc_GracePeriod = 10 * second, mc_ReadTimeout = 5 * second,
      mc_WriteTimeout = 5 * second, mc_IdleTimeout = 0, mc_ReaderBufferSize = 1024, mc_WriterBufferSize = 1024,
      mc_TLSSrv = default_TLSSrv Getenv, mc_Handler = default_Handler Getenv,
      mc_Publisher = default_Publisher Getenv\<rparr>"

definition default_config :: "(string \<Rightarrow> string) \<Rightarrow> Server_config" where
  "default_config Getenv = \<lparr>cfg_HTTP = default_HTTP, cfg_MQTT = default_MQTT Getenv\<rparr>"

text \<open>\<open>Init\<close> makes the map of credentials.\<close>

definition config_Init :: "Server_config \<Rightarrow> Server_config" where
  "config_Init c =
     c\<lparr>cfg_MQTT := (cfg_MQTT c)\<lparr>mc_Handler := (mc_Handler (cfg_MQTT c))\<lparr>nc_Plain_Credentials := Some Map.empty\<rparr>\<rparr>\<rparr>"

definition KafkaConfigArgs_ConfigMap :: "ConfigMap option \<Rightarrow> ConfigMap" where
  "KafkaConfigArgs_ConfigMap conf = (case conf of None \<Rightarrow> [] | Some c \<Rightarrow> c)"

section \<open>Validation\<close>

text \<open>
  The fields with a \<open>validate\<close> tag, in the order of the struct. The validator library is an argument; its
  documented behaviour is that it reports no error exactly if every field satisfies its tag.
\<close>

datatype field_value = FString string | FInt int

datatype validate_tag = Required | Gte int

definition validated_fields :: "Server_config \<Rightarrow> (string \<times> field_value \<times> validate_tag) list" where
  "validated_fields c =
     (let http = cfg_HTTP c; mqtt = cfg_MQTT c; kafka = pc_Kafka (mc_Publisher mqtt);
          rabbitmq = pc_RabbitMQ (mc_Publisher mqtt)
      in [(''HTTP.ListenAddress'', FString (hc_ListenAddress http), Required),
          (''HTTP.GracePeriod'', FInt (hc_GracePeriod http), Gte 0),
          (''MQTT.ListenAddress'', FString (mc_ListenAddress mqtt), Required),
          (''MQTT.GracePeriod'', FInt (mc_GracePeriod mqtt), Gte 0),
          (''MQTT.ReadTimeout'', FInt (mc_ReadTimeout mqtt), Gte 0),
          (''MQTT.WriteTimeout'', FInt (mc_WriteTimeout mqtt), Gte 0),
          (''MQTT.IdleTimeout'', FInt (mc_IdleTimeout mqtt), Gte 0),
          (''MQTT.ReaderBufferSize'', FInt (mc_ReaderBufferSize mqtt), Gte 0),
          (''MQTT.WriterBufferSize'', FInt (mc_WriterBufferSize mqtt), Gte 0),
          (''MQTT.TLSSrv.Refresh'', FInt (tc_Refresh (mc_TLSSrv mqtt)), Gte 0),
          (''MQTT.Handler.Publish.Timeout'', FInt (nc_Publish_Timeout (mc_Handler mqtt)), Gte 0),
          (''MQTT.Publisher.Kafka.GracePeriod'', FInt (kc_GracePeriod kafka), Gte 0),
          (''MQTT.Publisher.Kafka.Workers'', FInt (kc_Workers kafka), Gte 1),
          (''MQTT.Publisher.RabbitMQ.Port'', FInt (rc_Port rabbitmq), Gte 1),
          (''MQTT.Publisher.RabbitMQ.ConnectionTimeout'', FInt (rc_ConnectionTimeout rabbitmq), Gte 0),
          (''MQTT.Publisher.RabbitMQ.RequestTimeout'', FInt (rc_RequestTimeout rabbitmq), Gte 0)])"

type_synonym validator = "(string \<times> field_value \<times> validate_tag) list \<Rightarrow> go_error option"

definition config_Validate :: "validator \<Rightarrow> Server_config \<Rightarrow> go_error option" where
  "config_Validate validate_Struct c =
     (case validate_Struct (validated_fields c) of
        Some err \<Rightarrow> Some (Wrapf ''config validation failure: %w'' [] err)
      | None \<Rightarrow> None)"

fun satisfies :: "field_value \<Rightarrow> validate_tag \<Rightarrow> bool" where
  "satisfies (FString s) Required \<longleftrightarrow> s \<noteq> []"
| "satisfies (FInt i) Required \<longleftrightarrow> i \<noteq> 0"
| "satisfies (FInt i) (Gte n) \<longleftrightarrow> n \<le> i"
| "satisfies (FString s) (Gte n) \<longleftrightarrow> n \<le> int (length s)"

definition validator_law :: "validator \<Rightarrow> bool" where
  "validator_law validate_Struct \<longleftrightarrow>
     (\<forall>fields. validate_Struct fields = None \<longleftrightarrow> list_all (\<lambda>(name, v, tag). satisfies v tag) fields)"

lemma config_Validate_None_iff:
  "config_Validate validate_Struct c = None \<longleftrightarrow> validate_Struct (validated_fields c) = None"
  by (simp add: config_Validate_def split: option.split)

lemma config_Validate_None:
  "validator_law validate_Struct \<Longrightarrow>
   config_Validate validate_Struct c = None \<longleftrightarrow> list_all (\<lambda>(name, v, tag). satisfies v tag) (validated_fields c)"
  unfolding config_Validate_None_iff validator_law_def by blast

lemma var_simps:
  "var Getenv ''CertSourceDefault'' = CertSourceFile" "var Getenv ''AuthDefault'' = AuthNoop"
  "var Getenv ''PublisherDefault'' = PublisherNoop" "var Getenv ''MessageFormatDefault'' = MessageFormatPlain"
  "var Getenv ''RabbitMQSchemeDefault'' = ''amqp''"
  "var Getenv ''RabbitMQPassword'' = Getenv ''MQTT_PUBLISHER_RABBITMQ_PASSWORD''"
  by (simp_all add: var_def ServerVars_def)

lemmas default_defs = default_config_def default_HTTP_def default_MQTT_def default_TLSSrv_def default_Handler_def
  default_Publisher_def default_Kafka_def default_SQS_def default_SNS_def default_RabbitMQ_def var_simps

lemma default_valid:
  "validator_law validate_Struct \<Longrightarrow> config_Validate validate_Struct (default_config Getenv) = None"
  by (simp add: config_Validate_None validated_fields_def Let_def) (simp add: default_defs second_def)

end
