(* ===== verification/Command.thy ===== *)
theory Command
  imports Session Services Tls_Properties Http_Server Mqtt_Server Server_Config
begin

text \<open>
  The server command (cmd/server.go): a configuration decides which authenticator, publisher and
  certificate source are made, how the handler and the servers are set up, and which actors run. The
  actors are run and interrupted together (the group of github.com/oklog/run, cmd/root.go).
\<close>

section \<open>One publisher of several\<close>

text \<open>
  A value of the interface \<open>apis.Publisher\<close> is one of the implementations with its state. The operations of
  an implementation are lifted to the states of all.
\<close>

datatype ('k, 'q, 'n, 'r) any_state =
    Noop_state noop_state
  | Kafka_state "'k kafka_state"
  | Sqs_state "'q sqs_state"
  | Sns_state "'n sns_state"
  | Rabbit_state "'r rabbit_state"

definition other_publisher :: go_error where
  "other_publisher = Errorf ''a state of another publisher'' []"

definition lift_publisher :: "('a \<Rightarrow> 's) \<Rightarrow> ('s \<Rightarrow> 'a option) \<Rightarrow> 'a Publisher \<Rightarrow> 's Publisher" where
  "lift_publisher inject_state select_state pub =
     \<lparr>pub_Name = pub_Name pub,
      pub_Publish = (\<lambda>ctx r s. case select_state s of
          None \<Rightarrow> (SyncErr other_publisher, s)
        | Some a \<Rightarrow> map_prod id inject_state (pub_Publish pub ctx r a)),
      pub_PublishAsync = (\<lambda>ctx r s. case select_state s of
          None \<Rightarrow> (AsyncErr other_publisher, s)
        | Some a \<Rightarrow> map_prod id inject_state (pub_PublishAsync pub ctx r a)),
      pub_Complete = (\<lambda>r s. case select_state s of
          None \<Rightarrow> (\<lparr>resp_ID = NoID, resp_Error = Some other_publisher\<rparr>, s)
        | Some a \<Rightarrow> map_prod id inject_state (pub_Complete pub r a))\<rparr>"

definition lift_taken :: "('s \<Rightarrow> 'a option) \<Rightarrow> ('a \<Rightarrow> PublishRequest \<Rightarrow> bool) \<Rightarrow> 's \<Rightarrow> PublishRequest \<Rightarrow> bool" where
  "lift_taken select_state taken s r \<longleftrightarrow> (case select_state s of None \<Rightarrow> False | Some a \<Rightarrow> taken a r)"

definition lift_service :: "('a \<Rightarrow> 's) \<Rightarrow> ('s \<Rightarrow> 'a option) \<Rightarrow> 'a service \<Rightarrow> 's service" where
  "lift_service inject_state select_state sv =
     \<lparr>sv_Serve = (\<lambda>l s. case select_state s of
          None \<Rightarrow> (None, s)
        | Some a \<Rightarrow> map_prod id inject_state (sv_Serve sv l a)),
      sv_Shutdown = (\<lambda>l s. case select_state s of
          None \<Rightarrow> s
        | Some a \<Rightarrow> inject_state (sv_Shutdown sv l a))\<rparr>"

definition lift_serving :: "('s \<Rightarrow> 'a option) \<Rightarrow> ('a \<Rightarrow> bool) \<Rightarrow> 's \<Rightarrow> bool" where
  "lift_serving select_state serving s \<longleftrightarrow> (case select_state s of None \<Rightarrow> False | Some a \<Rightarrow> serving a)"

context served_publisher
begin

lemma lifted:
  assumes "\<And>a. select_state (inject_state a) = Some a"
  shows "publisher (lift_publisher inject_state select_state pub) (lift_taken select_state taken)"
  by unfold_locales
    (auto simp: lift_publisher_def lift_taken_def assms map_prod_def
      split: option.splits prod.splits
      dest: publish_confirmed publish_keeps async_confirmed async_keeps complete_confirmed complete_keeps)

lemma lifted_served:
  assumes "\<And>a. select_state (inject_state a) = Some a"
  shows "served_publisher (lift_publisher inject_state select_state pub) (lift_taken select_state taken)
    (lift_service inject_state select_state service) (lift_serving select_state serving)"
proof (intro served_publisher.intro served_publisher_axioms.intro)
  show "publisher (lift_publisher inject_state select_state pub) (lift_taken select_state taken)"
    using assms by (rule lifted)
qed (use publish_serving async_serving complete_serving shutdown_serving serve_serving serve_nil shutdown_ends in
    \<open>auto simp: lift_publisher_def lift_service_def lift_serving_def assms split: option.splits\<close>)

end

fun noop_of :: "('k, 'q, 'n, 'r) any_state \<Rightarrow> noop_state option" where
  "noop_of (Noop_state s) = Some s" | "noop_of _ = None"

fun kafka_of :: "('k, 'q, 'n, 'r) any_state \<Rightarrow> 'k kafka_state option" where
  "kafka_of (Kafka_state s) = Some s" | "kafka_of _ = None"

fun sqs_of :: "('k, 'q, 'n, 'r) any_state \<Rightarrow> 'q sqs_state option" where
  "sqs_of (Sqs_state s) = Some s" | "sqs_of _ = None"

fun sns_of :: "('k, 'q, 'n, 'r) any_state \<Rightarrow> 'n sns_state option" where
  "sns_of (Sns_state s) = Some s" | "sns_of _ = None"

fun rabbit_of :: "('k, 'q, 'n, 'r) any_state \<Rightarrow> 'r rabbit_state option" where
  "rabbit_of (Rabbit_state s) = Some s" | "rabbit_of _ = None"

section \<open>What surrounds the program\<close>

text \<open>
  The libraries and the files: the validator, the CSV files of credentials, the client libraries with
  their initial states, the cryptography, and what the certificate files hold when the source is made
  and at each reload.
\<close>

record ('k, 'q, 'n, 'r, 'cert, 'pool, 'x509, 'crl) environment =
  e_validate :: validator
  e_csv :: "string \<Rightarrow> go_error + string list list \<times> go_error"
  e_kafka :: "'k kafka_lib"
  e_kafka_state :: 'k
  e_sqs_client :: "sqs_options \<Rightarrow> go_error + 'q sqs_client"
  e_sqs_state :: 'q
  e_sns_client :: "sns_options \<Rightarrow> go_error + 'n sns_client"
  e_sns_state :: 'n
  e_amqp :: "'r amqp"
  e_amqp_state :: 'r
  e_crypto :: "('cert, 'pool, 'x509, 'crl) crypto"
  e_getwd :: "go_error + string"
  e_disk :: disk
  e_reloads :: "disk list"
  e_certs_in_time :: bool

section \<open>Setting up (cmd/server.go)\<close>

definition setup_authenticator ::
  "('k, 'q, 'n, 'r, 'cert, 'pool, 'x509, 'crl) environment \<Rightarrow> Handler_config \<Rightarrow> go_error + UserPasswordAuthenticator" where
  "setup_authenticator env hc =
     (let name = nc_Authenticator_Name hc
      in if name = AuthNoop then Inr (instrument_authenticator noop_authenticator)
         else if name = AuthPlain then
           (case New_plain
               [WithCredentials (case nc_Plain_Credentials hc of None \<Rightarrow> Map.empty | Some m \<Rightarrow> m),
                WithCredentialsFile (e_csv env) (nc_Plain_CredentialsFile hc)] of
              Inl err \<Rightarrow> Inl (Wrapf ''setup plain authenticator: %w'' [] err)
            | Inr a \<Rightarrow> Inr (instrument_authenticator a))
         else Inl (Errorf ''unknown authenticator %s'' [AStr name]))"

definition kafka_setup :: "Publisher_config \<Rightarrow> kafka_option list" where
  "kafka_setup pc =
     (let c = pc_Kafka pc
      in [k_WithBootstrapServers (kc_BootstrapServers c),
          k_WithDefaultTopic (kc_DefaultTopic c),
          k_WithTopicMappings (kc_TopicMappings c),
          k_WithConfigMap (KafkaConfigArgs_ConfigMap (kc_ConfArgs c)),
          k_WithGracePeriod (kc_GracePeriod c),
          k_WithWorkers (kc_Workers c),
          k_WithMessageFormat (pc_MessageFormat pc)])"

definition sqs_setup :: "Publisher_config \<Rightarrow> sqs_option list" where
  "sqs_setup pc =
     (let c = pc_SQS pc
      in [sqs_WithAWSProfile (qc_AWSProfile c),
          sqs_WithAWSRegion (qc_AWSRegion c),
          sqs_WithQueueMappings (qc_QueueMappings c),
          sqs_WithDefaultQueue (qc_DefaultQueue c),
          sqs_WithMessageFormat (pc_MessageFormat pc)])"

definition sns_setup :: "Publisher_config \<Rightarrow> sns_option list" where
  "sns_setup pc =
     (let c = pc_SNS pc
      in [sns_WithAWSProfile (sc_AWSProfile c),
          sns_WithAWSRegion (sc_AWSRegion c),
          sns_WithTopicARNMappings (sc_TopicARNMappings c),
          sns_WithDefaultTopicARN (sc_DefaultTopicARN c),
          sns_WithMessageFormat (pc_MessageFormat pc)])"

definition rabbit_setup :: "Publisher_config \<Rightarrow> rabbit_option list" where
  "rabbit_setup pc =
     (let c = pc_RabbitMQ pc
      in [r_WithScheme (rc_Scheme c),
          r_WithHost (rc_Host c),
          r_WithPort (rc_Port c),
          r_WithUsername (rc_Username c),
          r_WithPassword (rc_Password c),
          r_WithVHost (rc_VHost c),
          r_WithExchange (rc_Exchange c),
          r_WithConnectionTimeout (rc_ConnectionTimeout c),
          r_WithRequestTimeout (rc_RequestTimeout c),
          r_WithQueueMappings (rc_QueueMappings c),
          r_WithDefaultQueue (rc_DefaultQueue c),
          r_WithMessageFormat (pc_MessageFormat pc),
          r_WithPublisherConfirmsAtLeastOnce (rc_Confirms_AtLeastOnce c),
          r_WithPublisherConfirmsAtMostOnce (rc_Confirms_AtMostOnce c),
          r_WithPublisherConfirmsExactlyOnce (rc_Confirms_ExactlyOnce c)])"

definition setup_publisher ::
  "('k, 'q, 'n, 'r, 'cert, 'pool, 'x509, 'crl) environment \<Rightarrow> Publisher_config \<Rightarrow>
   go_error + ('k, 'q, 'n, 'r) any_state Publisher \<times> ('k, 'q, 'n, 'r) any_state service \<times>
     ('k, 'q, 'n, 'r) any_state" where
  "setup_publisher env pc =
     (let name = pc_Name pc
      in if name = PublisherNoop then 
           Inr (lift_publisher Noop_state noop_of noop_publisher, lift_service Noop_state noop_of noop_service,
             Noop_state New_noop)
         else if name = PublisherKafka then
           (case fst (New_kafka (e_kafka env) (kafka_setup pc) (e_kafka_state env)) of
              Inl err \<Rightarrow> Inl (Wrapf ''setup kafka publisher: %w'' [] err)
            | Inr (o', s) \<Rightarrow>
                Inr (lift_publisher Kafka_state kafka_of (kafka_publisher (e_kafka env) o'),
                  lift_service Kafka_state kafka_of (kafka_service (e_kafka env) o'), Kafka_state s))
         else if name = PublisherSQS then
           (case New_sqs (e_sqs_client env) (sqs_setup pc) (e_sqs_state env) of
              Inl err \<Rightarrow> Inl (Wrapf ''setup sqs publisher: %w'' [] err)
            | Inr (o', client, s) \<Rightarrow>
                Inr (lift_publisher Sqs_state sqs_of (sqs_publisher client o'),
                  lift_service Sqs_state sqs_of sqs_service, Sqs_state s))
         else if name = PublisherSNS then
           (case New_sns (e_sns_client env) (sns_setup pc) (e_sns_state env) of
              Inl err \<Rightarrow> Inl (Wrapf ''setup sns publisher: %w'' [] err)
            | Inr (o', client, s) \<Rightarrow>
                Inr (lift_publisher Sns_state sns_of (sns_publisher client o'),
                  lift_service Sns_state sns_of sns_service, Sns_state s))
         else if name = PublisherRabbitMQ then
           (case New_rabbit (rabbit_setup pc) (e_amqp_state env) of
              Inl err \<Rightarrow> Inl (Wrapf ''setup rabbitmq publisher: %w'' [] err)
            | Inr (o', s) \<Rightarrow>
                Inr (lift_publisher Rabbit_state rabbit_of (rabbit_publisher (e_amqp env) o'),
                  lift_service Rabbit_state rabbit_of (rabbit_service (e_amqp env)), Rabbit_state s))
         else Inl (Errorf ''unknown publisher %s'' [AStr name]))"

text \<open>The store of the certificates after all reloads, if TLS is enabled.\<close>

definition setup_tls ::
  "('k, 'q, 'n, 'r, 'cert, 'pool, 'x509, 'crl) environment \<Rightarrow> TLSSrv_config \<Rightarrow>
   go_error + ('cert, 'pool, 'crl) Store option" where
  "setup_tls env tc =
     (if \<not> tc_Enable tc then Inr None
      else if tc_CertSource tc = CertSourceFile then
        (case filesource_New (e_crypto env) (e_getwd env) (e_disk env)
            [WithX509KeyPair (tc_File_Cert tc) (tc_File_Key tc), WithClientAuthFile (tc_File_ClientCA tc),
             WithClientCRLFile (tc_File_ClientCLR tc), WithRefresh (tc_Refresh tc)] of
           Inl err \<Rightarrow> Inl (Wrapf ''setup cert file source: %w'' [] err)
         | Inr source \<Rightarrow>
             (case NewServerConfig (e_crypto env) (e_certs_in_time env)
                 (fst (source_ServerCerts (e_crypto env) source (e_reloads env))) of
                Inl err \<Rightarrow> Inl (Wrapf ''setup server TLS config: %w'' [] err)
              | Inr store \<Rightarrow> Inr (Some store)))
      else Inl (Errorf ''unknown cert source %s'' [AStr (tc_CertSource tc)]))"

definition handler_setup :: "Handler_config \<Rightarrow> UserPasswordAuthenticator \<Rightarrow> handler_option list" where
  "handler_setup hc a =
     [WithIgnoreUnsupported (nc_IgnoreUnsupported hc),
      WithAllowUnauthenticated (nc_AllowUnauthenticated hc),
      WithPublishTimeout (nc_Publish_Timeout hc),
      WithPublishAsyncAtMostOnce (nc_Async_AtMostOnce hc),
      WithPublishAsyncAtLeastOnce (nc_Async_AtLeastOnce hc),
      WithPublishAsyncExactlyOnce (nc_Async_ExactlyOnce hc),
      WithAuthenticator a]"

definition mqtt_setup :: "MQTT_config \<Rightarrow> 'h \<Rightarrow> 't option \<Rightarrow> ('h, 't) mqtt_option list" where
  "mqtt_setup mc handler tlsConfig =
     [mo_WithListen (mc_ListenAddress mc),
      mo_WithGracePeriod (mc_GracePeriod mc),
      mo_WithReadTimeout (mc_ReadTimeout mc),
      mo_WithWriteTimeout (mc_WriteTimeout mc),
      mo_WithIdleTimeout (mc_IdleTimeout mc),
      mo_WithReaderBufferSize (mc_ReaderBufferSize mc),
      mo_WithWriterBufferSize (mc_WriterBufferSize mc),
      mo_WithHandler handler,
      mo_WithTLSConfig tlsConfig]"

text \<open>
  What the command runs: the probe, the HTTP server, the publisher's state and the MQTT server, which has
  the handler. The actors of the group are added in this order.
\<close>

datatype actor = HTTP_actor | Publisher_actor | MQTT_actor | Signal_actor

record ('s, 't) app =
  app_probe :: HTTPProbe
  app_http :: http_server
  app_service :: "'s instrumented service"
  app_pub :: "'s instrumented"
  app_mqtt :: "('s instrumented MQTTHandler, 't) mqtt_server"
  app_cancel :: bool
  app_group :: "actor list"

text \<open>
  Registering a pattern twice would panic in \<open>httpserver.New\<close>; with the patterns there are it never happens
  (\<open>http_New_eq\<close>), and its branch is an error here.
\<close>

definition runServer ::
  "('k, 'q, 'n, 'r, 'cert, 'pool, 'x509, 'crl) environment \<Rightarrow> Server_config \<Rightarrow>
   go_error + (('k, 'q, 'n, 'r) any_state, ('cert, 'pool, 'crl) Store) app" where
  "runServer env cfg =
     (case config_Validate (e_validate env) cfg of
        Some err \<Rightarrow> Inl err
      | None \<Rightarrow>
     (case http_New True True
         [http_WithListen (hc_ListenAddress (cfg_HTTP cfg)), http_WithGracePeriod (hc_GracePeriod (cfg_HTTP cfg))] of
        None \<Rightarrow> Inl (Errorf ''http: multiple registrations'' [])
      | Some http \<Rightarrow>
     (case setup_authenticator env (mc_Handler (cfg_MQTT cfg)) of
        Inl err \<Rightarrow> Inl err
      | Inr auth \<Rightarrow>
     (case setup_publisher env (mc_Publisher (cfg_MQTT cfg)) of
        Inl err \<Rightarrow> Inl err
      | Inr (pub, service, pub_state) \<Rightarrow>
     (case setup_tls env (mc_TLSSrv (cfg_MQTT cfg)) of
        Inl err \<Rightarrow> Inl err
      | Inr tlsConfig \<Rightarrow>
          (let handler = New (instrument_publisher pub) (handler_setup (mc_Handler (cfg_MQTT cfg)) auth)
           in Inr \<lparr>app_probe = NewHTTP, app_http = http,
                   app_service = instrument_service service, app_pub = (pub_state, []),
                   app_mqtt = mqtt_New (mqtt_setup (cfg_MQTT cfg) handler tlsConfig), app_cancel = False,
                   app_group = [HTTP_actor, Publisher_actor, MQTT_actor]\<rparr>))))))"

section \<open>Running (cmd/server.go, cmd/root.go)\<close>

text \<open>
  What happens to the actors: what the HTTP listener ends with, whether its connections drain, the life
  of the publisher, the MQTT listener with what it accepts, the polls of its shutdown with the operations of the
  server's other goroutines before each, and a signal.
\<close>

record surroundings =
  x_http :: "string \<Rightarrow> go_error option"
  x_drained :: bool
  x_life :: life
  x_listen :: "string \<Rightarrow> string \<Rightarrow> go_error + nat"
  x_lnerr :: "nat \<Rightarrow> go_error option"
  x_turns :: "(int \<times> accept_result \<times> (server \<Rightarrow> server)) list"
  x_polls :: "(int \<times> server_op list) list"
  x_ctxErr :: go_error
  x_stopped_first :: bool
  x_signal :: bool

text \<open>\<open>interrupt\<close> of cmd/root.go: the signal is preferred where the \<open>select\<close> may choose.\<close>

definition wait_signal :: "bool \<Rightarrow> bool \<Rightarrow> go_error option option" where
  "wait_signal caught cancel =
     (if caught then Some None else if cancel then Some (Some (Errorf ''canceled'' [])) else None)"

text \<open>\<open>execute\<close> gives what the function of an actor returns, if it returns; \<open>interrupt\<close> its interrupt function.\<close>

fun execute ::
  "surroundings \<Rightarrow> actor \<Rightarrow> ('s, 't) app \<Rightarrow> go_error option option \<times> ('s, 't) app" where
  "execute x HTTP_actor app =
     (let app = app\<lparr>app_probe := Healthy (app_probe app)\<rparr>
      in (map_option Some (http_ListenAndServe (x_http x) (app_http app)), app))"
| "execute x Publisher_actor app =
     (case sv_Serve (app_service app) (x_life x) (app_pub app) of (res, s) \<Rightarrow> (res, app\<lparr>app_pub := s\<rparr>))"
| "execute x MQTT_actor app =
     (let app = app\<lparr>app_probe := Ready (app_probe app)\<rparr>
      in case mqtt_ListenAndServe (x_listen x) (x_lnerr x) (x_turns x) (app_mqtt app) of
           (res, s) \<Rightarrow> (map_option Some res, app\<lparr>app_mqtt := s\<rparr>))"
| "execute x Signal_actor app = (wait_signal (x_signal x) (app_cancel app), app)"

fun interrupt :: "surroundings \<Rightarrow> go_error option \<Rightarrow> actor \<Rightarrow> ('s, 't) app \<Rightarrow> ('s, 't) app" where
  "interrupt x err HTTP_actor app =
     app\<lparr>app_http := http_Shutdown (x_drained x) err (app_http app),
         app_probe := NotHealthy (NotReady (app_probe app))\<rparr>"
| "interrupt x err Publisher_actor app =
     app\<lparr>app_pub := sv_Shutdown (app_service app) (x_life x) (app_pub app)\<rparr>"
| "interrupt x err MQTT_actor app =
     app\<lparr>app_probe := NotReady (app_probe app),
         app_mqtt := mqtt_Shutdown (x_lnerr x) (x_ctxErr x) (polls_of (x_lnerr x) (x_polls x)) (x_stopped_first x)
           (app_mqtt app)\<rparr>"
| "interrupt x err Signal_actor app = app\<lparr>app_cancel := True\<rparr>"

text \<open>\<open>Execute\<close> adds the actor that waits for a signal.\<close>

definition Execute_group :: "('s, 't) app \<Rightarrow> ('s, 't) app" where
  "Execute_group app = app\<lparr>app_group := app_group app @ [Signal_actor]\<rparr>"

text \<open>
  Whether an actor that was interrupted returns. The MQTT server may not have begun to listen, or its loop is in
  \<open>Accept\<close> of a listener that it tracks: that fails if the listener is closed, and the loop goes on or returns
  then. The others wait for what \<open>execute\<close> waits for.
\<close>

definition net_ErrClosed :: go_error where
  "net_ErrClosed = IOError ''use of closed network connection''"

fun accept_returns :: "accept_next \<Rightarrow> bool" where
  "accept_returns (Return e) = True"
| "accept_returns (Continue d) = False"

fun actor_returns :: "surroundings \<Rightarrow> actor \<Rightarrow> ('s, 't) app \<Rightarrow> bool" where
  "actor_returns x MQTT_actor app \<longleftrightarrow>
     (let srv = ms_srv (app_mqtt app)
      in list_all (\<lambda>ln. once_done (listener srv ln) \<and>
           accept_returns (fst (Serve_accept 0 (PermanentError net_ErrClosed) 0 srv))) (listeners srv)) \<and>
     fst (mqtt_ListenAndServe (x_listen x) (x_lnerr x) [] (app_mqtt app)) \<noteq> None"
| "actor_returns x a app \<longleftrightarrow> fst (execute x a app) \<noteq> None"

text \<open>
  \<open>Run\<close> of the group, from the state in which the first actor returns: all actors are interrupted in order
  with its error, which is the result once all the others have returned; if one does not, neither does \<open>Run\<close>.
\<close>

definition group_Run :: "surroundings \<Rightarrow> actor \<Rightarrow> ('s, 't) app \<Rightarrow> (go_error option \<times> ('s, 't) app) option" where
  "group_Run x first app =
     (case execute x first app of
        (None, _) \<Rightarrow> None
      | (Some err, app) \<Rightarrow>
          (let app = fold (interrupt x err) (app_group app) app
           in if list_all (\<lambda>a. a = first \<or> actor_returns x a app) (app_group app) then Some (err, app) else None))"

text \<open>
  The rest of \<open>Execute\<close> for the command \<open>server\<close>: the exit status of the program, if it ends. \<open>first_end\<close> gives the
  first actor that returns, with the state then, once the group runs. \<open>Fatalf\<close> exits with status 1.
\<close>

definition run_command ::
  "('k, 'q, 'n, 'r, 'cert, 'pool, 'x509, 'crl) environment \<Rightarrow> Server_config \<Rightarrow> surroundings \<Rightarrow>
   ((('k, 'q, 'n, 'r) any_state, ('cert, 'pool, 'crl) Store) app \<Rightarrow>
     (actor \<times> (('k, 'q, 'n, 'r) any_state, ('cert, 'pool, 'crl) Store) app) option) \<Rightarrow> nat option" where
  "run_command env cfg x first_end =
     (case runServer env cfg of
        Inl err \<Rightarrow> Some 1
      | Inr app \<Rightarrow>
          (case first_end (Execute_group app) of
             None \<Rightarrow> None
           | Some (first, app) \<Rightarrow>
               (case group_Run x first app of
                  None \<Rightarrow> None
                | Some (err, app) \<Rightarrow> Some (if err \<noteq> None then 1 else 0))))"

text \<open>The commands that kong parses.\<close>

definition Execute ::
  "('k, 'q, 'n, 'r, 'cert, 'pool, 'x509, 'crl) environment \<Rightarrow> string \<Rightarrow> Server_config \<Rightarrow> surroundings \<Rightarrow>
   ((('k, 'q, 'n, 'r) any_state, ('cert, 'pool, 'crl) Store) app \<Rightarrow>
     (actor \<times> (('k, 'q, 'n, 'r) any_state, ('cert, 'pool, 'crl) Store) app) option) \<Rightarrow> nat option" where
  "Execute env command cfg x first_end =
     (if command = ''server'' then run_command env cfg x first_end
      else if command = ''version'' then Some 0
      else Some 1)"

end
