(* ===== verification/Command_Properties.thy ===== *)
theory Command_Properties
  imports Command Publisher_Properties Example_Run
begin

text \<open>
  What the wiring of the parts gives: logins with the configured credentials, acknowledgements that the
  configured publisher stands for, and an end of all actors when one of them ends.
\<close>

section \<open>The configured parts\<close>

text \<open>The credentials of a configuration: those of its table, and over them those of its file.\<close>

definition file_credentials :: "(string \<Rightarrow> go_error + string list list \<times> go_error) \<Rightarrow> string \<Rightarrow> string \<rightharpoonup> string" where
  "file_credentials csv filename =
     (if filename = [] then Map.empty
      else (case csv filename of
              Inl _ \<Rightarrow> Map.empty
            | Inr (records, _) \<Rightarrow> map_of (rev (map (\<lambda>r. (r ! 0, r ! 1)) records))))"

definition configured_credentials ::
  "('k, 'q, 'n, 'r, 'cert, 'pool, 'x509, 'crl) environment \<Rightarrow> Handler_config \<Rightarrow> string \<rightharpoonup> string" where
  "configured_credentials env hc =
     (case nc_Plain_Credentials hc of None \<Rightarrow> Map.empty | Some m \<Rightarrow> m) ++
     file_credentials (e_csv env) (nc_Plain_CredentialsFile hc)"

lemma New_plain_credentials:
  assumes "New_plain [WithCredentials creds, WithCredentialsFile csv filename] = Inr a"
  obtains o' where "a = plain_authenticator o'" "credentials o' = creds ++ file_credentials csv filename"
proof (rule that)
  let ?o = "\<lparr>credentials = creds ++ file_credentials csv filename\<rparr>"
  show "a = plain_authenticator ?o"
    using assms
    by (auto simp: New_plain_def WithCredentials_def WithCredentialsFile_def appendCredentials_def
        file_credentials_def credentialsFromCSV_def split: sum.splits if_splits prod.splits
        dest!: credentialsFromCSV_loop_eq)
qed simp

lemma setup_plain:
  assumes "setup_authenticator env hc = Inr a" and "nc_Authenticator_Name hc = AuthPlain"
  shows "authenticator a (valid_login (configured_credentials env hc))"
proof -
  let ?creds = "case nc_Plain_Credentials hc of None \<Rightarrow> Map.empty | Some m \<Rightarrow> m"
  have "AuthPlain \<noteq> AuthNoop"
    by (simp add: AuthPlain_def AuthNoop_def)
  with assms obtain b where "New_plain [WithCredentials ?creds, WithCredentialsFile (e_csv env) (nc_Plain_CredentialsFile hc)] = Inr b"
    and a: "a = instrument_authenticator b"
    by (auto simp: setup_authenticator_def Let_def split: sum.splits)
  then obtain o' where "b = plain_authenticator o'" "credentials o' = configured_credentials env hc"
    unfolding configured_credentials_def by (elim New_plain_credentials) blast
  with a instrumented_plain.authenticator_axioms [of o'] show ?thesis
    by simp
qed

text \<open>The options of the publishers.\<close>

definition kafka_options_of :: "Publisher_config \<Rightarrow> kafka_options" where
  "kafka_options_of pc =
     \<lparr>k_bootstrapServers = kc_BootstrapServers (pc_Kafka pc), k_gracePeriod = kc_GracePeriod (pc_Kafka pc),
      k_workers = kc_Workers (pc_Kafka pc), k_configMap = KafkaConfigArgs_ConfigMap (kc_ConfArgs (pc_Kafka pc)),
      k_defaultTopic = kc_DefaultTopic (pc_Kafka pc), k_topicMappings = kc_TopicMappings (pc_Kafka pc),
      k_messageFormat = pc_MessageFormat pc\<rparr>"

definition sqs_options_of :: "Publisher_config \<Rightarrow> sqs_options" where
  "sqs_options_of pc =
     \<lparr>sqs_region = qc_AWSRegion (pc_SQS pc), sqs_profile = qc_AWSProfile (pc_SQS pc),
      sqs_defaultQueue = qc_DefaultQueue (pc_SQS pc), sqs_queueMappings = qc_QueueMappings (pc_SQS pc),
      sqs_messageFormat = pc_MessageFormat pc\<rparr>"

definition sns_options_of :: "Publisher_config \<Rightarrow> sns_options" where
  "sns_options_of pc =
     \<lparr>sns_region = sc_AWSRegion (pc_SNS pc), sns_profile = sc_AWSProfile (pc_SNS pc),
      sns_defaultTopicARN = sc_DefaultTopicARN (pc_SNS pc), sns_topicARNMappings = sc_TopicARNMappings (pc_SNS pc),
      sns_messageFormat = pc_MessageFormat pc\<rparr>"

definition rabbit_options_of :: "Publisher_config \<Rightarrow> rabbit_options" where
  "rabbit_options_of pc =
     (let c = pc_RabbitMQ pc
      in \<lparr>r_scheme = rc_Scheme c, r_host = rc_Host c, r_port = rc_Port c, r_username = rc_Username c,
          r_password = rc_Password c, r_vhost = rc_VHost c, r_connectionTimeout = rc_ConnectionTimeout c,
          r_requestTimeout = rc_RequestTimeout c, r_exchange = rc_Exchange c, r_defaultQueue = rc_DefaultQueue c,
          r_queueMappings = rc_QueueMappings c, r_messageFormat = pc_MessageFormat pc,
          r_confirmsAtMostOnce = rc_Confirms_AtMostOnce c, r_confirmsAtLeastOnce = rc_Confirms_AtLeastOnce c,
          r_confirmsExactlyOnce = rc_Confirms_ExactlyOnce c\<rparr>)"

lemmas kafka_setup_defs = kafka_setup_def k_WithBootstrapServers_def k_WithDefaultTopic_def k_WithTopicMappings_def
  k_WithConfigMap_def k_WithGracePeriod_def k_WithWorkers_def k_WithMessageFormat_def kafka_options_of_def Let_def

lemmas sqs_setup_defs = sqs_setup_def sqs_WithAWSProfile_def sqs_WithAWSRegion_def sqs_WithQueueMappings_def
  sqs_WithDefaultQueue_def sqs_WithMessageFormat_def sqs_options_of_def Let_def

lemmas sns_setup_defs = sns_setup_def sns_WithAWSProfile_def sns_WithAWSRegion_def sns_WithTopicARNMappings_def
  sns_WithDefaultTopicARN_def sns_WithMessageFormat_def sns_options_of_def Let_def

lemmas rabbit_setup_defs = rabbit_setup_def r_WithScheme_def r_WithHost_def r_WithPort_def r_WithUsername_def
  r_WithPassword_def r_WithVHost_def r_WithExchange_def r_WithConnectionTimeout_def r_WithRequestTimeout_def
  r_WithQueueMappings_def r_WithDefaultQueue_def r_WithMessageFormat_def r_WithPublisherConfirmsAtLeastOnce_def
  r_WithPublisherConfirmsAtMostOnce_def r_WithPublisherConfirmsExactlyOnce_def rabbit_options_of_def
  no_rabbit_options_def Let_def

lemma New_kafka_setup:
  "fst (New_kafka lib (kafka_setup pc) b) = Inr (o', s) \<Longrightarrow> o' = kafka_options_of pc \<and> kafka_serving s"
  by (auto simp: New_kafka_def kafka_setup_defs kafka_serving_def split: option.splits sum.splits prod.splits)

lemma New_sqs_setup:
  "New_sqs newClient (sqs_setup pc) b = Inr (o', client, s) \<Longrightarrow> o' = sqs_options_of pc \<and> done_ok (sqs_done s)"
  by (auto simp: New_sqs_def sqs_setup_defs split: option.splits sum.splits)

lemma New_sns_setup:
  "New_sns newClient (sns_setup pc) b = Inr (o', client, s) \<Longrightarrow> o' = sns_options_of pc \<and> done_ok (sns_done s)"
  by (auto simp: New_sns_def sns_setup_defs split: option.splits sum.splits)

lemma New_rabbit_setup:
  "New_rabbit (rabbit_setup pc) b = Inr (o', s) \<Longrightarrow> o' = rabbit_options_of pc \<and> done_ok (rb_done s)"
  by (auto simp: New_rabbit_def rabbit_setup_defs split: option.splits)

text \<open>When the publisher of a configuration has taken a message.\<close>

definition configured_taken :: "Publisher_config \<Rightarrow> ('k, 'q, 'n, 'r) any_state \<Rightarrow> PublishRequest \<Rightarrow> bool" where
  "configured_taken pc =
     (if pc_Name pc = PublisherNoop then lift_taken noop_of (\<lambda>_ _. True)
      else if pc_Name pc = PublisherKafka then lift_taken kafka_of (kafka_taken (kafka_options_of pc))
      else if pc_Name pc = PublisherSQS then lift_taken sqs_of (sqs_taken (sqs_options_of pc))
      else if pc_Name pc = PublisherSNS then lift_taken sns_of (sns_taken (sns_options_of pc))
      else lift_taken rabbit_of (rabbit_taken (rabbit_options_of pc)))"

lemma setup_publisher_served:
  assumes "setup_publisher env pc = Inr (pub, service, s)"
  obtains serving where "served_publisher pub (configured_taken pc) service serving" "serving s"
proof -
  have distinct: "distinct [PublisherNoop, PublisherKafka, PublisherSQS, PublisherSNS, PublisherRabbitMQ]"
    by code_simp
  consider (noop) "pc_Name pc = PublisherNoop" | (kafka) "pc_Name pc = PublisherKafka" | (sqs) "pc_Name pc = PublisherSQS"
    | (sns) "pc_Name pc = PublisherSNS" | (rabbit) "pc_Name pc = PublisherRabbitMQ"
    using assms by (auto simp: setup_publisher_def Let_def split: if_splits)
  then show thesis
  proof cases
    case noop
    with assms have "pub = lift_publisher Noop_state noop_of noop_publisher"
      "service = lift_service Noop_state noop_of noop_service" "s = Noop_state New_noop"
      by (auto simp: setup_publisher_def)
    with that noop_served.lifted_served [of noop_of Noop_state] noop show thesis
      by (fastforce simp: configured_taken_def lift_serving_def New_noop_def)
  next
    case kafka
    with assms distinct obtain o' k where "fst (New_kafka (e_kafka env) (kafka_setup pc) (e_kafka_state env)) = Inr (o', k)"
      "pub = lift_publisher Kafka_state kafka_of (kafka_publisher (e_kafka env) o')"
      "service = lift_service Kafka_state kafka_of (kafka_service (e_kafka env) o')" "s = Kafka_state k"
      by (auto simp: setup_publisher_def Let_def split: sum.splits)
    with New_kafka_setup that kafka_served.lifted_served [of kafka_of Kafka_state] kafka distinct show thesis
      by (fastforce simp: configured_taken_def lift_serving_def)
  next
    case sqs
    with assms distinct obtain o' client k where "New_sqs (e_sqs_client env) (sqs_setup pc) (e_sqs_state env) = Inr (o', client, k)"
      "pub = lift_publisher Sqs_state sqs_of (sqs_publisher client o')"
      "service = lift_service Sqs_state sqs_of sqs_service" "s = Sqs_state k"
      by (auto simp: setup_publisher_def Let_def split: sum.splits)
    with New_sqs_setup that sqs_served.lifted_served [of sqs_of Sqs_state] sqs distinct show thesis
      by (fastforce simp: configured_taken_def lift_serving_def)
  next
    case sns
    with assms distinct obtain o' client k where "New_sns (e_sns_client env) (sns_setup pc) (e_sns_state env) = Inr (o', client, k)"
      "pub = lift_publisher Sns_state sns_of (sns_publisher client o')"
      "service = lift_service Sns_state sns_of sns_service" "s = Sns_state k"
      by (auto simp: setup_publisher_def Let_def split: sum.splits)
    with New_sns_setup that sns_served.lifted_served [of sns_of Sns_state] sns distinct show thesis
      by (fastforce simp: configured_taken_def lift_serving_def)
  next
    case rabbit
    with assms distinct obtain o' k where "New_rabbit (rabbit_setup pc) (e_amqp_state env) = Inr (o', k)"
      "pub = lift_publisher Rabbit_state rabbit_of (rabbit_publisher (e_amqp env) o')"
      "service = lift_service Rabbit_state rabbit_of (rabbit_service (e_amqp env))" "s = Rabbit_state k"
      by (auto simp: setup_publisher_def Let_def split: sum.splits)
    with New_rabbit_setup that rabbit_served.lifted_served [of rabbit_of Rabbit_state] rabbit distinct show thesis
      by (fastforce simp: configured_taken_def lift_serving_def)
  qed
qed

section \<open>What the command makes\<close>

definition app_handler :: "('s, 't) app \<Rightarrow> 's instrumented MQTTHandler" where
  "app_handler app = the (sf_Handler (ms_fields (app_mqtt app)))"

lemma handler_options:
  "opts (New pub (handler_setup hc a)) =
     \<lparr>ignoreUnsupported = nc_IgnoreUnsupported hc, allowUnauthenticated = nc_AllowUnauthenticated hc,
      publishTimeout = nc_Publish_Timeout hc, publishAsyncAtMostOnce = nc_Async_AtMostOnce hc,
      publishAsyncAtLeastOnce = nc_Async_AtLeastOnce hc, publishAsyncExactlyOnce = nc_Async_ExactlyOnce hc,
      authenticator_opt = Some a\<rparr>"
  by (simp add: New_def handler_setup_def no_options_def WithIgnoreUnsupported_def WithAllowUnauthenticated_def
      WithPublishTimeout_def WithPublishAsyncAtMostOnce_def WithPublishAsyncAtLeastOnce_def
      WithPublishAsyncExactlyOnce_def WithAuthenticator_def Let_def)

lemma h_publisher_New [simp]: "h_publisher (New pub os) = pub"
  by (simp add: New_def Let_def)

lemma runServer_cases:
  assumes "runServer env cfg = Inr app"
  obtains a pub service s tls where
    "setup_authenticator env (mc_Handler (cfg_MQTT cfg)) = Inr a"
    "setup_publisher env (mc_Publisher (cfg_MQTT cfg)) = Inr (pub, service, s)"
    "setup_tls env (mc_TLSSrv (cfg_MQTT cfg)) = Inr tls"
    "config_Validate (e_validate env) cfg = None"
    "app_handler app = New (instrument_publisher pub) (handler_setup (mc_Handler (cfg_MQTT cfg)) a)"
    "app_service app = instrument_service service" "app_pub app = (s, [])"
    "app_group app = [HTTP_actor, Publisher_actor, MQTT_actor]"
    "sf_TLSConfig (ms_fields (app_mqtt app)) = tls" "mo_tlsConfig (ms_opts (app_mqtt app)) = tls"
proof -
  from assms obtain a pub service s tls http where parts:
    "setup_authenticator env (mc_Handler (cfg_MQTT cfg)) = Inr a"
    "setup_publisher env (mc_Publisher (cfg_MQTT cfg)) = Inr (pub, service, s)"
    "setup_tls env (mc_TLSSrv (cfg_MQTT cfg)) = Inr tls"
    "config_Validate (e_validate env) cfg = None"
    and app: "app = \<lparr>app_probe = NewHTTP, app_http = http, app_service = instrument_service service, app_pub = (s, []),
      app_mqtt = mqtt_New (mqtt_setup (cfg_MQTT cfg)
        (New (instrument_publisher pub) (handler_setup (mc_Handler (cfg_MQTT cfg)) a)) tls),
      app_cancel = False, app_group = [HTTP_actor, Publisher_actor, MQTT_actor]\<rparr>"
    by (auto simp: runServer_def Let_def split: option.splits sum.splits)
  have mqtt: "sf_Handler (ms_fields (app_mqtt app)) =
      Some (New (instrument_publisher pub) (handler_setup (mc_Handler (cfg_MQTT cfg)) a))"
    "sf_TLSConfig (ms_fields (app_mqtt app)) = tls" "mo_tlsConfig (ms_opts (app_mqtt app)) = tls"
    by (simp_all add: app mqtt_New_def mqtt_setup_def mo_WithListen_def mo_WithGracePeriod_def mo_WithReadTimeout_def
        mo_WithWriteTimeout_def mo_WithIdleTimeout_def mo_WithReaderBufferSize_def mo_WithWriterBufferSize_def
        mo_WithHandler_def mo_WithTLSConfig_def Let_def)
  show thesis
    by (rule that [OF parts]) (simp_all only: mqtt app_handler_def option.sel, simp_all add: app)
qed

lemma configured_login:
  assumes "runServer env cfg = Inr app" and "nc_Authenticator_Name (mc_Handler (cfg_MQTT cfg)) = AuthPlain"
    and "loginUser (app_handler app) u pw = Inr Accepted"
  shows "configured_credentials env (mc_Handler (cfg_MQTT cfg)) u = Some pw \<and> pw \<noteq> []"
proof -
  from assms(1) obtain a pub where a: "setup_authenticator env (mc_Handler (cfg_MQTT cfg)) = Inr a"
    and h: "app_handler app = New (instrument_publisher pub) (handler_setup (mc_Handler (cfg_MQTT cfg)) a)"
    by (rule runServer_cases)
  note accepted_iff = authenticator.accepted_iff [OF setup_plain [OF a assms(2)]]
  from assms(3) obtain resp where "auth_Login a \<lparr>auth_Username = u, auth_Password = pw\<rparr> = Inr resp"
    "auth_ReturnCode resp = Accepted"
    by (auto simp: loginUser_def h handler_options split: sum.splits)
  with accepted_iff show ?thesis
    by (fastforce simp: valid_login_def)
qed

section \<open>The end of the actors\<close>

text \<open>What the connections do to the publisher.\<close>

inductive publisher_run :: "'s Publisher \<Rightarrow> 's \<Rightarrow> 's \<Rightarrow> bool" for pub s0 where
  none: "publisher_run pub s0 s0"
| publish: "publisher_run pub s0 s \<Longrightarrow> publisher_run pub s0 (snd (pub_Publish pub ctx r s))"
| async: "publisher_run pub s0 s \<Longrightarrow> publisher_run pub s0 (snd (pub_PublishAsync pub ctx r s))"
| complete: "publisher_run pub s0 s \<Longrightarrow> publisher_run pub s0 (snd (pub_Complete pub r s))"

context served_publisher
begin

lemma serving_run: "publisher_run pub s0 s \<Longrightarrow> serving s0 \<Longrightarrow> serving s"
  by (induction rule: publisher_run.induct) (auto intro: publish_serving async_serving complete_serving)

end

text \<open>
  A state of the program while its actors run: the connections used the publisher, the other parts are in
  any state.
\<close>

definition running :: "('s, 't) app \<Rightarrow> ('s, 't) app \<Rightarrow> bool" where
  "running app0 app \<longleftrightarrow>
     publisher_run (h_publisher (app_handler app0)) (app_pub app0) (app_pub app) \<and>
     app_service app = app_service app0 \<and> app_group app = app_group (Execute_group app0)"


text \<open>No actor returns the bare error of the HTTP server, which would keep that server from shutting down.\<close>

lemma execute_error:
  assumes "served_publisher pub taken (app_service app) serving"
    and "execute x a app = (Some err, app')"
  shows "err \<noteq> Some http_ErrServerClosed"
  using assms(2) served_publisher.serve_nil [OF assms(1), of "x_life x" "app_pub app"]
  by (cases a)
    (auto simp: http_ListenAndServe_def http_ErrServerClosed_def mqtt_ListenAndServe_def wait_signal_def Let_def
      split: if_splits option.splits prod.splits)

lemma execute_keeps:
  assumes "served_publisher pub taken (app_service app) serving" and "serving (app_pub app)"
    and "execute x a app = (res, app')"
  shows "serving (app_pub app')" "app_service app' = app_service app" "app_group app' = app_group app"
proof -
  have "serving (app_pub app') \<and> app_service app' = app_service app \<and> app_group app' = app_group app"
  proof (cases a)
    case HTTP_actor
    with assms(2,3) show ?thesis
      by (auto simp: Let_def)
  next
    case Publisher_actor
    with assms(3) served_publisher.serve_serving [OF assms(1,2), of "x_life x"] show ?thesis
      by (auto split: prod.splits)
  next
    case MQTT_actor
    obtain r s where "mqtt_ListenAndServe (x_listen x) (x_lnerr x) (x_turns x) (app_mqtt app) = (r, s)"
      by (cases "mqtt_ListenAndServe (x_listen x) (x_lnerr x) (x_turns x) (app_mqtt app)")
    with MQTT_actor assms(2,3) show ?thesis
      by (auto simp: Let_def)
  next
    case Signal_actor
    with assms(2,3) show ?thesis
      by simp
  qed
  then show "serving (app_pub app')" "app_service app' = app_service app" "app_group app' = app_group app"
    by simp_all
qed

text \<open>While the actors run, the publisher is served, and the group has all actors.\<close>

lemma running_served:
  assumes "runServer env cfg = Inr app0" and "running app0 app"
  obtains taken serving where
    "served_publisher (h_publisher (app_handler app0)) taken (app_service app) serving" "serving (app_pub app)"
    "app_group app = [HTTP_actor, Publisher_actor, MQTT_actor, Signal_actor]"
proof -
  from assms(1) obtain a pub service ps where
    pub: "setup_publisher env (mc_Publisher (cfg_MQTT cfg)) = Inr (pub, service, ps)"
    and h: "app_handler app0 = New (instrument_publisher pub) (handler_setup (mc_Handler (cfg_MQTT cfg)) a)"
    and app0: "app_service app0 = instrument_service service" "app_pub app0 = (ps, [])"
      "app_group app0 = [HTTP_actor, Publisher_actor, MQTT_actor]"
    by (rule runServer_cases)
  from pub obtain serving where
    served: "served_publisher pub (configured_taken (mc_Publisher (cfg_MQTT cfg))) service serving" and "serving ps"
    by (rule setup_publisher_served)
  let ?taken = "\<lambda>p. configured_taken (mc_Publisher (cfg_MQTT cfg)) (fst p)" and ?serving = "\<lambda>p. serving (fst p)"
  have inst: "served_publisher (h_publisher (app_handler app0)) ?taken (app_service app) ?serving"
    using assms(2) served_publisher.instrumented_served [OF served] by (simp add: running_def app0 h)
  moreover have "?serving (app_pub app)"
    using assms(2) served_publisher.serving_run [OF inst, of "app_pub app0"] \<open>serving ps\<close>
    by (simp add: running_def app0)
  ultimately show thesis
    using assms(2) that by (simp add: running_def Execute_group_def app0)
qed

text \<open>The parts after all actors were interrupted.\<close>

lemma interrupt_all:
  assumes "err \<noteq> Some http_ErrServerClosed"
    and "app_group app = [HTTP_actor, Publisher_actor, MQTT_actor, Signal_actor]"
  shows "\<not> ready (app_probe (fold (interrupt x err) (app_group app) app))"
    "\<not> healthy (app_probe (fold (interrupt x err) (app_group app) app))"
    "http_closed (app_http (fold (interrupt x err) (app_group app) app))"
    "app_cancel (fold (interrupt x err) (app_group app) app)"
    "app_service (fold (interrupt x err) (app_group app) app) = app_service app"
    "app_pub (fold (interrupt x err) (app_group app) app) = sv_Shutdown (app_service app) (x_life x) (app_pub app)"
    "app_mqtt (fold (interrupt x err) (app_group app) app) =
       mqtt_Shutdown (x_lnerr x) (x_ctxErr x) (polls_of (x_lnerr x) (x_polls x)) (x_stopped_first x) (app_mqtt app)"
    "app_group (fold (interrupt x err) (app_group app) app) = app_group app"
  using assms by (simp_all add: NotReady_def NotHealthy_def http_Shutdown_closed)

text \<open>Every actor returns then, whatever it waits for, and so does the group.\<close>

lemma interrupted_return:
  assumes "served_publisher pub taken (app_service app) serving" "serving (app_pub app)"
    and "err \<noteq> Some http_ErrServerClosed"
    and "app_group app = [HTTP_actor, Publisher_actor, MQTT_actor, Signal_actor]"
  shows "actor_returns y a (fold (interrupt x err) (app_group app) app)"
proof -
  let ?app = "fold (interrupt x err) (app_group app) app"
  note final = interrupt_all [OF assms(3,4), of x]
  have "fst (sv_Serve (app_service app) l (sv_Shutdown (app_service app) l' (app_pub app))) \<noteq> None" for l l'
    using served_publisher.shutdown_ends [OF assms(1,2)] by simp
  then have "fst (execute y Publisher_actor ?app) \<noteq> None"
    by (simp add: final split_beta)
  moreover have "fst (execute y HTTP_actor ?app) \<noteq> None" "fst (execute y Signal_actor ?app) \<noteq> None"
    using final by (simp_all add: http_ListenAndServe_def wait_signal_def Let_def)
  moreover have "shut (ms_srv (app_mqtt ?app))"
    unfolding final(7) by (rule shut_mqtt_Shutdown)
  then have "actor_returns y MQTT_actor ?app"
    using shut_accepts_nothing(1) [of "ms_srv (app_mqtt ?app)"] shut_mqtt_ListenAndServe [of "app_mqtt ?app"]
    by (simp add: Let_def list_all_iff shut_def)
  ultimately show ?thesis
    by (cases a) simp_all
qed

lemma group_Run_ends:
  assumes "runServer env cfg = Inr app0" and "running app0 app" and "execute x first app = (Some err, app1)"
  obtains app' where "group_Run x first app = Some (err, app')" "app' = fold (interrupt x err) (app_group app1) app1"
    "\<And>y a. actor_returns y a app'" "err \<noteq> Some http_ErrServerClosed"
    "app_group app1 = [HTTP_actor, Publisher_actor, MQTT_actor, Signal_actor]"
proof -
  from assms(1,2) obtain taken serving where
    served: "served_publisher (h_publisher (app_handler app0)) taken (app_service app) serving" and "serving (app_pub app)"
    and group: "app_group app = [HTTP_actor, Publisher_actor, MQTT_actor, Signal_actor]"
    by (rule running_served)
  note keeps = execute_keeps [OF served \<open>serving (app_pub app)\<close> assms(3)]
  note group1 = keeps(3) [unfolded group]
  let ?app' = "fold (interrupt x err) (app_group app1) app1"
  have returns: "actor_returns y a ?app'" for y a
    by (rule interrupted_return [OF served [folded keeps(2)] keeps(1) execute_error [OF served assms(3)] group1])
  then have "group_Run x first app = Some (err, ?app')"
    by (simp add: group_Run_def assms(3) list_all_iff Let_def)
  with that returns execute_error [OF served assms(3)] group1 show thesis
    by blast
qed

section \<open>The theorems\<close>

text \<open>C35: In a server that the command has set up with the plain authenticator, and that does not allow
  unauthenticated PUBLISH packets, every message given to the publisher is the content of a PUBLISH packet
  of its connection, after a CONNECT packet of that connection with a user name and password of the
  configuration: the table of the command line, over which the records of the credentials file take
  precedence. An empty password is never accepted.\<close>

theorem configured_users_publish:
  assumes "runServer env cfg = Inr app"
    and "nc_Authenticator_Name (mc_Handler (cfg_MQTT cfg)) = AuthPlain"
    and "''PUBLISH'' \<notin> set (nc_AllowUnauthenticated (mc_Handler (cfg_MQTT cfg)))"
    and "reachable (app_handler app) (init_state idle input (app_pub app)) s"
    and "trace (world s) = xs @ PublishCalled r # ys"
  shows "\<exists>q u pw p. Received q \<in> set xs \<and> packet_login q = Some (u, pw) \<and>
    configured_credentials env (mc_Handler (cfg_MQTT cfg)) u = Some pw \<and> pw \<noteq> [] \<and>
    Received p \<in> set xs \<and> packet_content p = Some (content r)"
proof -
  from assms(1) obtain a pub where
    h: "app_handler app = New (instrument_publisher pub) (handler_setup (mc_Handler (cfg_MQTT cfg)) a)"
    by (rule runServer_cases)
  have "session_ok False (loginUser (app_handler app)) s"
    using assms(4) by (rule session_ok_reachable) (use assms(3) in \<open>simp add: h handler_options\<close>)
  then obtain \<sigma> where
    "session_run False (loginUser (app_handler app)) (xs @ PublishCalled r # ys) init_session = Some \<sigma>"
    by (rule session_okE) (auto simp: sim_def assms(5))
  then have "\<exists>q u pw p. Received q \<in> set xs \<and> packet_login q = Some (u, pw) \<and>
      loginUser (app_handler app) u pw = Inr Accepted \<and> Received p \<in> set xs \<and> packet_content p = Some (content r)"
    by (rule publish_justified) auto
  with configured_login [OF assms(1,2)] show ?thesis
    by blast
qed

text \<open>C36: In a server that the command has set up, a PUBACK or PUBREC is only sent after a request with its identifier and
  QoS was given to the publisher of the configuration, which has taken it. Taken means, of the content and the attributes
  of the request: Kafka reported the delivery to the topic that the configuration gives for the topic of the
  request, SQS accepted them for the URL of that queue, SNS for that topic ARN, the RabbitMQ channel for that routing
  key and the configured exchange. The noop publisher takes everything, and an acknowledgement stands for nothing there.\<close>

theorem configured_acknowledgements:
  assumes "runServer env cfg = Inr app"
    and "reachable (app_handler app) (init_state idle input (app_pub app)) s"
    and "trace (world s) = xs @ Sent p # ys"
    and "kind_of p = Some (RPuback m) \<and> q = AT_LEAST_ONCE \<or> kind_of p = Some (RPubrec m) \<and> q = EXACTLY_ONCE"
  shows "\<exists>r. PublishCalled r \<in> set xs \<and> req_MessageID r = m \<and> req_Qos r = q \<and>
    configured_taken (mc_Publisher (cfg_MQTT cfg)) (fst (w_pub (world s))) r"
proof (rule serve_ok_acknowledged)
  let ?taken = "configured_taken (mc_Publisher (cfg_MQTT cfg))"
  from assms(1) obtain a pub service ps where
    pub: "setup_publisher env (mc_Publisher (cfg_MQTT cfg)) = Inr (pub, service, ps)"
    and h: "app_handler app = New (instrument_publisher pub) (handler_setup (mc_Handler (cfg_MQTT cfg)) a)"
    by (rule runServer_cases)
  from pub obtain serving where "served_publisher pub ?taken service serving"
    by (rule setup_publisher_served)
  then have "publisher pub ?taken"
    by (rule served_publisher.axioms)
  then have "publisher (h_publisher (app_handler app)) (\<lambda>p. ?taken (fst p))"
    by (simp add: h publisher.instrumented)
  then show "serve_ok (\<lambda>p. ?taken (fst p)) True (length (rd_data input)) s"
    by (rule publisher.serve_ok_reachable [OF _ assms(2) serve_ok_init]) simp_all
qed (use assms(3,4) in simp_all)


text \<open>C40: The exit status of the program: 1 if the server cannot be set up, or if the HTTP or the MQTT server is the
  first to end, whatever ended it; 0 if a signal was caught, but also if the publisher is the first to
  end, although \<open>Serve\<close> of the Kafka publisher ends so on a fatal error of Kafka.\<close>

theorem exit_status:
  assumes "runServer env cfg = Inr app0" and "first_end (Execute_group app0) = Some (first, app)" and "running app0 app"
    and "\<not> app_cancel app" and "fst (execute x first app) \<noteq> None" and "runServer env cfg' = Inl err"
  shows "Execute env ''server'' cfg x first_end = Some (if first = HTTP_actor \<or> first = MQTT_actor then 1 else 0) \<and>
    Execute env ''server'' cfg' x first_end = Some 1"
proof -
  from assms(1,3) obtain taken serving where
    served: "served_publisher (h_publisher (app_handler app0)) taken (app_service app) serving"
    by (rule running_served)
  obtain e app1 where first: "execute x first app = (Some e, app1)"
    using assms(5) by (cases "execute x first app") auto
  have "e = None \<longleftrightarrow> \<not> (first = HTTP_actor \<or> first = MQTT_actor)"
    using first assms(4) served_publisher.serve_nil [OF served, of "x_life x" "app_pub app"]
    by (cases first) (auto simp: wait_signal_def Let_def split: prod.splits if_splits)
  moreover obtain app' where "group_Run x first app = Some (e, app')"
    by (rule group_Run_ends [OF assms(1,3) first]) (rule that)
  ultimately have "Execute env ''server'' cfg x first_end = Some (if first = HTTP_actor \<or> first = MQTT_actor then 1 else 0)"
    by (auto simp: Execute_def run_command_def assms(1,2))
  moreover have "Execute env ''server'' cfg' x first_end = Some 1"
    by (simp add: Execute_def run_command_def assms(6))
  ultimately show ?thesis ..
qed

section \<open>A server\<close>

text \<open>
  A configuration with the plain authenticator and Kafka; the client of \<open>Example_Run\<close> logs in and publishes.
\<close>

definition demo_env ::
  "(unit, unit, unit, nat list, byte list, byte list, int, int list) environment" where
  "demo_env =
     \<lparr>e_validate = (\<lambda>fields. if list_all (\<lambda>(name, v, tag). satisfies v tag) fields then None
        else Some (Errorf ''validation'' [])),
      e_csv = (\<lambda>_. Inr ([[''bob'', ''pw'']], EOF)),
      e_kafka = demo_kafka_lib, e_kafka_state = (),
      e_sqs_client = (\<lambda>_. Inl (Errorf ''no credentials'' [])), e_sqs_state = (),
      e_sns_client = (\<lambda>_. Inl (Errorf ''no credentials'' [])), e_sns_state = (),
      e_amqp = demo_amqp, e_amqp_state = [],
      e_crypto = demo_lib, e_getwd = Inr ''/'', e_disk = demo_disk [2] [8], e_reloads = demo_disks,
      e_certs_in_time = True\<rparr>"

definition demo_config :: Server_config where
  "demo_config =
     (let c = default_config (\<lambda>_. []); mqtt = cfg_MQTT c; pub = mc_Publisher mqtt
      in c\<lparr>cfg_MQTT := mqtt\<lparr>
            mc_Handler := (mc_Handler mqtt)\<lparr>nc_Authenticator_Name := AuthPlain, nc_Plain_CredentialsFile := ''users.csv''\<rparr>,
            mc_Publisher := pub\<lparr>pc_Name := PublisherKafka, pc_Kafka := (pc_Kafka pub)\<lparr>kc_DefaultTopic := ''events''\<rparr>\<rparr>\<rparr>\<rparr>)"

definition demo_app :: "((unit, unit, unit, nat list) any_state, (byte list, byte list, int list) Store) app" where
  "demo_app = projr (runServer demo_env demo_config)"

lemma demo_runServer: "runServer demo_env demo_config = Inr demo_app"
proof -
  have "\<not> isl (runServer demo_env demo_config)"
    by code_simp
  then show ?thesis
    by (simp add: demo_app_def)
qed

definition demo_login_input :: "byte list" where
  "demo_login_input =
     [0x10, 23, 0, 4, 77, 81, 84, 84, 4, 0xC2, 0, 60, 0, 2, 99, 49, 0, 3, 98, 111, 98, 0, 2, 112, 119,
      0x32, 6, 0, 1, 116, 0, 7, 120]"

definition demo_app_state :: "(unit, unit, unit, nat list) any_state instrumented serve_state" where
  "demo_app_state =
     the (run (app_handler demo_app) demo_actions (init_state 0 (Reader demo_login_input EOF) (app_pub demo_app)))"

lemma demo_app_run:
  "run (app_handler demo_app) demo_actions (init_state 0 (Reader demo_login_input EOF) (app_pub demo_app)) =
   Some demo_app_state"
proof -
  have "run (app_handler demo_app) demo_actions (init_state 0 (Reader demo_login_input EOF) (app_pub demo_app)) \<noteq> None"
    by code_simp
  then show ?thesis
    by (auto simp: demo_app_state_def)
qed

lemma demo_app_reachable:
  "reachable (app_handler demo_app) (init_state 0 (Reader demo_login_input EOF) (app_pub demo_app)) demo_app_state"
  using reachable_run [OF demo_app_run] .

lemma demo_app_trace:
  "trace (world demo_app_state) = butlast (trace (world demo_app_state)) @ Sent demo_puback # []"
  by code_simp

lemma demo_app_called:
  "trace (world demo_app_state) = take 4 (trace (world demo_app_state)) @ PublishCalled demo_request #
     drop 5 (trace (world demo_app_state))"
  by code_simp

lemma demo_config_facts:
  "nc_Authenticator_Name (mc_Handler (cfg_MQTT demo_config)) = AuthPlain"
  "nc_AllowUnauthenticated (mc_Handler (cfg_MQTT demo_config)) = []"
  "configured_credentials demo_env (mc_Handler (cfg_MQTT demo_config)) = [''bob'' \<mapsto> ''pw'']"
  by (simp_all add: demo_config_def default_config_def default_MQTT_def default_Handler_def Let_def
      configured_credentials_def file_credentials_def demo_env_def)

theorem configured_users_publish_witness:
  "\<exists>q p. Received q \<in> set (take 4 (trace (world demo_app_state))) \<and> packet_login q = Some (''bob'', ''pw'') \<and>
    Received p \<in> set (take 4 (trace (world demo_app_state))) \<and> packet_content p = Some (content demo_request)"
proof -
  obtain q u pw p where "Received q \<in> set (take 4 (trace (world demo_app_state)))" "packet_login q = Some (u, pw)"
    "configured_credentials demo_env (mc_Handler (cfg_MQTT demo_config)) u = Some pw"
    "Received p \<in> set (take 4 (trace (world demo_app_state)))" "packet_content p = Some (content demo_request)"
    using configured_users_publish [OF demo_runServer demo_config_facts(1) _ demo_app_reachable demo_app_called]
    by (auto simp: demo_config_facts(2))
  then show ?thesis
    by (auto simp: demo_config_facts(3) split: if_splits)
qed

theorem configured_acknowledgements_witness:
  "\<exists>r. PublishCalled r \<in> set (butlast (trace (world demo_app_state))) \<and> req_MessageID r = 7 \<and>
    req_Qos r = AT_LEAST_ONCE \<and> configured_taken (mc_Publisher (cfg_MQTT demo_config)) (fst (w_pub (world demo_app_state))) r"
  by (rule configured_acknowledgements [OF demo_runServer demo_app_reachable demo_app_trace]) (simp add: demo_facts)

definition demo_surroundings :: surroundings where
  "demo_surroundings =
     \<lparr>x_http = (\<lambda>_. None), x_drained = True,
      x_life = \<lparr>l_events = (\<lambda>_. [Some (KError EOF True)]), l_ticks = 0, l_ctxErr = EOF\<rparr>,
      x_listen = (\<lambda>_ _. Inr 0), x_lnerr = (\<lambda>_. None), x_turns = [], x_polls = [(1, [])], x_ctxErr = EOF,
      x_stopped_first = False, x_signal = False\<rparr>"

text \<open>A fatal error of Kafka ends a worker, \<open>Serve\<close> and with it the program.\<close>

lemma demo_running: "running demo_app (Execute_group demo_app)"
  by (simp add: running_def Execute_group_def publisher_run.none)

lemma demo_ends: "fst (execute demo_surroundings Publisher_actor (Execute_group demo_app)) = Some None"
  by code_simp


text \<open>A publisher that there is not.\<close>

definition demo_bad_config :: Server_config where
  "demo_bad_config =
     (let mqtt = cfg_MQTT demo_config; pub = mc_Publisher mqtt
      in demo_config\<lparr>cfg_MQTT := mqtt\<lparr>mc_Publisher := pub\<lparr>pc_Name := ''mail''\<rparr>\<rparr>\<rparr>)"

definition demo_error :: go_error where
  "demo_error = projl (runServer demo_env demo_bad_config)"

lemma demo_bad_runServer: "runServer demo_env demo_bad_config = Inl demo_error"
proof -
  have "isl (runServer demo_env demo_bad_config)"
    by code_simp
  then show ?thesis
    by (simp add: demo_error_def)
qed

lemma demo_starts: "\<not> app_cancel (Execute_group demo_app)"
  by code_simp

theorem exit_status_witness:
  "Execute demo_env ''server'' demo_config demo_surroundings (\<lambda>app. Some (Publisher_actor, app)) = Some 0 \<and>
   Execute demo_env ''server'' demo_bad_config demo_surroundings (\<lambda>app. Some (Publisher_actor, app)) = Some 1"
  using exit_status [OF demo_runServer _ demo_running demo_starts _ demo_bad_runServer,
      of "\<lambda>app. Some (Publisher_actor, app)" Publisher_actor demo_surroundings] demo_ends
  by simp

end
