(* ===== verification/Tls_Serve.thy ===== *)
theory Tls_Serve
  imports Command_Properties
begin

text \<open>
  Connections with TLS: the handshake before the loop of a connection (pkg/mqtt/server/conn.go), with the
  configuration that the store of the certificates gives (pkg/tls/server.go). A client with a revoked
  certificate gets nowhere in a full handshake.
\<close>

section \<open>The handshake\<close>

text \<open>
  What crypto/tls does with the configuration for a client: \<open>negotiate\<close> is its own part, which ends with an error,
  with a resumed session, or with the chains it verified in a full handshake, none if no client certificate is
  asked for. The function \<open>VerifyPeerCertificate\<close> is called after a full handshake, and an error of it ends
  the handshake; it is not called for a resumed session. The configuration is made of the store at the start of
  the handshake, \<open>hello\<close>, and the function reads the store when it is called, \<open>store\<close>, which a reload may have changed.
\<close>

datatype 'x509 negotiated = Resumed | FullHandshake "'x509 list list"

type_synonym ('cert, 'pool, 'x509) negotiation = "('cert, 'pool) tls_config \<Rightarrow> go_error + 'x509 negotiated"

definition tls_Handshake ::
  "('cert, 'pool, 'x509, 'crl) crypto \<Rightarrow> ('cert, 'pool, 'crl) Store \<Rightarrow> ('cert, 'pool, 'crl) Store \<Rightarrow>
   ('cert, 'pool, 'x509) negotiation \<Rightarrow> go_error option" where
  "tls_Handshake lib hello store negotiate =
     (let config = GetConfigForClient hello
      in case negotiate config of
           Inl err \<Rightarrow> Some err
         | Inr Resumed \<Rightarrow> None
         | Inr (FullHandshake verified) \<Rightarrow>
             if VerifyPeerCertificate config then verifyClientCertificate lib store verified else None)"

text \<open>
  \<open>serve\<close> up to its loop: a connection without TLS (no handshake) starts at once; with TLS it starts after a
  handshake without an error, else the deferred function closes it. A deadline that passes during the handshake
  is an error of it.
\<close>

definition begin_serve :: "go_error option option \<Rightarrow> int \<Rightarrow> int \<Rightarrow> reader \<Rightarrow> 's \<Rightarrow> 's serve_state" where
  "begin_serve handshake now serverIdleTimeout input ps =
     (let s = init_state serverIdleTimeout input ps
      in case handshake of
           Some (Some err) \<Rightarrow> s\<lparr>phase := Finished, world := finish now (world s)\<rparr>
         | _ \<Rightarrow> s)"

text \<open>A connection that was closed before its loop.\<close>

definition never_served :: "'s \<Rightarrow> 's serve_state \<Rightarrow> bool" where
  "never_served ps s \<longleftrightarrow>
     phase s = Finished \<and> pending (world s) = [] \<and> \<not> rwc_open (w_conn (world s)) \<and> rwc_out (w_conn (world s)) = [] \<and>
     w_pub (world s) = ps \<and> set (trace (world s)) \<subseteq> {Closed}"

lemma finish_more_simps [simp]: "w_pub (finish now w) = w_pub w" "rwc_out (w_conn (finish now w)) = rwc_out (w_conn w)"
  by (simp_all add: finish_def set_state_def conn_Close_def note_event_def)

lemma never_served_begin: "never_served ps (begin_serve (Some (Some err)) now idle input ps)"
  by (simp add: never_served_def begin_serve_def init_state_def Let_def)

lemma never_served_step:
  assumes "never_served ps s" and "step h a s = Some s'"
  shows "never_served ps s'"
  using assms by (cases a) (auto simp: never_served_def conn_Close_def note_event_def Let_def split: if_splits)

lemma never_served_reachable:
  "reachable h (begin_serve (Some (Some err)) now idle input ps) s \<Longrightarrow> never_served ps s"
proof (induction rule: reachable.induct)
  case start
  show ?case
    by (rule never_served_begin)
next
  case (more s a s')
  show ?case
    by (rule never_served_step [OF more.IH more.hyps(2)])
qed

lemma no_receiveds: "set tr \<subseteq> {Closed} \<Longrightarrow> receiveds tr = []"
  by (induction tr rule: receiveds.induct) auto

section \<open>The configured certificates\<close>

text \<open>The options of the certificate source of a configuration.\<close>

definition file_options :: "TLSSrv_config \<Rightarrow> ('cert, 'pool, 'crl) file_option list" where
  "file_options tc =
     [WithX509KeyPair (tc_File_Cert tc) (tc_File_Key tc), WithClientAuthFile (tc_File_ClientCA tc),
      WithClientCRLFile (tc_File_ClientCLR tc), WithRefresh (tc_Refresh tc)]"

lemma setup_tls_store:
  assumes "setup_tls env tc = Inr (Some store)"
  obtains src ch src' where
    "filesource_New (e_crypto env) (e_getwd env) (e_disk env) (file_options tc) = Inr src"
    "source_ServerCerts (e_crypto env) src (e_reloads env) = (ch, src')"
    "NewServerConfig (e_crypto env) (e_certs_in_time env) ch = Inr store"
proof -
  from assms obtain src where
    src: "filesource_New (e_crypto env) (e_getwd env) (e_disk env) (file_options tc) = Inr src"
      "NewServerConfig (e_crypto env) (e_certs_in_time env) (fst (source_ServerCerts (e_crypto env) src (e_reloads env))) = Inr store"
    by (auto simp: setup_tls_def file_options_def split: if_splits sum.splits)
  obtain ch src' where "source_ServerCerts (e_crypto env) src (e_reloads env) = (ch, src')"
    by (cases "source_ServerCerts (e_crypto env) src (e_reloads env)")
  with src that show thesis
    by simp
qed

text \<open>The files of a configuration as they were loaded, at first and at each reload, without the loads that failed.\<close>

definition configured_loads ::
  "('k, 'q, 'n, 'r, 'cert, 'pool, 'x509, 'crl) environment \<Rightarrow> TLSSrv_config \<Rightarrow> ('cert, 'pool, 'crl) ServerCerts list" where
  "configured_loads env tc =
     (case filesource_New (e_crypto env) (e_getwd env) (e_disk env) (file_options tc) of
        Inl _ \<Rightarrow> []
      | Inr src \<Rightarrow> source_loads (e_crypto env) src (e_disk env # reloads src (e_reloads env)))"

lemma configured_CRLs:
  assumes "setup_tls env tc = Inr (Some store)" and "\<forall>bs. length (sha256 (e_crypto env) bs) = 32"
  shows "cs_ClientCRLs (st_cs store) = ClientCRLs (last (configured_loads env tc))"
proof -
  from assms(1) obtain src ch src' where src:
    "filesource_New (e_crypto env) (e_getwd env) (e_disk env) (file_options tc) = Inr src"
    "source_ServerCerts (e_crypto env) src (e_reloads env) = (ch, src')"
    "NewServerConfig (e_crypto env) (e_certs_in_time env) ch = Inr store"
    by (rule setup_tls_store)
  from latest_CRLs [OF assms(2) src] show ?thesis
    by (simp add: configured_loads_def src(1))
qed

text \<open>C34: In a server that the command has set up with TLS, a client that is asked for a certificate and that presents, in
  a full handshake, a chain with a certificate without the CA flag that the revocation lists of the last successful
  load name, is shut out: its connection is closed by the server without a byte of an answer, no packet is read from
  it, and the publisher is never called, whatever the client sends. The lists are those of the store when the
  chains are checked, whatever the store was when the handshake began. Certificates with the CA flag and
  resumed sessions are not checked.\<close>

theorem revoked_client_is_shut_out:
  assumes "runServer env cfg = Inr app" and "sf_TLSConfig (ms_fields (app_mqtt app)) = Some store"
    and "\<forall>bs. length (sha256 (e_crypto env) bs) = 32"
    and "VerifyPeerCertificate (GetConfigForClient hello)"
    and "negotiate (GetConfigForClient hello) = Inr (FullHandshake verified)"
    and "chain \<in> set verified" "cert \<in> set chain" "\<not> IsCA (e_crypto env) cert"
    and "revoked_by (e_crypto env) (ClientCRLs (last (configured_loads env (mc_TLSSrv (cfg_MQTT cfg))))) cert"
    and "reachable (app_handler app)
      (begin_serve (Some (tls_Handshake (e_crypto env) hello store negotiate)) now idle input (app_pub app)) s"
  shows "receiveds (trace (world s)) = [] \<and> (\<forall>r. PublishCalled r \<notin> set (trace (world s))) \<and>
    w_pub (world s) = app_pub app \<and> rwc_out (w_conn (world s)) = [] \<and> \<not> rwc_open (w_conn (world s))"
proof -
  from assms(1,2) have "setup_tls env (mc_TLSSrv (cfg_MQTT cfg)) = Inr (Some store)"
    by (metis runServer_cases)
  then have "cs_ClientCRLs (st_cs store) = ClientCRLs (last (configured_loads env (mc_TLSSrv (cfg_MQTT cfg))))"
    using assms(3) by (rule configured_CRLs)
  then have "verifyClientCertificate (e_crypto env) store verified \<noteq> None"
    using assms(6-9) by (auto simp: verifyClientCertificate_None)
  with assms(4,5) obtain err where "tls_Handshake (e_crypto env) hello store negotiate = Some err"
    by (auto simp: tls_Handshake_def)
  with assms(10) have "never_served (app_pub app) s"
    by (auto intro: never_served_reachable)
  then show ?thesis
    by (auto simp: never_served_def no_receiveds)
qed

section \<open>A server with TLS\<close>

definition tls_demo_config :: Server_config where
  "tls_demo_config =
     (let mqtt = cfg_MQTT demo_config
      in demo_config\<lparr>cfg_MQTT := mqtt\<lparr>mc_TLSSrv :=
           \<lparr>tc_Enable = True, tc_CertSource = CertSourceFile, tc_Refresh = second, tc_File_Cert = ''crt'',
            tc_File_Key = ''key'', tc_File_ClientCA = ''ca'', tc_File_ClientCLR = ''crl''\<rparr>\<rparr>\<rparr>)"

definition tls_demo_app :: "((unit, unit, unit, nat list) any_state, (byte list, byte list, int list) Store) app" where
  "tls_demo_app = projr (runServer demo_env tls_demo_config)"

lemma tls_demo_options: "file_options (mc_TLSSrv (cfg_MQTT tls_demo_config)) = demo_options"
  by (simp add: file_options_def tls_demo_config_def demo_options_def Let_def)

lemma tls_demo_env: "e_crypto demo_env = demo_lib" "e_getwd demo_env = Inr ''/''" "e_disk demo_env = demo_disk [2] [8]"
  "e_reloads demo_env = demo_disks" "e_certs_in_time demo_env"
  by (simp_all add: demo_env_def)

lemma tls_demo_setup: "setup_tls demo_env (mc_TLSSrv (cfg_MQTT tls_demo_config)) = Inr (Some demo_store)"
proof -
  have "tc_Enable (mc_TLSSrv (cfg_MQTT tls_demo_config))" "tc_CertSource (mc_TLSSrv (cfg_MQTT tls_demo_config)) = CertSourceFile"
    by (simp_all add: tls_demo_config_def Let_def)
  then show ?thesis
    using tls_demo_options demo_New demo_source_ServerCerts demo_NewServerConfig
    by (simp add: setup_tls_def tls_demo_env file_options_def)
qed

lemma tls_demo_runServer: "runServer demo_env tls_demo_config = Inr tls_demo_app"
proof -
  have "\<not> isl (runServer demo_env tls_demo_config)"
    by code_simp
  then show ?thesis
    by (simp add: tls_demo_app_def)
qed

lemma tls_demo_store: "sf_TLSConfig (ms_fields (app_mqtt tls_demo_app)) = Some demo_store"
  using tls_demo_runServer tls_demo_setup by (auto elim!: runServer_cases)

text \<open>A client with the certificate 9, which the second load revoked, sends a CONNECT packet.\<close>

theorem revoked_client_is_shut_out_witness:
  "receiveds (trace (world (begin_serve (Some (tls_Handshake demo_lib demo_store demo_store (\<lambda>_. Inr (FullHandshake [[9, 1]])))) 0 0
     (Reader demo_login_input EOF) (app_pub tls_demo_app)))) = []"
proof -
  have "\<forall>bs. length (sha256 (e_crypto demo_env) bs) = 32" "VerifyPeerCertificate (GetConfigForClient demo_store)"
    by (simp_all add: tls_demo_env demo_lib_simps demo_store_def GetConfigForClient_def stored_def demo_certs_def Let_def)
  moreover have "ClientCRLs (last (configured_loads demo_env (mc_TLSSrv (cfg_MQTT tls_demo_config)))) = [[9]]"
    by (simp add: configured_loads_def tls_demo_env tls_demo_options demo_New demo_loads)
      (simp add: demo_channel_def demo_certs_def)
  ultimately show ?thesis
    using revoked_client_is_shut_out [OF tls_demo_runServer tls_demo_store, of demo_store "\<lambda>_. Inr (FullHandshake [[9, 1]])" "[[9, 1]]" "[9, 1]" 9,
        OF _ _ _ _ _ _ _ reachable.start]
    by (simp add: tls_demo_env demo_lib_simps revoked_by_def)
qed

end
