(* ===== verification/Concurrent_Writes.thy ===== *)
theory Concurrent_Writes
  imports Serve_Safety
begin

text \<open>
  Writes of several goroutines to one connection (\<open>response.Write\<close> in pkg/mqtt/server/response.go), in steps that
  other goroutines may come between: the mutex, the buffered writer of package bufio that all responses of
  a connection share, and its flush. Each request has a response with a mutex of its own (\<open>readRequest\<close> in
  conn.go). As long as the writes are made one after the other, as a loop without asynchronous publishes makes
  them, each of them is the atomic write of the other theories; writes of two requests at the same time can mix.
\<close>

section \<open>The steps of a write\<close>

text \<open>
  The buffered writer: its buffer, the number of bytes in it, whether it stopped with an error, and the bytes
  that the peer received. The
  network connection takes all that is written. \<open>Write\<close> of bufio copies what fits, and flushes until the rest
  fits (a message is written directly if the buffer is empty); copying bytes and counting them are two
  steps, and so are writing the buffer out and emptying it. If more bytes were counted than were written out
  when the buffer is emptied, that is a short write, an error that the writer keeps. A count beyond the buffer
  panics. Where a goroutine is:
\<close>

datatype write_pc =
    Waiting "byte list"
  | Filling "byte list"
  | Copied "byte list" nat bool
  | Flushing "byte list" bool
  | Flushed "byte list" bool nat
  | Panicking
  | Failing
  | Returning
  | Done
  | Failed
  | Crashed

record writers =
  wr_buf :: "byte list"
  wr_n :: nat
  wr_err :: bool
  wr_out :: "byte list"
  wr_held :: "nat \<Rightarrow> bool"
  wr_pc :: "nat \<Rightarrow> write_pc"
  wr_order :: "nat list"

definition set_pc :: "nat \<Rightarrow> write_pc \<Rightarrow> writers \<Rightarrow> writers" where
  "set_pc i pc s = s\<lparr>wr_pc := (wr_pc s)(i := pc)\<rparr>"

text \<open>
  The write deadline is not modelled, as this network does not fail. After a flush the loop of \<open>Write\<close> goes on, or \<open>response.Write\<close> returns; \<open>wr_order\<close> records who
  returned without an error.
\<close>

definition after_flush :: "byte list \<Rightarrow> bool \<Rightarrow> write_pc" where
  "after_flush b again = (if again then Filling b else Returning)"

definition write_step :: "(nat \<Rightarrow> nat) \<Rightarrow> nat \<Rightarrow> writers \<Rightarrow> writers option" where
  "write_step mutex i s =
     (case wr_pc s i of
        Waiting b \<Rightarrow>
          if wr_held s (mutex i) then None
          else Some (set_pc i (Filling b) (s\<lparr>wr_held := (wr_held s)(mutex i := True)\<rparr>))
      | Filling b \<Rightarrow>
          Some (if wr_err s then set_pc i Failing s
                else if int (length (wr_buf s)) - int (wr_n s) < int (length b) then
                  if wr_n s = 0 then set_pc i (Filling []) (s\<lparr>wr_out := wr_out s @ b\<rparr>)
                  else if length (wr_buf s) < wr_n s then set_pc i Panicking s
                  else
                    (let k = length (wr_buf s) - wr_n s
                     in set_pc i (Copied (drop k b) k True) (s\<lparr>wr_buf := take (wr_n s) (wr_buf s) @ take k b\<rparr>))
                else
                  set_pc i (Copied [] (length b) False)
                    (s\<lparr>wr_buf := take (wr_n s) (wr_buf s) @ b @ drop (wr_n s + length b) (wr_buf s)\<rparr>))
      | Copied b k again \<Rightarrow> Some (set_pc i (Flushing b again) (s\<lparr>wr_n := wr_n s + k\<rparr>))
      | Flushing b again \<Rightarrow>
          Some (if wr_err s then set_pc i Failing s
                else if wr_n s = 0 then set_pc i (after_flush b again) s
                else if length (wr_buf s) < wr_n s then set_pc i Panicking s
                else set_pc i (Flushed b again (wr_n s)) (s\<lparr>wr_out := wr_out s @ take (wr_n s) (wr_buf s)\<rparr>))
      | Flushed b again k \<Rightarrow>
          Some (if k < wr_n s then
                  if length (wr_buf s) < wr_n s then set_pc i Panicking s
                  else
                    (let l = wr_n s - k
                     in set_pc i Failing
                          (s\<lparr>wr_buf := take l (drop k (wr_buf s)) @ drop l (wr_buf s), wr_n := l, wr_err := True\<rparr>))
                else set_pc i (after_flush b again) (s\<lparr>wr_n := 0\<rparr>))
      | Panicking \<Rightarrow> Some (set_pc i Crashed (s\<lparr>wr_held := (wr_held s)(mutex i := False)\<rparr>))
      | Failing \<Rightarrow> Some (set_pc i Failed (s\<lparr>wr_held := (wr_held s)(mutex i := False)\<rparr>))
      | Returning \<Rightarrow>
          Some (set_pc i Done (s\<lparr>wr_held := (wr_held s)(mutex i := False), wr_order := wr_order s @ [i]\<rparr>))
      | Done \<Rightarrow> None
      | Failed \<Rightarrow> None
      | Crashed \<Rightarrow> None)"

text \<open>Goroutine \<open>i\<close> writes \<open>msg i\<close>; nothing is buffered at first.\<close>

definition start_writes :: "nat \<Rightarrow> byte list \<Rightarrow> (nat \<Rightarrow> byte list) \<Rightarrow> writers" where
  "start_writes N out msg =
     \<lparr>wr_buf = replicate N 0, wr_n = 0, wr_err = False, wr_out = out, wr_held = (\<lambda>_. False),
      wr_pc = (\<lambda>i. Waiting (msg i)), wr_order = []\<rparr>"

inductive writes :: "(nat \<Rightarrow> nat) \<Rightarrow> writers \<Rightarrow> writers \<Rightarrow> bool" for mutex s0 where
  start: "writes mutex s0 s0"
| turn: "writes mutex s0 s \<Longrightarrow> write_step mutex i s = Some s' \<Longrightarrow> writes mutex s0 s'"

text \<open>The mutex of request \<open>i\<close>: each response has its own.\<close>

definition response_mutex :: "nat \<Rightarrow> nat" where
  "response_mutex i = i"

section \<open>One write after the other\<close>

text \<open>
  A goroutine that called \<open>response.Write\<close> and did not return from it. Writes are made in turn if none begins
  while another is under way, whatever their order.
\<close>

definition under_way :: "write_pc \<Rightarrow> bool" where
  "under_way pc \<longleftrightarrow>
     (case pc of Waiting _ \<Rightarrow> False | Done \<Rightarrow> False | Failed \<Rightarrow> False | Crashed \<Rightarrow> False | _ \<Rightarrow> True)"

inductive writes_in_turn :: "(nat \<Rightarrow> nat) \<Rightarrow> writers \<Rightarrow> writers \<Rightarrow> bool" for mutex s0 where
  start_in_turn: "writes_in_turn mutex s0 s0"
| step_in_turn:
    "writes_in_turn mutex s0 s \<Longrightarrow> (\<And>j. j \<noteq> i \<Longrightarrow> \<not> under_way (wr_pc s j)) \<Longrightarrow>
     write_step mutex i s = Some s' \<Longrightarrow> writes_in_turn mutex s0 s'"

lemma writes_in_turn_trans: "writes_in_turn mutex s1 s2 \<Longrightarrow> writes_in_turn mutex s0 s1 \<Longrightarrow> writes_in_turn mutex s0 s2"
  by (induction rule: writes_in_turn.induct) (auto intro: writes_in_turn.step_in_turn)

text \<open>
  The goroutine that writes: what the peer has, what is buffered and what it has left to copy are the messages
  before its own and its own.
\<close>

fun inside :: "byte list \<Rightarrow> writers \<Rightarrow> write_pc \<Rightarrow> bool" where
  "inside T s (Filling b) \<longleftrightarrow>
     wr_n s \<le> length (wr_buf s) \<and> wr_out s @ take (wr_n s) (wr_buf s) @ b = T"
| "inside T s (Copied b k again) \<longleftrightarrow>
     wr_n s + k \<le> length (wr_buf s) \<and> wr_out s @ take (wr_n s + k) (wr_buf s) @ b = T \<and> (again \<or> b = [])"
| "inside T s (Flushing b again) \<longleftrightarrow>
     wr_n s \<le> length (wr_buf s) \<and> wr_out s @ take (wr_n s) (wr_buf s) @ b = T \<and> (again \<or> b = [])"
| "inside T s (Flushed b again k) \<longleftrightarrow> k = wr_n s \<and> wr_out s @ b = T \<and> (again \<or> b = [])"
| "inside T s Returning \<longleftrightarrow> wr_n s = 0 \<and> wr_out s = T"
| "inside T s _ \<longleftrightarrow> False"

lemma inside_under_way: "inside T s pc \<Longrightarrow> under_way pc"
  by (cases pc) (simp_all add: under_way_def)

definition outside :: "byte list \<Rightarrow> bool \<Rightarrow> write_pc \<Rightarrow> bool" where
  "outside b finished pc \<longleftrightarrow> pc = (if finished then Done else Waiting b)"

lemma outside_not_under_way: "outside b finished pc \<Longrightarrow> \<not> under_way pc"
  by (simp add: outside_def under_way_def)

definition written :: "byte list \<Rightarrow> (nat \<Rightarrow> byte list) \<Rightarrow> nat list \<Rightarrow> byte list" where
  "written out msg is = out @ concat (map msg is)"

text \<open>Nobody writes, or only \<open>i\<close> does.\<close>

definition quiet :: "byte list \<Rightarrow> (nat \<Rightarrow> byte list) \<Rightarrow> writers \<Rightarrow> bool" where
  "quiet out msg s \<longleftrightarrow>
     distinct (wr_order s) \<and> \<not> wr_err s \<and> (\<forall>m. \<not> wr_held s m) \<and>
     wr_n s = 0 \<and> wr_out s = written out msg (wr_order s) \<and>
     (\<forall>j. outside (msg j) (j \<in> set (wr_order s)) (wr_pc s j))"

definition writing :: "(nat \<Rightarrow> nat) \<Rightarrow> byte list \<Rightarrow> (nat \<Rightarrow> byte list) \<Rightarrow> nat \<Rightarrow> writers \<Rightarrow> bool" where
  "writing mutex out msg i s \<longleftrightarrow>
     distinct (wr_order s) \<and> \<not> wr_err s \<and> (\<forall>m. wr_held s m \<longrightarrow> m = mutex i) \<and>
     i \<notin> set (wr_order s) \<and> inside (written out msg (wr_order s) @ msg i) s (wr_pc s i) \<and>
     (\<forall>j. j \<noteq> i \<longrightarrow> outside (msg j) (j \<in> set (wr_order s)) (wr_pc s j))"

lemma written_snoc: "written out msg (is @ [i]) = written out msg is @ msg i"
  by (simp add: written_def)

lemma quiet_start: "quiet out msg (start_writes N out msg)"
  by (simp add: quiet_def start_writes_def written_def outside_def)

lemma quiet_not_under_way: "quiet out msg s \<Longrightarrow> \<not> under_way (wr_pc s j)"
  by (auto simp: quiet_def dest: outside_not_under_way)

lemma writing_not_under_way: "writing mutex out msg i s \<Longrightarrow> j \<noteq> i \<Longrightarrow> \<not> under_way (wr_pc s j)"
  by (auto simp: writing_def dest: outside_not_under_way)

lemma set_pc_simps [simp]:
  "wr_buf (set_pc i pc s) = wr_buf s" "wr_n (set_pc i pc s) = wr_n s" "wr_out (set_pc i pc s) = wr_out s"
  "wr_held (set_pc i pc s) = wr_held s" "wr_order (set_pc i pc s) = wr_order s" "wr_err (set_pc i pc s) = wr_err s"
  "wr_pc (set_pc i pc s) = (wr_pc s)(i := pc)"
  by (simp_all add: set_pc_def)

text \<open>A goroutine that writes alone goes on to write until it returns.\<close>

lemma inside_step:
  assumes "inside T s (wr_pc s i)" and "\<not> wr_err s" and "write_step mutex i s = Some s'"
  shows "\<not> wr_err s' \<and>
   (wr_pc s' i = Done \<and> wr_pc s i = Returning \<and> wr_n s' = 0 \<and> wr_out s' = T \<and>
      wr_held s' = (wr_held s)(mutex i := False) \<and> wr_order s' = wr_order s @ [i] \<or>
    inside T s' (wr_pc s' i) \<and> wr_held s' = wr_held s \<and> wr_order s' = wr_order s)"
proof (cases "wr_pc s i")
  case (Filling b)
  with assms show ?thesis
    by (auto simp: write_step_def Let_def split: if_splits)
next
  case (Copied b k again)
  with assms show ?thesis
    by (auto simp: write_step_def)
next
  case (Flushing b again)
  with assms show ?thesis
    by (cases again) (auto simp: write_step_def after_flush_def split: if_splits)
next
  case (Flushed b again k)
  with assms show ?thesis
    by (cases again) (auto simp: write_step_def after_flush_def)
next
  case Returning
  with assms show ?thesis
    by (auto simp: write_step_def)
qed (use assms in auto)

lemma write_step_other: "write_step mutex i s = Some s' \<Longrightarrow> j \<noteq> i \<Longrightarrow> wr_pc s' j = wr_pc s j"
  by (auto simp: write_step_def Let_def split: write_pc.splits if_splits)

lemma writing_step:
  assumes w: "writing mutex out msg i s" and s': "write_step mutex i s = Some s'"
  shows "quiet out msg s' \<and> wr_order s' = wr_order s @ [i] \<or>
    writing mutex out msg i s' \<and> wr_order s' = wr_order s"
proof -
  note w = w [unfolded writing_def]
  have others: "outside (msg j) (j \<in> set (wr_order s)) (wr_pc s' j)" if "j \<noteq> i" for j
    using w write_step_other [OF s' that] that by simp
  have "\<not> wr_err s' \<and>
   (wr_pc s' i = Done \<and> wr_pc s i = Returning \<and> wr_n s' = 0 \<and> wr_out s' = written out msg (wr_order s) @ msg i \<and>
      wr_held s' = (wr_held s)(mutex i := False) \<and> wr_order s' = wr_order s @ [i] \<or>
    inside (written out msg (wr_order s) @ msg i) s' (wr_pc s' i) \<and> wr_held s' = wr_held s \<and> wr_order s' = wr_order s)"
    by (rule inside_step [OF _ _ s']) (use w in simp_all)
  then show ?thesis
  proof (elim conjE disjE)
    assume "wr_pc s' i = Done" and *: "\<not> wr_err s'" "wr_n s' = 0" "wr_out s' = written out msg (wr_order s) @ msg i"
      "wr_held s' = (wr_held s)(mutex i := False)" "wr_order s' = wr_order s @ [i]"
    then have "outside (msg j) (j \<in> set (wr_order s')) (wr_pc s' j)" for j
      using others [of j] by (cases "j = i") (simp_all add: outside_def)
    with * w have "quiet out msg s'"
      by (auto simp: quiet_def written_snoc)
    with *(5) show ?thesis
      by blast
  next
    assume "\<not> wr_err s'" "inside (written out msg (wr_order s) @ msg i) s' (wr_pc s' i)" "wr_held s' = wr_held s"
      "wr_order s' = wr_order s"
    moreover from this w others have "writing mutex out msg i s'"
      by (simp add: writing_def)
    ultimately show ?thesis
      by blast
  qed
qed

lemma quiet_step:
  assumes "quiet out msg s" and "write_step mutex i s = Some s'"
  shows "writing mutex out msg i s' \<and> wr_order s' = wr_order s"
proof -
  from assms(1) have i: "wr_pc s i = (if i \<in> set (wr_order s) then Done else Waiting (msg i))" and "\<not> wr_held s (mutex i)"
    by (simp_all add: quiet_def outside_def)
  with assms(2) have "i \<notin> set (wr_order s)"
    and "s' = set_pc i (Filling (msg i)) (s\<lparr>wr_held := (wr_held s)(mutex i := True)\<rparr>)"
    by (simp_all add: write_step_def split: if_splits)
  with assms(1) show ?thesis
    by (simp add: quiet_def writing_def)
qed

lemma in_turn_quiet_or_writing:
  "writes_in_turn mutex (start_writes N out msg) s \<Longrightarrow> quiet out msg s \<or> (\<exists>i. writing mutex out msg i s)"
proof (induction rule: writes_in_turn.induct)
  case start_in_turn
  then show ?case
    by (simp add: quiet_start)
next
  case (step_in_turn s i s')
  from step_in_turn.IH show ?case
  proof
    assume "quiet out msg s"
    with step_in_turn.hyps(3) show ?thesis
      by (blast dest: quiet_step)
  next
    assume "\<exists>k. writing mutex out msg k s"
    then obtain k where k: "writing mutex out msg k s" ..
    then have "under_way (wr_pc s k)"
      by (auto simp: writing_def dest: inside_under_way)
    with step_in_turn.hyps(2) have "k = i"
      by blast
    from writing_step [OF k [unfolded \<open>k = i\<close>] step_in_turn.hyps(3)] show ?thesis
      by (elim disjE conjE) (blast intro: exI)+
  qed
qed


text \<open>How many steps a goroutine that writes has left, at most.\<close>

fun steps_left :: "nat \<Rightarrow> write_pc \<Rightarrow> nat" where
  "steps_left n (Filling b) = 20 * (2 * length b + (if n = 0 then 0 else 1)) + (if n = 0 then 5 else 9)"
| "steps_left n (Copied b k again) =
     20 * (2 * length b + (if n + k = 0 then 0 else 1)) + (if again then 8 else 3)"
| "steps_left n (Flushing b again) = 20 * (2 * length b + (if n = 0 then 0 else 1)) + (if again then 7 else 2)"
| "steps_left n (Flushed b again k) = 20 * (2 * length b) + (if again then 6 else 1)"
| "steps_left n _ = 0"

lemma inside_enabled: "inside T s (wr_pc s i) \<Longrightarrow> write_step mutex i s \<noteq> None"
  by (cases "wr_pc s i") (simp_all add: write_step_def)

lemma inside_steps_left:
  assumes "inside T s (wr_pc s i)" and "\<not> wr_err s" and "write_step mutex i s = Some s'"
  shows "wr_pc s' i = Done \<or> steps_left (wr_n s') (wr_pc s' i) < steps_left (wr_n s) (wr_pc s i)"
proof (cases "wr_pc s i")
  case (Filling b)
  with assms show ?thesis
    by (cases b) (auto simp: write_step_def Let_def split: if_splits)
next
  case (Copied b k again)
  with assms show ?thesis
    by (cases again) (auto simp: write_step_def)
next
  case (Flushing b again)
  with assms show ?thesis
    by (cases again) (auto simp: write_step_def after_flush_def split: if_splits)
next
  case (Flushed b again k)
  with assms show ?thesis
    by (cases again) (auto simp: write_step_def after_flush_def)
next
  case Returning
  with assms show ?thesis
    by (auto simp: write_step_def)
qed (use assms in auto)

lemma writing_returns:
  assumes "writing mutex out msg i s"
  obtains s' where "writes_in_turn mutex s s'" "quiet out msg s'" "wr_order s' = wr_order s @ [i]"
proof -
  have "\<exists>s'. writes_in_turn mutex s s' \<and> quiet out msg s' \<and> wr_order s' = wr_order s @ [i]"
    using assms
  proof (induction "steps_left (wr_n s) (wr_pc s i)" arbitrary: s rule: less_induct)
    case less
    from less.prems have inside: "inside (written out msg (wr_order s) @ msg i) s (wr_pc s i)" "\<not> wr_err s"
      by (simp_all add: writing_def)
    from inside_enabled [OF inside(1), of mutex] obtain s1 where s1: "write_step mutex i s = Some s1"
      by auto
    have one: "writes_in_turn mutex s s1"
      using writing_not_under_way [OF less.prems] s1
      by (blast intro: writes_in_turn.intros)
    from writing_step [OF less.prems s1] show ?case
    proof (elim disjE conjE)
      assume "quiet out msg s1" "wr_order s1 = wr_order s @ [i]"
      with one show ?thesis
        by blast
    next
      assume *: "writing mutex out msg i s1" "wr_order s1 = wr_order s"
      then have "wr_pc s1 i \<noteq> Done"
        by (auto simp: writing_def)
      with inside_steps_left [OF inside s1]
      have "steps_left (wr_n s1) (wr_pc s1 i) < steps_left (wr_n s) (wr_pc s i)"
        by blast
      from less.hyps [OF this *(1)] *(2) one show ?thesis
        by (auto intro: writes_in_turn_trans)
    qed
  qed
  then show thesis
    using that by blast
qed

lemma quiet_returns:
  assumes "quiet out msg s" and "i \<notin> set (wr_order s)"
  obtains s' where "writes_in_turn mutex s s'" "quiet out msg s'" "wr_order s' = wr_order s @ [i]"
proof -
  from assms have "write_step mutex i s \<noteq> None"
    by (simp add: quiet_def outside_def write_step_def)
  then obtain s1 where s1: "write_step mutex i s = Some s1"
    by blast
  have one: "writes_in_turn mutex s s1"
    using quiet_not_under_way [OF assms(1)] s1 by (blast intro: writes_in_turn.intros)
  from assms(1) s1 have "writing mutex out msg i s1 \<and> wr_order s1 = wr_order s"
    by (rule quiet_step)
  then obtain s2 where "writes_in_turn mutex s1 s2" "quiet out msg s2" "wr_order s2 = wr_order s @ [i]"
    using writing_returns by metis
  with one show thesis
    by (intro that [of s2]) (auto intro: writes_in_turn_trans)
qed




lemma in_turn_out:
  assumes "writes_in_turn mutex (start_writes N out msg) s" and "\<And>j. \<not> under_way (wr_pc s j)"
  shows "wr_out s = written out msg (wr_order s)"
  using in_turn_quiet_or_writing [OF assms(1)] assms(2)
  by (auto simp: quiet_def writing_def dest: inside_under_way)

text \<open>
  The messages of a list, written in their order by one goroutine, which returned from the last.
\<close>

definition written_in_order :: "nat \<Rightarrow> byte list list \<Rightarrow> writers \<Rightarrow> bool" where
  "written_in_order N msgs s \<longleftrightarrow>
     writes_in_turn response_mutex (start_writes N [] (\<lambda>i. msgs ! i)) s \<and>
     wr_order s = [0..<length msgs] \<and> (\<forall>j. \<not> under_way (wr_pc s j))"

lemma written_in_order_out: "written_in_order N msgs s \<Longrightarrow> wr_out s = concat msgs"
  using in_turn_out [of response_mutex N "[]" "\<lambda>i. msgs ! i" s]
  by (simp add: written_in_order_def written_def map_nth)

lemma written_in_order_possible: "\<exists>s. written_in_order N msgs s"
proof -
  have "\<exists>s. writes_in_turn response_mutex (start_writes N [] (\<lambda>i. msgs ! i)) s \<and> quiet [] (\<lambda>i. msgs ! i) s \<and> wr_order s = [0..<n]" for n
  proof (induction n)
    case 0
    have "wr_order (start_writes N [] (\<lambda>i. msgs ! i)) = []"
      by (simp add: start_writes_def)
    with quiet_start [of "[]" "\<lambda>i. msgs ! i" N] writes_in_turn.start_in_turn show ?case
      by auto
  next
    case (Suc n)
    then obtain s where s: "writes_in_turn response_mutex (start_writes N [] (\<lambda>i. msgs ! i)) s"
      "quiet [] (\<lambda>i. msgs ! i) s" "wr_order s = [0..<n]"
      by blast
    from s(2) obtain s' where "writes_in_turn response_mutex s s'" "quiet [] (\<lambda>i. msgs ! i) s'" "wr_order s' = wr_order s @ [n]"
      by (rule quiet_returns [of _ _ _ n response_mutex]) (simp_all add: s(3))
    with s(1,3) show ?case
      by (auto intro: writes_in_turn_trans)
  qed
  from this [of "length msgs"] show ?thesis
    by (auto simp: written_in_order_def dest: quiet_not_under_way)
qed


section \<open>Synchronous publishing\<close>

text \<open>A handler that publishes nothing asynchronously leaves no callback to another goroutine.\<close>

lemma pending_packet_Write [simp]: "pending (snd (packet_Write res w)) = pending w"
  by (auto simp: packet_Write_def split: prod.split option.split)

lemma pending_respond [simp]: "pending (respond res w) = pending w"
  using pending_packet_Write [of res w]
  by (cases "packet_Write res w") (simp add: respond_def split: option.split)

lemma pending_run_callback [simp]: "pending (run_callback cb r resp w) = pending w"
  by (auto simp: run_callback_def Let_def split: publish_callback.split sum.split)

lemma pending_doPublish: "\<not> isPublishAsync h (req_Qos r) \<Longrightarrow> pending (snd (doPublish h ctx r cb w)) = pending w"
  by (auto simp: doPublish_def Let_def split: prod.split sync_result.split)

lemma pending_disconnectUnauthenticated [simp]: "pending (snd (disconnectUnauthenticated h nm w)) = pending w"
  by (simp add: disconnectUnauthenticated_def)

lemma pending_handlePublish:
  assumes "\<And>q. \<not> isPublishAsync h q"
  shows "pending (handlePublish h packet w) = pending w"
proof -
  have published: "pending (case doPublish h ctx r cb w of (None, w) \<Rightarrow> w | (Some _, w) \<Rightarrow> if b then w else conn_Close w) =
      pending w" for ctx r cb b w
    using pending_doPublish [where h = h and r = r and ctx = ctx and cb = cb and w = w, OF assms] by (auto split: prod.splits option.split)
  have checked: "pending w' = pending w" if "disconnectUnauthenticated h nm w = (b, w')" for nm b w'
    using pending_disconnectUnauthenticated [of h nm w] that by simp
  show ?thesis
    by (auto simp: handlePublish_def published dest: checked split: sum.split prod.split bool.split option.split)
qed

lemma pending_run_handler:
  assumes "\<And>q. \<not> isPublishAsync h q"
  shows "pending (run_handler h hid packet w) = pending w"
proof -
  have checked: "pending w' = pending w" if "disconnectUnauthenticated h nm w = (b, w')" for nm b w'
    using pending_disconnectUnauthenticated [of h nm w] that by simp
  show ?thesis
    by (cases hid)
      (auto simp: pending_handlePublish [OF assms] handleConnect_def handlePublishRelease_def handlePing_def
        handleDisconnect_def Let_def dest: checked split: sum.split prod.split bool.split option.split)
qed

lemma pending_ServeMQTT: "(\<And>q. \<not> isPublishAsync h q) \<Longrightarrow> pending (ServeMQTT h req w) = pending w"
  by (auto simp: ServeMQTT_def mux_ServeMQTT_def pending_run_handler split: option.split)

lemma nothing_pending:
  assumes "reachable h (init_state idle input ps) s" and "\<And>q. \<not> isPublishAsync h q"
  shows "pending (world s) = []"
  using assms(1)
proof (induction rule: reachable.induct)
  case start
  then show ?case
    by (simp add: init_state_def)
next
  case (more s a s')
  then show ?case
    by (cases a) (auto simp: pending_ServeMQTT [OF assms(2)] Let_def split: if_splits sum.splits phase.splits)
qed

section \<open>A mutex for each request\<close>

text \<open>A schedule: who makes the next step.\<close>

fun take_turns :: "(nat \<Rightarrow> nat) \<Rightarrow> nat list \<Rightarrow> writers \<Rightarrow> writers option" where
  "take_turns mutex [] s = Some s"
| "take_turns mutex (i # is) s = (case write_step mutex i s of None \<Rightarrow> None | Some s \<Rightarrow> take_turns mutex is s)"

lemma writes_trans: "writes mutex s1 s2 \<Longrightarrow> writes mutex s0 s1 \<Longrightarrow> writes mutex s0 s2"
  by (induction rule: writes.induct) (auto intro: writes.turn)

lemma take_turns_writes: "take_turns mutex is s = Some s' \<Longrightarrow> writes mutex s s'"
proof (induction "is" arbitrary: s)
  case Nil
  then show ?case
    by (simp add: writes.start)
next
  case (Cons i "is")
  then obtain s1 where s1: "write_step mutex i s = Some s1" "take_turns mutex is s1 = Some s'"
    by (auto split: option.splits)
  show ?case
    using Cons.IH [OF s1(2)] writes.turn [OF writes.start s1(1)] by (rule writes_trans)
qed

text \<open>
  Two goroutines copy their messages to the same place of the buffer, each counts its bytes, and the first
  flushes: the peer gets the second message, and after it what was in the buffer before.
\<close>

lemma lost_update:
  assumes "length p = l" "length q = l" "0 < l" "2 * l \<le> N"
  obtains s where "writes response_mutex (start_writes N out (\<lambda>i. if i = 0 then p else q)) s"
    "wr_pc s 0 = Done" "wr_pc s 1 = Done" "wr_out s = out @ q @ replicate l 0"
proof -
  obtain s where s: "take_turns response_mutex [0, 1, 0, 1, 0, 1, 0, 0, 0, 1, 1]
      (start_writes N out (\<lambda>i. if i = 0 then p else q)) = Some s"
    "wr_pc s 0 = Done" "wr_pc s 1 = Done" "wr_out s = out @ q @ replicate l 0"
    using assms
    by (simp add: write_step_def response_mutex_def start_writes_def set_pc_def after_flush_def min_def Let_def)
  from that [OF take_turns_writes [OF s(1)] s(2-4)] show thesis .
qed

lemma getPublishAck311:
  "getPublishAck (P311 (Publish311 p)) m =
     Inr (P311 (Puback311 ((new_Puback311 (zero_header PUBACK))\<lparr>Puback_MessageID311 := m\<rparr>)))"
  by (simp add: getPublishAck_def)

lemma length_Puback311:
  "length (snd (Write (P311 (Puback311 ((new_Puback311 (zero_header PUBACK))\<lparr>Puback_MessageID311 := m\<rparr>))))) = 4"
proof -
  have "int (length (body_Puback311 ((new_Puback311 (zero_header PUBACK))\<lparr>Puback_MessageID311 := m\<rparr>))) = 2"
    by (simp add: body_Puback311_def EncodeUint16_def)
  moreover have "length (fst (WriteUvarint [] (word_of_int 2))) = 1"
    by code_simp
  ultimately show ?thesis
    by (simp add: Write_Puback311_def Pack_eq Let_def body_Puback311_def EncodeUint16_def)
qed

lemma zeros_no_packet: "isl (ReadVersionPacket MQTT_3_1_1 (Reader [0, 0, 0, 0] EOF))"
  by code_simp

text \<open>C33: With a mutex for each response, as in the code, two acknowledgements that are written at the same time can
  get lost: both writes return without an error, but the peer reads the second PUBACK only, and after it
  bytes that are no packet, so that a client closes the connection, without the acknowledgement of the
  message that was published.\<close>

theorem concurrent_acks_corrupt:
  assumes "getPublishAck (P311 (Publish311 p)) m = Inr a" "getPublishAck (P311 (Publish311 p')) m' = Inr a'"
    and "8 \<le> N"
  shows "\<exists>s. writes response_mutex (start_writes N [] (\<lambda>i. if i = 0 then snd (Write a) else snd (Write a'))) s \<and>
    wr_pc s 0 = Done \<and> wr_pc s 1 = Done \<and>
    ReadVersionPacket MQTT_3_1_1 (Reader (wr_out s) EOF) = Inr (fst (Write a'), Reader [0, 0, 0, 0] EOF) \<and>
    isl (ReadVersionPacket MQTT_3_1_1 (Reader [0, 0, 0, 0] EOF))"
proof -
  note acks = assms(1,2) [unfolded getPublishAck311, symmetric]
  let ?msg = "\<lambda>i. if i = (0 :: nat) then snd (Write a) else snd (Write a')"
  have "length (snd (Write a)) = 4" "length (snd (Write a')) = 4"
    using acks length_Puback311 by simp_all
  then obtain s where s: "writes response_mutex (start_writes N [] ?msg) s" "wr_pc s 0 = Done" "wr_pc s 1 = Done"
    "wr_out s = [] @ snd (Write a') @ replicate 4 0"
    by (rule lost_update [where out = "[]" and N = N]) (use assms(3) in simp_all)
  have "is_response (P311 (Publish311 p')) (RPuback m') a'"
    by (rule getPublishAck_response [of "P311 (Publish311 p')" m']) (use assms(2) in auto)
  then have "ok_packet a'" "Version a' = MQTT_3_1_1"
    by (auto simp: is_response_def Version311_def)
  with ReadVersionPacket_Write [of a' "[0, 0, 0, 0]" EOF] s(4)
  have "ReadVersionPacket MQTT_3_1_1 (Reader (wr_out s) EOF) = Inr (fst (Write a'), Reader [0, 0, 0, 0] EOF)"
    by (simp add: numeral_eq_Suc)
  with s(1-3) zeros_no_packet show ?thesis
    by blast
qed











text \<open>Two acknowledgements.\<close>

definition demo_ack :: "u16 \<Rightarrow> ControlPacket" where
  "demo_ack m = P311 (Puback311 ((new_Puback311 (zero_header PUBACK))\<lparr>Puback_MessageID311 := m\<rparr>))"

theorem concurrent_acks_corrupt_witness:
  "\<exists>s. writes response_mutex
      (start_writes 1024 [] (\<lambda>i. if i = 0 then snd (Write (demo_ack 7)) else snd (Write (demo_ack 9)))) s \<and>
    wr_pc s 0 = Done \<and> wr_pc s 1 = Done \<and>
    ReadVersionPacket MQTT_3_1_1 (Reader (wr_out s) EOF) = Inr (fst (Write (demo_ack 9)), Reader [0, 0, 0, 0] EOF)"
  using concurrent_acks_corrupt [OF getPublishAck311 getPublishAck311, where N = 1024 and m = 7 and m' = 9]
  unfolding demo_ack_def by auto

end
