(* ===== verification/Fifo.thy ===== *)
theory Fifo
  imports Handler_Properties Sqs
begin

text \<open>
  FIFO queues: what becomes of a PUBLISH packet that the SQS publisher sends to a FIFO queue under a
  deduplication identifier that the queue has seen within its interval.
\<close>

section \<open>What SQS promises of a FIFO queue\<close>

text \<open>
  \<open>stored\<close> is the messages that were stored, each with the time in seconds it was stored at, and \<open>clock\<close> the time.
  A message that is accepted is stored unless one with its deduplication identifier was stored for its queue
  in the deduplication interval, the last five minutes.
\<close>

definition fifo_interval :: int where
  "fifo_interval = 300"

definition fifo_duplicate :: "int \<Rightarrow> SendMessageInput \<Rightarrow> int \<times> SendMessageInput \<Rightarrow> bool" where
  "fifo_duplicate now input m =
     (smi_QueueUrl (snd m) = smi_QueueUrl input \<and>
      smi_MessageDeduplicationId (snd m) = smi_MessageDeduplicationId input \<and> now < fst m + fifo_interval)"

definition fifo_law :: "'b sqs_client \<Rightarrow> ('b \<Rightarrow> (int \<times> SendMessageInput) list) \<Rightarrow> ('b \<Rightarrow> int) \<Rightarrow> bool" where
  "fifo_law client stored clock \<longleftrightarrow>
     (\<forall>ctx input b messageId b'.
        smi_MessageDeduplicationId input \<noteq> None \<longrightarrow> sqs_SendMessage client ctx input b = (Inr messageId, b') \<longrightarrow>
        stored b' =
          (if list_ex (fifo_duplicate (clock b) input) (stored b) then stored b else stored b @ [(clock b, input)]))"

lemma fifo_law_stored:
  assumes "fifo_law client stored clock" and "sqs_SendMessage client ctx input b = (Inr messageId, b')"
    and "smi_MessageDeduplicationId input \<noteq> None" and "m \<in> set (stored b)" and "fifo_duplicate (clock b) input m"
  shows "stored b' = stored b"
proof -
  have "list_ex (fifo_duplicate (clock b) input) (stored b)"
    using assms(4,5) by (auto simp: list_ex_iff)
  with assms(1-3) show ?thesis
    by (simp add: fifo_law_def)
qed

lemma sqs_input_dedup:
  "has_suffix url ''.fifo'' \<Longrightarrow>
   smi_MessageDeduplicationId (sqs_input o' r body url) = Some (decimal (unat (req_MessageID r)))"
  by (simp add: sqs_input_def Let_def)

lemma same_id_duplicate:
  assumes "has_suffix url ''.fifo''" and "req_MessageID r0 = req_MessageID r" and "now < t + fifo_interval"
  shows "fifo_duplicate now (sqs_input o' r body url) (t, sqs_input o' r0 body0 url)"
  using assms by (simp add: fifo_duplicate_def sqs_input_dedup)

section \<open>A publish to a queue whose URL is known\<close>

lemma sqs_sendMessage_known:
  assumes "sqs_findQueueName o' (req_TopicName r) = Inr queue" and "sqs_queueUrls p queue = Some (Some url)"
    and "GetMessageBody (sqs_messageFormat o') r = Inr body"
    and "sqs_SendMessage client ctx (sqs_input o' r body url) (sqs_broker p) = (Inr messageId, b)"
  shows "sqs_sendMessage client o' ctx (Some r) p =
    (SqsResponse \<lparr>resp_ID = StrID (case messageId of None \<Rightarrow> [] | Some i \<Rightarrow> i), resp_Error = None\<rparr>,
     p\<lparr>sqs_broker := b, sqs_sent := sqs_sent p @ [sqs_input o' r body url]\<rparr>)"
  using assms by (simp add: sqs_sendMessage_def getGetQueueURL_def Let_def)

text \<open>What the handler does with a QoS 1 packet that its publisher takes at once, one way or the other.\<close>

lemma published_at_once:
  assumes "getPublishRequest w packet = Inr r" and "req_Qos r = AT_LEAST_ONCE"
    and "authenticated (props (w_conn w)) \<or> Name packet \<in> set (allowUnauthenticated (opts h))"
    and "pub_Publish (h_publisher h) (publish_context h) r (w_pub w) = (SyncOk response, s)"
    and "pub_PublishAsync (h_publisher h) (publish_context h) r (w_pub w) = (AsyncCalled response, s)"
    and "resp_Error response = None" and "getPublishAck packet (req_MessageID r) = Inr ack"
  shows "handlePublish h packet w =
    respond ack (note_event (Confirmed r) ((note_event (PublishCalled r) w)\<lparr>w_pub := s\<rparr>))"
proof -
  have q: "AT_LEAST_ONCE \<noteq> AT_MOST_ONCE"
    by (simp add: AT_LEAST_ONCE_def AT_MOST_ONCE_def)
  have checked: "disconnectUnauthenticated h (Name packet) w = (False, w)"
    using assms(3) by (auto simp: disconnectUnauthenticated_def)
  have "doPublish h (publish_context h) r (PubackCallback packet) w =
      (None, respond ack (note_event (Confirmed r) ((note_event (PublishCalled r) w)\<lparr>w_pub := s\<rparr>)))"
    using assms(4-7) by (simp add: doPublish_def run_callback_def Let_def)
  then show ?thesis
    using assms(1,2) q checked by (simp add: handlePublish_def)
qed

lemma response_Write_unbounded:
  assumes "rwc_open c" and "rwc_budget c = None" and "bufw_err c = None"
  shows "response_Write b c = (None, c\<lparr>rwc_out := rwc_out c @ b\<rparr>)"
  using assms by (simp add: response_Write_def rwc_Write_def)

section \<open>The message that is lost\<close>

text \<open>C38: A QoS 1 PUBLISH packet that a client may publish, for a topic that is mapped to a FIFO queue, is acknowledged and
  not stored when a message with its packet identifier was stored for that queue in the last five minutes,
  whatever the client, the topic and the payload of that message: \<open>SendMessage\<close> accepts the message, the handler
  sends the PUBACK on the open connection, in synchronous and asynchronous publishing, and what the queue has
  stored is what it had stored before. The deduplication identifier is the packet identifier alone, which clients
  choose independently and reuse.\<close>

theorem fifo_queue_loses_messages:
  assumes "fifo_law client stored clock" and "h_publisher h = sqs_publisher client o'"
    and "getPublishRequest w packet = Inr r" and "req_Qos r = AT_LEAST_ONCE"
    and "authenticated (props (w_conn w)) \<or> Name packet \<in> set (allowUnauthenticated (opts h))"
    and "sqs_findQueueName o' (req_TopicName r) = Inr queue"
    and "sqs_queueUrls (w_pub w) queue = Some (Some url)" and "has_suffix url ''.fifo''"
    and "(t, sqs_input o' r0 body0 url) \<in> set (stored (sqs_broker (w_pub w)))"
    and "req_MessageID r0 = req_MessageID r" and "clock (sqs_broker (w_pub w)) < t + fifo_interval"
    and "GetMessageBody (sqs_messageFormat o') r = Inr body"
    and "sqs_SendMessage client (publish_context h) (sqs_input o' r body url) (sqs_broker (w_pub w)) = (Inr messageId, b)"
    and "rwc_open (w_conn w)" and "rwc_budget (w_conn w) = None" and "bufw_err (w_conn w) = None"
  shows "let w' = handlePublish h packet w in
    stored (sqs_broker (w_pub w')) = stored (sqs_broker (w_pub w)) \<and>
    rwc_open (w_conn w') \<and>
    (\<exists>ack. getPublishAck packet (req_MessageID r) = Inr ack \<and> sents (trace w') = sents (trace w) @ [ack] \<and>
       rwc_out (w_conn w') = rwc_out (w_conn w) @ snd (Write ack))"
proof -
  let ?input = "sqs_input o' r body url"
  let ?response = "\<lparr>resp_ID = StrID (case messageId of None \<Rightarrow> [] | Some i \<Rightarrow> i), resp_Error = None\<rparr>"
  let ?p = "(w_pub w)\<lparr>sqs_broker := b, sqs_sent := sqs_sent (w_pub w) @ [?input]\<rparr>"
  have "is_publish packet"
    using assms(3) by (rule getPublishRequest_Inr)
  then obtain ack where ack: "getPublishAck packet (req_MessageID r) = Inr ack"
    by (rule getPublishAck_response) (rule that)
  note sent = sqs_sendMessage_known [OF assms(6,7,12,13)]
  have "handlePublish h packet w = respond ack (note_event (Confirmed r) ((note_event (PublishCalled r) w)\<lparr>w_pub := ?p\<rparr>))"
    by (rule published_at_once [where response = ?response, OF assms(3-5) _ _ _ ack])
      (simp_all add: assms(2) sqs_publisher_def sqs_Publish_def sqs_PublishAsync_def sent)
  moreover have "stored b = stored (sqs_broker (w_pub w))"
    using assms(1,13) _ assms(9) same_id_duplicate [OF assms(8,10,11)]
    by (rule fifo_law_stored) (simp add: sqs_input_dedup [OF assms(8)])
  ultimately show ?thesis
    using ack by (simp add: Let_def respond_def packet_Write_def response_Write_unbounded assms(14-16))
qed

text \<open>
  A client of one queue, whose state is the time and what is stored, and a state of the handler 100 seconds after
  another client published another payload under the packet identifier 7.
\<close>

type_synonym demo_queue = "int \<times> (int \<times> SendMessageInput) list"

definition demo_fifo :: "demo_queue sqs_client" where
  "demo_fifo =
     \<lparr>sqs_GetQueueUrl = (\<lambda>_ name b. (Inr (Some (name @ ''.fifo'')), b)),
      sqs_SendMessage = (\<lambda>_ input (now, ms).
        (Inr None, now, if list_ex (fifo_duplicate now input) ms then ms else ms @ [(now, input)]))\<rparr>"

definition demo_fifo_options :: sqs_options where
  "demo_fifo_options =
     \<lparr>sqs_region = [], sqs_profile = [], sqs_defaultQueue = ''q'', sqs_queueMappings = [], sqs_messageFormat = ''plain''\<rparr>"

definition demo_fifo_request :: PublishRequest where
  "demo_fifo_request = \<lparr>req_Dup = False, req_Qos = 1, req_Retain = False, req_TopicName = ''other'', req_MessageID = 7,
     req_Message = [1, 2], req_ClientID = ''other''\<rparr>"

definition demo_fifo_world :: "demo_queue sqs_state world" where
  "demo_fifo_world =
     update_props (SetAuthenticated True)
       (world (init_state 0 (Reader [] EOF)
         \<lparr>sqs_broker = (100, [(0, sqs_input demo_fifo_options demo_fifo_request [1, 2] ''q.fifo'')]),
          sqs_queueUrls = [''q'' \<mapsto> Some ''q.fifo''], sqs_done = NewDoneChannel, sqs_sent = []\<rparr>))"

lemma demo_fifo_law: "fifo_law demo_fifo snd fst"
  by (simp add: fifo_law_def demo_fifo_def split_beta)

theorem fifo_queue_loses_messages_witness:
  "let w' = handlePublish (New (sqs_publisher demo_fifo demo_fifo_options) []) (demo_publish 1) demo_fifo_world in
    snd (sqs_broker (w_pub w')) = snd (sqs_broker (w_pub demo_fifo_world)) \<and> rwc_open (w_conn w') \<and>
    (\<exists>ack. getPublishAck (demo_publish 1) 7 = Inr ack \<and> sents (trace w') = sents (trace demo_fifo_world) @ [ack] \<and>
       rwc_out (w_conn w') = rwc_out (w_conn demo_fifo_world) @ snd (Write ack))"
proof -
  let ?h = "New (sqs_publisher demo_fifo demo_fifo_options) []"
  let ?r = "\<lparr>req_Dup = False, req_Qos = 1, req_Retain = False, req_TopicName = ''t'', req_MessageID = 7,
      req_Message = [], req_ClientID = clientIdentifier (props (w_conn demo_fifo_world))\<rparr>"
  let ?b = "(100, [(0, sqs_input demo_fifo_options demo_fifo_request [1, 2] ''q.fifo'')])"
  have pub: "h_publisher ?h = sqs_publisher demo_fifo demo_fifo_options"
    by (simp add: New_def Let_def)
  have qos: "req_Qos ?r = AT_LEAST_ONCE"
    by (simp add: AT_LEAST_ONCE_def)
  have in_: "authenticated (props (w_conn demo_fifo_world)) \<or> Name (demo_publish 1) \<in> set (allowUnauthenticated (opts ?h))"
    by (simp add: demo_fifo_world_def)
  have queue: "sqs_findQueueName demo_fifo_options (req_TopicName ?r) = Inr ''q''"
    by (simp add: sqs_findQueueName_def demo_fifo_options_def)
  have state: "w_pub demo_fifo_world =
      \<lparr>sqs_broker = ?b, sqs_queueUrls = [''q'' \<mapsto> Some ''q.fifo''], sqs_done = NewDoneChannel, sqs_sent = []\<rparr>"
    by (simp add: demo_fifo_world_def update_props_def init_state_def Let_def)
  have url: "sqs_queueUrls (w_pub demo_fifo_world) ''q'' = Some (Some ''q.fifo'')"
    by (simp add: state)
  have fifo: "has_suffix ''q.fifo'' ''.fifo''"
    by (simp add: has_suffix_def)
  have stored: "(0, sqs_input demo_fifo_options demo_fifo_request [1, 2] ''q.fifo'') \<in> set (snd (sqs_broker (w_pub demo_fifo_world)))"
    by (simp add: state)
  have same: "req_MessageID demo_fifo_request = req_MessageID ?r"
    by (simp add: demo_fifo_request_def)
  have now: "fst (sqs_broker (w_pub demo_fifo_world)) < 0 + fifo_interval"
    by (simp add: state fifo_interval_def)
  have body: "GetMessageBody (sqs_messageFormat demo_fifo_options) ?r = Inr []"
    by (simp add: GetMessageBody_def demo_fifo_options_def MessageFormatPlain_def)
  have "list_ex (fifo_duplicate 100 (sqs_input demo_fifo_options ?r [] ''q.fifo'')) (snd ?b)"
    using same_id_duplicate [OF fifo same, of 100 0] by (simp add: fifo_interval_def)
  then have send: "sqs_SendMessage demo_fifo (publish_context ?h) (sqs_input demo_fifo_options ?r [] ''q.fifo'')
      (sqs_broker (w_pub demo_fifo_world)) = (Inr None, ?b)"
    by (simp add: demo_fifo_def state)
  have open_: "rwc_open (w_conn demo_fifo_world)" "rwc_budget (w_conn demo_fifo_world) = None"
    "bufw_err (w_conn demo_fifo_world) = None"
    by (simp_all add: demo_fifo_world_def update_props_def init_state_def Let_def)
  from fifo_queue_loses_messages [OF demo_fifo_law pub demo_publish_request qos in_ queue url fifo stored same now body send open_]
  show ?thesis
    by simp
qed

end
