(* ===== verification/Strings.thy ===== *)
theory Strings
  imports Codec Util
begin

text \<open>
  How packets are printed (the \<open>String\<close> methods of pkg/mqtt/codec), over the verbs of package fmt. A password is
  never printed. \<open>FixedHeader.String\<close> has a pointer receiver, while the packets pass the header by value, for which
  fmt does not find the method: it prints the fields of the header between braces.
\<close>

section \<open>Verbs\<close>

definition show_int :: "int \<Rightarrow> string" where
  "show_int i = (if i < 0 then ''-'' @ decimal (nat (- i)) else decimal (nat i))"

text \<open>Slices are printed with spaces between their elements.\<close>

fun spaced :: "string list \<Rightarrow> string" where
  "spaced [] = []"
| "spaced [x] = x"
| "spaced (x # y # xs) = x @ '' '' @ spaced (y # xs)"

definition show_bytes :: "byte list \<Rightarrow> string" where
  "show_bytes b = ''['' @ spaced (map (\<lambda>x. decimal (unat x)) b) @ '']''"

definition show_strings :: "string list \<Rightarrow> string" where
  "show_strings xs = ''['' @ spaced xs @ '']''"

text \<open>
  The method of \<open>TopicSubscription\<close>, and a slice of them with \<open>%+v\<close>: the elements are values, for which the method
  is not found either, and are printed with the names of their fields.
\<close>

definition String_TopicSubscription :: "TopicSubscription \<Rightarrow> string" where
  "String_TopicSubscription ts = ''TopicFilter: '' @ TopicFilter ts @ '' Qos: '' @ decimal (unat (TopicQos ts))"

definition show_subscriptions :: "TopicSubscription list \<Rightarrow> string" where
  "show_subscriptions tss =
     ''['' @ spaced (map (\<lambda>ts. ''{TopicFilter:'' @ TopicFilter ts @ '' Qos:'' @ decimal (unat (TopicQos ts)) @ ''}'') tss) @ '']''"

section \<open>Headers\<close>

definition FAILURE :: byte where
  "FAILURE = 0x80"

definition MqttQoSNames :: "(byte \<times> string) list" where
  "MqttQoSNames =
     [(AT_MOST_ONCE, ''AT_MOST_ONCE''), (AT_LEAST_ONCE, ''AT_LEAST_ONCE''), (EXACTLY_ONCE, ''EXACTLY_ONCE''),
      (FAILURE, ''FAILURE'')]"

definition name_of :: "(byte \<times> string) list \<Rightarrow> byte \<Rightarrow> string" where
  "name_of names b = (case map_of names b of None \<Rightarrow> [] | Some n \<Rightarrow> n)"

definition FixedHeader_String :: "'a FixedHeader_scheme \<Rightarrow> string" where
  "FixedHeader_String fh =
     name_of MqttMessageTypeNames (MessageType fh) @ '': Dup: '' @ FormatBool (Dup fh) @ '' QoS: '' @
     name_of MqttQoSNames (Qos fh) @ '' Retain: '' @ FormatBool (Retain fh) @ '' rLength: '' @
     show_int (RemainingLength fh)"

definition show_header :: "'a FixedHeader_scheme \<Rightarrow> string" where
  "show_header fh =
     ''{'' @ decimal (unat (MessageType fh)) @ '' '' @ FormatBool (Dup fh) @ '' '' @ decimal (unat (Qos fh)) @ '' '' @
     FormatBool (Retain fh) @ '' '' @ show_int (RemainingLength fh) @ ''}''"

section \<open>Packets of MQTT 3.1.1\<close>

definition String_Connect311 :: "ConnectPacket311 \<Rightarrow> string" where
  "String_Connect311 p =
     show_header p @ '' ProtocolName: '' @ ProtocolName311 p @ '' ProtocolLevel: '' @
     decimal (unat (ProtocolLevel311 p)) @ ''  CleanSession: '' @ FormatBool (CleanSession311 p) @
     '' WillFlag: '' @ FormatBool (WillFlag311 p) @ '' WillQos: '' @ decimal (unat (WillQos311 p)) @
     '' WillRetain: '' @ FormatBool (WillRetain311 p) @ '' HasUsername: '' @ FormatBool (HasUsername311 p) @
     '' HasPassword: '' @ FormatBool (HasPassword311 p) @ '' KeepAliveSeconds: '' @
     decimal (unat (KeepAliveSeconds311 p)) @ '' ClientID: '' @ ClientIdentifier311 p @ '' WillTopic: '' @
     WillTopic311 p @ '' Willmessage: '' @ string_of_bytes (WillMessage311 p) @ '' Username: '' @
     Username311 p"

definition String_Connack311 :: "ConnackPacket311 \<Rightarrow> string" where
  "String_Connack311 p =
     show_header p @ '' SessionPresent: '' @ FormatBool (SessionPresent311 p) @ '' ReturnCode: '' @
     decimal (unat (ReturnCode311 p))"

definition String_Publish311 :: "PublishPacket311 \<Rightarrow> string" where
  "String_Publish311 p =
     show_header p @ '' TopicName: '' @ TopicName311 p @ '' MessageID: '' @
     decimal (unat (Publish_MessageID311 p)) @ '' Message: '' @ string_of_bytes (Message311 p)"

definition String_Puback311 :: "PubackPacket311 \<Rightarrow> string" where
  "String_Puback311 p =
     show_header p @ '' MessageID: '' @ decimal (unat (Puback_MessageID311 p))"

definition String_Pubrec311 :: "PubrecPacket311 \<Rightarrow> string" where
  "String_Pubrec311 p =
     show_header p @ '' MessageID: '' @ decimal (unat (Pubrec_MessageID311 p))"

definition String_Pubrel311 :: "PubrelPacket311 \<Rightarrow> string" where
  "String_Pubrel311 p =
     show_header p @ '' MessageID: '' @ decimal (unat (Pubrel_MessageID311 p))"

definition String_Pubcomp311 :: "PubcompPacket311 \<Rightarrow> string" where
  "String_Pubcomp311 p =
     show_header p @ '' MessageID: '' @ decimal (unat (Pubcomp_MessageID311 p))"

definition String_Subscribe311 :: "SubscribePacket311 \<Rightarrow> string" where
  "String_Subscribe311 p =
     show_header p @ '' MessageID: '' @ decimal (unat (Subscribe_MessageID311 p)) @ '' '' @
     show_subscriptions (TopicSubscriptions311 p)"

definition String_Suback311 :: "SubackPacket311 \<Rightarrow> string" where
  "String_Suback311 p =
     show_header p @ '' MessageID: '' @ decimal (unat (Suback_MessageID311 p)) @ '' ReturnCodes '' @
     show_bytes (ReturnCodes311 p)"

definition String_Unsubscribe311 :: "UnsubscribePacket311 \<Rightarrow> string" where
  "String_Unsubscribe311 p =
     show_header p @ '' MessageID: '' @ decimal (unat (Unsubscribe_MessageID311 p)) @ '' '' @
     show_strings (TopicFilters311 p)"

definition String_Unsuback311 :: "UnsubackPacket311 \<Rightarrow> string" where
  "String_Unsuback311 p =
     show_header p @ '' MessageID: '' @ decimal (unat (Unsuback_MessageID311 p))"

definition String_Pingreq311 :: "PingreqPacket311 \<Rightarrow> string" where
  "String_Pingreq311 p =
     FixedHeader_String p"

definition String_Pingresp311 :: "PingrespPacket311 \<Rightarrow> string" where
  "String_Pingresp311 p =
     FixedHeader_String p"

definition String_Disconnect311 :: "DisconnectPacket311 \<Rightarrow> string" where
  "String_Disconnect311 p =
     FixedHeader_String p"

section \<open>Packets of MQTT 5\<close>

definition String_Connect5 :: "ConnectPacket5 \<Rightarrow> string" where
  "String_Connect5 p =
     show_header p @ '' ProtocolName: '' @ ProtocolName5 p @ '' ProtocolLevel: '' @
     decimal (unat (ProtocolLevel5 p)) @ ''  CleanStart: '' @ FormatBool (CleanStart5 p) @ '' WillFlag: '' @
     FormatBool (WillFlag5 p) @ '' WillQos: '' @ decimal (unat (WillQos5 p)) @ '' WillRetain: '' @
     FormatBool (WillRetain5 p) @ '' HasUsername: '' @ FormatBool (HasUsername5 p) @ '' HasPassword: '' @
     FormatBool (HasPassword5 p) @ '' KeepAliveSeconds: '' @ decimal (unat (KeepAliveSeconds5 p)) @
     '' ClientID: '' @ ClientIdentifier5 p @ '' WillTopic: '' @ WillTopic5 p @ '' WillPayload: '' @
     string_of_bytes (WillPayload5 p) @ '' Username: '' @ Username5 p"

definition String_Connack5 :: "ConnackPacket5 \<Rightarrow> string" where
  "String_Connack5 p =
     show_header p @ '' SessionPresent: '' @ FormatBool (SessionPresent5 p) @ '' ReturnCode: '' @
     decimal (unat (ReturnCode5 p))"

definition String_Publish5 :: "PublishPacket5 \<Rightarrow> string" where
  "String_Publish5 p =
     show_header p @ '' TopicName: '' @ TopicName5 p @ '' MessageID: '' @
     decimal (unat (Publish_MessageID5 p)) @ '' Message: '' @ string_of_bytes (Message5 p)"

definition String_Puback5 :: "PubackPacket5 \<Rightarrow> string" where
  "String_Puback5 p =
     show_header p @ '' MessageID: '' @ decimal (unat (Puback_MessageID5 p)) @ '' ReasonCode: '' @
     decimal (unat (Puback_ReasonCode5 p))"

definition String_Pubrec5 :: "PubrecPacket5 \<Rightarrow> string" where
  "String_Pubrec5 p =
     show_header p @ '' MessageID: '' @ decimal (unat (Pubrec_MessageID5 p)) @ '' ReasonCode: '' @
     decimal (unat (Pubrec_ReasonCode5 p))"

definition String_Pubrel5 :: "PubrelPacket5 \<Rightarrow> string" where
  "String_Pubrel5 p =
     show_header p @ '' MessageID: '' @ decimal (unat (Pubrel_MessageID5 p)) @ '' ReasonCode: '' @
     decimal (unat (Pubrel_ReasonCode5 p))"

definition String_Pubcomp5 :: "PubcompPacket5 \<Rightarrow> string" where
  "String_Pubcomp5 p =
     show_header p @ '' MessageID: '' @ decimal (unat (Pubcomp_MessageID5 p)) @ '' ReasonCode: '' @
     decimal (unat (Pubcomp_ReasonCode5 p))"

definition String_Pingreq5 :: "PingreqPacket5 \<Rightarrow> string" where
  "String_Pingreq5 p =
     FixedHeader_String p"

definition String_Pingresp5 :: "PingrespPacket5 \<Rightarrow> string" where
  "String_Pingresp5 p =
     FixedHeader_String p"

definition String_Disconnect5 :: "DisconnectPacket5 \<Rightarrow> string" where
  "String_Disconnect5 p =
     show_header p @ '' ReasonCode: '' @ decimal (unat (Disconnect_ReasonCode5 p))"

section \<open>All packets\<close>

fun String311 :: "ControlPacket311 \<Rightarrow> string" where
  "String311 (Connect311 p) = String_Connect311 p"
| "String311 (Connack311 p) = String_Connack311 p"
| "String311 (Publish311 p) = String_Publish311 p"
| "String311 (Puback311 p) = String_Puback311 p"
| "String311 (Pubrec311 p) = String_Pubrec311 p"
| "String311 (Pubrel311 p) = String_Pubrel311 p"
| "String311 (Pubcomp311 p) = String_Pubcomp311 p"
| "String311 (Subscribe311 p) = String_Subscribe311 p"
| "String311 (Suback311 p) = String_Suback311 p"
| "String311 (Unsubscribe311 p) = String_Unsubscribe311 p"
| "String311 (Unsuback311 p) = String_Unsuback311 p"
| "String311 (Pingreq311 p) = String_Pingreq311 p"
| "String311 (Pingresp311 p) = String_Pingresp311 p"
| "String311 (Disconnect311 p) = String_Disconnect311 p"

fun String5 :: "ControlPacket5 \<Rightarrow> string" where
  "String5 (Connect5 p) = String_Connect5 p"
| "String5 (Connack5 p) = String_Connack5 p"
| "String5 (Publish5 p) = String_Publish5 p"
| "String5 (Puback5 p) = String_Puback5 p"
| "String5 (Pubrec5 p) = String_Pubrec5 p"
| "String5 (Pubrel5 p) = String_Pubrel5 p"
| "String5 (Pubcomp5 p) = String_Pubcomp5 p"
| "String5 (Pingreq5 p) = String_Pingreq5 p"
| "String5 (Pingresp5 p) = String_Pingresp5 p"
| "String5 (Disconnect5 p) = String_Disconnect5 p"

fun String :: "ControlPacket \<Rightarrow> string" where
  "String (P311 p) = String311 p"
| "String (P5 p) = String5 p"

text \<open>The comment in \<open>connect.go\<close>, that the password is not provided: two packets that differ in it print the same.\<close>

lemma string_hides_password:
  "String (P311 (Connect311 (p\<lparr>Password311 := pw\<rparr>))) = String (P311 (Connect311 p))"
  "String (P5 (Connect5 (q\<lparr>Password5 := pw\<rparr>))) = String (P5 (Connect5 q))"
  by (simp_all add: String_Connect311_def String_Connect5_def show_header_def)

text \<open>\<open>FixedHeader.String\<close>, with the name of the message, is used by PINGREQ, PINGRESP and DISCONNECT of 3.1.1 only.\<close>

lemma String_header:
  "(\<exists>rest. String p = show_header (packet_header p) @ rest) \<or> String p = FixedHeader_String (packet_header p)"
proof (cases p)
  case (P311 q)
  then show ?thesis
    by (cases q)
      (auto simp: String_Connect311_def String_Connack311_def String_Publish311_def String_Puback311_def
        String_Pubrec311_def String_Pubrel311_def String_Pubcomp311_def String_Subscribe311_def String_Suback311_def
        String_Unsubscribe311_def String_Unsuback311_def String_Pingreq311_def String_Pingresp311_def
        String_Disconnect311_def show_header_def FixedHeader_String_def FixedHeader.defs)
next
  case (P5 q)
  then show ?thesis
    by (cases q)
      (auto simp: String_Connect5_def String_Connack5_def String_Publish5_def String_Puback5_def
        String_Pubrec5_def String_Pubrel5_def String_Pubcomp5_def String_Pingreq5_def String_Pingresp5_def
        String_Disconnect5_def show_header_def FixedHeader_String_def FixedHeader.defs)
qed

end
