(* ===== verification/Logger.thy ===== *)
theory Logger
  imports Util
begin

text \<open>
  Logging (pkg/log): the configuration of a logger, the loggers that are made from it over the library
  zap, and the instance of the package. What is written is a list of entries.
\<close>

section \<open>Names (logger.go)\<close>

definition log_Debug :: string where
  "log_Debug = ''debug''"

definition log_Info :: string where
  "log_Info = ''info''"

definition log_Warn :: string where
  "log_Warn = ''warn''"

definition log_Error :: string where
  "log_Error = ''error''"

definition log_Panic :: string where
  "log_Panic = ''panic''"

definition log_Fatal :: string where
  "log_Fatal = ''fatal''"

definition TimeKey :: string where
  "TimeKey = ''ts''"

definition MessageKey :: string where
  "MessageKey = ''msg''"

definition LevelKey :: string where
  "LevelKey = ''level''"

definition CallerKey :: string where
  "CallerKey = ''caller''"

definition ErrorKey :: string where
  "ErrorKey = ''err''"

definition FormatJson :: string where
  "FormatJson = ''json''"

definition FormatPlain :: string where
  "FormatPlain = ''plain''"

definition FormatLogfmt :: string where
  "FormatLogfmt = ''logfmt''"

definition ContextLogTag :: string where
  "ContextLogTag = ''logging''"

lemmas log_names = log_Debug_def log_Info_def log_Warn_def log_Error_def log_Panic_def log_Fatal_def
  FormatJson_def FormatPlain_def FormatLogfmt_def

record FieldNames =
  fn_Time :: string
  fn_Message :: string
  fn_Level :: string
  fn_Caller :: string
  fn_Error :: string

record Log_config =
  lc_Format :: string
  lc_Level :: string
  lc_FieldNames :: FieldNames

text \<open>The defaults that the tags of \<open>FieldNames\<close> declare, and the zero value.\<close>

definition default_FieldNames :: FieldNames where
  "default_FieldNames =
     \<lparr>fn_Time = ''ts'', fn_Message = ''msg'', fn_Level = ''level'', fn_Caller = ''caller'', fn_Error = ''err''\<rparr>"

definition no_FieldNames :: FieldNames where
  "no_FieldNames = \<lparr>fn_Time = [], fn_Message = [], fn_Level = [], fn_Caller = [], fn_Error = []\<rparr>"

section \<open>The logger of zap\<close>

text \<open>
  Levels are ordered integers. A logger of zap has an encoder, the least level that it writes, and the
  fields that were added to it.
\<close>

type_synonym zap_level = int

definition DebugLevel :: zap_level where
  "DebugLevel = - 1"

definition InfoLevel :: zap_level where
  "InfoLevel = 0"

definition WarnLevel :: zap_level where
  "WarnLevel = 1"

definition ErrorLevel :: zap_level where
  "ErrorLevel = 2"

definition DPanicLevel :: zap_level where
  "DPanicLevel = 3"

definition PanicLevel :: zap_level where
  "PanicLevel = 4"

definition FatalLevel :: zap_level where
  "FatalLevel = 5"

lemmas levels = DebugLevel_def InfoLevel_def WarnLevel_def ErrorLevel_def DPanicLevel_def PanicLevel_def FatalLevel_def

datatype encoder_kind = JSONEncoder | LogfmtEncoder | ConsoleEncoder

record encoder =
  enc_kind :: encoder_kind
  enc_TimeKey :: string
  enc_MessageKey :: string
  enc_LevelKey :: string
  enc_CallerKey :: string

text \<open>What is logged: numbers, strings and errors, which are printed by \<open>Error()\<close>, or as \<open><nil>\<close>.\<close>

datatype log_arg = LInt int | LStr string | LErr "go_error option"

type_synonym Fields = "(string \<times> log_arg) list"

record sugared =
  sl_encoder :: encoder
  sl_level :: zap_level
  sl_fields :: Fields

text \<open>A message is text, or a template with its arguments.\<close>

datatype log_message = Text string | Formatted string "log_arg list"

fun getMessage :: "string \<Rightarrow> log_arg list \<Rightarrow> log_message" where
  "getMessage template [] = Text template"
| "getMessage [] [LStr s] = Text s"
| "getMessage template fmtArgs = Formatted template fmtArgs"

record log_entry =
  le_level :: zap_level
  le_message :: log_message
  le_fields :: Fields
  le_encoder :: encoder

datatype log_outcome = Continues | Panics log_message | Exits nat

text \<open>
  \<open>SugaredLogger.log\<close>: levels below \<open>DPanic\<close> that are not enabled return at once; after the entry was
  written, if its level is enabled, the level \<open>Panic\<close> panics and the level \<open>Fatal\<close> exits with status 1.
\<close>

definition enabled :: "zap_level \<Rightarrow> sugared \<Rightarrow> bool" where
  "enabled lvl l \<longleftrightarrow> sl_level l \<le> lvl"

definition sugared_log ::
  "zap_level \<Rightarrow> string \<Rightarrow> log_arg list \<Rightarrow> sugared \<Rightarrow> log_entry list \<Rightarrow> log_outcome \<times> log_entry list" where
  "sugared_log lvl template fmtArgs l out =
     (if lvl < DPanicLevel \<and> \<not> enabled lvl l then (Continues, out)
      else
        (let msg = getMessage template fmtArgs;
             out = (if enabled lvl l
                    then out @ [\<lparr>le_level = lvl, le_message = msg, le_fields = sl_fields l, le_encoder = sl_encoder l\<rparr>]
                    else out)
         in (if lvl = PanicLevel then Panics msg else if lvl = FatalLevel then Exits 1 else Continues, out)))"

definition sugared_With :: "Fields \<Rightarrow> sugared \<Rightarrow> sugared" where
  "sugared_With fs l = l\<lparr>sl_fields := sl_fields l @ fs\<rparr>"

section \<open>The logger (zap.go)\<close>

record zapLogger =
  sugaredLogger :: sugared
  zl_level :: zap_level
  errorKey :: string

definition getStringOrDefault :: "string \<Rightarrow> string \<Rightarrow> string" where
  "getStringOrDefault v defValue = (if v \<noteq> [] then v else defValue)"

definition getEncoder :: "Log_config \<Rightarrow> encoder" where
  "getEncoder config =
     (let names = lc_FieldNames config
      in \<lparr>enc_kind =
            (if lc_Format config = FormatJson then JSONEncoder
             else if lc_Format config = FormatLogfmt then LogfmtEncoder
             else ConsoleEncoder),
          enc_TimeKey = getStringOrDefault (fn_Time names) TimeKey,
          enc_MessageKey = getStringOrDefault (fn_Message names) MessageKey,
          enc_LevelKey = getStringOrDefault (fn_Level names) LevelKey,
          enc_CallerKey = getStringOrDefault (fn_Caller names) CallerKey\<rparr>)"

definition getZapLevel :: "string \<Rightarrow> zap_level" where
  "getZapLevel level =
     (if level = log_Info then InfoLevel
      else if level = log_Warn then WarnLevel
      else if level = log_Debug then DebugLevel
      else if level = log_Error then ErrorLevel
      else if level = log_Panic then PanicLevel
      else if level = log_Fatal then FatalLevel
      else InfoLevel)"

definition newZapLogger :: "Log_config \<Rightarrow> zapLogger" where
  "newZapLogger config =
     (let level = getZapLevel (lc_Level config)
      in \<lparr>sugaredLogger = \<lparr>sl_encoder = getEncoder config, sl_level = level, sl_fields = []\<rparr>,
          zl_level = level, errorKey = getStringOrDefault (fn_Error (lc_FieldNames config)) ErrorKey\<rparr>)"

text \<open>The methods that log have the writer's entries as their state.\<close>

type_synonym log_method = "zapLogger \<Rightarrow> log_entry list \<Rightarrow> log_outcome \<times> log_entry list"

definition zl_Debug :: "string \<Rightarrow> log_method" where
  "zl_Debug message l = sugared_log DebugLevel [] [LStr message] (sugaredLogger l)"

definition zl_Debugf :: "string \<Rightarrow> log_arg list \<Rightarrow> log_method" where
  "zl_Debugf format args l = sugared_log DebugLevel format args (sugaredLogger l)"

definition IsDebug :: "zapLogger \<Rightarrow> bool" where
  "IsDebug l \<longleftrightarrow> zl_level l = DebugLevel"

definition zl_Printf :: "string \<Rightarrow> log_arg list \<Rightarrow> log_method" where
  "zl_Printf format args l = sugared_log InfoLevel format args (sugaredLogger l)"

definition zl_Print :: "string \<Rightarrow> log_method" where
  "zl_Print message l = sugared_log InfoLevel [] [LStr message] (sugaredLogger l)"

definition zl_Info :: "string \<Rightarrow> log_method" where
  "zl_Info message l = sugared_log InfoLevel [] [LStr message] (sugaredLogger l)"

definition zl_Infof :: "string \<Rightarrow> log_arg list \<Rightarrow> log_method" where
  "zl_Infof format args l = sugared_log InfoLevel format args (sugaredLogger l)"

definition IsInfo :: "zapLogger \<Rightarrow> bool" where
  "IsInfo l \<longleftrightarrow> zl_level l \<le> InfoLevel"

definition zl_Warn :: "string \<Rightarrow> log_method" where
  "zl_Warn message l = sugared_log WarnLevel [] [LStr message] (sugaredLogger l)"

definition zl_Warnf :: "string \<Rightarrow> log_arg list \<Rightarrow> log_method" where
  "zl_Warnf format args l = sugared_log WarnLevel format args (sugaredLogger l)"

definition IsWarn :: "zapLogger \<Rightarrow> bool" where
  "IsWarn l \<longleftrightarrow> zl_level l \<le> WarnLevel"

text \<open>\<open>Error\<close> passes its message as a template without arguments.\<close>

definition zl_Error :: "string \<Rightarrow> log_method" where
  "zl_Error message l = sugared_log ErrorLevel message [] (sugaredLogger l)"

definition zl_Errorf :: "string \<Rightarrow> log_arg list \<Rightarrow> log_method" where
  "zl_Errorf format args l = sugared_log ErrorLevel format args (sugaredLogger l)"

definition IsError :: "zapLogger \<Rightarrow> bool" where
  "IsError l \<longleftrightarrow> zl_level l \<le> ErrorLevel"

definition zl_Fatal :: "string \<Rightarrow> log_method" where
  "zl_Fatal message l = sugared_log FatalLevel [] [LStr message] (sugaredLogger l)"

definition zl_Fatalf :: "string \<Rightarrow> log_arg list \<Rightarrow> log_method" where
  "zl_Fatalf format args l = sugared_log FatalLevel format args (sugaredLogger l)"

definition IsFatal :: "zapLogger \<Rightarrow> bool" where
  "IsFatal l \<longleftrightarrow> zl_level l \<le> FatalLevel"

definition zl_Panic :: "string \<Rightarrow> log_method" where
  "zl_Panic message l = sugared_log PanicLevel [] [LStr message] (sugaredLogger l)"

definition zl_Panicf :: "string \<Rightarrow> log_arg list \<Rightarrow> log_method" where
  "zl_Panicf format args l = sugared_log PanicLevel format args (sugaredLogger l)"

definition IsPanic :: "zapLogger \<Rightarrow> bool" where
  "IsPanic l \<longleftrightarrow> zl_level l \<le> PanicLevel"

text \<open>The fields of \<open>WithFields\<close> are a map; the list is the order in which it is ranged over.\<close>

definition WithFields :: "Fields \<Rightarrow> zapLogger \<Rightarrow> zapLogger" where
  "WithFields fs l = l\<lparr>sugaredLogger := sugared_With fs (sugaredLogger l)\<rparr>"

definition WithField :: "string \<Rightarrow> string \<Rightarrow> zapLogger \<Rightarrow> zapLogger" where
  "WithField key v = WithFields [(key, LStr v)]"

definition WithError :: "go_error option \<Rightarrow> zapLogger \<Rightarrow> zapLogger" where
  "WithError err l = (case err of None \<Rightarrow> l | Some e \<Rightarrow> WithFields [(errorKey l, LErr (Some e))] l)"

text \<open>
  The value of \<open>ContextLogTag\<close> in a context: none, fields, or a value of another type, with which the
  type assertion panics (no logger).
\<close>

datatype ctx_value = NoValue | FieldsValue Fields | OtherValue

definition WithContext :: "ctx_value \<Rightarrow> zapLogger \<Rightarrow> zapLogger option" where
  "WithContext v l =
     (case v of
        NoValue \<Rightarrow> Some l
      | FieldsValue fs \<Rightarrow> Some (if fs \<noteq> [] then WithFields fs l else l)
      | OtherValue \<Rightarrow> None)"

section \<open>Loggers and the instance (logger.go)\<close>

definition log_Vars :: "string \<rightharpoonup> string" where
  "log_Vars = map_of
     [(''LogFormatDefault'', FormatLogfmt),
      (''LogFormatEnum'', FormatLogfmt @ '', '' @ FormatPlain @ '', '' @ FormatJson),
      (''LogLevelDefault'', log_Info),
      (''LogLevelEnum'', log_Debug @ '', '' @ log_Info @ '', '' @ log_Warn @ '', '' @ log_Error @ '', '' @
         log_Panic @ '', '' @ log_Fatal)]"

definition NewLogger :: "Log_config \<Rightarrow> zapLogger" where
  "NewLogger = newZapLogger"

definition NewDefaultLogger :: zapLogger where
  "NewDefaultLogger = newZapLogger \<lparr>lc_Format = FormatLogfmt, lc_Level = log_Info, lc_FieldNames = no_FieldNames\<rparr>"

text \<open>The variables of the package: the instance, and whether the function of \<open>once\<close> was called.\<close>

record log_globals =
  log_instance :: "zapLogger option"
  log_once :: bool

definition init_globals :: log_globals where
  "init_globals = \<lparr>log_instance = None, log_once = False\<rparr>"

definition once_Do :: "(log_globals \<Rightarrow> log_globals) \<Rightarrow> log_globals \<Rightarrow> log_globals" where
  "once_Do f g = (if log_once g then g else (f g)\<lparr>log_once := True\<rparr>)"

definition InitInstance :: "zapLogger \<Rightarrow> log_globals \<Rightarrow> log_globals" where
  "InitInstance logger = once_Do (\<lambda>g. g\<lparr>log_instance := Some logger\<rparr>)"

definition GetInstance :: "log_globals \<Rightarrow> zapLogger option \<times> log_globals" where
  "GetInstance g =
     (let g = once_Do (\<lambda>g. if log_instance g = None then g\<lparr>log_instance := Some NewDefaultLogger\<rparr> else g) g
      in (log_instance g, g))"

text \<open>\<open>log.Printf\<close> on the instance, which is never nil.\<close>

definition log_Printf ::
  "string \<Rightarrow> log_arg list \<Rightarrow> log_globals \<Rightarrow> log_entry list \<Rightarrow> (log_outcome \<times> log_entry list) option \<times> log_globals" where
  "log_Printf format args g out =
     (case GetInstance g of (l, g) \<Rightarrow> (map_option (\<lambda>l. zl_Printf format args l out) l, g))"

section \<open>Programs that log\<close>

text \<open>Calls of a logger, and the loggers that are derived from one.\<close>

datatype log_op =
    Op_Print string | Op_Printf string "log_arg list"
  | Op_Debug string | Op_Debugf string "log_arg list"
  | Op_Info string | Op_Infof string "log_arg list"
  | Op_Warn string | Op_Warnf string "log_arg list"
  | Op_Error string | Op_Errorf string "log_arg list"
  | Op_Panic string | Op_Panicf string "log_arg list"
  | Op_Fatal string | Op_Fatalf string "log_arg list"
  | Op_WithFields Fields | Op_WithField string string | Op_WithError "go_error option"

fun do_op :: "log_op \<Rightarrow> zapLogger \<times> log_entry list \<Rightarrow> log_outcome \<times> zapLogger \<times> log_entry list" where
  "do_op (Op_Print s) (l, out) = map_prod id (Pair l) (zl_Print s l out)"
| "do_op (Op_Printf f as) (l, out) = map_prod id (Pair l) (zl_Printf f as l out)"
| "do_op (Op_Debug s) (l, out) = map_prod id (Pair l) (zl_Debug s l out)"
| "do_op (Op_Debugf f as) (l, out) = map_prod id (Pair l) (zl_Debugf f as l out)"
| "do_op (Op_Info s) (l, out) = map_prod id (Pair l) (zl_Info s l out)"
| "do_op (Op_Infof f as) (l, out) = map_prod id (Pair l) (zl_Infof f as l out)"
| "do_op (Op_Warn s) (l, out) = map_prod id (Pair l) (zl_Warn s l out)"
| "do_op (Op_Warnf f as) (l, out) = map_prod id (Pair l) (zl_Warnf f as l out)"
| "do_op (Op_Error s) (l, out) = map_prod id (Pair l) (zl_Error s l out)"
| "do_op (Op_Errorf f as) (l, out) = map_prod id (Pair l) (zl_Errorf f as l out)"
| "do_op (Op_Panic s) (l, out) = map_prod id (Pair l) (zl_Panic s l out)"
| "do_op (Op_Panicf f as) (l, out) = map_prod id (Pair l) (zl_Panicf f as l out)"
| "do_op (Op_Fatal s) (l, out) = map_prod id (Pair l) (zl_Fatal s l out)"
| "do_op (Op_Fatalf f as) (l, out) = map_prod id (Pair l) (zl_Fatalf f as l out)"
| "do_op (Op_WithFields fs) (l, out) = (Continues, WithFields fs l, out)"
| "do_op (Op_WithField k v) (l, out) = (Continues, WithField k v l, out)"
| "do_op (Op_WithError e) (l, out) = (Continues, WithError e l, out)"

fun do_ops :: "log_op list \<Rightarrow> zapLogger \<times> log_entry list \<Rightarrow> log_outcome \<times> zapLogger \<times> log_entry list" where
  "do_ops [] s = (Continues, s)"
| "do_ops (op # ops) s =
     (case do_op op s of (Continues, s) \<Rightarrow> do_ops ops s | (outcome, s) \<Rightarrow> (outcome, s))"

text \<open>What a call is to log: its level, and its message.\<close>

fun op_level :: "log_op \<Rightarrow> zap_level option" where
  "op_level (Op_Print s) = Some InfoLevel" | "op_level (Op_Printf f as) = Some InfoLevel"
| "op_level (Op_Debug s) = Some DebugLevel" | "op_level (Op_Debugf f as) = Some DebugLevel"
| "op_level (Op_Info s) = Some InfoLevel" | "op_level (Op_Infof f as) = Some InfoLevel"
| "op_level (Op_Warn s) = Some WarnLevel" | "op_level (Op_Warnf f as) = Some WarnLevel"
| "op_level (Op_Error s) = Some ErrorLevel" | "op_level (Op_Errorf f as) = Some ErrorLevel"
| "op_level (Op_Panic s) = Some PanicLevel" | "op_level (Op_Panicf f as) = Some PanicLevel"
| "op_level (Op_Fatal s) = Some FatalLevel" | "op_level (Op_Fatalf f as) = Some FatalLevel"
| "op_level _ = None"

fun op_message :: "log_op \<Rightarrow> log_message" where
  "op_message (Op_Print s) = Text s" | "op_message (Op_Debug s) = Text s" | "op_message (Op_Info s) = Text s"
| "op_message (Op_Warn s) = Text s" | "op_message (Op_Error s) = Text s" | "op_message (Op_Panic s) = Text s"
| "op_message (Op_Fatal s) = Text s"
| "op_message (Op_Printf f as) = getMessage f as" | "op_message (Op_Debugf f as) = getMessage f as"
| "op_message (Op_Infof f as) = getMessage f as" | "op_message (Op_Warnf f as) = getMessage f as"
| "op_message (Op_Errorf f as) = getMessage f as" | "op_message (Op_Panicf f as) = getMessage f as"
| "op_message (Op_Fatalf f as) = getMessage f as"
| "op_message _ = Text []"

fun op_fields :: "string \<Rightarrow> log_op \<Rightarrow> Fields" where
  "op_fields key (Op_WithFields fs) = fs"
| "op_fields key (Op_WithField k v) = [(k, LStr v)]"
| "op_fields key (Op_WithError (Some e)) = [(key, LErr (Some e))]"
| "op_fields key _ = []"

definition op_outcome :: "log_op \<Rightarrow> log_outcome" where
  "op_outcome op =
     (if op_level op = Some PanicLevel then Panics (op_message op)
      else if op_level op = Some FatalLevel then Exits 1 else Continues)"

section \<open>What is written\<close>

text \<open>
  The order of the levels: that of their names in the help text, \<open>info\<close> for other names.
\<close>

definition level_names :: "string list" where
  "level_names = [log_Debug, log_Info, log_Warn, log_Error, log_Panic, log_Fatal]"

definition severity :: "string \<Rightarrow> nat" where
  "severity level = (if level \<in> set level_names then length (takeWhile (\<lambda>n. n \<noteq> level) level_names) else 1)"

fun level_severity :: "zap_level option \<Rightarrow> nat" where
  "level_severity None = 0"
| "level_severity (Some lvl) =
     (if lvl = DebugLevel then 0 else if lvl = InfoLevel then 1 else if lvl = WarnLevel then 2
      else if lvl = ErrorLevel then 3 else if lvl = PanicLevel then 4 else 5)"

text \<open>
  The entries that a program is to write, by the encoder and the severity of the configuration, the key of
  errors, and the fields that were added before.
\<close>

fun expected_entries :: "encoder \<Rightarrow> nat \<Rightarrow> string \<Rightarrow> Fields \<Rightarrow> log_op list \<Rightarrow> log_entry list" where
  "expected_entries enc least key fs [] = []"
| "expected_entries enc least key fs (op # ops) =
     (case op_level op of
        None \<Rightarrow> expected_entries enc least key (fs @ op_fields key op) ops
      | Some lvl \<Rightarrow>
          (if least \<le> level_severity (Some lvl)
           then [\<lparr>le_level = lvl, le_message = op_message op, le_fields = fs, le_encoder = enc\<rparr>] else []) @
          (if op_outcome op = Continues then expected_entries enc least key fs ops else []))"

definition expected_outcome :: "log_op list \<Rightarrow> log_outcome" where
  "expected_outcome ops =
     (case find (\<lambda>op. op_outcome op \<noteq> Continues) ops of None \<Rightarrow> Continues | Some op \<Rightarrow> op_outcome op)"

definition made_by :: "Log_config \<Rightarrow> zapLogger \<Rightarrow> bool" where
  "made_by config l \<longleftrightarrow>
     sl_encoder (sugaredLogger l) = getEncoder config \<and> sl_level (sugaredLogger l) = getZapLevel (lc_Level config) \<and>
     zl_level l = getZapLevel (lc_Level config) \<and>
     errorKey l = getStringOrDefault (fn_Error (lc_FieldNames config)) ErrorKey"

lemma made_by_NewLogger: "made_by config (NewLogger config)"
  by (simp add: made_by_def NewLogger_def newZapLogger_def Let_def)

lemmas zl_defs = zl_Print_def zl_Printf_def zl_Debug_def zl_Debugf_def zl_Info_def zl_Infof_def zl_Warn_def
  zl_Warnf_def zl_Error_def zl_Errorf_def zl_Panic_def zl_Panicf_def zl_Fatal_def zl_Fatalf_def

lemma severity_level:
  "op_level op = Some lvl \<Longrightarrow> severity level \<le> level_severity (Some lvl) \<longleftrightarrow> getZapLevel level \<le> lvl"
  by (cases op) (auto simp: severity_def level_names_def getZapLevel_def levels log_names)

lemma getMessage_text [simp]: "getMessage [] [LStr s] = Text s"
  by simp

text \<open>A call that logs does what \<open>sugared_log\<close> does for its level and its message.\<close>

lemma do_op_log:
  assumes "op_level op = Some lvl"
  shows "do_op op (l, out) =
    (op_outcome op, l,
     if sl_level (sugaredLogger l) \<le> lvl
     then out @ [\<lparr>le_level = lvl, le_message = op_message op, le_fields = sl_fields (sugaredLogger l),
       le_encoder = sl_encoder (sugaredLogger l)\<rparr>]
     else out)"
  using assms
  by (cases op) (auto simp: zl_defs sugared_log_def op_outcome_def enabled_def levels Let_def)

lemma do_op_with:
  assumes "op_level op = None" and "made_by config l"
  obtains l' where "do_op op (l, out) = (Continues, l', out)" "made_by config l'" "op_outcome op = Continues"
    "sl_fields (sugaredLogger l') = sl_fields (sugaredLogger l) @ op_fields (errorKey l) op"
proof (rule that)
  let ?l' = "fst (snd (do_op op (l, out)))"
  show "do_op op (l, out) = (Continues, ?l', out)" "made_by config ?l'" "op_outcome op = Continues"
    "sl_fields (sugaredLogger ?l') = sl_fields (sugaredLogger l) @ op_fields (errorKey l) op"
    using assms
    by (cases op; auto simp: WithFields_def WithField_def WithError_def sugared_With_def made_by_def op_outcome_def
        split: option.splits)+
qed

lemma do_ops_expected:
  assumes "made_by config l"
  shows "fst (do_ops ops (l, out)) = expected_outcome ops"
    and "snd (snd (do_ops ops (l, out))) =
      out @ expected_entries (getEncoder config) (severity (lc_Level config))
        (getStringOrDefault (fn_Error (lc_FieldNames config)) ErrorKey) (sl_fields (sugaredLogger l)) ops"
    and "made_by config (fst (snd (do_ops ops (l, out))))"
proof -
  let ?expected = "expected_entries (getEncoder config) (severity (lc_Level config))
    (getStringOrDefault (fn_Error (lc_FieldNames config)) ErrorKey)"
  have "fst (do_ops ops (l, out)) = expected_outcome ops \<and>
      snd (snd (do_ops ops (l, out))) = out @ ?expected (sl_fields (sugaredLogger l)) ops \<and>
      made_by config (fst (snd (do_ops ops (l, out))))"
    using assms
  proof (induction ops arbitrary: l out)
    case (Cons op ops)
    note key = Cons.prems [unfolded made_by_def]
    show ?case
    proof (cases "op_level op")
      case None
      obtain l' where "do_op op (l, out) = (Continues, l', out)" "made_by config l'" "op_outcome op = Continues"
        "sl_fields (sugaredLogger l') = sl_fields (sugaredLogger l) @ op_fields (errorKey l) op"
        using None Cons.prems by (rule do_op_with)
      with None Cons.IH [of l' out] key show ?thesis
        by (simp add: expected_outcome_def)
    next
      case (Some lvl)
      let ?e = "\<lparr>le_level = lvl, le_message = op_message op, le_fields = sl_fields (sugaredLogger l),
        le_encoder = getEncoder config\<rparr>"
      let ?out = "if getZapLevel (lc_Level config) \<le> lvl then out @ [?e] else out"
      have op: "do_op op (l, out) = (op_outcome op, l, ?out)"
        using do_op_log [OF Some, of l out] key by simp
      show ?thesis
        using Cons.IH [OF Cons.prems, of ?out] Some Cons.prems
        by (cases "op_outcome op") (simp_all add: op expected_outcome_def severity_level [OF Some] del: level_severity.simps)
    qed
  qed (simp add: expected_outcome_def)
  then show "fst (do_ops ops (l, out)) = expected_outcome ops"
    "snd (snd (do_ops ops (l, out))) = out @ ?expected (sl_fields (sugaredLogger l)) ops"
    "made_by config (fst (snd (do_ops ops (l, out))))"
    by simp_all
qed

text \<open>\<open>IsDebug\<close> compares for equality, the others for at most; there is no level below \<open>debug\<close>.\<close>

lemma getZapLevel_least: "DebugLevel \<le> getZapLevel s"
  by (simp add: getZapLevel_def levels)

lemma level_predicates:
  assumes "made_by config l"
  shows "IsDebug l \<longleftrightarrow> enabled DebugLevel (sugaredLogger l)" "IsInfo l \<longleftrightarrow> enabled InfoLevel (sugaredLogger l)"
    "IsWarn l \<longleftrightarrow> enabled WarnLevel (sugaredLogger l)" "IsError l \<longleftrightarrow> enabled ErrorLevel (sugaredLogger l)"
    "IsPanic l \<longleftrightarrow> enabled PanicLevel (sugaredLogger l)" "IsFatal l"
  using assms getZapLevel_least [of "lc_Level config"]
  by (auto simp: made_by_def enabled_def IsDebug_def IsInfo_def IsWarn_def IsError_def IsPanic_def IsFatal_def
      getZapLevel_def levels)

text \<open>C39: Whatever a program logs through the loggers that it derives from a configured one, the calls of at least the
  configured level (debug, info, warn, error, panic, fatal; info for other names) are written, and no others, in order, with their messages and with the fields that were
  added before, errors under the configured key; Panic and Fatal end the program even if they are not
  written. Every derived logger has the level of the configuration: the predicates tell what it writes.\<close>

theorem logging_by_level:
  "do_ops ops (NewLogger config, []) =
     (expected_outcome ops, fst (snd (do_ops ops (NewLogger config, []))),
      expected_entries (getEncoder config) (severity (lc_Level config))
        (getStringOrDefault (fn_Error (lc_FieldNames config)) ErrorKey) [] ops) \<and>
   (let l = fst (snd (do_ops ops (NewLogger config, [])))
    in (IsDebug l = (snd (zl_Debug m l []) \<noteq> [])) \<and> (IsInfo l = (snd (zl_Info m l []) \<noteq> [])) \<and>
       (IsWarn l = (snd (zl_Warn m l []) \<noteq> [])) \<and> (IsError l = (snd (zl_Error m l []) \<noteq> [])) \<and>
       (IsPanic l = (snd (zl_Panic m l []) \<noteq> [])) \<and> (IsFatal l = (snd (zl_Fatal m l []) \<noteq> [])))"
proof -
  define r where "r = do_ops ops (NewLogger config, [])"
  note made = do_ops_expected [OF made_by_NewLogger, where ops = ops and config = config and out = "[]", folded r_def]
  have "sl_fields (sugaredLogger (NewLogger config)) = []"
    by (simp add: NewLogger_def newZapLogger_def Let_def)
  with made(1,2) have "r = (expected_outcome ops, fst (snd r),
      expected_entries (getEncoder config) (severity (lc_Level config))
        (getStringOrDefault (fn_Error (lc_FieldNames config)) ErrorKey) [] ops)"
    by (cases r) simp
  moreover have "IsFatal (fst (snd r)) \<longleftrightarrow> enabled FatalLevel (sugaredLogger (fst (snd r)))"
    using level_predicates(6) [OF made(3)] made(3) by (simp add: made_by_def enabled_def IsFatal_def)
  ultimately show ?thesis
    using level_predicates(1-5) [OF made(3)] by (simp add: r_def [symmetric] Let_def zl_defs sugared_log_def levels)
qed

section \<open>The instance of the package\<close>

text \<open>
  The package variable \<open>DefaultServeMux\<close> of pkg/mqtt/server asks for the instance when the program is
  initialised. From then on the instance is the default logger, and \<open>InitInstance\<close>, which the command calls
  with the configured logger, changes nothing.
\<close>

lemma instance_stays:
  assumes "g = snd (GetInstance init_globals)"
  shows "InitInstance l g = g" "fst (GetInstance g) = Some NewDefaultLogger" "snd (GetInstance g) = g"
  by (simp_all add: assms GetInstance_def InitInstance_def once_Do_def init_globals_def Let_def)

lemma default_logger_level: "getZapLevel (lc_Level \<lparr>lc_Format = FormatLogfmt, lc_Level = log_Info, lc_FieldNames = n\<rparr>) = InfoLevel"
  by (simp add: getZapLevel_def)

end
