(* ===== verification/Debug_Conn.thy ===== *)
theory Debug_Conn
  imports Logger
begin

text \<open>
  Connections that log what is done with them (pkg/mqtt/server/debug.go), over the interface \<open>net.Conn\<close> as a
  record of functions on a state. The wrapper delegates every operation, and names connections apart.
\<close>

record 's net_conn =
  nc_Read :: "nat \<Rightarrow> 's \<Rightarrow> (byte list \<times> go_error option) \<times> 's"
  nc_Write :: "byte list \<Rightarrow> 's \<Rightarrow> (nat \<times> go_error option) \<times> 's"
  nc_Close :: "'s \<Rightarrow> go_error option \<times> 's"

section \<open>The wrapper\<close>

text \<open>The map \<open>uniqNameNext\<close> is a function, 0 where it has no entry; its counters would wrap after 2^63 connections.\<close>

type_synonym uniq_names = "string \<Rightarrow> nat"

record 's loggingConn =
  lg_name :: string
  lg_Conn :: "'s net_conn"
  lg_logger :: zapLogger

definition newLoggingConn :: "string \<Rightarrow> zapLogger \<Rightarrow> 's net_conn \<Rightarrow> uniq_names \<Rightarrow> 's loggingConn \<times> uniq_names" where
  "newLoggingConn baseName logger c uniqNameNext =
     (let uniqNameNext = uniqNameNext(baseName := uniqNameNext baseName + 1)
      in (\<lparr>lg_name = baseName @ ''-'' @ decimal (uniqNameNext baseName), lg_Conn = c, lg_logger = logger\<rparr>,
          uniqNameNext))"

definition NewLoggingConnFunc :: "string \<Rightarrow> zapLogger \<Rightarrow> 's net_conn \<Rightarrow> uniq_names \<Rightarrow> 's loggingConn \<times> uniq_names" where
  "NewLoggingConnFunc baseName logger = (\<lambda>c. newLoggingConn baseName logger c)"

text \<open>The operations on the state of the connection with what was logged. \<open>Printf\<close> always returns.\<close>

definition lg_Printf :: "string \<Rightarrow> log_arg list \<Rightarrow> 's loggingConn \<Rightarrow> log_entry list \<Rightarrow> log_entry list" where
  "lg_Printf format args c out = snd (zl_Printf format args (lg_logger c) out)"

definition logging_Write ::
  "'s loggingConn \<Rightarrow> byte list \<Rightarrow> 's \<times> log_entry list \<Rightarrow> (nat \<times> go_error option) \<times> 's \<times> log_entry list" where
  "logging_Write c p s =
     (let out = lg_Printf ''%s.Write(%d) = ....'' [LStr (lg_name c), LInt (int (length p))] c (snd s)
      in case nc_Write (lg_Conn c) p (fst s) of
           ((n, err), s) \<Rightarrow>
             ((n, err), s,
              lg_Printf ''%s.Write(%d) = %d, %v''
                [LStr (lg_name c), LInt (int (length p)), LInt (int n), LErr err] c out))"

definition logging_Read ::
  "'s loggingConn \<Rightarrow> nat \<Rightarrow> 's \<times> log_entry list \<Rightarrow> (byte list \<times> go_error option) \<times> 's \<times> log_entry list" where
  "logging_Read c len s =
     (let out = lg_Printf ''%s.Read(%d) = ....'' [LStr (lg_name c), LInt (int len)] c (snd s)
      in case nc_Read (lg_Conn c) len (fst s) of
           ((b, err), s) \<Rightarrow>
             ((b, err), s,
              lg_Printf ''%s.Read(%d) = %d, %v''
                [LStr (lg_name c), LInt (int len), LInt (int (length b)), LErr err] c out))"

definition logging_Close :: "'s loggingConn \<Rightarrow> 's \<times> log_entry list \<Rightarrow> go_error option \<times> 's \<times> log_entry list" where
  "logging_Close c s =
     (let out = lg_Printf ''%s.Close() = ...'' [LStr (lg_name c)] c (snd s)
      in case nc_Close (lg_Conn c) (fst s) of
           (err, s) \<Rightarrow> (err, s, lg_Printf ''%s.Close() = %v'' [LStr (lg_name c), LErr err] c out))"

text \<open>A logging connection is a connection, so it can be wrapped again.\<close>

definition logging_conn :: "'s loggingConn \<Rightarrow> ('s \<times> log_entry list) net_conn" where
  "logging_conn c = \<lparr>nc_Read = logging_Read c, nc_Write = logging_Write c, nc_Close = logging_Close c\<rparr>"

section \<open>The wrapper changes nothing\<close>

text \<open>Programs that use a connection: each operation depends on the results before it.\<close>

datatype conn_op = Do_Read nat | Do_Write "byte list" | Do_Close

datatype conn_result =
    Read_result "byte list" "go_error option"
  | Write_result nat "go_error option"
  | Close_result "go_error option"

fun conn_do :: "'s net_conn \<Rightarrow> conn_op \<Rightarrow> 's \<Rightarrow> conn_result \<times> 's" where
  "conn_do c (Do_Read len) s = (case nc_Read c len s of ((b, err), s) \<Rightarrow> (Read_result b err, s))"
| "conn_do c (Do_Write p) s = (case nc_Write c p s of ((n, err), s) \<Rightarrow> (Write_result n err, s))"
| "conn_do c Do_Close s = (case nc_Close c s of (err, s) \<Rightarrow> (Close_result err, s))"

text \<open>\<open>prog\<close> is the next operation for the results so far, or none at the end; \<open>n\<close> operations are made at most.\<close>

fun conn_run :: "'s net_conn \<Rightarrow> (conn_result list \<Rightarrow> conn_op option) \<Rightarrow> nat \<Rightarrow> conn_result list \<Rightarrow> 's \<Rightarrow> conn_result list \<times> 's" where
  "conn_run c prog 0 rs s = (rs, s)"
| "conn_run c prog (Suc n) rs s =
     (case prog rs of
        None \<Rightarrow> (rs, s)
      | Some op \<Rightarrow> (case conn_do c op s of (r, s) \<Rightarrow> conn_run c prog n (rs @ [r]) s))"

lemma logging_conn_do:
  "conn_do (logging_conn c) op (s, out) =
     (fst (conn_do (lg_Conn c) op s), snd (conn_do (lg_Conn c) op s), snd (snd (conn_do (logging_conn c) op (s, out))))"
  by (cases op)
    (simp_all add: logging_conn_def logging_Read_def logging_Write_def logging_Close_def Let_def split: prod.splits)

lemma logging_transparent:
  "fst (conn_run (logging_conn c) prog n rs (s, out)) = fst (conn_run (lg_Conn c) prog n rs s) \<and>
   fst (snd (conn_run (logging_conn c) prog n rs (s, out))) = snd (conn_run (lg_Conn c) prog n rs s)"
proof (induction n arbitrary: rs s out)
  case (Suc n)
  show ?case
  proof (cases "prog rs")
    case (Some op)
    obtain r s' where r: "conn_do (lg_Conn c) op s = (r, s')"
      by (cases "conn_do (lg_Conn c) op s")
    obtain out' where "conn_do (logging_conn c) op (s, out) = (r, s', out')"
      using logging_conn_do [of c op s out] r by simp
    with Some r Suc.IH show ?thesis
      by simp
  qed simp
qed simp

section \<open>Names\<close>

text \<open>The names of connections that are made one after the other.\<close>

fun conn_names :: "string list \<Rightarrow> uniq_names \<Rightarrow> string list" where
  "conn_names [] u = []"
| "conn_names (b # bs) u = (b @ ''-'' @ decimal (u b + 1)) # conn_names bs (u(b := u b + 1))"

lemma conn_names_eq:
  "lg_name (fst (newLoggingConn b logger c u)) # conn_names bs (snd (newLoggingConn b logger c u)) =
   conn_names (b # bs) u"
  by (simp add: newLoggingConn_def Let_def)

lemma decimal_no_dash: "CHR ''-'' \<notin> set (decimal n)"
proof (induction n rule: decimal.induct)
  case (1 n)
  have digit: "CHR ''-'' \<noteq> char_of (48 + n mod 10)"
  proof
    assume "CHR ''-'' = char_of (48 + n mod 10)"
    then have "of_char (CHR ''-'') = (of_char (char_of (48 + n mod 10) :: char) :: nat)"
      by simp
    then show False
      by simp
  qed
  show ?case
    using 1 digit by (subst decimal.simps) (auto split: if_splits)
qed

lemma conn_name_inject:
  "b @ ''-'' @ decimal m = b' @ ''-'' @ decimal n \<longleftrightarrow> b = b' \<and> m = n"
proof
  assume eq: "b @ ''-'' @ decimal m = b' @ ''-'' @ decimal n"
  have split: "takeWhile (\<lambda>x. x \<noteq> CHR ''-'') (rev (b @ ''-'' @ decimal k)) = rev (decimal k)" for b k
    using decimal_no_dash [of k] by (subst rev_append) (auto simp: takeWhile_append)
  from eq have "rev (decimal m) = rev (decimal n)"
    using split [of b m] split [of b' n] by simp
  then have "decimal m = decimal n"
    by simp
  with eq show "b = b' \<and> m = n"
    by (simp add: decimal_inject)
qed simp

lemma conn_names_later: "x \<in> set (conn_names bs u) \<Longrightarrow> \<exists>b n. x = b @ ''-'' @ decimal n \<and> u b < n"
proof (induction bs arbitrary: u)
  case (Cons b bs)
  then show ?case
    by (fastforce split: if_splits)
qed simp

lemma conn_names_distinct: "distinct (conn_names bs u)"
proof (induction bs arbitrary: u)
  case (Cons b bs)
  have "b @ ''-'' @ decimal (u b + 1) \<notin> set (conn_names bs (u(b := u b + 1)))"
  proof
    assume "b @ ''-'' @ decimal (u b + 1) \<in> set (conn_names bs (u(b := u b + 1)))"
    then obtain b' n where "b @ ''-'' @ decimal (u b + 1) = b' @ ''-'' @ decimal n" "(u(b := u b + 1)) b' < n"
      by (rule conn_names_later [THEN exE]) blast
    then show False
      by (auto simp: conn_name_inject simp del: append_Cons)
  qed
  with Cons show ?case
    by simp
qed simp

end
