(* ===== verification/Spec2Isabelle.thy ===== *)
theory Spec2Isabelle
  imports Example_Run Session Codec_Properties Handler_Properties Server_Properties Publisher_Properties Tls_Properties
    Command_Properties Tls_Serve Concurrent_Writes Fifo Strings Debug_Conn
begin

text \<open>
  mqtt-proxy accepts MQTT connections and passes the messages that clients publish to a message system:
  Kafka, SQS, SNS, RabbitMQ or none. This development models the program's own code in Go under
  \<open>src/cmd\<close>, \<open>src/pkg\<close> and \<open>src/apis\<close> and proves what makes it correct.

  \<^bold>\<open>How the parts interact.\<close> The command (\<open>cmd\<close>) makes the parts that a configuration (\<open>pkg/config\<close>) names, and runs
  them as actors that end together. The server (\<open>pkg/mqtt/server/server.go\<close>, wrapped by \<open>pkg/server/mqtt\<close>) accepts
  connections, if TLS is enabled with certificates that are reloaded (\<open>pkg/tls\<close>). Each has a loop
  (\<open>conn.go\<close>) that reads a packet with the codec (\<open>pkg/mqtt/codec\<close>), hands it to the handler
  (\<open>pkg/mqtt/handler\<close>), and reads the next. The handler logs clients in with an authenticator
  (\<open>pkg/auth\<close>), calls a publisher (\<open>pkg/publisher\<close>) for the messages, and writes responses, for
  asynchronous publishers from callbacks that run later. An HTTP server (\<open>pkg/server/http\<close>) answers
  probes (\<open>pkg/prober\<close>).

  \<^bold>\<open>Theories.\<close>
  \<^item> \<open>Prelude\<close>: errors as values, readers as the bytes left with the error behind them, decoders.
  \<^item> \<open>Constants\<close>, \<open>Encoding\<close>, \<open>Fixed_Header\<close>, \<open>Framing\<close>: \<open>codec/proto\<close>, and the locales of what a packet type must
    provide so that its packets can be framed, written and read.
  \<^item> \<open>V311_Connect\<close>, \<open>V311_Packets\<close>, \<open>V311\<close> and \<open>V5_Properties\<close>, \<open>V5_Packets\<close>, \<open>V5_Connect\<close>, \<open>V5\<close>: the packets of
    \<open>codec/v311\<close> and \<open>codec/v5\<close>, one record with \<open>Write\<close> and \<open>Unpack\<close> for each; every packet type interprets the
    locales.
  \<^item> \<open>Codec\<close>: \<open>codec/packets.go\<close>, the first packet and the dispatch by version.
  \<^item> \<open>Api\<close>: the interfaces of \<open>apis\<close>; the locale \<open>publisher\<close> has what the handler relies on. Every publisher below
    interprets it.
  \<^item> \<open>Util\<close>, \<open>Config\<close>, \<open>Server_Config\<close>: \<open>pkg/util\<close>, \<open>pkg/runtime\<close>, the values of \<open>pkg/config\<close> that are parsed, and
    the configuration of the server with its defaults and validation.
  \<^item> \<open>Auth\<close>: \<open>pkg/auth\<close>. \<open>Noop_Publisher\<close>, \<open>Kafka\<close>, \<open>Sqs\<close>, \<open>Sns\<close>, \<open>Rabbitmq\<close>: \<open>pkg/publisher\<close>, the client libraries being
    records of functions on a state of their own. \<open>Services\<close>: what the command relies on when it serves and
    shuts down a publisher, as the locale \<open>served_publisher\<close>, which every publisher interprets.
  \<^item> \<open>Connection\<close>: \<open>response.go\<close> and the state of a connection. \<open>Handler\<close>: \<open>pkg/mqtt/handler\<close> and the multiplexer.
    \<open>Handler_Facts\<close>: the invariant of a connection that every handler keeps.
  \<^item> \<open>Serve\<close>: the loop as a step relation between the loop, the peer, the callbacks and the rest of the server.
    \<open>Serve_Progress\<close> and \<open>Serve_Safety\<close>: its termination and its history. \<open>Session\<close>: the abstract session that a
    connection refines. \<open>Concurrent_Writes\<close>: a write to a connection in its steps, with the steps of other goroutines
    between them, and why synchronous publishing leaves none between them.
  \<^item> \<open>Server\<close>: listeners, connections, closing and shutting down. \<open>Mqtt_Server\<close>, \<open>Http_Server\<close>: \<open>pkg/server\<close> and
    \<open>pkg/prober\<close>.
  \<^item> \<open>Tls\<close>: \<open>pkg/tls\<close>, over the functions of the cryptographic libraries as arguments. \<open>Tls_Properties\<close> has the
    locale \<open>cert_source\<close> of what a handshake relies on. \<open>Tls_Serve\<close>: the handshake before the loop of a connection.
  \<^item> \<open>Command\<close>: \<open>cmd\<close>, from a configuration to the exit status. A publisher is one of several, its state in a
    sum type.
  \<^item> \<open>Fifo\<close>: what becomes of a PUBLISH packet when the SQS publisher sends it to a FIFO queue.
  \<^item> \<open>Logger\<close>, \<open>Debug_Conn\<close>: \<open>pkg/log\<close> and \<open>debug.go\<close>. \<open>Strings\<close>: the \<open>String\<close> methods of the packets.
  \<^item> \<open>Example_Run\<close>: concrete runs of whole connections, for the witnesses. The theories with names in
    \<open>_Properties\<close> (but \<open>V5_Properties\<close>) hold the properties of one part, and this one those that span parts.

  \<^bold>\<open>Correspondence.\<close> Definitions have the names of the Go functions; a suffix \<open>311\<close> or \<open>5\<close> is the version, and the
  publishers' functions have their publisher as prefix, those of the wrappers \<open>http\<close>, \<open>mqtt\<close> or \<open>zl\<close>. Machine
  integers are words (\<open>byte\<close>, \<open>u16\<close>, \<open>u32\<close>, \<open>u64\<close>), \<open>int\<close> of Go is \<open>int\<close> where it counts bytes. A returned error is
  \<open>Inl\<close> or \<open>Some\<close>, a panic a value of its own. The connection's state has ghost components: the \<open>trace\<close> of its
  events, and for each publisher the messages that its service took.

  \<^bold>\<open>What is shown.\<close> The codec: round trips of all packets in any context, unique decoding, framing, bounds,
  the refusal of other versions. The connection: nothing is published before a login, nothing is acknowledged
  that the publisher did not take, responses answer requests, the peer can read what was sent, and the loop
  ends; all this as the refinement of an abstract session. The steps of writes that are made in turn, as they are
  when all publishing is synchronous, are atomic; those of concurrent callbacks, each under the mutex of its own
  request, are not. The handler: logins, failures, dispatch. The server:
  an invariant of all interleavings of its operations, closing and shutting down. The publishers: the laws of
  the interface, destinations, payloads, resources, that a failed publish of RabbitMQ is never recovered from,
  and that FIFO queues lose messages that are acknowledged. TLS: revocations and certificates are those of the last
  good load, and a client with a revoked certificate, unless that has the CA flag or the session is resumed,
  reaches neither the handler nor the publisher. The command: the configured users, the configured publisher, the end of all actors, the exit status. Logging:
  what is written by level.

  \<^bold>\<open>Bounds.\<close> No definition uses fuel. The loop of a connection is bounded by its input (\<open>serve_finishes\<close>). A list of
  polls stands for the time that a shutdown has, a list of events for the channels that a worker reads, and
  a list of disk contents for the reloads of certificates.

  \<^bold>\<open>Assumptions.\<close> Documented behaviour of libraries is a premise of the properties that need it: closed AMQP channels
  stay closed, a Kafka producer is open until it is closed, a FIFO queue deduplicates for five minutes, a
  hash has 32 bytes, the validator reports no error exactly if all tags are satisfied, \<open>VerifyPeerCertificate\<close> is
  called in a full handshake only, Accept fails on a closed listener. In the step relation of a connection a
  callback may run between any two steps of the loop, but its body is one step, with the write of the response.
  For the write this is what the code does when writes are made in turn (\<open>writes_in_turn_atomic\<close>), as they are when
  publishing is synchronous; callbacks of asynchronous publishes run on other goroutines, where the mutexes of the
  code do not make it so (\<open>concurrent_acks_corrupt\<close>), so what is shown of the bytes on the wire assumes
  synchronous publishing (\<open>output_reads_back\<close>).

  \<^bold>\<open>Not modelled.\<close> The parser of the command line (kong), the registration and the names of metrics, the
  log entries of the other parts, how values of the configuration are printed, deadlines (they are errors of the
  input that the environment chooses), TLS records, and what net/http does with the routes beyond choosing one.
\<close>

section \<open>A connection: safety\<close>

text \<open>C1: As long as no login of the connection was accepted, and unless unauthenticated PUBLISH packets
  are allowed, the publisher is never called and its state is the one it had when the connection began,
  whatever the client sends and however the environment interferes.\<close>

theorem no_publish_before_login:
  assumes "reachable h (init_state idle input ps) s"
    and "''PUBLISH'' \<notin> set (allowUnauthenticated (opts h))"
    and "LoggedIn Accepted \<notin> set (trace (world s))"
  shows "w_pub (world s) = ps \<and> (\<forall>r. PublishCalled r \<notin> set (trace (world s)))"
proof -
  have not_called: "PublishCalled r \<notin> set (trace (world s))" for r
  proof
    assume "PublishCalled r \<in> set (trace (world s))"
    then obtain xs ys where xs: "trace (world s) = xs @ PublishCalled r # ys"
      by (auto simp: in_set_conv_decomp)
    from serve_ok_event [OF reachable_serve_ok [OF assms(1)] xs] assms(2,3) xs show False
      by (simp add: event_ok_def)
  qed
  with reachable_follows [OF assms(1)] show ?thesis
    by (auto simp: follows_def called_def init_state_def)
qed

theorem no_publish_before_login_witness:
  "w_pub (world (init_state 0 (Reader demo_input EOF) New_noop)) = New_noop \<and>
   (\<forall>r. PublishCalled r \<notin> set (trace (world (init_state 0 (Reader demo_input EOF) New_noop))))"
  by (rule no_publish_before_login [OF reachable.start, of demo_handler])
    (simp_all add: demo_facts init_state_def)

text \<open>C2: Unless unauthenticated PUBLISH packets are allowed, every call of the publisher is for the content of a PUBLISH
  packet that this connection received before, and comes after a CONNECT packet of this connection whose
  user name and password the authenticator accepts.\<close>

theorem publish_after_login:
  assumes "reachable h (init_state idle input ps) s"
    and "''PUBLISH'' \<notin> set (allowUnauthenticated (opts h))"
    and "trace (world s) = xs @ PublishCalled r # ys"
  shows "\<exists>q u pw p. Received q \<in> set xs \<and> packet_login q = Some (u, pw) \<and> loginUser h u pw = Inr Accepted \<and>
    Received p \<in> set xs \<and> packet_content p = Some (content r)"
proof -
  have "session_ok False (loginUser h) s"
    using assms(1) by (rule session_ok_reachable) (use assms(2) in simp)
  then obtain \<sigma> where "session_run False (loginUser h) (xs @ PublishCalled r # ys) init_session = Some \<sigma>"
    by (rule session_okE) (auto simp: sim_def assms(3))
  then show ?thesis
    by (rule publish_justified) auto
qed

theorem publish_after_login_witness:
  "\<exists>q u pw p. Received q \<in> set (take 4 (trace (world demo_state))) \<and> packet_login q = Some (u, pw) \<and>
    loginUser demo_handler u pw = Inr Accepted \<and>
    Received p \<in> set (take 4 (trace (world demo_state))) \<and> packet_content p = Some (content demo_request)"
  by (rule publish_after_login [OF demo_reachable _ demo_called]) (simp add: demo_facts)

text \<open>C3: A PUBACK or PUBREC with message identifier \<open>m\<close> is only sent after the publisher was called with a
  request with that identifier and the QoS the response belongs to, and that request was taken, for
  every publisher that keeps the promises of the interface.\<close>

theorem acknowledged_was_taken:
  assumes "publisher (h_publisher h) taken" and "reachable h (init_state idle input ps) s"
    and "trace (world s) = xs @ Sent p # ys"
    and "kind_of p = Some (RPuback m) \<and> q = AT_LEAST_ONCE \<or> kind_of p = Some (RPubrec m) \<and> q = EXACTLY_ONCE"
  shows "\<exists>r. PublishCalled r \<in> set xs \<and> req_MessageID r = m \<and> req_Qos r = q \<and> taken (w_pub (world s)) r"
proof (rule serve_ok_acknowledged)
  show "serve_ok taken True (length (rd_data input)) s"
    by (rule publisher.serve_ok_reachable [OF assms(1,2) serve_ok_init]) simp_all
qed (use assms(3,4) in simp_all)

theorem acknowledged_was_taken_witness:
  "\<exists>r. PublishCalled r \<in> set (butlast (trace (world demo_state))) \<and> req_MessageID r = 7 \<and>
       req_Qos r = AT_LEAST_ONCE \<and> True"
  by (rule acknowledged_was_taken [OF _ demo_reachable demo_trace])
    (simp_all add: any_publisher.publisher_axioms demo_facts)



text \<open>C5: Of the messages with a given QoS and identifier, no more are acknowledged than the publisher was given, and no
  more are given to the publisher than were received; and no more PUBCOMP and PINGRESP packets are sent
  than PUBREL packets with that identifier and PINGREQ packets were received.\<close>

theorem answered_at_most_once:
  assumes "reachable h (init_state idle input ps) s"
  shows "count_sent (RPuback m) (trace (world s)) \<le>
      count_called (\<lambda>r. acknowledgement r = Some (RPuback m)) (trace (world s)) \<and>
    count_sent (RPubrec m) (trace (world s)) \<le>
      count_called (\<lambda>r. acknowledgement r = Some (RPubrec m)) (trace (world s)) \<and>
    count_called (\<lambda>r. req_Qos r = q \<and> req_MessageID r = m) (trace (world s)) \<le>
      count_received (carries (\<lambda>r. req_Qos r = q \<and> req_MessageID r = m)) (trace (world s)) \<and>
    count_sent (RPubcomp m) (trace (world s)) \<le>
      count_received (\<lambda>p. owed_at_once p = Some (RPubcomp m)) (trace (world s)) \<and>
    count_sent RPingresp (trace (world s)) \<le>
      count_received (\<lambda>p. owed_at_once p = Some RPingresp) (trace (world s))"
proof -
  have "session_ok (''PUBLISH'' \<in> set (allowUnauthenticated (opts h))) (loginUser h) s"
    using assms by (rule session_ok_reachable) simp
  then obtain \<sigma> where run: "session_run (''PUBLISH'' \<in> set (allowUnauthenticated (opts h))) (loginUser h) (trace (world s)) init_session = Some \<sigma>"
    by (rule session_okE) (auto simp: sim_def)
  let ?P = "\<lambda>r. req_Qos r = q \<and> req_MessageID r = m"
  have "count_called ?P (trace (world s)) \<le> count_received (carries ?P) (trace (world s))"
    using called_balance [OF run, of ?P] by (simp add: content_def init_session_def)
  moreover have "count_sent k (trace (world s)) \<le> count_called (\<lambda>r. acknowledgement r = Some k) (trace (world s))"
    if "k = RPuback m \<or> k = RPubrec m" for k
    using acknowledged_balance [OF run that] confirmed_balance [OF run, of "\<lambda>r. acknowledgement r = Some k"]
    by (simp add: init_session_def)
  moreover have "count_sent k (trace (world s)) \<le> count_received (\<lambda>p. owed_at_once p = Some k) (trace (world s))"
    if "k = RPubcomp m \<or> k = RPingresp" for k
    using replied_balance [OF run that] by (simp add: init_session_def)
  ultimately show ?thesis
    by simp
qed

theorem answered_at_most_once_witness:
  "count_sent (RPuback 7) (trace (world demo_state)) \<le>
      count_called (\<lambda>r. acknowledgement r = Some (RPuback 7)) (trace (world demo_state)) \<and>
    count_sent (RPubrec 7) (trace (world demo_state)) \<le>
      count_called (\<lambda>r. acknowledgement r = Some (RPubrec 7)) (trace (world demo_state)) \<and>
    count_called (\<lambda>r. req_Qos r = AT_LEAST_ONCE \<and> req_MessageID r = 7) (trace (world demo_state)) \<le>
      count_received (carries (\<lambda>r. req_Qos r = AT_LEAST_ONCE \<and> req_MessageID r = 7)) (trace (world demo_state)) \<and>
    count_sent (RPubcomp 7) (trace (world demo_state)) \<le>
      count_received (\<lambda>p. owed_at_once p = Some (RPubcomp 7)) (trace (world demo_state)) \<and>
    count_sent RPingresp (trace (world demo_state)) \<le>
      count_received (\<lambda>p. owed_at_once p = Some RPingresp) (trace (world demo_state))"
  by (rule answered_at_most_once [OF demo_reachable])

text \<open>C6: With the instrumented Kafka publisher that the command builds, a PUBACK or PUBREC is only sent
  when a delivery report without error came back for a message with the content of the request.\<close>

theorem kafka_acknowledged_was_delivered:
  assumes "h_publisher h = instrument_publisher (kafka_publisher lib o')"
    and "reachable h (init_state idle input ps) s" and "trace (world s) = xs @ Sent p # ys"
    and "kind_of p = Some (RPuback m) \<and> q = AT_LEAST_ONCE \<or> kind_of p = Some (RPubrec m) \<and> q = EXACTLY_ONCE"
  shows "\<exists>r. PublishCalled r \<in> set xs \<and> req_MessageID r = m \<and> req_Qos r = q \<and>
    kafka_taken o' (fst (w_pub (world s))) r"
proof (rule serve_ok_acknowledged)
  have "publisher (h_publisher h) (\<lambda>p. kafka_taken o' (fst p))"
    unfolding assms(1) by (rule publisher.instrumented [OF kafka.publisher_axioms])
  then show "serve_ok (\<lambda>p. kafka_taken o' (fst p)) True (length (rd_data input)) s"
    by (rule publisher.serve_ok_reachable [OF _ assms(2) serve_ok_init]) simp_all
qed (use assms(3,4) in simp_all)

theorem kafka_acknowledged_was_delivered_witness:
  "\<exists>r. PublishCalled r \<in> set (butlast (trace (world demo_kafka_state))) \<and> req_MessageID r = 7 \<and>
     req_Qos r = AT_LEAST_ONCE \<and> kafka_taken demo_kafka_options (fst (w_pub (world demo_kafka_state))) r"
  by (rule kafka_acknowledged_was_delivered [OF demo_kafka_publisher demo_kafka_reachable demo_kafka_trace])
    (simp add: demo_facts)

text \<open>C7: Every packet that a handler sends is a response to something: a CONNACK carries the return code of
  a login, translated for the client's version; when a PUBACK or PUBREC is sent, the publisher has
  confirmed more messages of that QoS with that identifier than were acknowledged before; when a PUBCOMP or
  PINGRESP is sent, more PUBREL packets with that identifier or PINGREQ packets were received than were answered
  before; and nothing but these five kinds is ever sent. (The CONNACK that refuses an unsupported version is not
  sent by a handler but written by the loop, and answers the packet that names the version.)\<close>

theorem responses_answer:
  assumes "reachable h (init_state idle input ps) s" and "trace (world s) = xs @ Sent p # ys"
  shows "case kind_of p of
      Some (RConnack c) \<Rightarrow> \<exists>rc. LoggedIn rc \<in> set xs \<and> c = wire_return_code (Version p) rc
    | Some (RPuback m) \<Rightarrow>
        count_sent (RPuback m) xs < count_confirmed (\<lambda>r. req_Qos r = AT_LEAST_ONCE \<and> req_MessageID r = m) xs
    | Some (RPubrec m) \<Rightarrow>
        count_sent (RPubrec m) xs < count_confirmed (\<lambda>r. req_Qos r = EXACTLY_ONCE \<and> req_MessageID r = m) xs
    | Some (RPubcomp m) \<Rightarrow>
        count_sent (RPubcomp m) xs < count_received (\<lambda>q. request_message_id q = Some m) xs
    | Some RPingresp \<Rightarrow>
        count_sent RPingresp xs < count_received (\<lambda>q. getPingResp q \<noteq> None) xs
    | None \<Rightarrow> False"
proof -
  have "session_ok (''PUBLISH'' \<in> set (allowUnauthenticated (opts h))) (loginUser h) s"
    using assms(1) by (rule session_ok_reachable) simp
  then obtain \<sigma> where "session_run (''PUBLISH'' \<in> set (allowUnauthenticated (opts h))) (loginUser h)
      (xs @ Sent p # ys) init_session = Some \<sigma>"
    by (rule session_okE) (auto simp: sim_def assms(2))
  then obtain \<tau> k where run: "session_run (''PUBLISH'' \<in> set (allowUnauthenticated (opts h))) (loginUser h) xs init_session = Some \<tau>"
    and k: "kind_of p = Some k" "k \<in># s_owed \<tau>"
    by (rule session_run_Sent)
  have "count_sent k xs < count_confirmed (\<lambda>r. acknowledgement r = Some k) xs" if "k = RPuback m \<or> k = RPubrec m" for m
    using acknowledged_balance [OF run that] k(2) by (simp add: init_session_def flip: count_greater_zero_iff)
  moreover have "count_sent k xs < count_received (\<lambda>q. owed_at_once q = Some k) xs" if "k = RPubcomp m \<or> k = RPingresp" for m
    using replied_balance [OF run that] k(2) by (simp add: init_session_def flip: count_greater_zero_iff)
  moreover have "\<exists>rc. LoggedIn rc \<in> set xs \<and> c = wire_return_code (Version p) rc" if "k = RConnack c" for c
    using serve_ok_event [OF reachable_serve_ok [OF assms(1)] assms(2)] k(1) that by (simp add: event_ok_def)
  ultimately show ?thesis
    by (cases k) (simp_all add: k(1) owed_conditions)
qed

theorem responses_answer_witness:
  "count_sent (RPuback 7) (butlast (trace (world demo_state))) <
    count_confirmed (\<lambda>r. req_Qos r = AT_LEAST_ONCE \<and> req_MessageID r = 7) (butlast (trace (world demo_state)))"
  using responses_answer [OF demo_reachable demo_trace] by (simp add: demo_facts)

text \<open>C8: If messages are published synchronously, the loop makes all writes of a connection, as no callback is left
  to another goroutine. Then, while the connection is open and no write failed, its writes, made one after the other in
  their steps through a buffer of any size, give the peer exactly the packets sent, and a client reading packets of the
  negotiated version gets each of them back, in order, with nothing left over.\<close>

theorem output_reads_back:
  assumes "reachable h (init_state idle input ps) s" and "\<forall>q. \<not> isPublishAsync h q"
    and "rwc_open (w_conn (world s))" and "bufw_err (w_conn (world s)) = None"
    and "written_in_order N (map (\<lambda>p. snd (Write p)) (sents (trace (world s)))) t"
  shows "pending (world s) = [] \<and> wr_out t = rwc_out (w_conn (world s)) \<and>
    read_packets (ProtocolVersion (props (w_conn (world s)))) (length (sents (trace (world s)))) (Reader (wr_out t) EOF) =
      Inr (map (\<lambda>p. fst (Write p)) (sents (trace (world s))), Reader [] EOF)"
proof -
  from reachable_serve_ok [OF assms(1)] obtain part
    where "rwc_out (w_conn (world s)) = wire (sents (trace (world s))) @ part"
      "rwc_open (w_conn (world s)) \<and> bufw_err (w_conn (world s)) = None \<longrightarrow> part = []"
      "\<forall>p\<in>set (sents (trace (world s))). ok_packet p \<and> Version p = ProtocolVersion (props (w_conn (world s)))"
    by (rule serve_ok_output)
  moreover have "wr_out t = wire (sents (trace (world s)))"
    unfolding wire_def by (rule written_in_order_out [OF assms(5)])
  ultimately show ?thesis
    using assms(3,4) read_packets_wire [of "sents (trace (world s))" _ "[]" EOF]
      nothing_pending [OF assms(1)] assms(2) by simp
qed

theorem output_reads_back_witness:
  "\<exists>t. written_in_order 4096 (map (\<lambda>p. snd (Write p)) (sents (trace (world demo_state)))) t \<and>
    wr_out t = rwc_out (w_conn (world demo_state)) \<and>
    read_packets (ProtocolVersion (props (w_conn (world demo_state)))) (length (sents (trace (world demo_state))))
      (Reader (wr_out t) EOF) =
    Inr (map (\<lambda>p. fst (Write p)) (sents (trace (world demo_state))), Reader [] EOF)"
proof -
  obtain t where t: "written_in_order 4096 (map (\<lambda>p. snd (Write p)) (sents (trace (world demo_state)))) t"
    using written_in_order_possible by blast
  have "\<forall>q. \<not> isPublishAsync demo_handler q"
    by (simp add: isPublishAsync_def demo_handler_def New_def Let_def no_options_def)
  with t show ?thesis
    using output_reads_back [OF demo_reachable _ demo_facts(4,5) t] by blast
qed

text \<open>C9: The packets a connection receives begin with a CONNECT packet that names the version it was read
  with, all later packets have that version, and there are at most half as many as the input has bytes. All of them
  have the fields of the fixed header in their ranges. Those that are clean can be written so that they are read
  again: the reserved flag of a CONNECT packet is clear, PINGREQ, PINGRESP and DISCONNECT of 3.1.1 have no body, and
  a DISCONNECT of 5 with reason code 0 and no properties has the short form.\<close>

theorem received_packets:
  assumes "reachable h (init_state idle input ps) s"
  shows "2 * length (receiveds (trace (world s))) \<le> length (rd_data input) \<and>
    (case receiveds (trace (world s)) of
       [] \<Rightarrow> True
     | p # rest \<Rightarrow> connect_level p = Some (Version p) \<and> (\<forall>q\<in>set rest. Version q = Version p)) \<and>
    (\<forall>q\<in>set (receiveds (trace (world s))).
       header_ok (packet_header q) \<and> (clean_packet q \<longrightarrow> ok_packet q))"
  using reachable_serve_ok [OF assms]
  by (rule serve_ok_world_ok) (auto simp: first_ok_def split: list.splits)

theorem received_packets_witness:
  "2 * length (receiveds (trace (world demo_state))) \<le> length (rd_data (Reader demo_input EOF)) \<and>
   list_all (\<lambda>q. header_ok (packet_header q)) (receiveds (trace (world demo_state)))"
  using received_packets [OF demo_reachable] by (simp add: list_all_iff)

text \<open>C10: However the steps of the loop and of the environment interleave, the loop of a connection takes at
  most three steps for every two bytes of input, and one more.\<close>

theorem serve_terminates:
  assumes "run h as (init_state idle input ps) = Some s"
  shows "length (filter is_loop_action as) \<le> 3 * (length (rd_data input) div 2) + 1"
  using run_measure [OF assms] by (simp add: loop_measure_def init_state_def)

theorem serve_terminates_witness:
  "length (filter is_loop_action demo_actions) \<le> 3 * (length (rd_data (Reader demo_input EOF)) div 2) + 1"
  by (rule serve_terminates [OF demo_run [unfolded demo_start_def]])

text \<open>C11: From every reachable state the steps of the loop alone finish the connection, and a finished
  connection is closed.\<close>

theorem serve_finishes:
  assumes "reachable h (init_state idle input ps) s"
  shows "\<exists>as s'. list_all is_loop_action as \<and> run h as s = Some s' \<and> phase s' = Finished \<and>
    \<not> rwc_open (w_conn (world s'))"
proof -
  from buffer_ok_reachable [OF assms buffer_ok_init]
  obtain as s' where as: "list_all is_loop_action as" "run h as s = Some s'" "phase s' = Finished"
    using loop_finishes by blast
  have "reachable h (init_state idle input ps) s'"
    using assms as(2) by (rule reachable_run_from)
  from reachable_serve_ok [OF this] as(3) have "\<not> rwc_open (w_conn (world s'))"
    by (simp add: serve_ok_def)
  with as show ?thesis
    by blast
qed

theorem serve_finishes_witness:
  "\<exists>as s'. list_all is_loop_action as \<and> run demo_handler as demo_state = Some s' \<and> phase s' = Finished \<and>
    \<not> rwc_open (w_conn (world s'))"
  by (rule serve_finishes [OF demo_reachable])

end
